(* ===== verification/Prelude.thy ===== *)
theory Prelude
  imports Main "HOL-Library.Word" "HOL-Library.AList"
begin

text \<open>
  Shared vocabulary of the development.

  \<^item> Fixed width integers: \<^verbatim>\<open>uint8_t .. uint64_t\<close> are words of their width; a return
    code (\<^verbatim>\<open>int32_t\<close>) is kept as the 32 bit pattern.
  \<^item> C strings: the memory behind a \<^verbatim>\<open>const char *\<close> is a list of characters; what the
    C library sees of it is the prefix before the first NUL (\<^verbatim>\<open>cstr\<close>).
  \<^item> Buffers: a list of characters whose length is the allocated size.
  \<^item> \<^verbatim>\<open>std::unordered_map\<close> is an association list with distinct keys, \<^verbatim>\<open>std::map\<close> one
    with strictly increasing keys; both are interpretations of the locale \<^verbatim>\<open>container\<close>.
  \<^item> \<^verbatim>\<open>memcpy_s\<close> (the securec library) is a parameter of the operations that call it; the
    predicate \<^verbatim>\<open>memcpy_s_ok\<close> states its documented behaviour on valid arguments.
\<close>

unbundle bit_operations_syntax

type_synonym u8 = "8 word"
type_synonym u16 = "16 word"
type_synonym u32 = "32 word"
type_synonym u64 = "64 word"
type_synonym ret = "32 word"

named_theorems errno "values of the error codes"
named_theorems scf_const "values of the constants of the headers"
named_theorems api_defs "definitions of the guarded entry points"

section \<open>C strings and buffers\<close>

definition NUL :: char where
  "NUL = CHR 0x00"

definition cstr :: "string \<Rightarrow> string" where
  "cstr s = takeWhile (\<lambda>c. c \<noteq> NUL) s"

definition strcmp_eq :: "string \<Rightarrow> string \<Rightarrow> bool" where
  "strcmp_eq a b \<longleftrightarrow> cstr a = cstr b"

definition strnlen :: "string \<Rightarrow> nat \<Rightarrow> nat" where
  "strnlen s n = min (length (cstr s)) n"

definition zero_buf :: "nat \<Rightarrow> string" where
  "zero_buf n = replicate n NUL"

definition memcpy_s_ok :: "(string \<Rightarrow> nat \<Rightarrow> string \<Rightarrow> nat \<Rightarrow> int \<times> string) \<Rightarrow> bool" where
  "memcpy_s_ok mc \<longleftrightarrow>
     (\<forall>dest destMax src count.
        0 < destMax \<and> destMax \<le> length dest \<and> destMax \<le> 0x7fffffff \<and>
        count \<le> destMax \<and> count \<le> length src \<longrightarrow>
        mc dest destMax src count = (0, take count src @ drop count dest))"

definition memcpy_s_ref :: "string \<Rightarrow> nat \<Rightarrow> string \<Rightarrow> nat \<Rightarrow> int \<times> string" where
  "memcpy_s_ref dest destMax src count =
     (if destMax = 0 \<or> destMax > 0x7fffffff then (34, dest)
      else if count > destMax then (162, zero_buf destMax @ drop destMax dest)
      else (0, take count src @ drop count dest))"

lemma memcpy_s_okD:
  assumes "memcpy_s_ok mc" "0 < destMax" "destMax \<le> length dest" "destMax \<le> 0x7fffffff"
    "count \<le> destMax" "count \<le> length src"
  shows "mc dest destMax src count = (0, take count src @ drop count dest)"
  using assms unfolding memcpy_s_ok_def by blast

lemma memcpy_s_ref_ok: "memcpy_s_ok memcpy_s_ref"
  by (simp add: memcpy_s_ok_def memcpy_s_ref_def)

lemma cstr_Nil [simp]: "cstr [] = []"
  by (simp add: cstr_def)

lemma cstr_Cons: "cstr (c # s) = (if c = NUL then [] else c # cstr s)"
  by (simp add: cstr_def)

lemma cstr_no_NUL [simp]: "NUL \<notin> set (cstr s)"
  by (auto simp: cstr_def dest: set_takeWhileD)

lemma cstr_id: "NUL \<notin> set s \<Longrightarrow> cstr s = s"
  by (auto simp: cstr_def takeWhile_eq_all_conv)

lemma cstr_idem [simp]: "cstr (cstr s) = cstr s"
  by (rule cstr_id) simp

lemma cstr_append_NUL: "NUL \<notin> set s \<Longrightarrow> cstr (s @ NUL # t) = s"
  unfolding cstr_def by (induction s) auto

lemma cstr_length_le: "length (cstr s) \<le> length s"
  by (simp add: cstr_def length_takeWhile_le)

lemma length_zero_buf [simp]: "length (zero_buf n) = n"
  by (simp add: zero_buf_def)

lemma copy_and_terminate:
  assumes "length s < length buf"
  shows "(s @ drop (length s) buf)[length s := NUL] = s @ NUL # drop (Suc (length s)) buf"
  using assms by (simp add: list_update_append Cons_nth_drop_Suc [symmetric])

section \<open>Containers\<close>

text \<open>
  The interface the components use of the standard containers: lookup, insertion that
  overwrites, erasure, size and the set of keys.  The client lemmas about capacities and frames
  are proved once here.
\<close>

locale container =
  fixes lookup :: "'m \<Rightarrow> 'k \<Rightarrow> 'v option"
    and insert_or_assign :: "'k \<Rightarrow> 'v \<Rightarrow> 'm \<Rightarrow> 'm"
    and erase :: "'k \<Rightarrow> 'm \<Rightarrow> 'm"
    and size_of :: "'m \<Rightarrow> nat"
    and wf :: "'m \<Rightarrow> bool"
  assumes lookup_insert: "wf m \<Longrightarrow> lookup (insert_or_assign k v m) j = (if j = k then Some v else lookup m j)"
    and lookup_erase: "wf m \<Longrightarrow> lookup (erase k m) j = (if j = k then None else lookup m j)"
    and wf_insert: "wf m \<Longrightarrow> wf (insert_or_assign k v m)"
    and wf_erase: "wf m \<Longrightarrow> wf (erase k m)"
    and size_dom: "wf m \<Longrightarrow> finite (dom (lookup m)) \<and> size_of m = card (dom (lookup m))"
begin

lemma dom_insert: "wf m \<Longrightarrow> dom (lookup (insert_or_assign k v m)) = insert k (dom (lookup m))"
  by (auto simp: lookup_insert split: if_splits)

lemma dom_erase: "wf m \<Longrightarrow> dom (lookup (erase k m)) = dom (lookup m) - {k}"
  by (auto simp: lookup_erase split: if_splits)

lemma size_insert:
  assumes "wf m"
  shows "size_of (insert_or_assign k v m) = (if lookup m k = None then Suc (size_of m) else size_of m)"
proof -
  have "size_of (insert_or_assign k v m) = card (insert k (dom (lookup m)))"
    using size_dom [OF wf_insert [OF assms]] dom_insert [OF assms] by simp
  then show ?thesis
    using size_dom [OF assms] by (auto simp: insert_absorb card_insert_if domIff)
qed

lemma size_erase:
  assumes "wf m"
  shows "size_of (erase k m) = (if lookup m k = None then size_of m else size_of m - 1)"
proof -
  have "size_of (erase k m) = card (dom (lookup m) - {k})"
    using size_dom [OF wf_erase [OF assms]] dom_erase [OF assms] by simp
  then show ?thesis
    using size_dom [OF assms] by (auto simp: domIff card_Diff_singleton_if)
qed

lemma insert_within_capacity:
  assumes "wf m" "size_of m \<le> cap" "lookup m k = None \<Longrightarrow> size_of m < cap"
  shows "size_of (insert_or_assign k v m) \<le> cap"
  using assms by (auto simp: size_insert)

lemma erase_within_capacity:
  assumes "wf m" "size_of m \<le> cap"
  shows "size_of (erase k m) \<le> cap"
  using assms by (auto simp: size_erase)

lemma erase_insert_lookup:
  assumes "wf m" "lookup m k = None"
  shows "lookup (erase k (insert_or_assign k v m)) = lookup m"
  using assms by (auto simp: lookup_erase lookup_insert wf_insert)

end

subsection \<open>\<^verbatim>\<open>std::unordered_map\<close>\<close>

definition um_wf :: "('k \<times> 'v) list \<Rightarrow> bool" where
  "um_wf m \<longleftrightarrow> distinct (map fst m)"

lemma um_container_size:
  assumes "distinct (map fst m)"
  shows "length m = card (dom (map_of m))"
  using assms by (metis distinct_card dom_map_of_conv_image_fst length_map set_map)

interpretation um: container map_of AList.update AList.delete length um_wf
proof
  fix m :: "('a \<times> 'b) list" and k j :: 'a and v :: 'b
  assume wf: "um_wf m"
  show "map_of (AList.update k v m) j = (if j = k then Some v else map_of m j)"
    by (simp add: update_conv')
  show "map_of (AList.delete k m) j = (if j = k then None else map_of m j)"
    by (simp add: delete_conv')
  show "um_wf (AList.update k v m)"
    using wf by (simp add: um_wf_def distinct_update)
  show "um_wf (AList.delete k m)"
    using wf by (simp add: um_wf_def distinct_delete)
  show "finite (dom (map_of m)) \<and> length m = card (dom (map_of m))"
    using wf by (simp add: um_wf_def um_container_size finite_dom_map_of)
qed

subsection \<open>\<^verbatim>\<open>std::map\<close>\<close>

fun sm_insert :: "'k::linorder \<Rightarrow> 'v \<Rightarrow> ('k \<times> 'v) list \<Rightarrow> ('k \<times> 'v) list" where
  "sm_insert k v [] = [(k, v)]"
| "sm_insert k v ((a, b) # m) =
     (if k < a then (k, v) # (a, b) # m
      else if k = a then (a, v) # m
      else (a, b) # sm_insert k v m)"

definition sm_erase :: "'k \<Rightarrow> ('k \<times> 'v) list \<Rightarrow> ('k \<times> 'v) list" where
  "sm_erase k m = filter (\<lambda>p. fst p \<noteq> k) m"

definition sm_wf :: "('k::linorder \<times> 'v) list \<Rightarrow> bool" where
  "sm_wf m \<longleftrightarrow> sorted_wrt (<) (map fst m)"

definition sm_emplace :: "'k::linorder \<Rightarrow> 'v \<Rightarrow> ('k \<times> 'v) list \<Rightarrow> ('k \<times> 'v) list \<times> bool" where
  "sm_emplace k v m =
     (case map_of m k of Some _ \<Rightarrow> (m, False) | None \<Rightarrow> (sm_insert k v m, True))"

lemma sm_wf_Nil [simp]: "sm_wf []"
  by (simp add: sm_wf_def)

lemma sm_wf_distinct: "sm_wf m \<Longrightarrow> distinct (map fst m)"
  unfolding sm_wf_def by (simp add: strict_sorted_iff)

lemma set_fst_sm_insert: "fst ` set (sm_insert k v m) = insert k (fst ` set m)"
  by (induction k v m rule: sm_insert.induct) auto

lemma sm_wf_insert: "sm_wf m \<Longrightarrow> sm_wf (sm_insert k v m)"
proof (induction k v m rule: sm_insert.induct)
  case (2 k v a b m)
  have keys: "x \<in> fst ` set (sm_insert k v m) \<Longrightarrow> x = k \<or> x \<in> fst ` set m" for x
    by (simp add: set_fst_sm_insert)
  show ?case
    using 2 keys by (fastforce simp: sm_wf_def)
qed (simp add: sm_wf_def)

lemma map_of_sm_insert:
  "sm_wf m \<Longrightarrow> map_of (sm_insert k v m) = (map_of m)(k \<mapsto> v)"
proof (induction k v m rule: sm_insert.induct)
  case (2 k v a b m)
  then show ?case by (auto simp: sm_wf_def fun_eq_iff)
qed (simp add: fun_eq_iff)

lemma map_of_sm_erase: "map_of (sm_erase k m) j = (if j = k then None else map_of m j)"
  unfolding sm_erase_def by (induction m) auto

lemma sm_wf_erase: "sm_wf m \<Longrightarrow> sm_wf (sm_erase k m)"
  unfolding sm_wf_def sm_erase_def by (induction m) auto

lemma set_sm_erase: "set (sm_erase k m) = {p \<in> set m. fst p \<noteq> k}"
  by (auto simp: sm_erase_def)

lemma set_sm_insert_fresh:
  "map_of m k = None \<Longrightarrow> set (sm_insert k v m) = insert (k, v) (set m)"
  by (induction k v m rule: sm_insert.induct) auto

interpretation sm: container map_of sm_insert sm_erase length "sm_wf :: ('k::linorder \<times> 'v) list \<Rightarrow> bool"
proof
  fix m :: "('k \<times> 'v) list" and k j :: 'k and v :: 'v
  assume wf: "sm_wf m"
  show "map_of (sm_insert k v m) j = (if j = k then Some v else map_of m j)"
    using wf by (simp add: map_of_sm_insert)
  show "map_of (sm_erase k m) j = (if j = k then None else map_of m j)"
    by (rule map_of_sm_erase)
  show "sm_wf (sm_insert k v m)"
    using wf by (rule sm_wf_insert)
  show "sm_wf (sm_erase k m)"
    using wf by (rule sm_wf_erase)
  show "finite (dom (map_of m)) \<and> length m = card (dom (map_of m))"
    using wf by (simp add: sm_wf_distinct um_container_size finite_dom_map_of)
qed

section \<open>Transition systems\<close>

text \<open>What every state machine of the development uses: a predicate kept by each step is kept by
  every sequence of steps.\<close>

locale invariant_system =
  fixes step :: "'s \<Rightarrow> 's \<Rightarrow> bool"
    and inv :: "'s \<Rightarrow> bool"
  assumes inv_step: "inv s \<Longrightarrow> step s s' \<Longrightarrow> inv s'"
begin

lemma inv_steps: "step\<^sup>*\<^sup>* s s' \<Longrightarrow> inv s \<Longrightarrow> inv s'"
  by (induction rule: rtranclp_induct) (auto intro: inv_step)

end

end
