(* ===== verification/Errno.thy ===== *)
theory Errno
  imports Prelude
begin

text \<open>
  The error codes of \<^verbatim>\<open>include/scf_errno.h\<close> and the message table of
  \<^verbatim>\<open>common/utils/policy_utils.cpp\<close> with its two readers.  Codes are built from a project id, a
  module number and a reason, exactly as the macros do; the collection \<^verbatim>\<open>errno\<close> holds the
  equations that compute their values.
\<close>

section \<open>Construction of the codes\<close>

definition SCF_SUCCESS :: ret where [errno]: "SCF_SUCCESS = 0"
definition SCF_ERROR :: ret where [errno]: "SCF_ERROR = 1"
definition SCF_PROJECT_ID :: ret where [errno]: "SCF_PROJECT_ID = 0x75000000"

definition SCF_MOD_MAKE :: "ret \<Rightarrow> ret" where [errno]:
  "SCF_MOD_MAKE Mod = SCF_PROJECT_ID OR push_bit 8 Mod"

definition SCF_ERRNO_MAKE :: "ret \<Rightarrow> ret \<Rightarrow> ret" where [errno]:
  "SCF_ERRNO_MAKE Mod Errno = Mod OR Errno"

definition SCF_MOD_COMMON :: ret where [errno]: "SCF_MOD_COMMON = SCF_MOD_MAKE 0x0000"
definition SCF_MOD_CAL :: ret where [errno]: "SCF_MOD_CAL = SCF_MOD_MAKE 0x0010"
definition SCF_SUBMOD_SSL_RETRY :: ret where [errno]: "SCF_SUBMOD_SSL_RETRY = SCF_MOD_MAKE 0x0020"
definition SCF_SUBMOD_SSL :: ret where [errno]: "SCF_SUBMOD_SSL = SCF_MOD_MAKE 0x0021"
definition SCF_MOD_CONFIG :: ret where [errno]: "SCF_MOD_CONFIG = SCF_MOD_MAKE 0x0011"
definition SCF_MOD_LOG :: ret where [errno]: "SCF_MOD_LOG = SCF_MOD_MAKE 0x9000"
definition SCF_MOD_RBAC :: ret where [errno]: "SCF_MOD_RBAC = SCF_MOD_MAKE 0x0030"

section \<open>The codes\<close>

definition SCF_ERRNO_NULL_INPUT :: ret where [errno]: "SCF_ERRNO_NULL_INPUT = SCF_ERRNO_MAKE SCF_MOD_COMMON 1"
definition SCF_ERRNO_INVALID_PARAM :: ret where [errno]: "SCF_ERRNO_INVALID_PARAM = SCF_ERRNO_MAKE SCF_MOD_COMMON 2"
definition SCF_ERRNO_MEM_ALLOC :: ret where [errno]: "SCF_ERRNO_MEM_ALLOC = SCF_ERRNO_MAKE SCF_MOD_COMMON 3"
definition SCF_ERRNO_MEM_CPY :: ret where [errno]: "SCF_ERRNO_MEM_CPY = SCF_ERRNO_MAKE SCF_MOD_COMMON 4"
definition SCF_ERRNO_NOT_SUPPORT :: ret where [errno]: "SCF_ERRNO_NOT_SUPPORT = SCF_ERRNO_MAKE SCF_MOD_COMMON 5"
definition SCF_ERRNO_INIT_BSM :: ret where [errno]: "SCF_ERRNO_INIT_BSM = SCF_ERRNO_MAKE SCF_MOD_COMMON 6"
definition SCF_ERRNO_LARGE_FILE :: ret where [errno]: "SCF_ERRNO_LARGE_FILE = SCF_ERRNO_MAKE SCF_MOD_COMMON 7"
definition SCF_ERRNO_SYSTEM_TIME_ERROR :: ret where [errno]: "SCF_ERRNO_SYSTEM_TIME_ERROR = SCF_ERRNO_MAKE SCF_MOD_COMMON 8"
definition SCF_ERRNO_FILE_PATH_ERROR :: ret where [errno]: "SCF_ERRNO_FILE_PATH_ERROR = SCF_ERRNO_MAKE SCF_MOD_COMMON 9"
definition SCF_ERRNO_READ_FILE_ERROR :: ret where [errno]: "SCF_ERRNO_READ_FILE_ERROR = SCF_ERRNO_MAKE SCF_MOD_COMMON 10"
definition SCF_ERRNO_RBAC_DISABLED :: ret where [errno]: "SCF_ERRNO_RBAC_DISABLED = SCF_ERRNO_MAKE SCF_MOD_RBAC 1"
definition SCF_ERRNO_RBAC_DENIED :: ret where [errno]: "SCF_ERRNO_RBAC_DENIED = SCF_ERRNO_MAKE SCF_MOD_RBAC 2"
definition SCF_ERRNO_RBAC_ROLE_UNKNOWN :: ret where [errno]: "SCF_ERRNO_RBAC_ROLE_UNKNOWN = SCF_ERRNO_MAKE SCF_MOD_RBAC 3"
definition SCF_ERRNO_RBAC_NODE_ID_EMPTY :: ret where [errno]: "SCF_ERRNO_RBAC_NODE_ID_EMPTY = SCF_ERRNO_MAKE SCF_MOD_RBAC 4"
definition SCF_ERRNO_RBAC_MAP_FULL :: ret where [errno]: "SCF_ERRNO_RBAC_MAP_FULL = SCF_ERRNO_MAKE SCF_MOD_RBAC 5"
definition SCF_ERRNO_RBAC_MAP_NOT_FOUND :: ret where [errno]: "SCF_ERRNO_RBAC_MAP_NOT_FOUND = SCF_ERRNO_MAKE SCF_MOD_RBAC 6"
definition SCF_ERRNO_CERT_NODE_ID_ABSENT :: ret where [errno]: "SCF_ERRNO_CERT_NODE_ID_ABSENT = SCF_ERRNO_MAKE SCF_MOD_RBAC 7"
definition SCF_ERRNO_CERT_ROLE_EXT_ABSENT :: ret where [errno]: "SCF_ERRNO_CERT_ROLE_EXT_ABSENT = SCF_ERRNO_MAKE SCF_MOD_RBAC 8"
definition SCF_ERRNO_RBAC_POLICY_NOT_FOUND :: ret where [errno]: "SCF_ERRNO_RBAC_POLICY_NOT_FOUND = SCF_ERRNO_MAKE SCF_MOD_RBAC 9"
definition SCF_ERRNO_RBAC_POLICY_FULL :: ret where [errno]: "SCF_ERRNO_RBAC_POLICY_FULL = SCF_ERRNO_MAKE SCF_MOD_RBAC 10"
definition SCF_ERRNO_RBAC_POLICY_DUPLICATE :: ret where [errno]: "SCF_ERRNO_RBAC_POLICY_DUPLICATE = SCF_ERRNO_MAKE SCF_MOD_RBAC 11"
definition SCF_ERRNO_RBAC_POLICY_INVALID :: ret where [errno]: "SCF_ERRNO_RBAC_POLICY_INVALID = SCF_ERRNO_MAKE SCF_MOD_RBAC 12"
definition SCF_ERRNO_RBAC_MAP_FROZEN :: ret where [errno]: "SCF_ERRNO_RBAC_MAP_FROZEN = SCF_ERRNO_MAKE SCF_MOD_RBAC 13"
definition SCF_ERRNO_INIT_HITLS_BSL :: ret where [errno]: "SCF_ERRNO_INIT_HITLS_BSL = SCF_ERRNO_MAKE SCF_MOD_CAL 1"
definition SCF_ERRNO_INIT_HITLS_CRYPTO :: ret where [errno]: "SCF_ERRNO_INIT_HITLS_CRYPTO = SCF_ERRNO_MAKE SCF_MOD_CAL 2"
definition SCF_ERRNO_INIT_HITLS_TLS :: ret where [errno]: "SCF_ERRNO_INIT_HITLS_TLS = SCF_ERRNO_MAKE SCF_MOD_CAL 3"
definition SCF_ERRNO_NULL_HITLS_CTX :: ret where [errno]: "SCF_ERRNO_NULL_HITLS_CTX = SCF_ERRNO_MAKE SCF_MOD_CAL 4"
definition SCF_ERRNO_NULL_HITLS_CFG :: ret where [errno]: "SCF_ERRNO_NULL_HITLS_CFG = SCF_ERRNO_MAKE SCF_MOD_CAL 5"
definition SCF_ERRNO_SECURE_TRANSPORT :: ret where [errno]: "SCF_ERRNO_SECURE_TRANSPORT = SCF_ERRNO_MAKE SCF_MOD_CAL 6"
definition SCF_ERRNO_INIT_OPENSSL :: ret where [errno]: "SCF_ERRNO_INIT_OPENSSL = SCF_ERRNO_MAKE SCF_MOD_CAL 7"
definition SCF_ERRNO_INIT_OPENSSL_ERR :: ret where [errno]: "SCF_ERRNO_INIT_OPENSSL_ERR = SCF_ERRNO_MAKE SCF_MOD_CAL 8"
definition SCF_ERRNO_INIT_OPENSSL_CRYPTO :: ret where [errno]: "SCF_ERRNO_INIT_OPENSSL_CRYPTO = SCF_ERRNO_MAKE SCF_MOD_CAL 9"
definition SCF_ERRNO_INIT_OPENSSL_ALGO :: ret where [errno]: "SCF_ERRNO_INIT_OPENSSL_ALGO = SCF_ERRNO_MAKE SCF_MOD_CAL 10"
definition SCF_ERRNO_NULL_CALLBACK :: ret where [errno]: "SCF_ERRNO_NULL_CALLBACK = SCF_ERRNO_MAKE SCF_MOD_CAL 11"
definition SCF_ERRNO_TLS_ALREADY_INIT :: ret where [errno]: "SCF_ERRNO_TLS_ALREADY_INIT = SCF_ERRNO_MAKE SCF_MOD_CAL 12"
definition SCF_ERRNO_INVALID_TLS_TYPE :: ret where [errno]: "SCF_ERRNO_INVALID_TLS_TYPE = SCF_ERRNO_MAKE SCF_MOD_CAL 13"
definition SCF_ERRNO_LOAD_LIB :: ret where [errno]: "SCF_ERRNO_LOAD_LIB = SCF_ERRNO_MAKE SCF_MOD_CAL 14"
definition SCF_ERRNO_UNLOAD_LIB :: ret where [errno]: "SCF_ERRNO_UNLOAD_LIB = SCF_ERRNO_MAKE SCF_MOD_CAL 15"
definition SCF_ERRNO_LOAD_SYMBOL :: ret where [errno]: "SCF_ERRNO_LOAD_SYMBOL = SCF_ERRNO_MAKE SCF_MOD_CAL 16"
definition SCF_ERRNO_INIT_HITLS_PSE :: ret where [errno]: "SCF_ERRNO_INIT_HITLS_PSE = SCF_ERRNO_MAKE SCF_MOD_CAL 17"
definition SCF_ERRNO_INIT_SECUREC :: ret where [errno]: "SCF_ERRNO_INIT_SECUREC = SCF_ERRNO_MAKE SCF_MOD_CAL 18"
definition SCF_ERRNO_NOT_INIT :: ret where [errno]: "SCF_ERRNO_NOT_INIT = SCF_ERRNO_MAKE SCF_MOD_CAL 19"
definition SCF_CFG_ERRNO_PARSE :: ret where [errno]: "SCF_CFG_ERRNO_PARSE = SCF_ERRNO_MAKE SCF_MOD_CONFIG 1"
definition SCF_CFG_ERRNO_CERT_ARRAY_GET :: ret where [errno]: "SCF_CFG_ERRNO_CERT_ARRAY_GET = SCF_ERRNO_MAKE SCF_MOD_CONFIG 2"
definition SCF_CFG_ERRNO_CERT_ITEM_GET :: ret where [errno]: "SCF_CFG_ERRNO_CERT_ITEM_GET = SCF_ERRNO_MAKE SCF_MOD_CONFIG 3"
definition SCF_CFG_ERRNO_CERT_ADD :: ret where [errno]: "SCF_CFG_ERRNO_CERT_ADD = SCF_ERRNO_MAKE SCF_MOD_CONFIG 4"
definition SCF_CFG_ERRNO_PRIVKEY_GET :: ret where [errno]: "SCF_CFG_ERRNO_PRIVKEY_GET = SCF_ERRNO_MAKE SCF_MOD_CONFIG 5"
definition SCF_CFG_ERRNO_PRIVKEY_ADD :: ret where [errno]: "SCF_CFG_ERRNO_PRIVKEY_ADD = SCF_ERRNO_MAKE SCF_MOD_CONFIG 6"
definition SCF_CFG_ERRNO_CIPHER_SUITES_ARRAY_GET :: ret where [errno]: "SCF_CFG_ERRNO_CIPHER_SUITES_ARRAY_GET = SCF_ERRNO_MAKE SCF_MOD_CONFIG 7"
definition SCF_CFG_ERRNO_CIPHER_SUITES_ITEM_GET :: ret where [errno]: "SCF_CFG_ERRNO_CIPHER_SUITES_ITEM_GET = SCF_ERRNO_MAKE SCF_MOD_CONFIG 8"
definition SCF_CFG_ERRNO_TLS_VERSION_GET :: ret where [errno]: "SCF_CFG_ERRNO_TLS_VERSION_GET = SCF_ERRNO_MAKE SCF_MOD_CONFIG 9"
definition SCF_CFG_ERRNO_TLS_VERSION_SET :: ret where [errno]: "SCF_CFG_ERRNO_TLS_VERSION_SET = SCF_ERRNO_MAKE SCF_MOD_CONFIG 10"
definition SCF_CFG_ERRNO_TLS_FORBID_VERSION_GET :: ret where [errno]: "SCF_CFG_ERRNO_TLS_FORBID_VERSION_GET = SCF_ERRNO_MAKE SCF_MOD_CONFIG 11"
definition SCF_CFG_ERRNO_KEY_UPDATE :: ret where [errno]: "SCF_CFG_ERRNO_KEY_UPDATE = SCF_ERRNO_MAKE SCF_MOD_CONFIG 12"
definition SCF_SSL_ERR_SSL :: ret where [errno]: "SCF_SSL_ERR_SSL = SCF_ERRNO_MAKE SCF_SUBMOD_SSL_RETRY 1"
definition SCF_SSL_ERR_WANT_READ :: ret where [errno]: "SCF_SSL_ERR_WANT_READ = SCF_ERRNO_MAKE SCF_SUBMOD_SSL_RETRY 2"
definition SCF_SSL_ERR_WANT_WRITE :: ret where [errno]: "SCF_SSL_ERR_WANT_WRITE = SCF_ERRNO_MAKE SCF_SUBMOD_SSL_RETRY 3"
definition SCF_SSL_ERR_WANT_X509_LOOKUP :: ret where [errno]: "SCF_SSL_ERR_WANT_X509_LOOKUP = SCF_ERRNO_MAKE SCF_SUBMOD_SSL_RETRY 4"
definition SCF_SSL_ERR_SYSCALL :: ret where [errno]: "SCF_SSL_ERR_SYSCALL = SCF_ERRNO_MAKE SCF_SUBMOD_SSL_RETRY 5"
definition SCF_SSL_ERR_ZERO_RETURN :: ret where [errno]: "SCF_SSL_ERR_ZERO_RETURN = SCF_ERRNO_MAKE SCF_SUBMOD_SSL_RETRY 6"
definition SCF_SSL_ERR_WANT_CONNECT :: ret where [errno]: "SCF_SSL_ERR_WANT_CONNECT = SCF_ERRNO_MAKE SCF_SUBMOD_SSL_RETRY 7"
definition SCF_SSL_ERR_WANT_ACCEPT :: ret where [errno]: "SCF_SSL_ERR_WANT_ACCEPT = SCF_ERRNO_MAKE SCF_SUBMOD_SSL_RETRY 8"
definition SCF_SSL_ERR_WANT_ASYNC :: ret where [errno]: "SCF_SSL_ERR_WANT_ASYNC = SCF_ERRNO_MAKE SCF_SUBMOD_SSL_RETRY 9"
definition SCF_SSL_ERR_WANT_ASYNC_JOB :: ret where [errno]: "SCF_SSL_ERR_WANT_ASYNC_JOB = SCF_ERRNO_MAKE SCF_SUBMOD_SSL_RETRY 10"
definition SCF_SSL_ERR_WANT_CLIENT_HELLO_CB :: ret where [errno]: "SCF_SSL_ERR_WANT_CLIENT_HELLO_CB = SCF_ERRNO_MAKE SCF_SUBMOD_SSL_RETRY 11"
definition SCF_SSL_ERR_WANT_BACKEP :: ret where [errno]: "SCF_SSL_ERR_WANT_BACKEP = SCF_ERRNO_MAKE SCF_SUBMOD_SSL_RETRY 12"
definition SCF_SSL_ERR_FORMAT_TYPE :: ret where [errno]: "SCF_SSL_ERR_FORMAT_TYPE = SCF_ERRNO_MAKE SCF_SUBMOD_SSL 1"
definition SCF_SSL_ERR_STORE_TYPE :: ret where [errno]: "SCF_SSL_ERR_STORE_TYPE = SCF_ERRNO_MAKE SCF_SUBMOD_SSL 2"
definition SCF_SSL_ERR_PARSE_CERT :: ret where [errno]: "SCF_SSL_ERR_PARSE_CERT = SCF_ERRNO_MAKE SCF_SUBMOD_SSL 3"
definition SCF_SSL_ERR_ADD_CERT_TO_STORE :: ret where [errno]: "SCF_SSL_ERR_ADD_CERT_TO_STORE = SCF_ERRNO_MAKE SCF_SUBMOD_SSL 4"
definition SCF_SSL_ERR_LOAD_KEY :: ret where [errno]: "SCF_SSL_ERR_LOAD_KEY = SCF_ERRNO_MAKE SCF_SUBMOD_SSL 5"
definition SCF_SSL_ERR_PATH_TOO_LONG :: ret where [errno]: "SCF_SSL_ERR_PATH_TOO_LONG = SCF_ERRNO_MAKE SCF_SUBMOD_SSL 6"
definition SCF_SSL_ERR_CHECK_PKEY :: ret where [errno]: "SCF_SSL_ERR_CHECK_PKEY = SCF_ERRNO_MAKE SCF_SUBMOD_SSL 7"
definition SCF_SSL_ERR_ROLE :: ret where [errno]: "SCF_SSL_ERR_ROLE = SCF_ERRNO_MAKE SCF_SUBMOD_SSL 8"
definition SCF_SSL_ERR_INIT_TLS13 :: ret where [errno]: "SCF_SSL_ERR_INIT_TLS13 = SCF_ERRNO_MAKE SCF_SUBMOD_SSL 9"
definition SCF_SSL_ERR_PSK_CB_HASH :: ret where [errno]: "SCF_SSL_ERR_PSK_CB_HASH = SCF_ERRNO_MAKE SCF_SUBMOD_SSL 10"
definition SCF_SSL_ERR_GET_VERSION :: ret where [errno]: "SCF_SSL_ERR_GET_VERSION = SCF_ERRNO_MAKE SCF_SUBMOD_SSL 11"
definition SCF_SSL_ERR_PSK_MISMATCH :: ret where [errno]: "SCF_SSL_ERR_PSK_MISMATCH = SCF_ERRNO_MAKE SCF_SUBMOD_SSL 12"
definition SCF_SSL_ERR_VERSION :: ret where [errno]: "SCF_SSL_ERR_VERSION = SCF_ERRNO_MAKE SCF_SUBMOD_SSL 13"
definition SCF_SSL_ERR_POLICY_VERSION :: ret where [errno]: "SCF_SSL_ERR_POLICY_VERSION = SCF_ERRNO_MAKE SCF_SUBMOD_SSL 14"
definition SCF_SSL_ERR_SET_PASS :: ret where [errno]: "SCF_SSL_ERR_SET_PASS = SCF_ERRNO_MAKE SCF_SUBMOD_SSL 15"
definition SCF_SSL_ERR_PARSE_KEY :: ret where [errno]: "SCF_SSL_ERR_PARSE_KEY = SCF_ERRNO_MAKE SCF_SUBMOD_SSL 16"
definition SCF_SSL_ERR_LOAD_CRL :: ret where [errno]: "SCF_SSL_ERR_LOAD_CRL = SCF_ERRNO_MAKE SCF_SUBMOD_SSL 17"
definition SCF_SSL_ERR_SET_ROLE :: ret where [errno]: "SCF_SSL_ERR_SET_ROLE = SCF_ERRNO_MAKE SCF_SUBMOD_SSL 18"
definition SCF_SSL_ERR_SESS_SET_CIPHER :: ret where [errno]: "SCF_SSL_ERR_SESS_SET_CIPHER = SCF_ERRNO_MAKE SCF_SUBMOD_SSL 19"
definition SCF_SSL_ERR_SESS_SET_KEY :: ret where [errno]: "SCF_SSL_ERR_SESS_SET_KEY = SCF_ERRNO_MAKE SCF_SUBMOD_SSL 20"
definition SCF_SSL_ERR_SESS_SET_PROTOCOL_VER :: ret where [errno]: "SCF_SSL_ERR_SESS_SET_PROTOCOL_VER = SCF_ERRNO_MAKE SCF_SUBMOD_SSL 21"
definition SCF_SSL_ERR_READ :: ret where [errno]: "SCF_SSL_ERR_READ = SCF_ERRNO_MAKE SCF_SUBMOD_SSL 22"
definition SCF_SSL_ERR_WRITE :: ret where [errno]: "SCF_SSL_ERR_WRITE = SCF_ERRNO_MAKE SCF_SUBMOD_SSL 23"
definition SCF_SSL_ERR_CLOSE :: ret where [errno]: "SCF_SSL_ERR_CLOSE = SCF_ERRNO_MAKE SCF_SUBMOD_SSL 24"
definition SCF_SSL_ERR_SET_CIPHER :: ret where [errno]: "SCF_SSL_ERR_SET_CIPHER = SCF_ERRNO_MAKE SCF_SUBMOD_SSL 25"
definition SCF_SSL_ERR_SET_PROTOCOL_VER :: ret where [errno]: "SCF_SSL_ERR_SET_PROTOCOL_VER = SCF_ERRNO_MAKE SCF_SUBMOD_SSL 26"
definition SCF_SSL_ERR_SET_VER_FORBID :: ret where [errno]: "SCF_SSL_ERR_SET_VER_FORBID = SCF_ERRNO_MAKE SCF_SUBMOD_SSL 27"
definition SCF_SSL_ERR_GET_CIPHER :: ret where [errno]: "SCF_SSL_ERR_GET_CIPHER = SCF_ERRNO_MAKE SCF_SUBMOD_SSL 28"
definition SCF_SSL_ERR_ADD_CA_CERT_TO_STORE :: ret where [errno]: "SCF_SSL_ERR_ADD_CA_CERT_TO_STORE = SCF_ERRNO_MAKE SCF_SUBMOD_SSL 29"
definition SCF_SSL_ERR_ADD_EE_CERT_TO_STORE :: ret where [errno]: "SCF_SSL_ERR_ADD_EE_CERT_TO_STORE = SCF_ERRNO_MAKE SCF_SUBMOD_SSL 30"
definition SCF_SSL_ERR_ADD_CRL_TO_STORE :: ret where [errno]: "SCF_SSL_ERR_ADD_CRL_TO_STORE = SCF_ERRNO_MAKE SCF_SUBMOD_SSL 31"
definition SCF_SSL_ERR_INIT_TLS :: ret where [errno]: "SCF_SSL_ERR_INIT_TLS = SCF_ERRNO_MAKE SCF_SUBMOD_SSL 32"
definition SCF_SSL_ERR_SET_SEC_LEVEL :: ret where [errno]: "SCF_SSL_ERR_SET_SEC_LEVEL = SCF_ERRNO_MAKE SCF_SUBMOD_SSL 33"
definition SCF_SSL_ERR_SET_SESS_TICKET :: ret where [errno]: "SCF_SSL_ERR_SET_SESS_TICKET = SCF_ERRNO_MAKE SCF_SUBMOD_SSL 34"
definition SCF_SSL_ERR_SET_SOCKET_FD :: ret where [errno]: "SCF_SSL_ERR_SET_SOCKET_FD = SCF_ERRNO_MAKE SCF_SUBMOD_SSL 35"
definition SCF_SSL_ERR_SEC_LEVEL_MISMATCH :: ret where [errno]: "SCF_SSL_ERR_SEC_LEVEL_MISMATCH = SCF_ERRNO_MAKE SCF_SUBMOD_SSL 36"
definition SCF_SSL_ERR_GET_CERT_STORE :: ret where [errno]: "SCF_SSL_ERR_GET_CERT_STORE = SCF_ERRNO_MAKE SCF_SUBMOD_SSL 37"
definition SCF_SSL_ERR_KEY_UPDATE :: ret where [errno]: "SCF_SSL_ERR_KEY_UPDATE = SCF_ERRNO_MAKE SCF_SUBMOD_SSL 38"
definition SCF_SSL_ERR_IS_INIT_FINISHED :: ret where [errno]: "SCF_SSL_ERR_IS_INIT_FINISHED = SCF_ERRNO_MAKE SCF_SUBMOD_SSL 39"
definition SCF_SSL_ERR_SET_UPDATE_PARAM :: ret where [errno]: "SCF_SSL_ERR_SET_UPDATE_PARAM = SCF_ERRNO_MAKE SCF_SUBMOD_SSL 40"
definition SCF_SSL_ERR_SET_CRL_CHECK_FLAGS :: ret where [errno]: "SCF_SSL_ERR_SET_CRL_CHECK_FLAGS = SCF_ERRNO_MAKE SCF_SUBMOD_SSL 41"
definition SCF_SSL_ERR_LOAD_CA_CERT_CHAIN :: ret where [errno]: "SCF_SSL_ERR_LOAD_CA_CERT_CHAIN = SCF_ERRNO_MAKE SCF_SUBMOD_SSL 42"
definition SCF_SSL_ERR_ADD_EE_CHAIN_TO_STORE :: ret where [errno]: "SCF_SSL_ERR_ADD_EE_CHAIN_TO_STORE = SCF_ERRNO_MAKE SCF_SUBMOD_SSL 43"
definition SCF_SSL_ERR_X509_VERIFY_CHAIN :: ret where [errno]: "SCF_SSL_ERR_X509_VERIFY_CHAIN = SCF_ERRNO_MAKE SCF_SUBMOD_SSL 44"
definition SCF_SSL_ERR_SET_EX_DATA :: ret where [errno]: "SCF_SSL_ERR_SET_EX_DATA = SCF_ERRNO_MAKE SCF_SUBMOD_SSL 45"
definition SCF_SSL_ERR_SESS_GET_CIPHER :: ret where [errno]: "SCF_SSL_ERR_SESS_GET_CIPHER = SCF_ERRNO_MAKE SCF_SUBMOD_SSL 46"
definition SCF_SSL_ERR_SESS_GET_PROTOCOL_VER :: ret where [errno]: "SCF_SSL_ERR_SESS_GET_PROTOCOL_VER = SCF_ERRNO_MAKE SCF_SUBMOD_SSL 47"
definition SCF_SSL_ERR_CERT_EXT_ABSENT :: ret where [errno]: "SCF_SSL_ERR_CERT_EXT_ABSENT = SCF_ERRNO_MAKE SCF_SUBMOD_SSL 48"

section \<open>Messages\<close>

definition errorMap :: "(ret \<times> string) list" where
  "errorMap = [
     (SCF_ERRNO_NULL_INPUT, ''Null input''),
     (SCF_ERRNO_INVALID_PARAM, ''Invalid param''),
     (SCF_ERRNO_MEM_ALLOC, ''Memory alloc error''),
     (SCF_ERRNO_MEM_CPY, ''Memory copy error''),
     (SCF_ERRNO_NOT_SUPPORT, ''Not support''),
     (SCF_ERRNO_INIT_BSM, ''Init BSM errorr''),
     (SCF_ERRNO_LARGE_FILE, ''Reading large file error''),
     (SCF_ERRNO_SYSTEM_TIME_ERROR, ''System time error''),
     (SCF_ERRNO_FILE_PATH_ERROR, ''File path error''),
     (SCF_ERRNO_READ_FILE_ERROR, ''Read file error''),
     (SCF_ERRNO_RBAC_DISABLED, ''RBAC is disabled''),
     (SCF_ERRNO_RBAC_DENIED, ''RBAC access is denied''),
     (SCF_ERRNO_RBAC_ROLE_UNKNOWN, ''RBAC node role is unknown''),
     (SCF_ERRNO_RBAC_MAP_FULL, ''RBAC node role mapping is full''),
     (SCF_ERRNO_RBAC_MAP_NOT_FOUND, ''RBAC node role mapping is not found''),
     (SCF_ERRNO_CERT_NODE_ID_ABSENT, ''RBAC certificate node ID extension is absent''),
     (SCF_ERRNO_CERT_ROLE_EXT_ABSENT, ''RBAC certificate role extension is absent''),
     (SCF_ERRNO_RBAC_MAP_FROZEN, ''RBAC node role mapping is frozen''),
     (SCF_ERRNO_RBAC_POLICY_NOT_FOUND, ''RBAC policy rule is not found''),
     (SCF_ERRNO_RBAC_POLICY_FULL, ''RBAC policy rule capacity or ID space is exhausted''),
     (SCF_ERRNO_RBAC_POLICY_DUPLICATE, ''RBAC policy rule is duplicated or conflicting''),
     (SCF_ERRNO_RBAC_POLICY_INVALID, ''RBAC policy rule is invalid''),
     (SCF_ERRNO_INIT_HITLS_BSL, ''Init HiTLS bsl error''),
     (SCF_ERRNO_INIT_HITLS_CRYPTO, ''Init HiTLS crypto error''),
     (SCF_ERRNO_INIT_HITLS_TLS, ''Init HiTLS TLS error''),
     (SCF_ERRNO_NULL_HITLS_CTX, ''HiTLS CTX is null''),
     (SCF_ERRNO_NULL_HITLS_CFG, ''HiTLS CFG is null''),
     (SCF_ERRNO_SECURE_TRANSPORT, ''Secure transport error''),
     (SCF_ERRNO_INIT_OPENSSL, ''Init OpenSSL lib error''),
     (SCF_ERRNO_INIT_OPENSSL_ERR, ''Load OpenSSL error sting  error''),
     (SCF_ERRNO_INIT_OPENSSL_CRYPTO, ''Init OpenSSL crypto error''),
     (SCF_ERRNO_INIT_OPENSSL_ALGO, ''Init OpenSSL algo error''),
     (SCF_ERRNO_NULL_CALLBACK, ''Callback function is null''),
     (SCF_ERRNO_TLS_ALREADY_INIT, ''TLS already initialized''),
     (SCF_ERRNO_INVALID_TLS_TYPE, ''Invalid TLS type''),
     (SCF_ERRNO_LOAD_LIB, ''Failed to load library''),
     (SCF_ERRNO_UNLOAD_LIB, ''Failed to unload library''),
     (SCF_ERRNO_LOAD_SYMBOL, ''Failed to load symbol''),
     (SCF_ERRNO_INIT_HITLS_PSE, ''Init Hitls pse error''),
     (SCF_ERRNO_INIT_SECUREC, ''Init securec error''),
     (SCF_ERRNO_NOT_INIT, ''System not initialize''),
     (SCF_CFG_ERRNO_PARSE, ''CFG parse error''),
     (SCF_CFG_ERRNO_CERT_ARRAY_GET, ''CFG cert array get error''),
     (SCF_CFG_ERRNO_CERT_ITEM_GET, ''CFG cert item get error''),
     (SCF_CFG_ERRNO_CERT_ADD, ''CFG cert add error''),
     (SCF_CFG_ERRNO_PRIVKEY_GET, ''CFG private key get error''),
     (SCF_CFG_ERRNO_PRIVKEY_ADD, ''CFG private key add error''),
     (SCF_CFG_ERRNO_CIPHER_SUITES_ARRAY_GET, ''CFG cipher suites array get error''),
     (SCF_CFG_ERRNO_CIPHER_SUITES_ITEM_GET, ''CFG cipher suites item get error''),
     (SCF_CFG_ERRNO_TLS_VERSION_GET, ''CFG TLS version get error''),
     (SCF_CFG_ERRNO_TLS_VERSION_SET, ''CFG TLS version set error''),
     (SCF_CFG_ERRNO_TLS_FORBID_VERSION_GET, ''CFG forbidden TLS version get error''),
     (SCF_CFG_ERRNO_KEY_UPDATE, ''CFG key update error''),
     (SCF_SSL_ERR_SSL, ''SSL error''),
     (SCF_SSL_ERR_WANT_READ, ''SSL want read error''),
     (SCF_SSL_ERR_WANT_WRITE, ''SSL want write error''),
     (SCF_SSL_ERR_WANT_X509_LOOKUP, ''SSL want X509 lookup error''),
     (SCF_SSL_ERR_SYSCALL, ''SSL syscall error''),
     (SCF_SSL_ERR_ZERO_RETURN, ''SSL zero return error''),
     (SCF_SSL_ERR_WANT_CONNECT, ''SSL want connect error''),
     (SCF_SSL_ERR_WANT_ACCEPT, ''SSL want accept error''),
     (SCF_SSL_ERR_WANT_ASYNC, ''SSL want async error''),
     (SCF_SSL_ERR_WANT_ASYNC_JOB, ''SSL want async job error''),
     (SCF_SSL_ERR_WANT_CLIENT_HELLO_CB, ''SSL want client hello callback error''),
     (SCF_SSL_ERR_WANT_BACKEP, ''SSL want back ep error''),
     (SCF_SSL_ERR_FORMAT_TYPE, ''SSL format type error''),
     (SCF_SSL_ERR_STORE_TYPE, ''SSL store type error''),
     (SCF_SSL_ERR_PARSE_CERT, ''SSL parse certificate error''),
     (SCF_SSL_ERR_ADD_CERT_TO_STORE, ''SSL add certificate to store error''),
     (SCF_SSL_ERR_LOAD_KEY, ''SSL load key error''),
     (SCF_SSL_ERR_PATH_TOO_LONG, ''SSL path too long error''),
     (SCF_SSL_ERR_CHECK_PKEY, ''SSL check private key error''),
     (SCF_SSL_ERR_ROLE, ''SSL role error''),
     (SCF_SSL_ERR_INIT_TLS13, ''SSL initialize TLS 1.3 error''),
     (SCF_SSL_ERR_PSK_CB_HASH, ''SSL PSK callback hash error''),
     (SCF_SSL_ERR_GET_VERSION, ''SSL get version error''),
     (SCF_SSL_ERR_PSK_MISMATCH, ''SSL PSK mismatch''),
     (SCF_SSL_ERR_VERSION, ''SSL version error''),
     (SCF_SSL_ERR_POLICY_VERSION, ''SSL policy version error''),
     (SCF_SSL_ERR_SET_PASS, ''SSL set password error''),
     (SCF_SSL_ERR_PARSE_KEY, ''SSL parse key error''),
     (SCF_SSL_ERR_LOAD_CRL, ''SSL load CRL error''),
     (SCF_SSL_ERR_SET_ROLE, ''SSL set role error''),
     (SCF_SSL_ERR_SESS_SET_CIPHER, ''SSL session set cipher error''),
     (SCF_SSL_ERR_SESS_SET_KEY, ''SSL session set key error''),
     (SCF_SSL_ERR_SESS_SET_PROTOCOL_VER, ''SSL session set protocol version error''),
     (SCF_SSL_ERR_READ, ''SSL read error''),
     (SCF_SSL_ERR_WRITE, ''SSL write error''),
     (SCF_SSL_ERR_CLOSE, ''SSL close error''),
     (SCF_SSL_ERR_SET_CIPHER, ''SSL set cipher error''),
     (SCF_SSL_ERR_SET_PROTOCOL_VER, ''SSL set protocol version error''),
     (SCF_SSL_ERR_SET_VER_FORBID, ''SSL set forbidden version error''),
     (SCF_SSL_ERR_GET_CIPHER, ''SSL get cipher error''),
     (SCF_SSL_ERR_ADD_CA_CERT_TO_STORE, ''SSL add CA certificate to store error''),
     (SCF_SSL_ERR_ADD_EE_CERT_TO_STORE, ''SSL add EE certificate to store error''),
     (SCF_SSL_ERR_ADD_CRL_TO_STORE, ''SSL add CRL to store error''),
     (SCF_SSL_ERR_INIT_TLS, ''SSL initialize TLS error''),
     (SCF_SSL_ERR_SET_SEC_LEVEL, ''SSL set security level error''),
     (SCF_SSL_ERR_SET_SESS_TICKET, ''SSL set session ticket error''),
     (SCF_SSL_ERR_SET_SOCKET_FD, ''SSL set socket file descriptor error''),
     (SCF_SSL_ERR_SEC_LEVEL_MISMATCH, ''SSL security level mismatch error''),
     (SCF_SSL_ERR_GET_CERT_STORE, ''SSL get certificate store error''),
     (SCF_SSL_ERR_KEY_UPDATE, ''SSL key update error''),
     (SCF_SSL_ERR_IS_INIT_FINISHED, ''SSL is initialization finished error''),
     (SCF_SSL_ERR_SET_UPDATE_PARAM, ''SSL set update parameter error''),
     (SCF_SSL_ERR_SET_CRL_CHECK_FLAGS, ''SSL set CRL check flags error''),
     (SCF_SSL_ERR_LOAD_CA_CERT_CHAIN, ''SSL load CA certificate chain error''),
     (SCF_SSL_ERR_ADD_EE_CHAIN_TO_STORE, ''SSL add EE chain to store error''),
     (SCF_SSL_ERR_X509_VERIFY_CHAIN, ''X509 certificate chain verification error''),
     (SCF_SSL_ERR_SET_EX_DATA, ''SSL set extra data error''),
     (SCF_SSL_ERR_SESS_GET_CIPHER, ''SSL session get cipher error''),
     (SCF_SSL_ERR_SESS_GET_PROTOCOL_VER, ''SSL session get protocol version error''),
     (SCF_SSL_ERR_CERT_EXT_ABSENT, ''SSL certificate extension is absent'')]"

definition GetErrorMessageInternal :: "ret \<Rightarrow> string" where
  "GetErrorMessageInternal errorCode =
     (case map_of errorMap errorCode of
        Some msg \<Rightarrow> msg
      | None \<Rightarrow> ''Unknown error code.'')"

definition ERROR_MSG_SIZE :: nat where [scf_const]: "ERROR_MSG_SIZE = 64"

text \<open>
  \<^verbatim>\<open>strncpy_s\<close> belongs to the securec library.  Documented behaviour: when the part of the source
  to copy (its C string, cut at \<^verbatim>\<open>count\<close>) is shorter than the destination, it is copied, a
  terminator is written behind it and 0 (\<^verbatim>\<open>EOK\<close>) is returned.
\<close>

definition strncpy_s_ok :: "(string \<Rightarrow> nat \<Rightarrow> string \<Rightarrow> nat \<Rightarrow> int \<times> string) \<Rightarrow> bool" where
  "strncpy_s_ok sc \<longleftrightarrow>
     (\<forall>dest destMax src count.
        0 < destMax \<and> destMax \<le> length dest \<and> destMax \<le> 0x7fffffff \<and>
        length (take count (cstr src)) < destMax \<longrightarrow>
        sc dest destMax src count =
          (0, take count (cstr src) @ NUL # drop (Suc (length (take count (cstr src)))) dest))"

definition strncpy_s_ref :: "string \<Rightarrow> nat \<Rightarrow> string \<Rightarrow> nat \<Rightarrow> int \<times> string" where
  "strncpy_s_ref dest destMax src count =
     (let part = take count (cstr src) in
      if destMax = 0 \<or> destMax > 0x7fffffff then (34, dest)
      else if length part \<ge> destMax then (162, NUL # drop 1 dest)
      else (0, part @ NUL # drop (Suc (length part)) dest))"

text \<open>
  \<^verbatim>\<open>GetErrorMessage\<close> copies the message into a static buffer and returns a pointer to it: the
  result is \<^verbatim>\<open>None\<close> for a null pointer, \<^verbatim>\<open>Some\<close> of what a C reader sees of the buffer, and the
  buffer afterwards.
\<close>

definition GetErrorMessage ::
  "(string \<Rightarrow> nat \<Rightarrow> string \<Rightarrow> nat \<Rightarrow> int \<times> string) \<Rightarrow> string \<Rightarrow> ret \<Rightarrow> string option \<times> string" where
  "GetErrorMessage sc buffer errorCode =
     (let (r, buffer1) = sc buffer ERROR_MSG_SIZE (GetErrorMessageInternal errorCode) (ERROR_MSG_SIZE - 1) in
      if r \<noteq> 0 then (None, buffer1)
      else let buffer2 = buffer1[ERROR_MSG_SIZE - 1 := NUL] in (Some (cstr buffer2), buffer2))"

section \<open>Facts about the codes\<close>

lemma strncpy_s_okD:
  assumes "strncpy_s_ok sc" "0 < destMax" "destMax \<le> length dest" "destMax \<le> 0x7fffffff"
    "part = take count (cstr src)" "length part < destMax"
  shows "sc dest destMax src count = (0, part @ NUL # drop (Suc (length part)) dest)"
  using assms unfolding strncpy_s_ok_def by blast

lemma strncpy_s_ref_ok: "strncpy_s_ok strncpy_s_ref"
  unfolding strncpy_s_ok_def strncpy_s_ref_def by (auto simp: Let_def)

lemma errorMap_unat_distinct: "distinct (map (unat \<circ> fst) errorMap)"
  by (simp only: errorMap_def list.map comp_def fst_conv errno) simp

lemma errorMap_distinct: "distinct (map fst errorMap)"
proof -
  have "distinct (map unat (map fst errorMap))"
    using errorMap_unat_distinct by simp
  then show ?thesis by (rule distinct_map [THEN iffD1, THEN conjunct1])
qed

lemma errorMap_messages:
  "list_all (\<lambda>p. 0 < length (snd p) \<and> length (snd p) < 63 \<and> NUL \<notin> set (snd p)) errorMap"
  by (simp add: errorMap_def NUL_def)

lemma message_shape:
  "length (GetErrorMessageInternal c) < 63 \<and> NUL \<notin> set (GetErrorMessageInternal c)"
proof (cases "map_of errorMap c")
  case None
  then show ?thesis by (simp add: GetErrorMessageInternal_def NUL_def)
next
  case (Some m)
  then have "(c, m) \<in> set errorMap" by (rule map_of_SomeD)
  with errorMap_messages have "length m < 63 \<and> NUL \<notin> set m"
    by (auto simp: list_all_iff)
  with Some show ?thesis by (simp add: GetErrorMessageInternal_def)
qed

lemma SCF_ERRNO_NULL_INPUT_listed: "(SCF_ERRNO_NULL_INPUT, ''Null input'') \<in> set errorMap"
  by (simp only: errorMap_def list.set insert_iff simp_thms)

lemma GetErrorMessage_exact:
  assumes "strncpy_s_ok sc" "length buffer = ERROR_MSG_SIZE"
  shows "fst (GetErrorMessage sc buffer c) = Some (GetErrorMessageInternal c)"
proof -
  let ?m = "GetErrorMessageInternal c"
  have m: "length ?m < 63" "NUL \<notin> set ?m" using message_shape by auto
  then have part: "?m = take (ERROR_MSG_SIZE - 1) (cstr ?m)"
    by (simp add: cstr_id scf_const)
  have "sc buffer ERROR_MSG_SIZE ?m (ERROR_MSG_SIZE - 1) = (0, ?m @ NUL # drop (Suc (length ?m)) buffer)"
    by (rule strncpy_s_okD [OF assms(1) _ _ _ part]) (use m assms(2) in \<open>simp_all add: scf_const\<close>)
  moreover have "(?m @ NUL # drop (Suc (length ?m)) buffer)[63 := NUL] =
      ?m @ NUL # (drop (Suc (length ?m)) buffer)[62 - length ?m := NUL]"
    using m Suc_diff_Suc [of "length ?m" 63] by (simp add: list_update_append flip: Suc_diff_Suc)
  ultimately show ?thesis
    using m by (simp add: GetErrorMessage_def Let_def scf_const cstr_append_NUL)
qed

text \<open>Every error code the message table knows is listed once, so the static map initialiser
  loses no entry, and each listed code, printed through the 64 byte static buffer of
  \<^verbatim>\<open>GetErrorMessage\<close>, gives back exactly its own message, complete and NUL terminated.\<close>

lemma GetErrorMessage_complete:
  assumes "strncpy_s_ok sc" and "length buffer = ERROR_MSG_SIZE"
  shows "distinct (map fst errorMap) \<and>
    (\<forall>c m. (c, m) \<in> set errorMap \<longrightarrow> fst (GetErrorMessage sc buffer c) = Some m)"
  using GetErrorMessage_exact [OF assms] errorMap_distinct
  by (auto simp: GetErrorMessageInternal_def)

text \<open>A code built from a module number below 65536 and a reason below 256 determines both: the
  module is recovered from bits 8 to 23 and the reason from the low byte, so two codes of
  different modules or reasons never coincide.\<close>

theorem errno_decode:
  assumes "Mod < 0x10000" and "Errno < 0x100"
  shows "drop_bit 8 (SCF_ERRNO_MAKE (SCF_MOD_MAKE Mod) Errno) AND 0xffff = Mod \<and>
         SCF_ERRNO_MAKE (SCF_MOD_MAKE Mod) Errno AND 0xff = Errno"
proof -
  have Mod: "Mod = take_bit 16 Mod" and Errno: "Errno = take_bit 8 Errno"
    using assms less_mask_eq [of Mod 16] less_mask_eq [of Errno 8] by (simp_all add: take_bit_eq_mask)
  have masks: "(0xffff :: ret) = mask 16" "(0xff :: ret) = mask 8"
    by (simp_all add: mask_eq_exp_minus_1)
  have top: "take_bit 24 SCF_PROJECT_ID = 0"
    by (simp add: errno)
  have "drop_bit 8 (SCF_ERRNO_MAKE (SCF_MOD_MAKE Mod) Errno) AND 0xffff = take_bit 16 (drop_bit 8 SCF_PROJECT_ID) OR Mod"
    unfolding masks SCF_MOD_MAKE_def SCF_ERRNO_MAKE_def
    by (subst (1 2) Mod, subst Errno, rule bit_word_eqI) (auto simp: bit_simps)
  moreover have "SCF_ERRNO_MAKE (SCF_MOD_MAKE Mod) Errno AND 0xff = take_bit 8 SCF_PROJECT_ID OR Errno"
    unfolding masks SCF_MOD_MAKE_def SCF_ERRNO_MAKE_def
    by (subst (1 2) Errno, rule bit_word_eqI) (auto simp: bit_simps)
  ultimately show ?thesis
    by (simp add: SCF_PROJECT_ID_def)
qed

end
