(* ===== verification/Scf_Def.thy ===== *)
theory Scf_Def
  imports Errno
begin

text \<open>
  The data model: the enumerations and structures of \<^verbatim>\<open>include/scf_def.h\<close> and
  \<^verbatim>\<open>common/utils/scf_inner.h\<close> and the limits of \<^verbatim>\<open>common/constant/constant_def.h\<close>.

  A C enumeration parameter can hold a value that is none of its enumerators; each datatype has a
  last constructor \<^verbatim>\<open>..._OTHER\<close> for those values, so that the validity checks of the code are
  real checks.  Pointers are \<^verbatim>\<open>option\<close> values (\<^verbatim>\<open>None\<close> is the null pointer); opaque handles and
  function pointers are addresses.  The two mutexes of the context have no state of their own: an
  operation that holds one is one step.
\<close>

type_synonym addr = nat

section \<open>Enumerations\<close>

datatype SCF_ROLE = SCF_ROLE_NONE | SCF_ROLE_CLIENT | SCF_ROLE_SERVER | SCF_ROLE_OTHER u32

datatype SCF_POLICY_MODE =
  SCF_POLICY_HIGH | SCF_POLICY_MIDDLE | SCF_POLICY_CUSTOMER | SCF_POLICY_MODE_OTHER u32

datatype SCF_STORE_TYPE =
  SCF_STORE_FILE_PATH | SCF_STORE_BUFFER | SCF_STORE_ERROR | SCF_STORE_TYPE_OTHER u32

datatype SCF_STORE_FORMAT = SCF_STORE_FORMAT_PEM | SCF_STORE_FORMAT_OTHER u32

datatype SCF_CERT_TYPE =
  SCF_CERT_TYPE_CA | SCF_CERT_TYPE_EE | SCF_CERT_TYPE_CRL | SCF_CERT_TYPE_EE_CHAIN
| SCF_CERT_TYPE_OTHER u32

datatype SCF_RBAC_ROLE =
  SCF_RBAC_ROLE_UNKNOWN | SCF_RBAC_ROLE_MASTER | SCF_RBAC_ROLE_SLAVE | SCF_RBAC_ROLE_OTHER u32

datatype SCF_RESOURCE_ACTION =
  SCF_RES_ACTION_UNKNOWN | SCF_RES_ACTION_APPLY | SCF_RES_ACTION_RELEASE
| SCF_RES_ACTION_OTHER u32

datatype SCF_RBAC_ROLE_SOURCE =
  SCF_RBAC_ROLE_SRC_NONE | SCF_RBAC_ROLE_SRC_CERT | SCF_RBAC_ROLE_SRC_MAPPING

datatype SCF_POLICY_EFFECT =
  SCF_POLICY_EFFECT_ALLOW | SCF_POLICY_EFFECT_DENY | SCF_POLICY_EFFECT_OTHER u32

text \<open>The verification mode is used as a bit mask and the resource type as a bitmap, so both stay
  words.\<close>

definition SCF_VERIFY_MODE_NONE :: u32 where [scf_const]: "SCF_VERIFY_MODE_NONE = 0"
definition SCF_VERIFY_DEFAULT :: u32 where [scf_const]: "SCF_VERIFY_DEFAULT = 1"
definition SCF_VERIFY_CUSTOMER :: u32 where [scf_const]: "SCF_VERIFY_CUSTOMER = 2"
definition SCF_VERIFY_PEER :: u32 where [scf_const]: "SCF_VERIFY_PEER = 4"
definition SCF_VERIFY_FAIL_IF_NO_PEER_CERT :: u32 where [scf_const]: "SCF_VERIFY_FAIL_IF_NO_PEER_CERT = 8"

definition SCF_RES_TYPE_NONE :: u32 where [scf_const]: "SCF_RES_TYPE_NONE = 0"
definition SCF_RES_TYPE_FD :: u32 where [scf_const]: "SCF_RES_TYPE_FD = 1"
definition SCF_RES_TYPE_NUMA :: u32 where [scf_const]: "SCF_RES_TYPE_NUMA = 2"
definition SCF_RES_TYPE_ADDR :: u32 where [scf_const]: "SCF_RES_TYPE_ADDR = 4"
definition SCF_RES_TYPE_ALL :: u32 where [scf_const]: "SCF_RES_TYPE_ALL = 7"

fun action_u32 :: "SCF_RESOURCE_ACTION \<Rightarrow> u32" where
  "action_u32 SCF_RES_ACTION_UNKNOWN = 0"
| "action_u32 SCF_RES_ACTION_APPLY = 1"
| "action_u32 SCF_RES_ACTION_RELEASE = 2"
| "action_u32 (SCF_RES_ACTION_OTHER n) = n"

section \<open>Protocol versions and cipher suites\<close>

definition SCF_INIT_FLAG_OPENSSL :: u64 where [scf_const]: "SCF_INIT_FLAG_OPENSSL = 1"
definition SCF_SSL_VERSION_TLS12 :: u32 where [scf_const]: "SCF_SSL_VERSION_TLS12 = 0x0303"
definition SCF_SSL_VERSION_TLS13 :: u32 where [scf_const]: "SCF_SSL_VERSION_TLS13 = 0x0304"
definition SCF_SSL_VERSION_TLS12_STR :: string where [scf_const]: "SCF_SSL_VERSION_TLS12_STR = ''TLSv1.2''"
definition SCF_SSL_VERSION_TLS13_STR :: string where [scf_const]: "SCF_SSL_VERSION_TLS13_STR = ''TLSv1.3''"

definition SCF_SSL_ECDHE_ECDSA_WITH_AES_128_GCM_SHA256 :: u32 where [scf_const]:
  "SCF_SSL_ECDHE_ECDSA_WITH_AES_128_GCM_SHA256 = 0xC02B"
definition SCF_SSL_ECDHE_ECDSA_WITH_AES_256_GCM_SHA384 :: u32 where [scf_const]:
  "SCF_SSL_ECDHE_ECDSA_WITH_AES_256_GCM_SHA384 = 0xC02C"
definition SCF_SSL_ECDHE_RSA_WITH_AES_128_GCM_SHA256 :: u32 where [scf_const]:
  "SCF_SSL_ECDHE_RSA_WITH_AES_128_GCM_SHA256 = 0xC02F"
definition SCF_SSL_ECDHE_RSA_WITH_AES_256_GCM_SHA384 :: u32 where [scf_const]:
  "SCF_SSL_ECDHE_RSA_WITH_AES_256_GCM_SHA384 = 0xC030"
definition SCF_SSL_ECDHE_RSA_WITH_CHACHA20_POLY1305_SHA256 :: u32 where [scf_const]:
  "SCF_SSL_ECDHE_RSA_WITH_CHACHA20_POLY1305_SHA256 = 0xCCA8"
definition SCF_SSL_ECDHE_ECDSA_WITH_CHACHA20_POLY1305_SHA256 :: u32 where [scf_const]:
  "SCF_SSL_ECDHE_ECDSA_WITH_CHACHA20_POLY1305_SHA256 = 0xCCA9"
definition SCF_SSL_AES_128_GCM_SHA256 :: u32 where [scf_const]: "SCF_SSL_AES_128_GCM_SHA256 = 0x1301"
definition SCF_SSL_AES_256_GCM_SHA384 :: u32 where [scf_const]: "SCF_SSL_AES_256_GCM_SHA384 = 0x1302"
definition SCF_SSL_CHACHA20_POLY1305_SHA256 :: u32 where [scf_const]: "SCF_SSL_CHACHA20_POLY1305_SHA256 = 0x1303"
definition SCF_SSL_AES_128_CCM_SHA256 :: u32 where [scf_const]: "SCF_SSL_AES_128_CCM_SHA256 = 0x1304"

section \<open>Limits\<close>

definition MAX_NODE_ID_LEN :: nat where [scf_const]: "MAX_NODE_ID_LEN = 128"
definition MAX_NODE_ROLE_MAP_SIZE :: nat where [scf_const]: "MAX_NODE_ROLE_MAP_SIZE = 4096"
definition MAX_POLICY_RULE_SIZE :: nat where [scf_const]: "MAX_POLICY_RULE_SIZE = 8192"
definition SCF_OID_NODE_ID :: string where [scf_const]: "SCF_OID_NODE_ID = ''1.3.6.1.4.1.2011.999.1''"
definition SCF_OID_RBAC_ROLE :: string where [scf_const]: "SCF_OID_RBAC_ROLE = ''1.3.6.1.4.1.2011.999.2''"
definition DEFAULT_KEY_UPDATE_TIME :: u32 where [scf_const]: "DEFAULT_KEY_UPDATE_TIME = 3600"
definition MIN_KEY_UPDATE_TIME :: u32 where [scf_const]: "MIN_KEY_UPDATE_TIME = 1"
definition MAX_KEY_UPDATE_TIME :: u32 where [scf_const]: "MAX_KEY_UPDATE_TIME = 31536000"
definition DEFAULT_KEY_UPDATE_TRAFFIC :: u64 where [scf_const]: "DEFAULT_KEY_UPDATE_TRAFFIC = 0x40000000"
definition MIN_KEY_UPDATE_TRAFFIC :: u64 where [scf_const]: "MIN_KEY_UPDATE_TRAFFIC = 1000"
definition MAX_KEY_UPDATE_TRAFFIC :: u64 where [scf_const]: "MAX_KEY_UPDATE_TRAFFIC = 0xffffffffffffffff"
definition MAX_FILE_SIZE :: nat where [scf_const]: "MAX_FILE_SIZE = 10 * 1024 * 1024"
definition BUF_MAX_LEN :: nat where [scf_const]: "BUF_MAX_LEN = MAX_FILE_SIZE"
definition MAX_SERINALNUM_HEX_LEN :: nat where [scf_const]: "MAX_SERINALNUM_HEX_LEN = 41"
definition MAX_DATETIME_LEN :: nat where [scf_const]: "MAX_DATETIME_LEN = 24"
definition HEX_NUM_BYTES :: u32 where [scf_const]: "HEX_NUM_BYTES = 2"
definition CHAR_MASK_LOW_4BITS :: u32 where [scf_const]: "CHAR_MASK_LOW_4BITS = 0x0f"
definition CHAR_MASK_HIGH_4BITS :: u32 where [scf_const]: "CHAR_MASK_HIGH_4BITS = 0xf0"

section \<open>Structures\<close>

record SCF_PolicyRule =
  pr_ruleId :: u32
  pr_subjectNodeId :: string
  pr_targetNodeId :: string
  pr_resourceTypeBitmap :: u32
  pr_actionBitmap :: u32
  pr_effect :: SCF_POLICY_EFFECT

record SCFFileCtx =
  fc_storeType :: SCF_STORE_TYPE
  fc_buf :: "string option"
  fc_bufLen :: nat
  fc_passwd :: "string option"
  fc_passwdLen :: nat
  fc_format :: SCF_STORE_FORMAT

record SCFPolicyCtx =
  ctx_refCnt :: u32
  ctx_sslConfig :: "addr option"
  ctx_policyMode :: SCF_POLICY_MODE
  ctx_verifyMode :: u32
  ctx_role :: SCF_ROLE
  ctx_isSetRole :: bool
  ctx_pskFindSessionCb :: "addr option"
  ctx_pskUseSessionCb :: "addr option"
  ctx_isNeedKeyUpdate :: bool
  ctx_keyUpdateTime :: u32
  ctx_keyUpdateTraffic :: u64
  ctx_isNullVersion :: bool
  ctx_nodeRoleMap :: "(string \<times> SCF_RBAC_ROLE) list"
  ctx_nodeRoleMapFrozen :: bool
  ctx_rbacEnabled :: bool
  ctx_policyRuleMap :: "(u32 \<times> SCF_PolicyRule) list"
  ctx_nextPolicyRuleId :: u32

record SCF_KEY_UPDATE_INFO =
  ku_timeInterval :: u32
  ku_trafficThreshold :: u64
  ku_totalSizeOfWriteData :: u64
  ku_lastKeyUpdateTime :: u64
  ku_totalKeyUpdateCnt :: u32
  ku_isLastUpdateSuccess :: bool

record SCFPolicyObj =
  obj_policyCtx :: "addr option"
  obj_sslCtx :: "addr option"
  obj_policyMode :: SCF_POLICY_MODE
  obj_verifyMode :: u32
  obj_role :: SCF_ROLE
  obj_isSetRole :: bool
  obj_fd :: int
  obj_pskFindSessionCb :: "addr option"
  obj_pskUseSessionCb :: "addr option"
  obj_keyUpdateInfo :: SCF_KEY_UPDATE_INFO
  obj_userData :: "addr option"

text \<open>
  The process globals: \<^verbatim>\<open>g_scfInitialized\<close> and \<^verbatim>\<open>g_adaptor\<close>.  The type parameter is what the
  component at hand uses of the adaptor.
\<close>

record 'a scf_globals =
  g_scfInitialized :: bool
  g_adaptor :: "'a option"

text \<open>
  The early returns \<^verbatim>\<open>CHECK_SCF_INIT_RET\<close> and \<^verbatim>\<open>CHECK_SCF_ADAPTOR_RET\<close> (and their pointer
  variants): the code to return, or \<^verbatim>\<open>None\<close> to go on.
\<close>

definition CHECK_SCF_INIT_RET :: "'a scf_globals \<Rightarrow> ret option" where
  "CHECK_SCF_INIT_RET g = (if \<not> g_scfInitialized g then Some SCF_ERRNO_NOT_INIT else None)"

definition CHECK_SCF_ADAPTOR_RET :: "'a scf_globals \<Rightarrow> ret option" where
  "CHECK_SCF_ADAPTOR_RET g =
     (case g_adaptor g of None \<Rightarrow> Some SCF_ERRNO_INVALID_PARAM | Some _ \<Rightarrow> None)"

lemma CHECK_SCF_INIT_RET_simps [simp]:
  "g_scfInitialized g \<Longrightarrow> CHECK_SCF_INIT_RET g = None"
  "\<not> g_scfInitialized g \<Longrightarrow> CHECK_SCF_INIT_RET g = Some SCF_ERRNO_NOT_INIT"
  by (simp_all add: CHECK_SCF_INIT_RET_def)

lemma CHECK_SCF_ADAPTOR_RET_simps [simp]:
  "g_adaptor g = Some a \<Longrightarrow> CHECK_SCF_ADAPTOR_RET g = None"
  "g_adaptor g = None \<Longrightarrow> CHECK_SCF_ADAPTOR_RET g = Some SCF_ERRNO_INVALID_PARAM"
  by (simp_all add: CHECK_SCF_ADAPTOR_RET_def)

end
