(* ===== verification/Policy_Matcher.thy ===== *)
theory Policy_Matcher
  imports Scf_Def "HOL-Library.Multiset"
begin

text \<open>
  The custom rule matcher \<^verbatim>\<open>scf/policy/auth/rbac/policy_matcher.cpp\<close>: one pass over the rules in
  key order that keeps the best priority seen so far, and lets a deny rule win among equals.  The
  abstract specification is order free: the decision is taken among the matching rules of greatest
  priority, and is deny when one of them denies.
\<close>

record PolicyMatchRequest =
  rq_subjectNodeId :: string
  rq_targetNodeId :: string
  rq_resourceType :: u32
  rq_action :: SCF_RESOURCE_ACTION

text \<open>\<^verbatim>\<open>std::string == const char *\<close> compares with the C string behind the pointer.\<close>

definition IsRuleMatched :: "SCF_PolicyRule \<Rightarrow> PolicyMatchRequest \<Rightarrow> bool" where
  "IsRuleMatched rule request \<longleftrightarrow>
     pr_subjectNodeId rule = cstr (rq_subjectNodeId request) \<and>
     (pr_targetNodeId rule = cstr (rq_targetNodeId request) \<or> pr_targetNodeId rule = ''*'') \<and>
     pr_resourceTypeBitmap rule AND rq_resourceType request \<noteq> 0 \<and>
     pr_actionBitmap rule AND action_u32 (rq_action request) \<noteq> 0"

definition GetMatchPriority :: "SCF_PolicyRule \<Rightarrow> PolicyMatchRequest \<Rightarrow> u32" where
  "GetMatchPriority rule request =
     (let priority = 1;
          priority = (if pr_targetNodeId rule = cstr (rq_targetNodeId request) then priority + 1 else priority);
          priority = (if pr_resourceTypeBitmap rule = rq_resourceType request then priority + 1 else priority);
          priority = (if pr_actionBitmap rule = action_u32 (rq_action request) then priority + 1 else priority)
      in priority)"

definition ShouldReplaceMatch :: "u32 \<Rightarrow> SCF_POLICY_EFFECT \<Rightarrow> u32 \<Rightarrow> bool" where
  "ShouldReplaceMatch priority eff highestPriority \<longleftrightarrow>
     priority > highestPriority \<or> (priority = highestPriority \<and> eff = SCF_POLICY_EFFECT_DENY)"

text \<open>The loop over the rules with the two variables it updates.\<close>

fun MatchPolicyRule_loop ::
  "(u32 \<times> SCF_PolicyRule) list \<Rightarrow> PolicyMatchRequest \<Rightarrow> u32 \<Rightarrow> SCF_POLICY_EFFECT \<Rightarrow> u32 \<times> SCF_POLICY_EFFECT" where
  "MatchPolicyRule_loop [] request highestPriority eff = (highestPriority, eff)"
| "MatchPolicyRule_loop ((i, rule) # rules) request highestPriority eff =
     (if \<not> IsRuleMatched rule request then MatchPolicyRule_loop rules request highestPriority eff
      else
        let priority = GetMatchPriority rule request in
        if \<not> ShouldReplaceMatch priority (pr_effect rule) highestPriority
        then MatchPolicyRule_loop rules request highestPriority eff
        else MatchPolicyRule_loop rules request priority (pr_effect rule))"

definition MatchPolicyRule ::
  "(u32 \<times> SCF_PolicyRule) list \<Rightarrow> PolicyMatchRequest \<Rightarrow> SCF_POLICY_EFFECT option \<Rightarrow> bool \<times> SCF_POLICY_EFFECT option" where
  "MatchPolicyRule rules request eff =
     (case eff of
        None \<Rightarrow> (False, None)
      | Some e \<Rightarrow>
          let (highestPriority, e') = MatchPolicyRule_loop rules request 0 e in
          (highestPriority \<noteq> 0, Some e'))"

section \<open>Abstract specification\<close>

definition matching :: "(u32 \<times> SCF_PolicyRule) list \<Rightarrow> PolicyMatchRequest \<Rightarrow> SCF_PolicyRule set" where
  "matching rules request = {r \<in> snd ` set rules. IsRuleMatched r request}"

definition top_matching :: "(u32 \<times> SCF_PolicyRule) list \<Rightarrow> PolicyMatchRequest \<Rightarrow> SCF_PolicyRule set" where
  "top_matching rules request =
     {r \<in> matching rules request. \<forall>s \<in> matching rules request. GetMatchPriority s request \<le> GetMatchPriority r request}"

text \<open>How many fields a matching rule names exactly.\<close>

definition specificity :: "SCF_PolicyRule \<Rightarrow> PolicyMatchRequest \<Rightarrow> nat" where
  "specificity rule request =
     of_bool (pr_targetNodeId rule = cstr (rq_targetNodeId request)) +
     of_bool (pr_resourceTypeBitmap rule = rq_resourceType request) +
     of_bool (pr_actionBitmap rule = action_u32 (rq_action request))"

lemma GetMatchPriority_specificity: "unat (GetMatchPriority rule request) = 1 + specificity rule request"
  by (simp add: GetMatchPriority_def specificity_def Let_def)

lemma GetMatchPriority_pos: "0 < GetMatchPriority rule request"
  by (simp add: word_less_nat_alt GetMatchPriority_specificity)

lemma GetMatchPriority_ne_0 [simp]: "GetMatchPriority rule request \<noteq> 0"
  using GetMatchPriority_pos [of rule request] by simp

lemma GetMatchPriority_le: "GetMatchPriority r q \<le> GetMatchPriority s q \<longleftrightarrow> specificity r q \<le> specificity s q"
  by (simp add: word_le_nat_alt GetMatchPriority_specificity)

section \<open>The loop\<close>

text \<open>What the two loop variables say about the rules seen so far.\<close>

definition best_so_far ::
  "SCF_PolicyRule set \<Rightarrow> PolicyMatchRequest \<Rightarrow> u32 \<Rightarrow> SCF_POLICY_EFFECT \<Rightarrow> SCF_POLICY_EFFECT \<Rightarrow> bool" where
  "best_so_far M request h e e0 \<longleftrightarrow>
     (if M = {} then h = 0 \<and> e = e0
      else (\<forall>r \<in> M. GetMatchPriority r request \<le> h) \<and>
           (\<exists>r \<in> M. GetMatchPriority r request = h \<and> pr_effect r = e) \<and>
           ((\<exists>r \<in> M. GetMatchPriority r request = h \<and> pr_effect r = SCF_POLICY_EFFECT_DENY)
              \<longrightarrow> e = SCF_POLICY_EFFECT_DENY))"

lemma best_so_far_nonempty:
  "M \<noteq> {} \<Longrightarrow> best_so_far M q h e e0 \<longleftrightarrow>
     (\<forall>r \<in> M. GetMatchPriority r q \<le> h) \<and>
     (\<exists>r \<in> M. GetMatchPriority r q = h \<and> pr_effect r = e) \<and>
     (\<forall>r \<in> M. GetMatchPriority r q = h \<and> pr_effect r = SCF_POLICY_EFFECT_DENY \<longrightarrow> e = SCF_POLICY_EFFECT_DENY)"
  by (auto simp: best_so_far_def)

lemma best_so_far_replace:
  assumes "best_so_far M q h e e0" "ShouldReplaceMatch (GetMatchPriority rule q) (pr_effect rule) h"
  shows "best_so_far (insert rule M) q (GetMatchPriority rule q) (pr_effect rule) e0"
proof (cases "M = {}")
  case False
  from assms(2) consider "h < GetMatchPriority rule q"
    | "GetMatchPriority rule q = h" "pr_effect rule = SCF_POLICY_EFFECT_DENY"
    by (auto simp: ShouldReplaceMatch_def)
  then show ?thesis
  proof cases
    case 1
    then have "r \<in> M \<Longrightarrow> GetMatchPriority r q < GetMatchPriority rule q" for r
      using assms(1) False by (auto simp: best_so_far_nonempty intro: le_less_trans)
    then show ?thesis by (auto simp: best_so_far_nonempty less_imp_le dest: less_imp_neq)
  qed (use assms(1) False in \<open>auto simp: best_so_far_nonempty\<close>)
qed (simp add: best_so_far_nonempty)

lemma best_so_far_keep:
  assumes "best_so_far M q h e e0" "\<not> ShouldReplaceMatch (GetMatchPriority rule q) (pr_effect rule) h"
  shows "best_so_far (insert rule M) q h e e0"
proof (cases "M = {}")
  case True
  then show ?thesis
    using assms GetMatchPriority_pos [of rule q] by (simp add: best_so_far_def ShouldReplaceMatch_def)
next
  case False
  then show ?thesis
    using assms by (auto simp: best_so_far_nonempty ShouldReplaceMatch_def)
qed

lemma MatchPolicyRule_loop_best:
  assumes "best_so_far M request h e e0" "MatchPolicyRule_loop rules request h e = (h', e')"
  shows "best_so_far (M \<union> matching rules request) request h' e' e0"
  using assms
proof (induction rules arbitrary: M h e)
  case (Cons p rules)
  obtain i rule where p: "p = (i, rule)" by (cases p)
  let ?M = "if IsRuleMatched rule request then insert rule M else M"
  have M: "M \<union> matching (p # rules) request = ?M \<union> matching rules request"
    by (auto simp: matching_def p)
  show ?case
    using Cons.IH [of ?M] Cons.prems best_so_far_replace [OF Cons.prems(1), of rule]
      best_so_far_keep [OF Cons.prems(1), of rule]
    unfolding M by (auto simp: p Let_def split: if_splits)
qed (simp add: matching_def)

lemma MatchPolicyRule_best:
  assumes "MatchPolicyRule rules request (Some e0) = (found, res)"
  shows "\<exists>h e. res = Some e \<and> found = (h \<noteq> 0) \<and> best_so_far (matching rules request) request h e e0"
proof -
  obtain h e where he: "MatchPolicyRule_loop rules request 0 e0 = (h, e)" by (cases "MatchPolicyRule_loop rules request 0 e0")
  have "best_so_far {} request 0 e0 e0" by (simp add: best_so_far_def)
  from MatchPolicyRule_loop_best [OF this he] show ?thesis
    using assms he by (auto simp: MatchPolicyRule_def)
qed

lemma best_so_far_zero: "best_so_far M request h e e0 \<Longrightarrow> h = 0 \<longleftrightarrow> M = {}"
  by (cases "M = {}") (auto simp: best_so_far_def)

lemma best_so_far_effect:
  assumes "best_so_far M request h e e0" "M \<noteq> {}"
    "T = {r \<in> M. \<forall>s \<in> M. GetMatchPriority s request \<le> GetMatchPriority r request}"
  shows "\<exists>r \<in> T. pr_effect r = e" "(\<exists>r \<in> T. pr_effect r = SCF_POLICY_EFFECT_DENY) \<Longrightarrow> e = SCF_POLICY_EFFECT_DENY"
proof -
  obtain r where r: "r \<in> M" "GetMatchPriority r request = h" "pr_effect r = e"
    using assms by (auto simp: best_so_far_nonempty)
  have T: "T = {s \<in> M. GetMatchPriority s request = h}"
    using assms r by (auto simp: best_so_far_nonempty intro: antisym)
  show "\<exists>r \<in> T. pr_effect r = e" using r T by blast
  show "(\<exists>r \<in> T. pr_effect r = SCF_POLICY_EFFECT_DENY) \<Longrightarrow> e = SCF_POLICY_EFFECT_DENY"
    using assms(1,2) T by (auto simp: best_so_far_nonempty)
qed

section \<open>Correctness\<close>

text \<open>C3: A request is matched exactly when some rule matches it, and then the reported effect is
  deny when one of the matching rules of greatest priority denies, and otherwise the common
  effect carried by the top rules; without a match the effect variable is left unchanged.\<close>

theorem MatchPolicyRule_spec:
  "case MatchPolicyRule rules request (Some e0) of
     (found, res) \<Rightarrow>
       (found \<longleftrightarrow> matching rules request \<noteq> {}) \<and>
       (if \<not> found then res = Some e0
        else \<exists>r \<in> top_matching rules request.
               res = Some (pr_effect r) \<and>
               (pr_effect r = SCF_POLICY_EFFECT_DENY \<or>
                (\<forall>s \<in> top_matching rules request. pr_effect s \<noteq> SCF_POLICY_EFFECT_DENY)))"
proof (cases "MatchPolicyRule rules request (Some e0)")
  case (Pair found res)
  then obtain h e where he: "res = Some e" "found = (h \<noteq> 0)"
    "best_so_far (matching rules request) request h e e0"
    using MatchPolicyRule_best by blast
  show ?thesis
  proof (cases "matching rules request = {}")
    case True
    then show ?thesis using he by (simp add: Pair best_so_far_def)
  next
    case False
    then have "h \<noteq> 0" using best_so_far_zero [OF he(3)] by simp
    moreover note best_so_far_effect [OF he(3) False top_matching_def]
    ultimately show ?thesis using he False by (auto simp: Pair)
  qed
qed


definition wf_effects :: "(u32 \<times> SCF_PolicyRule) list \<Rightarrow> bool" where
  "wf_effects rules \<longleftrightarrow>
     list_all (\<lambda>(i, r). pr_effect r = SCF_POLICY_EFFECT_ALLOW \<or> pr_effect r = SCF_POLICY_EFFECT_DENY) rules"

text \<open>The decision as a function of the set of matching rules alone.\<close>

definition decide :: "(u32 \<times> SCF_PolicyRule) list \<Rightarrow> PolicyMatchRequest \<Rightarrow> SCF_POLICY_EFFECT option" where
  "decide rules request =
     (if matching rules request = {} then None
      else if \<exists>r \<in> top_matching rules request. pr_effect r = SCF_POLICY_EFFECT_DENY
      then Some SCF_POLICY_EFFECT_DENY
      else Some SCF_POLICY_EFFECT_ALLOW)"

lemma MatchPolicyRule_decide:
  assumes "wf_effects rules"
  shows "MatchPolicyRule rules request (Some e0) =
    (case decide rules request of None \<Rightarrow> (False, Some e0) | Some e \<Rightarrow> (True, Some e))"
proof -
  obtain found res where m: "MatchPolicyRule rules request (Some e0) = (found, res)"
    by (cases "MatchPolicyRule rules request (Some e0)")
  have eff: "r \<in> top_matching rules request \<Longrightarrow>
      pr_effect r = SCF_POLICY_EFFECT_ALLOW \<or> pr_effect r = SCF_POLICY_EFFECT_DENY" for r
    using assms by (auto simp: wf_effects_def list_all_iff top_matching_def matching_def)
  obtain h e where "res = Some e" "found = (h \<noteq> 0)"
    and best: "best_so_far (matching rules request) request h e e0"
    using MatchPolicyRule_best [OF m] by blast
  with m show ?thesis
  proof (cases "matching rules request = {}")
    case False
    from best_so_far_effect [OF best this top_matching_def]
    have "decide rules request = Some e" using eff False by (auto simp: decide_def)
    with m show ?thesis using best_so_far_zero [OF best] False \<open>res = Some e\<close> \<open>found = (h \<noteq> 0)\<close> by simp
  qed (use best in \<open>auto simp: decide_def best_so_far_def\<close>)
qed

lemma decide_cong: "snd ` set rules = snd ` set rules' \<Longrightarrow> decide rules request = decide rules' request"
  unfolding decide_def top_matching_def matching_def by (simp only:)

text \<open>The verdict on a request depends on the rules only, not on their identifiers or the order in
  which they were added: two rule tables with the same rules give the same answer to every
  request.\<close>

lemma MatchPolicyRule_order_free:
  assumes "wf_effects rules" "mset (map snd rules) = mset (map snd rules')"
  shows "MatchPolicyRule rules request (Some e0) = MatchPolicyRule rules' request (Some e0)"
proof -
  have sets: "snd ` set rules = snd ` set rules'"
    using mset_eq_setD [OF assms(2)] by simp
  then have "wf_effects rules'"
    using assms(1) unfolding wf_effects_def list_all_iff by (force simp: image_iff)
  then show ?thesis
    using assms(1) decide_cong [OF sets] by (simp add: MatchPolicyRule_decide)
qed

definition sample_rule :: "u32 \<Rightarrow> string \<Rightarrow> u32 \<Rightarrow> SCF_POLICY_EFFECT \<Rightarrow> SCF_PolicyRule" where
  "sample_rule i target types eff =
     \<lparr> pr_ruleId = i, pr_subjectNodeId = ''n1'', pr_targetNodeId = target,
       pr_resourceTypeBitmap = types, pr_actionBitmap = 3, pr_effect = eff \<rparr>"

definition sample_request :: PolicyMatchRequest where
  "sample_request =
     \<lparr> rq_subjectNodeId = ''n1'', rq_targetNodeId = ''n2'', rq_resourceType = 1, rq_action = SCF_RES_ACTION_APPLY \<rparr>"

theorem MatchPolicyRule_spec_witness:
  "MatchPolicyRule [(1, sample_rule 1 ''n2'' 7 SCF_POLICY_EFFECT_DENY)] sample_request (Some SCF_POLICY_EFFECT_ALLOW) =
     (True, Some SCF_POLICY_EFFECT_DENY)"
proof -
  let ?rules = "[(1, sample_rule 1 ''n2'' 7 SCF_POLICY_EFFECT_DENY)] :: (u32 \<times> SCF_PolicyRule) list"
  have m: "matching ?rules sample_request = {sample_rule 1 ''n2'' 7 SCF_POLICY_EFFECT_DENY}"
    by (auto simp: matching_def IsRuleMatched_def sample_rule_def sample_request_def cstr_def NUL_def)
  have t: "\<forall>r \<in> top_matching ?rules sample_request. pr_effect r = SCF_POLICY_EFFECT_DENY"
    unfolding top_matching_def m by (simp add: sample_rule_def)
  show ?thesis
    using MatchPolicyRule_spec [of ?rules sample_request SCF_POLICY_EFFECT_ALLOW] t
    unfolding m by (auto split: prod.splits)
qed

end
