(* ===== verification/Utils.thy ===== *)
theory Utils
  imports Scf_Def
begin

text \<open>
  The helpers of \<^verbatim>\<open>common/utils\<close>: argument checks and hexadecimal printing
  (\<^verbatim>\<open>policy_utils.cpp\<close>), lower-casing (\<^verbatim>\<open>string_util.cpp\<close>), path and file checks
  (\<^verbatim>\<open>file_check.cpp\<close>, \<^verbatim>\<open>file_ctx.cpp\<close>) and the external encryption hooks
  (\<^verbatim>\<open>crypto_util.cpp\<close>).  The system calls \<^verbatim>\<open>realpath\<close>, \<^verbatim>\<open>stat\<close>, \<^verbatim>\<open>access\<close> and the file stream
  are parameters, collected in the record \<^verbatim>\<open>os_api\<close>.
\<close>

section \<open>Argument checks\<close>

definition CheckRole :: "SCF_ROLE \<Rightarrow> ret" where
  "CheckRole role =
     (if role = SCF_ROLE_CLIENT \<or> role = SCF_ROLE_SERVER then SCF_SUCCESS else SCF_ERRNO_INVALID_PARAM)"

definition CheckVerifyMode :: "u32 \<Rightarrow> ret" where
  "CheckVerifyMode verifyMode =
     (if verifyMode = SCF_VERIFY_MODE_NONE \<or> verifyMode = SCF_VERIFY_DEFAULT \<or>
         verifyMode AND SCF_VERIFY_PEER = SCF_VERIFY_PEER
      then SCF_SUCCESS else SCF_ERRNO_INVALID_PARAM)"

definition CheckPolicyMode :: "SCF_POLICY_MODE \<Rightarrow> ret" where
  "CheckPolicyMode policyMode =
     (if policyMode = SCF_POLICY_HIGH \<or> policyMode = SCF_POLICY_MIDDLE \<or> policyMode = SCF_POLICY_CUSTOMER
      then SCF_SUCCESS else SCF_ERRNO_INVALID_PARAM)"

section \<open>Hexadecimal printing\<close>

definition hexTable :: string where
  "hexTable = ''0123456789abcdef''"

definition char_u32 :: "char \<Rightarrow> u32" where
  "char_u32 c = of_nat (of_char c)"

definition hex_hi :: "char \<Rightarrow> char" where
  "hex_hi c = hexTable ! unat (drop_bit 4 (char_u32 c AND CHAR_MASK_HIGH_4BITS))"

definition hex_lo :: "char \<Rightarrow> char" where
  "hex_lo c = hexTable ! unat (char_u32 c AND CHAR_MASK_LOW_4BITS)"

text \<open>The loop: \<^verbatim>\<open>i\<close> is the index into \<^verbatim>\<open>num\<close>, \<^verbatim>\<open>p\<close> the offset of the write pointer in the
  output.\<close>

function Num2HexStr_loop :: "string \<Rightarrow> nat \<Rightarrow> nat \<Rightarrow> nat \<Rightarrow> string \<Rightarrow> string" where
  "Num2HexStr_loop num numLen i p hexStr =
     (if i < numLen
      then Num2HexStr_loop num numLen (i + 1) (p + 2)
             (hexStr[p := hex_hi (num ! i), p + 1 := hex_lo (num ! i)])
      else hexStr[p := NUL])"
  by pat_completeness auto
termination by (relation "measure (\<lambda>(num, n, i, p, h). n - i)") auto

declare Num2HexStr_loop.simps [simp del]

definition Num2HexStr :: "string option \<Rightarrow> u32 \<Rightarrow> string option \<Rightarrow> u32 \<Rightarrow> ret \<times> string option" where
  "Num2HexStr num numLen hexStr hexStrLen =
     (case (num, hexStr) of
        (Some n, Some h) \<Rightarrow>
          if hexStrLen = 0 then (SCF_ERRNO_INVALID_PARAM, hexStr)
          else if numLen = 0 \<or> numLen \<ge> 0x7fffffff \<or> numLen * HEX_NUM_BYTES \<ge> hexStrLen
          then (SCF_SUCCESS, Some (h[0 := NUL]))
          else (SCF_SUCCESS, Some (Num2HexStr_loop n (unat numLen) 0 0 h))
      | _ \<Rightarrow> (SCF_ERRNO_INVALID_PARAM, hexStr))"

text \<open>Reference: print byte by byte, and read back.\<close>

definition hex_of :: "string \<Rightarrow> string" where
  "hex_of s = concat (map (\<lambda>c. [hex_hi c, hex_lo c]) s)"

definition hex_val :: "char \<Rightarrow> nat" where
  "hex_val c = (let n = of_char c in if n < 58 then n - 48 else n - 87)"

fun unhex :: "string \<Rightarrow> string" where
  "unhex (a # b # s) = char_of (16 * hex_val a + hex_val b) # unhex s"
| "unhex _ = []"

lemma length_hex_of [simp]: "length (hex_of s) = 2 * length s"
  unfolding hex_of_def by (induction s) auto

lemma hex_of_append [simp]: "hex_of (a @ b) = hex_of a @ hex_of b"
  by (simp add: hex_of_def)

lemma Num2HexStr_loop_correct:
  assumes "i \<le> numLen" "numLen \<le> length num" "2 * numLen < length hexStr"
    "take (2 * i) hexStr = hex_of (take i num)"
  shows "Num2HexStr_loop num numLen i (2 * i) hexStr =
    hex_of (take numLen num) @ NUL # drop (2 * numLen + 1) hexStr"
  using assms
proof (induction "numLen - i" arbitrary: i hexStr)
  case 0
  then have "i = numLen" by simp
  with 0 show ?case
    by (simp add: Num2HexStr_loop.simps upd_conv_take_nth_drop)
next
  case (Suc n)
  let ?h = "hexStr[2 * i := hex_hi (num ! i), 2 * i + 1 := hex_lo (num ! i)]"
  have i: "i < numLen" using Suc.hyps(2) by simp
  have "take (2 * (i + 1)) ?h = hex_of (take i num) @ [hex_hi (num ! i), hex_lo (num ! i)]"
    using i Suc.prems by (simp add: take_Suc_conv_app_nth)
  then have taken: "take (2 * (i + 1)) ?h = hex_of (take (i + 1) num)"
    using i Suc.prems by (simp add: take_Suc_conv_app_nth hex_of_def)
  have "Num2HexStr_loop num numLen (i + 1) (2 * (i + 1)) ?h =
      hex_of (take numLen num) @ NUL # drop (2 * numLen + 1) ?h"
    by (rule Suc.hyps(1)) (use Suc i taken in simp_all)
  with i show ?case
    by (subst Num2HexStr_loop.simps) simp
qed

lemma hex_digit: "k < 16 \<Longrightarrow> hex_val (hexTable ! k) = k \<and> hexTable ! k \<noteq> NUL"
proof -
  have "list_all (\<lambda>k. hex_val (hexTable ! k) = k \<and> hexTable ! k \<noteq> NUL) [0..<16]"
    by code_simp
  then show "k < 16 \<Longrightarrow> ?thesis" by (simp add: list_all_iff)
qed

lemma of_char_32bit: "of_char c < (4294967296 :: nat)"
  by (rule less_trans [OF nat_of_char_less_256]) simp

lemma unat_char_u32: "unat (char_u32 c) = of_char c"
  using of_char_32bit by (simp add: char_u32_def unsigned_of_nat take_bit_nat_eq_self)

lemma hex_lo_mod: "hex_lo c = hexTable ! (of_char c mod 16)"
proof -
  have "char_u32 c AND CHAR_MASK_LOW_4BITS = take_bit 4 (char_u32 c)"
    by (simp add: scf_const take_bit_eq_mask mask_eq_exp_minus_1)
  then show ?thesis
    using unat_mod [of "char_u32 c" 16]
    by (simp add: hex_lo_def unat_char_u32 take_bit_eq_mod)
qed

lemma hex_hi_div: "hex_hi c = hexTable ! (of_char c div 16)"
proof -
  have small: "take_bit 8 (of_char c :: nat) = of_char c" "take_bit 32 (of_char c :: nat) = of_char c"
    using of_char_32bit by (simp_all add: take_bit_nat_eq_self_iff)
  have "unat (drop_bit 4 (char_u32 c AND 0xf0)) = drop_bit 4 (take_bit 8 (of_char c) AND 0xf0)"
    by (simp add: unsigned_drop_bit_eq unsigned_and_eq unat_char_u32 small)
  also have "\<dots> = drop_bit 4 (take_bit 8 (of_char c))"
    using bit_mask_iff [where 'a = nat and m = 4]
    by (intro bit_eqI) (auto simp: bit_simps mask_eq_exp_minus_1)
  finally show ?thesis
    by (simp add: hex_hi_def scf_const small drop_bit_eq_div)
qed

lemma hex_char:
  "char_of (16 * hex_val (hex_hi c) + hex_val (hex_lo c)) = c"
  "hex_hi c \<noteq> NUL" "hex_lo c \<noteq> NUL"
proof -
  have div: "of_char c div 16 < (16 :: nat)"
    by (simp add: less_mult_imp_div_less)
  have mod: "of_char c mod 16 < (16 :: nat)" by simp
  show "hex_hi c \<noteq> NUL" "hex_lo c \<noteq> NUL"
    using hex_digit [OF div] hex_digit [OF mod] by (simp_all add: hex_hi_div hex_lo_mod)
  have "16 * hex_val (hex_hi c) + hex_val (hex_lo c) = of_char c"
    using hex_digit [OF div] hex_digit [OF mod] by (simp add: hex_hi_div hex_lo_mod)
  then show "char_of (16 * hex_val (hex_hi c) + hex_val (hex_lo c)) = c"
    by simp
qed

lemma unhex_hex_of: "unhex (hex_of s) = s"
  by (induction s) (simp_all add: hex_of_def hex_char)

lemma hex_of_no_NUL: "NUL \<notin> set (hex_of s)"
  by (auto simp: hex_of_def hex_char dest: sym)

lemma unat_times_HEX_NUM_BYTES:
  assumes "numLen < 0x7fffffff"
  shows "unat (numLen * HEX_NUM_BYTES) = 2 * unat numLen"
proof -
  have "unat numLen < 0x7fffffff" using assms by (simp add: word_less_nat_alt)
  then show ?thesis by (simp add: scf_const unat_word_ariths)
qed

text \<open>C12: Printing a byte string that fits (a nonempty number whose two digits per byte and
  terminator fit the stated output size) writes only inside the output buffer, terminates it, and
  the printed digits read back to the original bytes; everything behind the terminator is
  untouched.\<close>

theorem Num2HexStr_roundtrip:
  assumes "0 < numLen" "numLen < 0x7fffffff" "2 * unat numLen < unat hexStrLen"
    and "unat numLen \<le> length num" "unat hexStrLen \<le> length hexStr"
  shows "\<exists>out. Num2HexStr (Some num) numLen (Some hexStr) hexStrLen = (SCF_SUCCESS, Some out) \<and>
     length out = length hexStr \<and> unhex (cstr out) = take (unat numLen) num \<and>
     length (cstr out) = 2 * unat numLen \<and>
     drop (2 * unat numLen + 1) out = drop (2 * unat numLen + 1) hexStr"
proof -
  let ?d = "hex_of (take (unat numLen) num)"
  let ?out = "?d @ NUL # drop (2 * unat numLen + 1) hexStr"
  have nz: "numLen \<noteq> 0" "\<not> 0x7fffffff \<le> numLen" using assms(1,2) by auto
  have ne: "hexStrLen \<noteq> 0" using assms(3) by auto
  have fits: "\<not> hexStrLen \<le> numLen * HEX_NUM_BYTES"
    using assms(2,3) by (simp add: word_le_nat_alt unat_times_HEX_NUM_BYTES)
  have loop: "Num2HexStr_loop num (unat numLen) 0 0 hexStr = ?out"
    using Num2HexStr_loop_correct [of 0 "unat numLen" num hexStr] assms by (simp add: hex_of_def)
  have "Num2HexStr (Some num) numLen (Some hexStr) hexStrLen = (SCF_SUCCESS, Some ?out)"
    using nz ne fits loop by (simp add: Num2HexStr_def)
  moreover have "cstr ?out = ?d" by (rule cstr_append_NUL) (rule hex_of_no_NUL)
  ultimately show ?thesis
    using assms by (intro exI [of _ ?out]) (simp add: unhex_hex_of)
qed

theorem Num2HexStr_roundtrip_witness:
  "\<exists>out. Num2HexStr (Some [CHR 0x7f, CHR 0xa0]) 2 (Some (zero_buf 8)) 8 = (SCF_SUCCESS, Some out) \<and>
     unhex (cstr out) = [CHR 0x7f, CHR 0xa0]"
  using Num2HexStr_roundtrip [of 2 8 "[CHR 0x7f, CHR 0xa0]" "zero_buf 8"] by auto

section \<open>Lower-casing\<close>

definition tolower :: "char \<Rightarrow> char" where
  "tolower c = (let n = of_char c in if 65 \<le> n \<and> n \<le> (90 :: nat) then char_of (n + 32) else c)"

definition ToLower :: "string \<Rightarrow> string" where
  "ToLower value = map tolower value"

lemma tolower_idem [simp]: "tolower (tolower c) = tolower c"
  by (simp add: tolower_def Let_def)

lemma ToLower_idem: "ToLower (ToLower s) = ToLower s"
  by (simp add: ToLower_def)

lemma length_ToLower [simp]: "length (ToLower s) = length s"
  by (simp add: ToLower_def)

section \<open>Paths and files\<close>

record os_api =
  os_access :: "string \<Rightarrow> int \<Rightarrow> int"
  os_realpath :: "string \<Rightarrow> string option"
  os_stat :: "string \<Rightarrow> (u32 \<times> int) option"
  os_read_file :: "string \<Rightarrow> string option"

definition PATH_MAX :: nat where [scf_const]: "PATH_MAX = 4096"
definition S_IFMT :: u32 where [scf_const]: "S_IFMT = 0xF000"
definition S_IFREG :: u32 where [scf_const]: "S_IFREG = 0x8000"
definition R_OK :: int where [scf_const]: "R_OK = 4"

definition Exist :: "os_api \<Rightarrow> string \<Rightarrow> int \<Rightarrow> bool" where
  "Exist os path type \<longleftrightarrow> os_access os (cstr path) type \<noteq> -1"

text \<open>\<^verbatim>\<open>CanonicalPath\<close> updates its argument; \<^verbatim>\<open>None\<close> is the result false, in which case the argument
  is unchanged.\<close>

definition CanonicalPath :: "os_api \<Rightarrow> string \<Rightarrow> string option" where
  "CanonicalPath os path =
     (if path = [] \<or> length path > PATH_MAX then None
      else os_realpath os (cstr path))"

definition CheckFileStat :: "os_api \<Rightarrow> string \<Rightarrow> bool" where
  "CheckFileStat os filePath =
     (case os_stat os (cstr filePath) of
        None \<Rightarrow> False
      | Some (st_mode, st_size) \<Rightarrow>
          if st_mode AND S_IFMT \<noteq> S_IFREG then False
          else if st_size > int MAX_FILE_SIZE \<or> st_size = 0 then False
          else True)"

fun find_last_of :: "char \<Rightarrow> string \<Rightarrow> nat option" where
  "find_last_of c [] = None"
| "find_last_of c (x # s) =
     (case find_last_of c s of
        Some i \<Rightarrow> Some (Suc i)
      | None \<Rightarrow> if x = c then Some 0 else None)"

definition GetFolderPath :: "string \<Rightarrow> string option" where
  "GetFolderPath filePath =
     (case find_last_of CHR ''/'' filePath of
        None \<Rightarrow> None
      | Some pos \<Rightarrow> Some (take pos filePath))"

definition GetFileName :: "string \<Rightarrow> string option" where
  "GetFileName filePath =
     (case find_last_of CHR ''/'' filePath of
        None \<Rightarrow> None
      | Some pos \<Rightarrow> Some (drop pos filePath))"

fun starts_with :: "string \<Rightarrow> string \<Rightarrow> bool" where
  "starts_with [] s = True"
| "starts_with (x # p) [] = False"
| "starts_with (x # p) (y # s) = (x = y \<and> starts_with p s)"

fun strstr :: "string \<Rightarrow> string \<Rightarrow> bool" where
  "strstr [] needle = (needle = [])"
| "strstr (x # s) needle = (starts_with needle (x # s) \<or> strstr s needle)"

definition IsAbsolutePath :: "string \<Rightarrow> bool" where
  "IsAbsolutePath filePath =
     (if length filePath = 0 then False
      else if filePath ! 0 \<noteq> CHR ''/'' then False
      else if strstr (cstr filePath) ''/../'' \<or> strstr (cstr filePath) ''/./'' then False
      else True)"

definition CheckFilePath :: "os_api \<Rightarrow> string \<Rightarrow> bool" where
  "CheckFilePath os filePath =
     (if \<not> IsAbsolutePath filePath then False
      else case GetFolderPath filePath of
             None \<Rightarrow> False
           | Some folderPath \<Rightarrow> (case CanonicalPath os folderPath of None \<Rightarrow> False | Some _ \<Rightarrow> True))"

definition SCF_CheckFilePathAndStat :: "os_api \<Rightarrow> string \<Rightarrow> bool" where
  "SCF_CheckFilePathAndStat os filePath =
     (if \<not> CheckFilePath os filePath then False
      else if \<not> CheckFileStat os filePath then False
      else if \<not> Exist os filePath R_OK then False
      else True)"

definition ReadFileContent :: "os_api \<Rightarrow> string \<Rightarrow> string \<Rightarrow> ret \<times> string" where
  "ReadFileContent os path content =
     (if \<not> SCF_CheckFilePathAndStat os path then (SCF_ERROR, content)
      else case os_read_file os path of
             None \<Rightarrow> (SCF_ERROR, content)
           | Some c \<Rightarrow> (SCF_SUCCESS, c))"

text \<open>A file system on which every path is a short readable regular file, for concrete runs.\<close>

definition plain_os :: os_api where
  "plain_os = \<lparr> os_access = (\<lambda>p m. 0), os_realpath = (\<lambda>p. Some p), os_stat = (\<lambda>p. Some (0x8000, 10)), os_read_file = (\<lambda>p. Some ''x'') \<rparr>"

subsection \<open>Which paths are accepted\<close>

text \<open>Reference view of a path: its components between slashes.\<close>

fun components :: "string \<Rightarrow> string list" where
  "components [] = [[]]"
| "components (c # s) =
     (if c = CHR ''/'' then [] # components s
      else case components s of [] \<Rightarrow> [[c]] | x # xs \<Rightarrow> (c # x) # xs)"

lemma components_ne [simp]: "components s \<noteq> []"
  by (induction s) (auto split: list.split)

lemma starts_with_iff: "starts_with p s \<longleftrightarrow> (\<exists>t. s = p @ t)"
  by (induction p s rule: starts_with.induct) auto

lemma strstr_iff: "strstr s needle \<longleftrightarrow> (\<exists>a b. s = a @ needle @ b)"
proof (induction s)
  case (Cons x s)
  have "(\<exists>a b. x # s = a @ needle @ b) \<longleftrightarrow>
      (\<exists>b. x # s = needle @ b) \<or> (\<exists>a b. s = a @ needle @ b)"
    by (metis (no_types, lifting) append_Cons append_Nil list.inject neq_Nil_conv)
  with Cons show ?case by (simp add: starts_with_iff)
qed simp

lemma components_append:
  "components (a @ CHR ''/'' # b) = components a @ components b"
proof (induction a)
  case (Cons c a)
  then show ?case by (cases "components a") (auto split: list.split)
qed simp

lemma components_plain: "CHR ''/'' \<notin> set c \<Longrightarrow> components c = [c]"
  by (induction c) auto

fun join :: "string list \<Rightarrow> string" where
  "join [] = []"
| "join [x] = x"
| "join (x # y # xs) = x @ CHR ''/'' # join (y # xs)"

lemma join_Cons: "xs \<noteq> [] \<Longrightarrow> join (x # xs) = x @ CHR ''/'' # join xs"
  by (cases xs) auto

lemma join_append: "xs \<noteq> [] \<Longrightarrow> ys \<noteq> [] \<Longrightarrow> join (xs @ ys) = join xs @ CHR ''/'' # join ys"
  by (induction xs rule: join.induct) (auto simp: join_Cons)

lemma join_components: "join (components s) = s"
proof (induction s)
  case (Cons c s)
  obtain x xs where s: "components s = x # xs" by (cases "components s") auto
  then have "join ((c # x) # xs) = c # join (x # xs)" by (cases xs) auto
  with Cons s show ?case by (simp add: join_Cons)
qed simp

lemma inner_component_iff:
  assumes "CHR ''/'' \<notin> set c"
  shows "(\<exists>a b. CHR ''/'' # q = a @ (CHR ''/'' # c @ [CHR ''/'']) @ b) \<longleftrightarrow> c \<in> set (butlast (components q))"
    (is "?l \<longleftrightarrow> ?r")
proof
  assume ?l
  then obtain a b where "CHR ''/'' # q = a @ CHR ''/'' # c @ CHR ''/'' # b" by auto
  then have "[] # components q = components a @ c # components b"
    using components_append [of a "c @ CHR ''/'' # b"] components_append [of c b]
      components_plain [OF assms] by (metis append_Cons append_Nil components.simps(2))
  then have "components q = tl (components a) @ c # components b"
    by (cases "components a") auto
  then show ?r by (simp add: butlast_append)
next
  assume ?r
  then obtain xs ys where bl: "butlast (components q) = xs @ c # ys"
    by (meson split_list)
  have "components q = xs @ c # (ys @ [last (components q)])"
    using bl append_butlast_last_id [OF components_ne, of q] by simp
  then have "join (components (CHR ''/'' # q)) = join (([] # xs) @ ([c] @ (ys @ [last (components q)])))"
    by simp
  then have "CHR ''/'' # q = join ([] # xs) @ CHR ''/'' # c @ CHR ''/'' # join (ys @ [last (components q)])"
    by (subst (asm) join_components, subst (asm) join_append, simp, simp, subst (asm) join_append, simp_all)
  then show ?l by auto
qed

text \<open>A path without NUL is accepted as absolute exactly when it starts with a slash and none of
  its directory components, the ones followed by a slash, is \<^verbatim>\<open>.\<close> or \<^verbatim>\<open>..\<close>.\<close>

theorem IsAbsolutePath_iff:
  assumes "NUL \<notin> set p"
  shows "IsAbsolutePath p \<longleftrightarrow>
    (\<exists>q. p = CHR ''/'' # q \<and> ''.'' \<notin> set (butlast (components q)) \<and> ''..'' \<notin> set (butlast (components q)))"
proof (cases p)
  case (Cons x q)
  have "strstr (CHR ''/'' # q) ''/../'' \<longleftrightarrow> ''..'' \<in> set (butlast (components q))"
    using inner_component_iff [of "''..''" q] by (simp add: strstr_iff)
  moreover have "strstr (CHR ''/'' # q) ''/./'' \<longleftrightarrow> ''.'' \<in> set (butlast (components q))"
    using inner_component_iff [of "''.''" q] by (simp add: strstr_iff)
  moreover have "cstr (x # q) = x # q" using assms Cons cstr_id by blast
  ultimately show ?thesis
    using Cons by (auto simp: IsAbsolutePath_def simp del: strstr.simps)
qed (simp add: IsAbsolutePath_def)


lemma ReadFileContent_ret: "fst (ReadFileContent os path content) \<in> {SCF_SUCCESS, SCF_ERROR}"
  by (auto simp: ReadFileContent_def split: option.split)

section \<open>External encryption hooks\<close>

text \<open>The two registered functions of \<^verbatim>\<open>CryptoUtil\<close>; \<^verbatim>\<open>None\<close> is a null function pointer.  A hook
  gets the content, its length and the output vector and returns its verdict and the vector.\<close>

type_synonym crypt_hook = "string \<Rightarrow> nat \<Rightarrow> string \<Rightarrow> bool \<times> string"

record CryptoUtil =
  decryptFunction :: "crypt_hook option"
  encryptFunction :: "crypt_hook option"

definition SetExternalDecryptFunction :: "crypt_hook option \<Rightarrow> CryptoUtil \<Rightarrow> CryptoUtil" where
  "SetExternalDecryptFunction func cu = cu\<lparr>decryptFunction := func\<rparr>"

definition SetExternalEncryptFunction :: "crypt_hook option \<Rightarrow> CryptoUtil \<Rightarrow> CryptoUtil" where
  "SetExternalEncryptFunction func cu = cu\<lparr>encryptFunction := func\<rparr>"

definition Encrypt :: "CryptoUtil \<Rightarrow> string \<Rightarrow> nat \<Rightarrow> string \<Rightarrow> bool \<times> string" where
  "Encrypt cu content contentLen ciphertext =
     (case encryptFunction cu of
        None \<Rightarrow> (False, ciphertext)
      | Some f \<Rightarrow> f content contentLen ciphertext)"

definition Decrypt :: "CryptoUtil \<Rightarrow> string \<Rightarrow> nat \<Rightarrow> string \<Rightarrow> bool \<times> string" where
  "Decrypt cu content contentLen plaintext =
     (case decryptFunction cu of
        None \<Rightarrow> (False, plaintext)
      | Some f \<Rightarrow> f content contentLen plaintext)"

end
