(* ===== verification/Cert_Ext.thy ===== *)
theory Cert_Ext
  imports Utils "HOL-Library.Countable"
begin

text \<open>
  Reading of certificate data in \<^verbatim>\<open>adaptor/openssl/openssl_adaptor.cpp\<close>: the custom UTF8String
  extensions (\<^verbatim>\<open>GetCertExtensionByOid\<close>, \<^verbatim>\<open>DecodeDerUtf8String\<close>, \<^verbatim>\<open>IsCanonicalDerUtf8String\<close>),
  version, validity times and serial number.

  The libcrypto functions are the fields of the record \<^verbatim>\<open>crypto_api\<close>; objects of the library are
  addresses, certificates are not modified by these calls.  \<^verbatim>\<open>d2i\<close> returns the decoded object and
  how many bytes it consumed.  The locale \<^verbatim>\<open>cert_ext_reader\<close> is what the role-based access control
  relies on, and is interpreted on the adaptor's function for every library.
\<close>

record crypto_api =
  OBJ_txt2obj :: "string \<Rightarrow> int \<Rightarrow> addr option"
  X509_get_ext_by_OBJ :: "addr \<Rightarrow> addr \<Rightarrow> int \<Rightarrow> int"
  X509_get_ext :: "addr \<Rightarrow> int \<Rightarrow> addr option"
  X509_EXTENSION_get_data :: "addr \<Rightarrow> addr option"
  ASN1_STRING_length :: "addr \<Rightarrow> int"
  ASN1_STRING_get0_data :: "addr \<Rightarrow> string option"
  d2i_ASN1_UTF8STRING :: "string \<Rightarrow> int \<Rightarrow> addr option \<times> int"
  i2d_ASN1_UTF8STRING :: "addr \<Rightarrow> int \<times> string option"
  ASN1_STRING_to_UTF8 :: "addr \<Rightarrow> int \<times> string option"
  X509_get_version :: "addr \<Rightarrow> int"
  X509_getm_notBefore :: "addr \<Rightarrow> (string \<times> nat) option"
  X509_getm_notAfter :: "addr \<Rightarrow> (string \<times> nat) option"
  X509_get0_serialNumber :: "addr \<Rightarrow> (string \<times> int) option"

section \<open>Extensions\<close>

definition IsCanonicalDerUtf8String :: "crypto_api \<Rightarrow> addr \<Rightarrow> string \<Rightarrow> int \<Rightarrow> bool" where
  "IsCanonicalDerUtf8String api utf8String encoded encodedLen =
     (let (canonicalLen, canonicalBuffer) = i2d_ASN1_UTF8STRING api utf8String in
      canonicalLen = encodedLen \<and>
      (case canonicalBuffer of
         None \<Rightarrow> False
       | Some buf \<Rightarrow> take (nat encodedLen) buf = take (nat encodedLen) encoded))"

text \<open>The output string \<^verbatim>\<open>value\<close> is only assigned when the converted length is positive.\<close>

definition DecodeDerUtf8String :: "crypto_api \<Rightarrow> string \<Rightarrow> int \<Rightarrow> string \<Rightarrow> ret \<times> string" where
  "DecodeDerUtf8String api encoded encodedLen val =
     (let (decoded, consumed) = d2i_ASN1_UTF8STRING api encoded encodedLen in
      case decoded of
        None \<Rightarrow> (SCF_SSL_ERR_PARSE_CERT, val)
      | Some utf8String \<Rightarrow>
          if consumed \<noteq> encodedLen then (SCF_SSL_ERR_PARSE_CERT, val)
          else if \<not> IsCanonicalDerUtf8String api utf8String encoded encodedLen
          then (SCF_SSL_ERR_PARSE_CERT, val)
          else (let (utf8Len, utf8Buffer) = ASN1_STRING_to_UTF8 api utf8String in
                if utf8Len < 0 \<or> (utf8Len > 0 \<and> utf8Buffer = None) then (SCF_SSL_ERR_PARSE_CERT, val)
                else if utf8Len > 0 then (SCF_SUCCESS, take (nat utf8Len) (the utf8Buffer))
                else (SCF_SUCCESS, val)))"

definition GetCertExtensionByOid :: "crypto_api \<Rightarrow> addr option \<Rightarrow> string option \<Rightarrow> ret \<times> string" where
  "GetCertExtensionByOid api cert oid =
     (case (cert, oid) of
        (Some c, Some o') \<Rightarrow>
          (case OBJ_txt2obj api o' 1 of
             None \<Rightarrow> (SCF_SSL_ERR_PARSE_CERT, '''')
           | Some object \<Rightarrow>
               let index = X509_get_ext_by_OBJ api c object (-1) in
               if index < 0 then (SCF_SSL_ERR_CERT_EXT_ABSENT, '''')
               else
                 let duplicateIndex = X509_get_ext_by_OBJ api c object index in
                 if duplicateIndex \<ge> 0 then (SCF_SSL_ERR_PARSE_CERT, '''')
                 else
                   (case X509_get_ext api c index of
                      None \<Rightarrow> (SCF_SSL_ERR_PARSE_CERT, '''')
                    | Some extension \<Rightarrow>
                        let data = X509_EXTENSION_get_data api extension;
                            dataLen = (case data of None \<Rightarrow> -1 | Some d \<Rightarrow> ASN1_STRING_length api d);
                            dataPtr = (case data of None \<Rightarrow> None | Some d \<Rightarrow> ASN1_STRING_get0_data api d) in
                        (case dataPtr of
                           None \<Rightarrow> (SCF_SSL_ERR_PARSE_CERT, '''')
                         | Some bytes \<Rightarrow>
                             if dataLen \<le> 0 then (SCF_SSL_ERR_PARSE_CERT, '''')
                             else DecodeDerUtf8String api bytes dataLen '''')))
      | _ \<Rightarrow> (SCF_ERRNO_NULL_INPUT, ''''))"

section \<open>Version, validity and serial number\<close>

definition GetCertVersion :: "crypto_api \<Rightarrow> addr option \<Rightarrow> int" where
  "GetCertVersion api cert =
     (case cert of
        None \<Rightarrow> -1
      | Some c \<Rightarrow>
          let version = X509_get_version api c in
          if version < - (2 ^ 31) \<or> version > 2 ^ 31 - 1 then -1 else version)"

text \<open>\<^verbatim>\<open>GetCertStartTime\<close> and \<^verbatim>\<open>GetCertEndTime\<close> share their body apart from the library call.  The
  fresh heap block is an argument: \<^verbatim>\<open>None\<close> when \<^verbatim>\<open>new(std::nothrow)\<close> fails, otherwise its
  (uninitialised) content.\<close>

definition copy_asn1_time ::
  "(string \<Rightarrow> nat \<Rightarrow> string \<Rightarrow> nat \<Rightarrow> int \<times> string) \<Rightarrow> string option \<Rightarrow> (string \<times> nat) option \<Rightarrow> string option" where
  "copy_asn1_time mc fresh timeString =
     (case timeString of
        None \<Rightarrow> None
      | Some (data, len) \<Rightarrow>
          (case fresh of
             None \<Rightarrow> None
           | Some block \<Rightarrow>
               let (r, time) = mc block (MAX_DATETIME_LEN - 1) data len in
               if r \<noteq> 0 then None else Some (time[MAX_DATETIME_LEN - 1 := NUL])))"

definition GetCertStartTime where
  "GetCertStartTime api mc fresh cert =
     (case cert of None \<Rightarrow> None | Some c \<Rightarrow> copy_asn1_time mc fresh (X509_getm_notBefore api c))"

definition GetCertEndTime where
  "GetCertEndTime api mc fresh cert =
     (case cert of None \<Rightarrow> None | Some c \<Rightarrow> copy_asn1_time mc fresh (X509_getm_notAfter api c))"

definition GetCertSerialNumber :: "crypto_api \<Rightarrow> addr option \<Rightarrow> string option \<times> u32" where
  "GetCertSerialNumber api cert =
     (case cert of
        None \<Rightarrow> (None, 0)
      | Some c \<Rightarrow>
          (case X509_get0_serialNumber api c of
             None \<Rightarrow> (None, 0)
           | Some (data, len) \<Rightarrow> (Some data, of_int len)))"

section \<open>The interface the access control uses\<close>

locale cert_ext_reader =
  fixes reader :: "addr option \<Rightarrow> string option \<Rightarrow> ret \<times> string"
  assumes reader_codes:
    "fst (reader cert oid) \<in> {SCF_SUCCESS, SCF_ERRNO_NULL_INPUT, SCF_SSL_ERR_PARSE_CERT, SCF_SSL_ERR_CERT_EXT_ABSENT}"
    and reader_null: "fst (reader None oid) \<noteq> SCF_SUCCESS"
    and reader_fail_empty: "fst (reader cert oid) \<noteq> SCF_SUCCESS \<Longrightarrow> snd (reader cert oid) = ''''"
begin

lemma reader_not_rbac: "drop_bit 8 (fst (reader cert oid)) AND 0xffff \<noteq> 0x30"
  using reader_codes [of cert oid] by (auto simp: errno)

lemma reader_value_success: "snd (reader cert oid) \<noteq> '''' \<Longrightarrow> fst (reader cert oid) = SCF_SUCCESS"
  using reader_fail_empty by blast

end

lemma DecodeDerUtf8String_codes:
  "fst (DecodeDerUtf8String api e n v) \<in> {SCF_SUCCESS, SCF_SSL_ERR_PARSE_CERT}"
  "fst (DecodeDerUtf8String api e n v) \<noteq> SCF_SUCCESS \<Longrightarrow> snd (DecodeDerUtf8String api e n v) = v"
  by (auto simp: DecodeDerUtf8String_def Let_def split: prod.splits option.splits if_splits)

lemma GetCertExtensionByOid_cases:
  "GetCertExtensionByOid api cert oid \<in>
     {(SCF_ERRNO_NULL_INPUT, ''''), (SCF_SSL_ERR_PARSE_CERT, ''''), (SCF_SSL_ERR_CERT_EXT_ABSENT, '''')} \<or>
   (\<exists>bytes n. GetCertExtensionByOid api cert oid = DecodeDerUtf8String api bytes n '''')"
  by (auto simp: GetCertExtensionByOid_def Let_def split: option.splits prod.splits)

interpretation adaptor_ext: cert_ext_reader "GetCertExtensionByOid api" for api
proof
  fix cert oid
  show "fst (GetCertExtensionByOid api cert oid) \<in>
      {SCF_SUCCESS, SCF_ERRNO_NULL_INPUT, SCF_SSL_ERR_PARSE_CERT, SCF_SSL_ERR_CERT_EXT_ABSENT}"
    using GetCertExtensionByOid_cases [of api cert oid] DecodeDerUtf8String_codes(1) by fastforce
  show "fst (GetCertExtensionByOid api None oid) \<noteq> SCF_SUCCESS"
    by (simp add: GetCertExtensionByOid_def errno)
  show "fst (GetCertExtensionByOid api cert oid) \<noteq> SCF_SUCCESS \<Longrightarrow> snd (GetCertExtensionByOid api cert oid) = ''''"
    using GetCertExtensionByOid_cases [of api cert oid] DecodeDerUtf8String_codes(2) by fastforce
qed

section \<open>What is accepted\<close>

text \<open>
  Documented behaviour of the ASN.1 functions, relative to the canonical encoding \<^verbatim>\<open>enc\<close>, the
  content of a decoded object and the set of valid UTF-8 strings: \<^verbatim>\<open>i2d\<close> writes the canonical
  encoding of an object's content, \<^verbatim>\<open>d2i\<close> decodes a canonical encoding completely (it may accept
  other inputs too), the conversion to UTF-8 yields the content exactly when it is valid UTF-8, and
  the length of an octet string is the number of its bytes.
\<close>

definition asn1_lib_ok :: "crypto_api \<Rightarrow> (string \<Rightarrow> string) \<Rightarrow> (addr \<Rightarrow> string) \<Rightarrow> (string \<Rightarrow> bool) \<Rightarrow> bool" where
  "asn1_lib_ok api enc content valid \<longleftrightarrow>
     (\<forall>u. i2d_ASN1_UTF8STRING api u = (int (length (enc (content u))), Some (enc (content u)))) \<and>
     (\<forall>v. \<exists>u. d2i_ASN1_UTF8STRING api (enc v) (int (length (enc v))) = (Some u, int (length (enc v))) \<and> content u = v) \<and>
     (\<forall>u. ASN1_STRING_to_UTF8 api u =
        (if valid (content u) then (int (length (content u)), Some (content u)) else (-1, None))) \<and>
     (\<forall>d bytes. ASN1_STRING_get0_data api d = Some bytes \<longrightarrow> ASN1_STRING_length api d = int (length bytes))"

lemma asn1_lib_okD:
  assumes "asn1_lib_ok api enc content valid"
  shows "i2d_ASN1_UTF8STRING api u = (int (length (enc (content u))), Some (enc (content u)))"
    and "\<exists>u. d2i_ASN1_UTF8STRING api (enc v) (int (length (enc v))) = (Some u, int (length (enc v))) \<and> content u = v"
    and "ASN1_STRING_to_UTF8 api u =
        (if valid (content u) then (int (length (content u)), Some (content u)) else (-1, None))"
    and "ASN1_STRING_get0_data api d = Some bytes \<Longrightarrow> ASN1_STRING_length api d = int (length bytes)"
  using assms unfolding asn1_lib_ok_def by blast+

lemma IsCanonical_iff:
  assumes "asn1_lib_ok api enc content valid"
  shows "IsCanonicalDerUtf8String api u e (int (length e)) \<longleftrightarrow> e = enc (content u)"
  by (auto simp: IsCanonicalDerUtf8String_def asn1_lib_okD(1) [OF assms])

lemma Decode_accepts_iff:
  assumes ok: "asn1_lib_ok api enc content valid"
  shows "DecodeDerUtf8String api e (int (length e)) '''' = (SCF_SUCCESS, v) \<longleftrightarrow> e = enc v \<and> valid v"
proof -
  have ne: "SCF_SSL_ERR_PARSE_CERT \<noteq> SCF_SUCCESS" by (simp add: errno)
  have *: "DecodeDerUtf8String api e (int (length e)) '''' = (SCF_SUCCESS, v) \<longleftrightarrow>
      (\<exists>u. d2i_ASN1_UTF8STRING api e (int (length e)) = (Some u, int (length e)) \<and>
           e = enc (content u) \<and> valid (content u) \<and> content u = v)"
    using ne ne [symmetric]
    by (auto simp: DecodeDerUtf8String_def IsCanonical_iff [OF ok] asn1_lib_okD(3) [OF ok] Let_def
        split: prod.splits option.splits if_splits)
  show ?thesis
    unfolding * using asn1_lib_okD(2) [OF ok, of v] by (metis prod.inject option.inject)
qed

text \<open>C11: A custom certificate extension yields a value exactly when its OID resolves, the certificate
  carries exactly one extension with that OID, and the bytes of that extension are the canonical
  DER encoding of a valid UTF-8 string, which is then the value: trailing bytes, non-canonical
  encodings and repeated extensions are all refused.\<close>

theorem GetCertExtensionByOid_accepts_iff:
  assumes "asn1_lib_ok api enc content valid" and "enc v \<noteq> []"
  shows "GetCertExtensionByOid api (Some cert) (Some oid) = (SCF_SUCCESS, v) \<longleftrightarrow>
    (\<exists>object index extension d.
       OBJ_txt2obj api oid 1 = Some object \<and>
       X509_get_ext_by_OBJ api cert object (-1) = index \<and> index \<ge> 0 \<and>
       X509_get_ext_by_OBJ api cert object index < 0 \<and>
       X509_get_ext api cert index = Some extension \<and>
       X509_EXTENSION_get_data api extension = Some d \<and>
       ASN1_STRING_get0_data api d = Some (enc v) \<and> valid v)"
proof -
  have ne: "SCF_SSL_ERR_PARSE_CERT \<noteq> SCF_SUCCESS" "SCF_SSL_ERR_CERT_EXT_ABSENT \<noteq> SCF_SUCCESS"
    by (simp_all add: errno)
  note len = asn1_lib_okD(4) [OF assms(1)]
  show ?thesis
    using ne assms(2)
    by (auto simp: GetCertExtensionByOid_def Let_def len Decode_accepts_iff [OF assms(1)]
        split: option.splits if_splits)
qed

text \<open>A small library that satisfies the hypotheses: the node identifier extension at index 3 in
  the DER short form, no role extension; decoded objects are numbers that stand for their content.\<close>

definition enc_short :: "string \<Rightarrow> string" where
  "enc_short v = CHR 0x0C # char_of (length v) # v"

definition d2i_short :: "string \<Rightarrow> int \<Rightarrow> addr option \<times> int" where
  "d2i_short e n =
     (case e of t # l # v \<Rightarrow> if t = CHR 0x0C \<and> l = char_of (length v) then (Some (to_nat v), n) else (None, 0)
      | _ \<Rightarrow> (None, 0))"

definition small_crypto :: "string \<Rightarrow> crypto_api" where
  "small_crypto ext =
     \<lparr> OBJ_txt2obj = (\<lambda>oid _. Some (if oid = SCF_OID_NODE_ID then 1 else 2)),
       X509_get_ext_by_OBJ = (\<lambda>c obj i. if obj = 1 \<and> i < 3 then 3 else -1),
       X509_get_ext = (\<lambda>c i. Some 2),
       X509_EXTENSION_get_data = (\<lambda>e. Some 0),
       ASN1_STRING_length = (\<lambda>d. int (length ext)),
       ASN1_STRING_get0_data = (\<lambda>d. Some ext),
       d2i_ASN1_UTF8STRING = d2i_short,
       i2d_ASN1_UTF8STRING = (\<lambda>u. (int (length (enc_short (from_nat u))), Some (enc_short (from_nat u)))),
       ASN1_STRING_to_UTF8 = (\<lambda>u. (int (length (from_nat u :: string)), Some (from_nat u))),
       X509_get_version = (\<lambda>c. 2),
       X509_getm_notBefore = (\<lambda>c. Some (''260101000000Z'', 13)),
       X509_getm_notAfter = (\<lambda>c. Some (''360101000000Z'', 13)),
       X509_get0_serialNumber = (\<lambda>c. Some (''A'', 1)) \<rparr>"

lemma small_crypto_ok: "asn1_lib_ok (small_crypto ext) enc_short from_nat (\<lambda>_. True)"
  by (auto simp: asn1_lib_ok_def small_crypto_def d2i_short_def enc_short_def)

theorem GetCertExtensionByOid_accepts_iff_witness:
  "GetCertExtensionByOid (small_crypto (enc_short ''node-1'')) (Some 7) (Some SCF_OID_NODE_ID) = (SCF_SUCCESS, ''node-1'')"
  using GetCertExtensionByOid_accepts_iff [OF small_crypto_ok, of "''node-1''" "enc_short ''node-1''" 7 SCF_OID_NODE_ID]
  by (simp add: enc_short_def small_crypto_def)

end
