(* ===== verification/Rbac.thy ===== *)
theory Rbac
  imports Policy_Matcher Cert_Ext
begin

text \<open>
  Role-based access control, \<^verbatim>\<open>scf/policy/auth/rbac/rbac.cpp\<close>: node identity and role from the
  certificate, the node/role mapping of a policy context, custom rules, and the permission check.

  Conventions.  \<^verbatim>\<open>g\<close> holds the process globals, its adaptor being the certificate extension reader.
  \<^verbatim>\<open>mc\<close> is \<^verbatim>\<open>memcpy_s\<close>.  A pointer argument is an option; for an output pointer the option holds the
  old content and the new content is returned.  A flag \<^verbatim>\<open>oom\<close> says that the allocation at that
  place throws \<^verbatim>\<open>std::bad_alloc\<close> (the standard containers are unchanged then).  \<^verbatim>\<open>iter\<close> is the
  iteration order of the unordered map.
\<close>

type_synonym cert_reader = "addr option \<Rightarrow> string option \<Rightarrow> ret \<times> string"
type_synonym memcpy_fun = "string \<Rightarrow> nat \<Rightarrow> string \<Rightarrow> nat \<Rightarrow> int \<times> string"

section \<open>Argument checks\<close>

definition IsValidNodeId :: "string option \<Rightarrow> bool" where
  "IsValidNodeId nodeId =
     (case nodeId of
        None \<Rightarrow> False
      | Some s \<Rightarrow>
          if strcmp_eq s ''*'' then False
          else let len = strnlen s MAX_NODE_ID_LEN in len > 0 \<and> len < MAX_NODE_ID_LEN)"

definition IsValidRole :: "SCF_RBAC_ROLE \<Rightarrow> bool" where
  "IsValidRole role \<longleftrightarrow> role = SCF_RBAC_ROLE_MASTER \<or> role = SCF_RBAC_ROLE_SLAVE"

definition IsValidBitmap :: "u32 \<Rightarrow> u32 \<Rightarrow> bool" where
  "IsValidBitmap bitmap validBitmap \<longleftrightarrow> bitmap \<noteq> 0 \<and> bitmap AND NOT validBitmap = 0"

definition IsValidPolicyEffect :: "SCF_POLICY_EFFECT \<Rightarrow> bool" where
  "IsValidPolicyEffect eff \<longleftrightarrow> eff = SCF_POLICY_EFFECT_ALLOW \<or> eff = SCF_POLICY_EFFECT_DENY"

definition IsSingleResourceType :: "u32 \<Rightarrow> bool" where
  "IsSingleResourceType resourceType \<longleftrightarrow>
     resourceType = SCF_RES_TYPE_FD \<or> resourceType = SCF_RES_TYPE_NUMA \<or> resourceType = SCF_RES_TYPE_ADDR"

definition IsSingleResourceAction :: "SCF_RESOURCE_ACTION \<Rightarrow> bool" where
  "IsSingleResourceAction action \<longleftrightarrow> action = SCF_RES_ACTION_APPLY \<or> action = SCF_RES_ACTION_RELEASE"

definition IsSamePolicyRuleKey :: "SCF_PolicyRule \<Rightarrow> SCF_PolicyRule \<Rightarrow> bool" where
  "IsSamePolicyRuleKey left right \<longleftrightarrow>
     pr_subjectNodeId left = pr_subjectNodeId right \<and> pr_targetNodeId left = pr_targetNodeId right \<and>
     pr_resourceTypeBitmap left = pr_resourceTypeBitmap right \<and> pr_actionBitmap left = pr_actionBitmap right"

section \<open>Identity and role from a certificate\<close>

definition SCF_GetCertNodeId ::
  "cert_reader scf_globals \<Rightarrow> memcpy_fun \<Rightarrow> addr option \<Rightarrow> string option \<Rightarrow> nat \<Rightarrow> nat option
     \<Rightarrow> ret \<times> string option \<times> nat option" where
  "SCF_GetCertNodeId g mc cert nodeIdBuffer bufferLen nodeIdLen =
     (if cert = None \<or> nodeIdBuffer = None \<or> nodeIdLen = None
      then (SCF_ERRNO_NULL_INPUT, nodeIdBuffer, nodeIdLen)
      else if bufferLen = 0 then (SCF_ERRNO_INVALID_PARAM, nodeIdBuffer, nodeIdLen)
      else case CHECK_SCF_INIT_RET g of Some r \<Rightarrow> (r, nodeIdBuffer, nodeIdLen) | None \<Rightarrow>
      case g_adaptor g of None \<Rightarrow> (SCF_ERRNO_INVALID_PARAM, nodeIdBuffer, nodeIdLen) | Some reader \<Rightarrow>
        let (ret, nodeId) = reader cert (Some SCF_OID_NODE_ID) in
        if ret = SCF_SSL_ERR_CERT_EXT_ABSENT then (SCF_ERRNO_CERT_NODE_ID_ABSENT, nodeIdBuffer, nodeIdLen)
        else if ret \<noteq> SCF_SUCCESS then (ret, nodeIdBuffer, nodeIdLen)
        else if NUL \<in> set nodeId \<or> \<not> IsValidNodeId (Some nodeId)
        then (SCF_SSL_ERR_PARSE_CERT, nodeIdBuffer, nodeIdLen)
        else if length nodeId \<ge> bufferLen then (SCF_ERRNO_INVALID_PARAM, nodeIdBuffer, nodeIdLen)
        else let (err, buf) = mc (the nodeIdBuffer) bufferLen nodeId (length nodeId) in
             if err \<noteq> 0 then (SCF_ERRNO_MEM_CPY, Some buf, nodeIdLen)
             else (SCF_SUCCESS, Some (buf[length nodeId := NUL]), Some (length nodeId)))"

definition SCF_GetCertRbacRole ::
  "cert_reader scf_globals \<Rightarrow> addr option \<Rightarrow> SCF_RBAC_ROLE option \<Rightarrow> ret \<times> SCF_RBAC_ROLE option" where
  "SCF_GetCertRbacRole g cert role =
     (if cert = None \<or> role = None then (SCF_ERRNO_NULL_INPUT, role)
      else case CHECK_SCF_INIT_RET g of Some r \<Rightarrow> (r, role) | None \<Rightarrow>
      case g_adaptor g of None \<Rightarrow> (SCF_ERRNO_INVALID_PARAM, role) | Some reader \<Rightarrow>
        let (ret, val) = reader cert (Some SCF_OID_RBAC_ROLE) in
        if ret = SCF_SSL_ERR_CERT_EXT_ABSENT then (SCF_ERRNO_CERT_ROLE_EXT_ABSENT, role)
        else if ret \<noteq> SCF_SUCCESS then (ret, role)
        else let val = ToLower val in
             if val = ''master'' then (SCF_SUCCESS, Some SCF_RBAC_ROLE_MASTER)
             else if val = ''slave'' then (SCF_SUCCESS, Some SCF_RBAC_ROLE_SLAVE)
             else (SCF_SSL_ERR_PARSE_CERT, role))"

section \<open>Node/role mapping\<close>

definition FreezeNodeRoleMapping :: "SCFPolicyCtx option \<Rightarrow> SCFPolicyCtx option" where
  "FreezeNodeRoleMapping ctx =
     (case ctx of None \<Rightarrow> None | Some c \<Rightarrow> Some (c\<lparr>ctx_nodeRoleMapFrozen := True\<rparr>))"

definition GetMappingRole :: "SCFPolicyCtx \<Rightarrow> string option \<Rightarrow> SCF_RBAC_ROLE \<Rightarrow> ret \<times> SCF_RBAC_ROLE" where
  "GetMappingRole ctx nodeId role =
     (if \<not> IsValidNodeId nodeId then (SCF_ERRNO_RBAC_ROLE_UNKNOWN, role)
      else case map_of (ctx_nodeRoleMap ctx) (cstr (the nodeId)) of
             None \<Rightarrow> (SCF_ERRNO_RBAC_ROLE_UNKNOWN, role)
           | Some r \<Rightarrow> (SCF_SUCCESS, r))"

definition SCF_SetNodeRoleMapping ::
  "'a scf_globals \<Rightarrow> bool \<Rightarrow> SCFPolicyCtx option \<Rightarrow> string option \<Rightarrow> SCF_RBAC_ROLE \<Rightarrow> ret \<times> SCFPolicyCtx option" where
  "SCF_SetNodeRoleMapping g oom ctx nodeId role =
     (case (ctx, nodeId) of
        (Some c, Some n) \<Rightarrow>
          if \<not> IsValidNodeId nodeId \<or> \<not> IsValidRole role then (SCF_ERRNO_INVALID_PARAM, ctx)
          else (case CHECK_SCF_INIT_RET g of Some r \<Rightarrow> (r, ctx) | None \<Rightarrow>
            if ctx_nodeRoleMapFrozen c then (SCF_ERRNO_RBAC_MAP_FROZEN, ctx)
            else if map_of (ctx_nodeRoleMap c) (cstr n) = None \<and>
                    length (ctx_nodeRoleMap c) \<ge> MAX_NODE_ROLE_MAP_SIZE
            then (SCF_ERRNO_RBAC_MAP_FULL, ctx)
            else if oom then (SCF_ERRNO_MEM_ALLOC, ctx)
            else (SCF_SUCCESS, Some (c\<lparr>ctx_nodeRoleMap := AList.update (cstr n) role (ctx_nodeRoleMap c)\<rparr>)))
      | _ \<Rightarrow> (SCF_ERRNO_NULL_INPUT, ctx))"

definition SCF_RemoveNodeRoleMapping ::
  "'a scf_globals \<Rightarrow> SCFPolicyCtx option \<Rightarrow> string option \<Rightarrow> ret \<times> SCFPolicyCtx option" where
  "SCF_RemoveNodeRoleMapping g ctx nodeId =
     (case (ctx, nodeId) of
        (Some c, Some n) \<Rightarrow>
          if \<not> IsValidNodeId nodeId then (SCF_ERRNO_INVALID_PARAM, ctx)
          else (case CHECK_SCF_INIT_RET g of Some r \<Rightarrow> (r, ctx) | None \<Rightarrow>
            if ctx_nodeRoleMapFrozen c then (SCF_ERRNO_RBAC_MAP_FROZEN, ctx)
            else if map_of (ctx_nodeRoleMap c) (cstr n) = None then (SCF_ERRNO_RBAC_MAP_NOT_FOUND, ctx)
            else (SCF_SUCCESS, Some (c\<lparr>ctx_nodeRoleMap := AList.delete (cstr n) (ctx_nodeRoleMap c)\<rparr>)))
      | _ \<Rightarrow> (SCF_ERRNO_NULL_INPUT, ctx))"

definition SCF_GetNodeRbacRole ::
  "cert_reader scf_globals \<Rightarrow> memcpy_fun \<Rightarrow> SCFPolicyCtx option \<Rightarrow> addr option \<Rightarrow> string option
     \<Rightarrow> SCF_RBAC_ROLE option \<Rightarrow> SCF_RBAC_ROLE_SOURCE option
     \<Rightarrow> ret \<times> SCF_RBAC_ROLE option \<times> SCF_RBAC_ROLE_SOURCE option" where
  "SCF_GetNodeRbacRole g mc ctx cert nodeId role src =
     (if ctx = None \<or> (cert = None \<and> nodeId = None) \<or> role = None \<or> src = None
      then (SCF_ERRNO_NULL_INPUT, role, src)
      else if nodeId \<noteq> None \<and> \<not> IsValidNodeId nodeId then (SCF_ERRNO_INVALID_PARAM, role, src)
      else case CHECK_SCF_INIT_RET g of Some r \<Rightarrow> (r, role, src) | None \<Rightarrow>
        let role = SCF_RBAC_ROLE_UNKNOWN; src = SCF_RBAC_ROLE_SRC_NONE;
            from_mapping = (\<lambda>mappingNodeId.
              let (r, role') = GetMappingRole (the ctx) mappingNodeId role in
              if r \<noteq> SCF_SUCCESS then (SCF_ERRNO_RBAC_ROLE_UNKNOWN, Some role', Some src)
              else (SCF_SUCCESS, Some role', Some SCF_RBAC_ROLE_SRC_MAPPING)) in
        if cert = None then from_mapping nodeId
        else
          let (certRoleRet, certRole) = SCF_GetCertRbacRole g cert (Some SCF_RBAC_ROLE_UNKNOWN) in
          if certRoleRet \<noteq> SCF_SUCCESS \<and> certRoleRet \<noteq> SCF_ERRNO_CERT_ROLE_EXT_ABSENT
          then (certRoleRet, Some role, Some src)
          else
            let (certNodeIdRet, certNodeId, certNodeIdLen) =
                  SCF_GetCertNodeId g mc cert (Some (zero_buf MAX_NODE_ID_LEN)) MAX_NODE_ID_LEN (Some 0) in
            if certNodeIdRet \<noteq> SCF_SUCCESS \<and> certNodeIdRet \<noteq> SCF_ERRNO_CERT_NODE_ID_ABSENT
            then (certNodeIdRet, Some role, Some src)
            else if certRoleRet = SCF_SUCCESS then (SCF_SUCCESS, certRole, Some SCF_RBAC_ROLE_SRC_CERT)
            else from_mapping (if certNodeIdRet = SCF_SUCCESS then certNodeId else nodeId))"

definition SCF_EnableRbac :: "'a scf_globals \<Rightarrow> SCFPolicyCtx option \<Rightarrow> bool \<Rightarrow> ret \<times> SCFPolicyCtx option" where
  "SCF_EnableRbac g ctx enable =
     (case ctx of
        None \<Rightarrow> (SCF_ERRNO_NULL_INPUT, ctx)
      | Some c \<Rightarrow>
          (case CHECK_SCF_INIT_RET g of Some r \<Rightarrow> (r, ctx) | None \<Rightarrow>
             (SCF_SUCCESS, Some (c\<lparr>ctx_rbacEnabled := enable\<rparr>))))"

fun ListMasterNodes_loop ::
  "memcpy_fun \<Rightarrow> (string \<times> SCF_RBAC_ROLE) list \<Rightarrow> u32 \<Rightarrow> string list \<Rightarrow> u32 \<Rightarrow> ret \<times> string list \<times> u32" where
  "ListMasterNodes_loop mc [] listCap nodeIdList actualCount = (SCF_SUCCESS, nodeIdList, actualCount)"
| "ListMasterNodes_loop mc ((key, role) # rest) listCap nodeIdList actualCount =
     (if actualCount = listCap then (SCF_SUCCESS, nodeIdList, actualCount)
      else if role \<noteq> SCF_RBAC_ROLE_MASTER then ListMasterNodes_loop mc rest listCap nodeIdList actualCount
      else
        let i = unat actualCount;
            (err, row) = mc (nodeIdList ! i) MAX_NODE_ID_LEN key (length key) in
        if err \<noteq> 0 then (SCF_ERRNO_MEM_CPY, nodeIdList[i := row], actualCount)
        else ListMasterNodes_loop mc rest listCap (nodeIdList[i := row[length key := NUL]]) (actualCount + 1))"

definition SCF_ListMasterNodes ::
  "'a scf_globals \<Rightarrow> memcpy_fun \<Rightarrow> ((string \<times> SCF_RBAC_ROLE) list \<Rightarrow> (string \<times> SCF_RBAC_ROLE) list)
     \<Rightarrow> SCFPolicyCtx option \<Rightarrow> string list option \<Rightarrow> u32 \<Rightarrow> u32 option \<Rightarrow> ret \<times> string list option \<times> u32 option" where
  "SCF_ListMasterNodes g mc iter ctx nodeIdList listCap actualCount =
     (case (ctx, nodeIdList, actualCount) of
        (Some c, Some rows, Some _) \<Rightarrow>
          if listCap = 0 then (SCF_ERRNO_INVALID_PARAM, nodeIdList, actualCount)
          else (case CHECK_SCF_INIT_RET g of Some r \<Rightarrow> (r, nodeIdList, actualCount) | None \<Rightarrow>
            let (r, rows', n) = ListMasterNodes_loop mc (iter (ctx_nodeRoleMap c)) listCap rows 0 in
            (r, Some rows', Some n))
      | _ \<Rightarrow> (SCF_ERRNO_NULL_INPUT, nodeIdList, actualCount))"

definition SCF_IsMasterNode ::
  "'a scf_globals \<Rightarrow> SCFPolicyCtx option \<Rightarrow> string option \<Rightarrow> bool option \<Rightarrow> ret \<times> bool option" where
  "SCF_IsMasterNode g ctx nodeId isMaster =
     (case (ctx, nodeId, isMaster) of
        (Some c, Some n, Some _) \<Rightarrow>
          if \<not> IsValidNodeId nodeId then (SCF_ERRNO_INVALID_PARAM, isMaster)
          else (case CHECK_SCF_INIT_RET g of Some r \<Rightarrow> (r, isMaster) | None \<Rightarrow>
            case map_of (ctx_nodeRoleMap c) (cstr n) of
              None \<Rightarrow> (SCF_ERRNO_RBAC_MAP_NOT_FOUND, Some False)
            | Some r \<Rightarrow> (SCF_SUCCESS, Some (r = SCF_RBAC_ROLE_MASTER)))
      | _ \<Rightarrow> (SCF_ERRNO_NULL_INPUT, isMaster))"

section \<open>Custom rules\<close>

text \<open>\<^verbatim>\<open>None\<close> is \<^verbatim>\<open>std::bad_alloc\<close> leaving the function; the context is unchanged then.\<close>

definition InsertPolicyRule ::
  "bool \<Rightarrow> SCFPolicyCtx \<Rightarrow> SCF_PolicyRule \<Rightarrow> (ret \<times> SCFPolicyCtx \<times> SCF_PolicyRule) option" where
  "InsertPolicyRule oom ctx rule =
     (if list_ex (\<lambda>(i, r). IsSamePolicyRuleKey r rule) (ctx_policyRuleMap ctx)
      then Some (SCF_ERRNO_RBAC_POLICY_DUPLICATE, ctx, rule)
      else if length (ctx_policyRuleMap ctx) \<ge> MAX_POLICY_RULE_SIZE \<or> ctx_nextPolicyRuleId ctx = 0
      then Some (SCF_ERRNO_RBAC_POLICY_FULL, ctx, rule)
      else
        let rule = rule\<lparr>pr_ruleId := ctx_nextPolicyRuleId ctx\<rparr> in
        if oom then None
        else
          let (m, inserted) = sm_emplace (pr_ruleId rule) rule (ctx_policyRuleMap ctx) in
          if \<not> inserted then Some (SCF_ERRNO_RBAC_POLICY_FULL, ctx, rule)
          else Some (SCF_SUCCESS,
                 ctx\<lparr>ctx_policyRuleMap := m,
                     ctx_nextPolicyRuleId :=
                       (if ctx_nextPolicyRuleId ctx = 0xffffffff then 0 else ctx_nextPolicyRuleId ctx + 1)\<rparr>,
                 rule))"

definition SCF_AddPolicyRule ::
  "'a scf_globals \<Rightarrow> bool \<Rightarrow> bool \<Rightarrow> SCFPolicyCtx option \<Rightarrow> string option \<Rightarrow> string option \<Rightarrow> u32 \<Rightarrow> u32
     \<Rightarrow> SCF_POLICY_EFFECT \<Rightarrow> u32 option \<Rightarrow> ret \<times> SCFPolicyCtx option \<times> u32 option" where
  "SCF_AddPolicyRule g oom_rule oom_map ctx subjectNodeId targetNodeId resourceTypeBitmap actionBitmap eff ruleId =
     (if ctx = None \<or> subjectNodeId = None \<or> targetNodeId = None \<or> ruleId = None
      then (SCF_ERRNO_NULL_INPUT, ctx, ruleId)
      else if \<not> IsValidNodeId subjectNodeId \<or>
              \<not> (IsValidNodeId targetNodeId \<or> strcmp_eq (the targetNodeId) ''*'') \<or>
              \<not> IsValidBitmap resourceTypeBitmap SCF_RES_TYPE_ALL \<or>
              \<not> IsValidBitmap actionBitmap (action_u32 SCF_RES_ACTION_APPLY OR action_u32 SCF_RES_ACTION_RELEASE) \<or>
              \<not> IsValidPolicyEffect eff
      then (SCF_ERRNO_RBAC_POLICY_INVALID, ctx, ruleId)
      else case CHECK_SCF_INIT_RET g of Some r \<Rightarrow> (r, ctx, ruleId) | None \<Rightarrow>
        if oom_rule then (SCF_ERRNO_MEM_ALLOC, ctx, ruleId)
        else
          let rule = \<lparr> pr_ruleId = 0, pr_subjectNodeId = cstr (the subjectNodeId),
                       pr_targetNodeId = cstr (the targetNodeId),
                       pr_resourceTypeBitmap = resourceTypeBitmap, pr_actionBitmap = actionBitmap,
                       pr_effect = eff \<rparr> in
          case InsertPolicyRule oom_map (the ctx) rule of
            None \<Rightarrow> (SCF_ERRNO_MEM_ALLOC, ctx, ruleId)
          | Some (ret, c, rule') \<Rightarrow>
              if ret \<noteq> SCF_SUCCESS then (ret, Some c, ruleId)
              else (SCF_SUCCESS, Some c, Some (pr_ruleId rule')))"

definition SCF_RemovePolicyRule :: "'a scf_globals \<Rightarrow> SCFPolicyCtx option \<Rightarrow> u32 \<Rightarrow> ret \<times> SCFPolicyCtx option" where
  "SCF_RemovePolicyRule g ctx ruleId =
     (case ctx of
        None \<Rightarrow> (SCF_ERRNO_NULL_INPUT, ctx)
      | Some c \<Rightarrow>
          if ruleId = 0 then (SCF_ERRNO_INVALID_PARAM, ctx)
          else (case CHECK_SCF_INIT_RET g of Some r \<Rightarrow> (r, ctx) | None \<Rightarrow>
            case map_of (ctx_policyRuleMap c) ruleId of
              None \<Rightarrow> (SCF_ERRNO_RBAC_POLICY_NOT_FOUND, ctx)
            | Some _ \<Rightarrow> (SCF_SUCCESS, Some (c\<lparr>ctx_policyRuleMap := sm_erase ruleId (ctx_policyRuleMap c)\<rparr>))))"

text \<open>The copy of the \<^verbatim>\<open>n\<close>-th listed rule may fail with \<^verbatim>\<open>std::bad_alloc\<close>, as \<^verbatim>\<open>oom n\<close> says.\<close>

fun ListPolicyRules_loop ::
  "(u32 \<Rightarrow> bool) \<Rightarrow> (u32 \<times> SCF_PolicyRule) list \<Rightarrow> u32 \<Rightarrow> SCF_PolicyRule list \<Rightarrow> u32 \<Rightarrow> ret \<times> SCF_PolicyRule list \<times> u32" where
  "ListPolicyRules_loop oom [] ruleCap rules actualCount = (SCF_SUCCESS, rules, actualCount)"
| "ListPolicyRules_loop oom ((i, rule) # rest) ruleCap rules actualCount =
     (if actualCount = ruleCap then (SCF_SUCCESS, rules, actualCount)
      else if oom actualCount then (SCF_ERRNO_MEM_ALLOC, rules, actualCount)
      else ListPolicyRules_loop oom rest ruleCap (rules[unat actualCount := rule]) (actualCount + 1))"

definition SCF_ListPolicyRules ::
  "'a scf_globals \<Rightarrow> (u32 \<Rightarrow> bool) \<Rightarrow> SCFPolicyCtx option \<Rightarrow> SCF_PolicyRule list option \<Rightarrow> u32 \<Rightarrow> u32 option
     \<Rightarrow> ret \<times> SCF_PolicyRule list option \<times> u32 option" where
  "SCF_ListPolicyRules g oom ctx rules ruleCap actualCount =
     (case (ctx, rules, actualCount) of
        (Some c, Some rs, Some _) \<Rightarrow>
          if ruleCap = 0 then (SCF_ERRNO_INVALID_PARAM, rules, actualCount)
          else (case CHECK_SCF_INIT_RET g of Some r \<Rightarrow> (r, rules, actualCount) | None \<Rightarrow>
            let (r, rs', n) = ListPolicyRules_loop oom (ctx_policyRuleMap c) ruleCap rs 0 in
            (r, Some rs', Some n))
      | _ \<Rightarrow> (SCF_ERRNO_NULL_INPUT, rules, actualCount))"

section \<open>The permission check\<close>

definition ResolveLocalIdentity ::
  "cert_reader scf_globals \<Rightarrow> memcpy_fun \<Rightarrow> SCFPolicyCtx \<Rightarrow> addr option \<Rightarrow> string \<Rightarrow> nat \<Rightarrow> SCF_RBAC_ROLE
     \<Rightarrow> ret \<times> string \<times> SCF_RBAC_ROLE" where
  "ResolveLocalIdentity g mc ctx localCert localNodeId localNodeIdSize role =
     (let (ret, buf, len) = SCF_GetCertNodeId g mc localCert (Some localNodeId) localNodeIdSize (Some 0) in
      if ret \<noteq> SCF_SUCCESS then (ret, the buf, role)
      else
        let (ret, role', source) =
              SCF_GetNodeRbacRole g mc (Some ctx) localCert None (Some role) (Some SCF_RBAC_ROLE_SRC_NONE) in
        (ret, the buf, the role'))"

definition GetCustomPolicyEffect ::
  "SCFPolicyCtx \<Rightarrow> PolicyMatchRequest \<Rightarrow> SCF_POLICY_EFFECT \<Rightarrow> bool \<times> SCF_POLICY_EFFECT option" where
  "GetCustomPolicyEffect ctx request eff = MatchPolicyRule (ctx_policyRuleMap ctx) request (Some eff)"

definition CheckDefaultResourcePermission :: "SCF_RBAC_ROLE \<Rightarrow> string \<Rightarrow> string \<Rightarrow> ret" where
  "CheckDefaultResourcePermission role localNodeId targetNodeId =
     (if role = SCF_RBAC_ROLE_MASTER then SCF_SUCCESS
      else if role = SCF_RBAC_ROLE_SLAVE \<and> strcmp_eq localNodeId targetNodeId then SCF_SUCCESS
      else if role = SCF_RBAC_ROLE_SLAVE then SCF_ERRNO_RBAC_DENIED
      else SCF_ERRNO_RBAC_ROLE_UNKNOWN)"

definition SCF_CheckResourcePermission ::
  "cert_reader scf_globals \<Rightarrow> memcpy_fun \<Rightarrow> SCFPolicyCtx option \<Rightarrow> addr option \<Rightarrow> string option \<Rightarrow> u32
     \<Rightarrow> SCF_RESOURCE_ACTION \<Rightarrow> ret" where
  "SCF_CheckResourcePermission g mc ctx localCert targetNodeId resourceType action =
     (if ctx = None \<or> localCert = None \<or> targetNodeId = None then SCF_ERRNO_NULL_INPUT
      else if \<not> IsValidNodeId targetNodeId \<or> \<not> IsSingleResourceType resourceType \<or> \<not> IsSingleResourceAction action
      then SCF_ERRNO_INVALID_PARAM
      else case CHECK_SCF_INIT_RET g of Some r \<Rightarrow> r | None \<Rightarrow>
        if \<not> ctx_rbacEnabled (the ctx) then SCF_ERRNO_RBAC_DISABLED
        else
          let (ret, localNodeId, role) =
                ResolveLocalIdentity g mc (the ctx) localCert (zero_buf MAX_NODE_ID_LEN) MAX_NODE_ID_LEN
                  SCF_RBAC_ROLE_UNKNOWN in
          if ret \<noteq> SCF_SUCCESS then ret
          else
            let request = \<lparr> rq_subjectNodeId = localNodeId, rq_targetNodeId = the targetNodeId,
                            rq_resourceType = resourceType, rq_action = action \<rparr>;
                (found, eff) = GetCustomPolicyEffect (the ctx) request SCF_POLICY_EFFECT_DENY in
            if found
            then (if eff = Some SCF_POLICY_EFFECT_ALLOW then SCF_SUCCESS else SCF_ERRNO_RBAC_DENIED)
            else CheckDefaultResourcePermission role localNodeId (the targetNodeId))"

end
