(* ===== verification/Rbac_Correct.thy ===== *)
theory Rbac_Correct
  imports Rbac
begin

text \<open>
  Correctness of the role-based access control: what a certificate says about its holder, the
  permission decision against an abstract access matrix, the invariant of the mapping and the rule
  table, and the behaviour of sequences of operations (freezing, rule identifiers).
\<close>

section \<open>Node identifiers\<close>

definition node_id_ok :: "string \<Rightarrow> bool" where
  "node_id_ok v \<longleftrightarrow> v \<noteq> [] \<and> v \<noteq> ''*'' \<and> length v < MAX_NODE_ID_LEN \<and> NUL \<notin> set v"

lemma star_cstr [simp]: "cstr ''*'' = ''*''"
  by (rule cstr_id) (simp add: NUL_def)

lemma IsValidNodeId_iff: "IsValidNodeId (Some s) \<longleftrightarrow> node_id_ok (cstr s)"
  by (auto simp: IsValidNodeId_def node_id_ok_def strcmp_eq_def strnlen_def Let_def scf_const min_def)

lemma IsValidNodeId_None [simp]: "\<not> IsValidNodeId None"
  by (simp add: IsValidNodeId_def)

lemma node_id_checks: "\<not> (NUL \<in> set v \<or> \<not> IsValidNodeId (Some v)) \<longleftrightarrow> node_id_ok v"
  by (auto simp: IsValidNodeId_iff node_id_ok_def cstr_id)

lemma SCF_GetCertNodeId_eq:
  assumes "memcpy_s_ok mc" "g_scfInitialized g" "g_adaptor g = Some rd"
    and "0 < bufferLen" "bufferLen \<le> length buf" "bufferLen \<le> 0x7fffffff"
  shows "SCF_GetCertNodeId g mc (Some cert) (Some buf) bufferLen (Some n) =
    (let (r, v) = rd (Some cert) (Some SCF_OID_NODE_ID) in
     if r = SCF_SSL_ERR_CERT_EXT_ABSENT then (SCF_ERRNO_CERT_NODE_ID_ABSENT, Some buf, Some n)
     else if r \<noteq> SCF_SUCCESS then (r, Some buf, Some n)
     else if \<not> node_id_ok v then (SCF_SSL_ERR_PARSE_CERT, Some buf, Some n)
     else if length v \<ge> bufferLen then (SCF_ERRNO_INVALID_PARAM, Some buf, Some n)
     else (SCF_SUCCESS, Some (v @ NUL # drop (Suc (length v)) buf), Some (length v)))"
proof (cases "rd (Some cert) (Some SCF_OID_NODE_ID)")
  case (Pair r v)
  have copy: "length v < bufferLen \<Longrightarrow> mc buf bufferLen v (length v) = (0, v @ drop (length v) buf)"
    using memcpy_s_okD [OF assms(1,4,5,6), of "length v" v] by simp
  have bufs: "length v < bufferLen \<Longrightarrow>
      (v @ drop (length v) buf)[length v := NUL] = v @ NUL # drop (Suc (length v)) buf"
    using assms(5) by (intro copy_and_terminate) simp
  have bad: "NUL \<in> set v \<or> \<not> IsValidNodeId (Some v) \<longleftrightarrow> \<not> node_id_ok v"
    using node_id_checks by blast
  show ?thesis
    using assms(2-4) unfolding SCF_GetCertNodeId_def
    by (simp add: Pair bad Let_def copy bufs not_le)
qed

text \<open>C9: Reading the node identifier of a certificate never writes outside the caller's buffer: on
  success the buffer starts with the identifier and its terminator, the rest of the buffer is
  untouched, the reported length is the identifier's and the identifier is a valid one; on every
  other outcome the buffer and the length are unchanged.\<close>

theorem SCF_GetCertNodeId_safe:
  assumes "memcpy_s_ok mc" "bufferLen \<le> length buf" "bufferLen \<le> 0x7fffffff"
    and "SCF_GetCertNodeId g mc cert (Some buf) bufferLen (Some n) = (r, out, len)"
  shows "if r = SCF_SUCCESS
    then \<exists>v. out = Some (v @ NUL # drop (Suc (length v)) buf) \<and> len = Some (length v) \<and>
             length v < bufferLen \<and> node_id_ok v
    else out = Some buf \<and> len = Some n"
proof (cases "cert = None \<or> bufferLen = 0 \<or> \<not> g_scfInitialized g \<or> g_adaptor g = None")
  case True
  then show ?thesis
    using assms(4) by (auto simp: SCF_GetCertNodeId_def CHECK_SCF_INIT_RET_def errno split: if_splits)
next
  case False
  then obtain c rd where "cert = Some c" "g_adaptor g = Some rd" "g_scfInitialized g" "0 < bufferLen" by auto
  note eq = SCF_GetCertNodeId_eq [OF assms(1) this(3,2,4) assms(2,3), of c n]
  have codes: "SCF_ERRNO_CERT_NODE_ID_ABSENT \<noteq> SCF_SUCCESS" "SCF_SSL_ERR_PARSE_CERT \<noteq> SCF_SUCCESS"
    "SCF_ERRNO_INVALID_PARAM \<noteq> SCF_SUCCESS"
    by (simp_all add: errno)
  show ?thesis
    using assms(4) eq codes unfolding \<open>cert = Some c\<close>
    by (auto simp: Let_def not_le split: prod.splits if_splits)
qed

section \<open>Who the certificate holder is\<close>

definition role_of_name :: "string \<Rightarrow> SCF_RBAC_ROLE option" where
  "role_of_name w =
     (if ToLower w = ''master'' then Some SCF_RBAC_ROLE_MASTER
      else if ToLower w = ''slave'' then Some SCF_RBAC_ROLE_SLAVE else None)"

text \<open>The identity and the role a certificate gives its holder in a context: the role written in
  the certificate wins, the mapping is consulted only when the certificate has no role.\<close>

definition cert_identity :: "cert_reader \<Rightarrow> SCFPolicyCtx \<Rightarrow> addr \<Rightarrow> (string \<times> SCF_RBAC_ROLE) option" where
  "cert_identity rd ctx cert =
     (let (r, v) = rd (Some cert) (Some SCF_OID_NODE_ID);
          (r', w) = rd (Some cert) (Some SCF_OID_RBAC_ROLE) in
      if r \<noteq> SCF_SUCCESS \<or> \<not> node_id_ok v then None
      else if r' = SCF_SUCCESS then map_option (Pair v) (role_of_name w)
      else if r' = SCF_SSL_ERR_CERT_EXT_ABSENT then map_option (Pair v) (map_of (ctx_nodeRoleMap ctx) v)
      else None)"

lemma SCF_GetCertRbacRole_eq:
  assumes "g_scfInitialized g" "g_adaptor g = Some rd"
  shows "SCF_GetCertRbacRole g (Some cert) (Some role) =
    (let (r, w) = rd (Some cert) (Some SCF_OID_RBAC_ROLE) in
     if r = SCF_SSL_ERR_CERT_EXT_ABSENT then (SCF_ERRNO_CERT_ROLE_EXT_ABSENT, Some role)
     else if r \<noteq> SCF_SUCCESS then (r, Some role)
     else case role_of_name w of None \<Rightarrow> (SCF_SSL_ERR_PARSE_CERT, Some role) | Some x \<Rightarrow> (SCF_SUCCESS, Some x))"
  using assms by (auto simp: SCF_GetCertRbacRole_def role_of_name_def Let_def split: prod.split)

lemma rbac_codes:
  "SCF_ERRNO_CERT_NODE_ID_ABSENT \<noteq> SCF_SUCCESS" "SCF_SSL_ERR_PARSE_CERT \<noteq> SCF_SUCCESS"
  "SCF_ERRNO_INVALID_PARAM \<noteq> SCF_SUCCESS" "SCF_ERRNO_CERT_ROLE_EXT_ABSENT \<noteq> SCF_SUCCESS"
  "SCF_SSL_ERR_CERT_EXT_ABSENT \<noteq> SCF_SUCCESS" "SCF_ERRNO_RBAC_ROLE_UNKNOWN \<noteq> SCF_SUCCESS"
  "SCF_SSL_ERR_PARSE_CERT \<noteq> SCF_ERRNO_CERT_ROLE_EXT_ABSENT" "SCF_ERRNO_RBAC_DENIED \<noteq> SCF_SUCCESS"
  "SCF_ERRNO_NULL_INPUT \<noteq> SCF_SUCCESS" "SCF_ERRNO_NOT_INIT \<noteq> SCF_SUCCESS"
  "SCF_ERRNO_RBAC_DISABLED \<noteq> SCF_SUCCESS" "SCF_ERRNO_MEM_ALLOC \<noteq> SCF_SUCCESS"
  "SCF_ERRNO_RBAC_MAP_FROZEN \<noteq> SCF_SUCCESS" "SCF_ERRNO_RBAC_MAP_FULL \<noteq> SCF_SUCCESS"
  "SCF_ERRNO_RBAC_MAP_NOT_FOUND \<noteq> SCF_SUCCESS" "SCF_ERRNO_RBAC_POLICY_DUPLICATE \<noteq> SCF_SUCCESS"
  "SCF_ERRNO_RBAC_POLICY_FULL \<noteq> SCF_SUCCESS" "SCF_ERRNO_RBAC_POLICY_INVALID \<noteq> SCF_SUCCESS"
  "SCF_ERRNO_RBAC_POLICY_NOT_FOUND \<noteq> SCF_SUCCESS" "SCF_ERRNO_MEM_CPY \<noteq> SCF_SUCCESS"
  "SCF_SSL_ERR_PARSE_CERT \<noteq> SCF_SSL_ERR_CERT_EXT_ABSENT"
  "SCF_ERRNO_CERT_ROLE_EXT_ABSENT \<noteq> SCF_SSL_ERR_CERT_EXT_ABSENT"
  by (simp_all add: errno)

lemmas rbac_code_simps [simp] = rbac_codes rbac_codes [symmetric]

lemma GetMappingRole_eq:
  assumes "node_id_ok v"
  shows "GetMappingRole ctx (Some (v @ NUL # rest)) role =
    (case map_of (ctx_nodeRoleMap ctx) v of
       None \<Rightarrow> (SCF_ERRNO_RBAC_ROLE_UNKNOWN, role) | Some r \<Rightarrow> (SCF_SUCCESS, r))"
  using assms by (simp add: GetMappingRole_def IsValidNodeId_iff cstr_append_NUL node_id_ok_def)

lemma SCF_GetCertNodeId_128:
  assumes "memcpy_s_ok mc" "g_scfInitialized g" "g_adaptor g = Some rd"
    and "rd (Some cert) (Some SCF_OID_NODE_ID) = (r, v)"
  shows "SCF_GetCertNodeId g mc (Some cert) (Some (zero_buf MAX_NODE_ID_LEN)) MAX_NODE_ID_LEN (Some 0) =
    (if r = SCF_SSL_ERR_CERT_EXT_ABSENT
     then (SCF_ERRNO_CERT_NODE_ID_ABSENT, Some (zero_buf MAX_NODE_ID_LEN), Some 0)
     else if r \<noteq> SCF_SUCCESS then (r, Some (zero_buf MAX_NODE_ID_LEN), Some 0)
     else if \<not> node_id_ok v then (SCF_SSL_ERR_PARSE_CERT, Some (zero_buf MAX_NODE_ID_LEN), Some 0)
     else (SCF_SUCCESS, Some (v @ NUL # drop (Suc (length v)) (zero_buf MAX_NODE_ID_LEN)), Some (length v)))"
  by (subst SCF_GetCertNodeId_eq [OF assms(1-3)])
    (use assms(4) in \<open>auto simp: MAX_NODE_ID_LEN_def node_id_ok_def\<close>)

text \<open>The role lookup for a certificate with a node identifier.\<close>

lemma SCF_GetNodeRbacRole_cert:
  assumes "memcpy_s_ok mc" "g_scfInitialized g" "g_adaptor g = Some rd"
    and id: "rd (Some cert) (Some SCF_OID_NODE_ID) = (SCF_SUCCESS, v)" "node_id_ok v"
    and role: "rd (Some cert) (Some SCF_OID_RBAC_ROLE) = (r', w)"
  shows "SCF_GetNodeRbacRole g mc (Some ctx) (Some cert) nodeId (Some ro) (Some so) =
    (if nodeId \<noteq> None \<and> \<not> IsValidNodeId nodeId then (SCF_ERRNO_INVALID_PARAM, Some ro, Some so)
     else if r' = SCF_SUCCESS then
       (case role_of_name w of
          None \<Rightarrow> (SCF_SSL_ERR_PARSE_CERT, Some SCF_RBAC_ROLE_UNKNOWN, Some SCF_RBAC_ROLE_SRC_NONE)
        | Some x \<Rightarrow> (SCF_SUCCESS, Some x, Some SCF_RBAC_ROLE_SRC_CERT))
     else if r' = SCF_SSL_ERR_CERT_EXT_ABSENT \<or> r' = SCF_ERRNO_CERT_ROLE_EXT_ABSENT then
       (case map_of (ctx_nodeRoleMap ctx) v of
          None \<Rightarrow> (SCF_ERRNO_RBAC_ROLE_UNKNOWN, Some SCF_RBAC_ROLE_UNKNOWN, Some SCF_RBAC_ROLE_SRC_NONE)
        | Some x \<Rightarrow> (SCF_SUCCESS, Some x, Some SCF_RBAC_ROLE_SRC_MAPPING))
     else (r', Some SCF_RBAC_ROLE_UNKNOWN, Some SCF_RBAC_ROLE_SRC_NONE))"
proof -
  let ?buf = "v @ NUL # drop (Suc (length v)) (zero_buf MAX_NODE_ID_LEN)"
  have nid: "SCF_GetCertNodeId g mc (Some cert) (Some (zero_buf MAX_NODE_ID_LEN)) MAX_NODE_ID_LEN (Some 0) =
      (SCF_SUCCESS, Some ?buf, Some (length v))"
    using SCF_GetCertNodeId_128 [OF assms(1-3) id(1)] id(2) by simp
  show ?thesis
    using assms(2)
    by (simp add: SCF_GetNodeRbacRole_def nid SCF_GetCertRbacRole_eq [OF assms(2,3)] role Let_def
        GetMappingRole_eq [OF id(2)] split: option.split)
qed

lemma ResolveLocalIdentity_eq:
  assumes "memcpy_s_ok mc" "g_scfInitialized g" "g_adaptor g = Some rd"
    and "ResolveLocalIdentity g mc ctx (Some cert) (zero_buf MAX_NODE_ID_LEN) MAX_NODE_ID_LEN role0 = (ret, buf, role)"
    and absent: "fst (rd (Some cert) (Some SCF_OID_RBAC_ROLE)) \<noteq> SCF_ERRNO_CERT_ROLE_EXT_ABSENT"
  shows "ret = SCF_SUCCESS \<longleftrightarrow> cert_identity rd ctx cert \<noteq> None"
    and "ret = SCF_SUCCESS \<Longrightarrow> cert_identity rd ctx cert = Some (cstr buf, role)"
proof -
  obtain r v where id: "rd (Some cert) (Some SCF_OID_NODE_ID) = (r, v)" by (cases "rd (Some cert) (Some SCF_OID_NODE_ID)")
  obtain r' w where ro: "rd (Some cert) (Some SCF_OID_RBAC_ROLE) = (r', w)" by (cases "rd (Some cert) (Some SCF_OID_RBAC_ROLE)")
  note nid = SCF_GetCertNodeId_128 [OF assms(1-3) id]
  have both: "(ret = SCF_SUCCESS \<longleftrightarrow> cert_identity rd ctx cert \<noteq> None) \<and>
    (ret = SCF_SUCCESS \<longrightarrow> cert_identity rd ctx cert = Some (cstr buf, role))"
  proof (cases "r = SCF_SUCCESS \<and> node_id_ok v")
    case True
    then have v: "NUL \<notin> set v" by (simp add: node_id_ok_def)
    have id': "rd (Some cert) (Some SCF_OID_NODE_ID) = (SCF_SUCCESS, v)" "node_id_ok v"
      using True id by auto
    have "(ret, buf, role) =
        (let (ret, role', source) =
           SCF_GetNodeRbacRole g mc (Some ctx) (Some cert) None (Some role0) (Some SCF_RBAC_ROLE_SRC_NONE) in
         (ret, v @ NUL # drop (Suc (length v)) (zero_buf MAX_NODE_ID_LEN), the role'))"
      unfolding assms(4) [symmetric] ResolveLocalIdentity_def using nid True by simp
    then show ?thesis
      using absent id' v unfolding SCF_GetNodeRbacRole_cert [OF assms(1-3) id' ro]
      by (simp add: cert_identity_def ro cstr_append_NUL split: if_splits option.splits)
  next
    case False
    then show ?thesis
      using assms(4) nid
      by (auto simp: ResolveLocalIdentity_def cert_identity_def id ro Let_def split: if_splits)
  qed
  show "ret = SCF_SUCCESS \<longleftrightarrow> cert_identity rd ctx cert \<noteq> None"
    by (rule both [THEN conjunct1])
  show "ret = SCF_SUCCESS \<Longrightarrow> cert_identity rd ctx cert = Some (cstr buf, role)"
    by (rule both [THEN conjunct2, THEN mp])
qed

section \<open>The permission decision\<close>

text \<open>The access matrix: custom rules first, most specific rule wins, deny wins among equals; without
  a matching rule a master may access every node and a slave only its own.\<close>

definition access_request :: "string \<Rightarrow> string \<Rightarrow> u32 \<Rightarrow> SCF_RESOURCE_ACTION \<Rightarrow> PolicyMatchRequest" where
  "access_request subject target rt act =
     \<lparr> rq_subjectNodeId = subject, rq_targetNodeId = target, rq_resourceType = rt, rq_action = act \<rparr>"

definition access_allowed :: "SCFPolicyCtx \<Rightarrow> string \<Rightarrow> SCF_RBAC_ROLE \<Rightarrow> string \<Rightarrow> u32 \<Rightarrow> SCF_RESOURCE_ACTION \<Rightarrow> bool" where
  "access_allowed ctx subject role target rt act =
     (case decide (ctx_policyRuleMap ctx) (access_request subject target rt act) of
        Some e \<Rightarrow> e = SCF_POLICY_EFFECT_ALLOW
      | None \<Rightarrow> role = SCF_RBAC_ROLE_MASTER \<or> (role = SCF_RBAC_ROLE_SLAVE \<and> subject = target))"

lemma decide_request_cong:
  assumes "cstr (rq_subjectNodeId q) = cstr (rq_subjectNodeId q')" "cstr (rq_targetNodeId q) = cstr (rq_targetNodeId q')"
    "rq_resourceType q = rq_resourceType q'" "rq_action q = rq_action q'"
  shows "decide rules q = decide rules q'"
proof -
  have "IsRuleMatched r q = IsRuleMatched r q'" "GetMatchPriority r q = GetMatchPriority r q'" for r
    using assms by (simp_all add: IsRuleMatched_def GetMatchPriority_def)
  then show ?thesis
    unfolding decide_def top_matching_def matching_def by presburger
qed

definition check_args_ok :: "string \<Rightarrow> u32 \<Rightarrow> SCF_RESOURCE_ACTION \<Rightarrow> bool" where
  "check_args_ok target rt act \<longleftrightarrow> node_id_ok (cstr target) \<and> IsSingleResourceType rt \<and> IsSingleResourceAction act"

text \<open>The part of the check behind the guards.\<close>

lemma SCF_CheckResourcePermission_resolved:
  assumes "g_scfInitialized g" "check_args_ok target rt act" "ctx_rbacEnabled ctx" "wf_effects (ctx_policyRuleMap ctx)"
    and "ResolveLocalIdentity g mc ctx (Some cert) (zero_buf MAX_NODE_ID_LEN) MAX_NODE_ID_LEN SCF_RBAC_ROLE_UNKNOWN = (r, buf, role)"
  shows "SCF_CheckResourcePermission g mc (Some ctx) (Some cert) (Some target) rt act =
    (if r \<noteq> SCF_SUCCESS then r
     else if access_allowed ctx (cstr buf) role (cstr target) rt act then SCF_SUCCESS
     else if decide (ctx_policyRuleMap ctx) (access_request (cstr buf) (cstr target) rt act) = None \<and>
             role \<noteq> SCF_RBAC_ROLE_SLAVE then SCF_ERRNO_RBAC_ROLE_UNKNOWN
     else SCF_ERRNO_RBAC_DENIED)"
proof -
  have d: "decide (ctx_policyRuleMap ctx)
      \<lparr> rq_subjectNodeId = buf, rq_targetNodeId = target, rq_resourceType = rt, rq_action = act \<rparr> =
    decide (ctx_policyRuleMap ctx) (access_request (cstr buf) (cstr target) rt act)"
    by (rule decide_request_cong) (simp_all add: access_request_def)
  show ?thesis
    using assms(1-3)
    by (auto simp: SCF_CheckResourcePermission_def check_args_ok_def IsValidNodeId_iff assms(5)
        GetCustomPolicyEffect_def MatchPolicyRule_decide [OF assms(4)] d access_allowed_def
        CheckDefaultResourcePermission_def strcmp_eq_def split: option.split)
qed

context cert_ext_reader
begin

lemma role_ext_absent_code: "fst (reader cert oid) \<noteq> SCF_ERRNO_CERT_ROLE_EXT_ABSENT"
  using reader_codes [of cert oid] by (auto simp: errno)

lemma resolve_codes:
  assumes "memcpy_s_ok mc" "g_scfInitialized g" "g_adaptor g = Some reader"
    and "ResolveLocalIdentity g mc ctx (Some cert) (zero_buf MAX_NODE_ID_LEN) MAX_NODE_ID_LEN role0 = (r, buf, role)"
  shows "r \<in> {SCF_SUCCESS, SCF_ERRNO_NULL_INPUT, SCF_SSL_ERR_PARSE_CERT, SCF_ERRNO_CERT_NODE_ID_ABSENT,
    SCF_ERRNO_RBAC_ROLE_UNKNOWN}"
proof -
  obtain r1 v where id: "reader (Some cert) (Some SCF_OID_NODE_ID) = (r1, v)"
    by (cases "reader (Some cert) (Some SCF_OID_NODE_ID)")
  obtain r2 w where ro: "reader (Some cert) (Some SCF_OID_RBAC_ROLE) = (r2, w)"
    by (cases "reader (Some cert) (Some SCF_OID_RBAC_ROLE)")
  have r1: "r1 \<in> {SCF_SUCCESS, SCF_ERRNO_NULL_INPUT, SCF_SSL_ERR_PARSE_CERT, SCF_SSL_ERR_CERT_EXT_ABSENT}"
    and r2: "r2 \<in> {SCF_SUCCESS, SCF_ERRNO_NULL_INPUT, SCF_SSL_ERR_PARSE_CERT, SCF_SSL_ERR_CERT_EXT_ABSENT}"
    using reader_codes [of "Some cert" "Some SCF_OID_NODE_ID"] reader_codes [of "Some cert" "Some SCF_OID_RBAC_ROLE"]
    by (simp_all add: id ro)
  note nid = SCF_GetCertNodeId_128 [OF assms(1-3) id]
  show ?thesis
  proof (cases "r1 = SCF_SUCCESS \<and> node_id_ok v")
    case True
    then have id': "reader (Some cert) (Some SCF_OID_NODE_ID) = (SCF_SUCCESS, v)" "node_id_ok v"
      using id by auto
    have "r = fst (SCF_GetNodeRbacRole g mc (Some ctx) (Some cert) None (Some role0) (Some SCF_RBAC_ROLE_SRC_NONE))"
      using assms(4) nid True by (simp add: ResolveLocalIdentity_def split: prod.splits)
    then show ?thesis
      using r2 by (auto simp: SCF_GetNodeRbacRole_cert [OF assms(1-3) id' ro] split: option.splits if_splits)
  next
    case False
    then show ?thesis
      using assms(4) nid r1 by (auto simp: ResolveLocalIdentity_def split: if_splits)
  qed
qed

lemma check_allowed_iff:
  assumes "memcpy_s_ok mc" "wf_effects (ctx_policyRuleMap ctx)" "g_adaptor g = Some reader \<or> g_adaptor g = None"
  shows "SCF_CheckResourcePermission g mc (Some ctx) cert target rt act = SCF_SUCCESS \<longleftrightarrow>
    (\<exists>c t subject role. cert = Some c \<and> target = Some t \<and> check_args_ok t rt act \<and>
       g_scfInitialized g \<and> g_adaptor g = Some reader \<and> ctx_rbacEnabled ctx \<and>
       cert_identity reader ctx c = Some (subject, role) \<and>
       access_allowed ctx subject role (cstr t) rt act)"
proof (cases "\<exists>c t. cert = Some c \<and> target = Some t \<and> check_args_ok t rt act \<and> g_scfInitialized g \<and>
    g_adaptor g = Some reader \<and> ctx_rbacEnabled ctx")
  case False
  show ?thesis
  proof (cases "g_adaptor g = None")
    case True
    then show ?thesis
      by (auto simp: SCF_CheckResourcePermission_def ResolveLocalIdentity_def SCF_GetCertNodeId_def
          CHECK_SCF_INIT_RET_def MAX_NODE_ID_LEN_def)
  next
    case adaptor: False
    then show ?thesis
      using False assms(3)
      by (cases target) (auto simp: SCF_CheckResourcePermission_def CHECK_SCF_INIT_RET_def check_args_ok_def IsValidNodeId_iff)
  qed
next
  case True
  then obtain c t where ct: "cert = Some c" "target = Some t" "check_args_ok t rt act" "g_scfInitialized g"
    "g_adaptor g = Some reader" "ctx_rbacEnabled ctx" by blast
  obtain r buf role where res:
    "ResolveLocalIdentity g mc ctx (Some c) (zero_buf MAX_NODE_ID_LEN) MAX_NODE_ID_LEN SCF_RBAC_ROLE_UNKNOWN = (r, buf, role)"
    by (metis prod_cases3)
  note id = ResolveLocalIdentity_eq [OF assms(1) ct(4,5) res role_ext_absent_code]
  show ?thesis
    using id ct SCF_CheckResourcePermission_resolved [OF ct(4,3,6) assms(2) res]
    by (cases "r = SCF_SUCCESS") auto
qed

lemma check_denied_iff:
  assumes "memcpy_s_ok mc" "wf_effects (ctx_policyRuleMap ctx)" "g_adaptor g = Some reader" "g_scfInitialized g"
    "check_args_ok t rt act" "ctx_rbacEnabled ctx"
  shows "SCF_CheckResourcePermission g mc (Some ctx) (Some c) (Some t) rt act = SCF_ERRNO_RBAC_DENIED \<longleftrightarrow>
    (\<exists>subject role. cert_identity reader ctx c = Some (subject, role) \<and>
       (decide (ctx_policyRuleMap ctx) (access_request subject (cstr t) rt act) = Some SCF_POLICY_EFFECT_DENY \<or>
        decide (ctx_policyRuleMap ctx) (access_request subject (cstr t) rt act) = None \<and>
        role = SCF_RBAC_ROLE_SLAVE \<and> subject \<noteq> cstr t))"
proof -
  obtain r buf role where res:
    "ResolveLocalIdentity g mc ctx (Some c) (zero_buf MAX_NODE_ID_LEN) MAX_NODE_ID_LEN SCF_RBAC_ROLE_UNKNOWN = (r, buf, role)"
    by (metis prod_cases3)
  note id = ResolveLocalIdentity_eq [OF assms(1,4,3) res role_ext_absent_code]
  have r: "r \<noteq> SCF_ERRNO_RBAC_DENIED"
    using resolve_codes [OF assms(1,4,3) res] by (auto simp: errno)
  have u: "SCF_ERRNO_RBAC_ROLE_UNKNOWN \<noteq> SCF_ERRNO_RBAC_DENIED" by (simp add: errno)
  have dec: "decide (ctx_policyRuleMap ctx) q \<in> {None, Some SCF_POLICY_EFFECT_ALLOW, Some SCF_POLICY_EFFECT_DENY}" for q
    by (simp add: decide_def)
  show ?thesis
    using id r u dec [of "access_request (cstr buf) (cstr t) rt act"]
      SCF_CheckResourcePermission_resolved [OF assms(4,5,6,2) res]
    by (cases "r = SCF_SUCCESS") (auto simp: access_allowed_def)
qed

end

section \<open>Invariant of the mapping and of the rule table\<close>

definition map_inv :: "SCFPolicyCtx \<Rightarrow> bool" where
  "map_inv c \<longleftrightarrow>
     um_wf (ctx_nodeRoleMap c) \<and> length (ctx_nodeRoleMap c) \<le> MAX_NODE_ROLE_MAP_SIZE \<and>
     (\<forall>(k, r) \<in> set (ctx_nodeRoleMap c). node_id_ok k \<and> IsValidRole r)"

definition rule_ok :: "u32 \<Rightarrow> SCF_PolicyRule \<Rightarrow> bool" where
  "rule_ok i r \<longleftrightarrow>
     i \<noteq> 0 \<and> pr_ruleId r = i \<and> node_id_ok (pr_subjectNodeId r) \<and>
     (node_id_ok (pr_targetNodeId r) \<or> pr_targetNodeId r = ''*'') \<and>
     IsValidBitmap (pr_resourceTypeBitmap r) SCF_RES_TYPE_ALL \<and> IsValidBitmap (pr_actionBitmap r) 3 \<and>
     IsValidPolicyEffect (pr_effect r)"

definition rules_inv :: "SCFPolicyCtx \<Rightarrow> bool" where
  "rules_inv c \<longleftrightarrow>
     sm_wf (ctx_policyRuleMap c) \<and> length (ctx_policyRuleMap c) \<le> MAX_POLICY_RULE_SIZE \<and>
     (\<forall>(i, r) \<in> set (ctx_policyRuleMap c). rule_ok i r) \<and>
     (\<forall>(i, r) \<in> set (ctx_policyRuleMap c). \<forall>(j, s) \<in> set (ctx_policyRuleMap c). IsSamePolicyRuleKey r s \<longrightarrow> i = j) \<and>
     (ctx_nextPolicyRuleId c \<noteq> 0 \<longrightarrow> (\<forall>(i, r) \<in> set (ctx_policyRuleMap c). i < ctx_nextPolicyRuleId c))"

definition rbac_inv :: "SCFPolicyCtx \<Rightarrow> bool" where
  "rbac_inv c \<longleftrightarrow> map_inv c \<and> rules_inv c"

lemma rules_inv_wf_effects: "rules_inv c \<Longrightarrow> wf_effects (ctx_policyRuleMap c)"
  by (auto simp: rules_inv_def rule_ok_def wf_effects_def list_all_iff IsValidPolicyEffect_def)

subsection \<open>Mapping operations\<close>

lemma set_AList_update: "(k', v') \<in> set (AList.update k v m) \<Longrightarrow> (k', v') = (k, v) \<or> (k', v') \<in> set m"
  by (induction m) (auto split: if_splits)

lemma set_AList_delete: "x \<in> set (AList.delete k m) \<Longrightarrow> x \<in> set m"
  by (simp add: AList.delete_eq)

lemma SCF_SetNodeRoleMapping_cases:
  assumes "SCF_SetNodeRoleMapping g oom (Some c) nodeId role = (r, Some c')"
  obtains (same) "r \<noteq> SCF_SUCCESS" "c' = c"
  | (ok) n where "r = SCF_SUCCESS" "nodeId = Some n" "node_id_ok (cstr n)" "IsValidRole role" "g_scfInitialized g"
      "\<not> ctx_nodeRoleMapFrozen c"
      "map_of (ctx_nodeRoleMap c) (cstr n) \<noteq> None \<or> length (ctx_nodeRoleMap c) < MAX_NODE_ROLE_MAP_SIZE"
      "c' = c\<lparr>ctx_nodeRoleMap := AList.update (cstr n) role (ctx_nodeRoleMap c)\<rparr>"
proof -
  have "(r \<noteq> SCF_SUCCESS \<and> c' = c) \<or>
    (\<exists>n. r = SCF_SUCCESS \<and> nodeId = Some n \<and> node_id_ok (cstr n) \<and> IsValidRole role \<and> g_scfInitialized g \<and>
      \<not> ctx_nodeRoleMapFrozen c \<and>
      (map_of (ctx_nodeRoleMap c) (cstr n) \<noteq> None \<or> length (ctx_nodeRoleMap c) < MAX_NODE_ROLE_MAP_SIZE) \<and>
      c' = c\<lparr>ctx_nodeRoleMap := AList.update (cstr n) role (ctx_nodeRoleMap c)\<rparr>)"
    using assms by (cases nodeId)
      (simp_all add: SCF_SetNodeRoleMapping_def IsValidNodeId_iff CHECK_SCF_INIT_RET_def not_le split: if_splits)
  with that show thesis by blast
qed

lemma SCF_RemoveNodeRoleMapping_cases:
  assumes "SCF_RemoveNodeRoleMapping g (Some c) nodeId = (r, Some c')"
  obtains (same) "r \<noteq> SCF_SUCCESS" "c' = c"
  | (ok) n where "r = SCF_SUCCESS" "nodeId = Some n" "\<not> ctx_nodeRoleMapFrozen c"
      "map_of (ctx_nodeRoleMap c) (cstr n) \<noteq> None"
      "c' = c\<lparr>ctx_nodeRoleMap := AList.delete (cstr n) (ctx_nodeRoleMap c)\<rparr>"
proof -
  have "(r \<noteq> SCF_SUCCESS \<and> c' = c) \<or>
    (\<exists>n. r = SCF_SUCCESS \<and> nodeId = Some n \<and> \<not> ctx_nodeRoleMapFrozen c \<and>
      map_of (ctx_nodeRoleMap c) (cstr n) \<noteq> None \<and>
      c' = c\<lparr>ctx_nodeRoleMap := AList.delete (cstr n) (ctx_nodeRoleMap c)\<rparr>)"
    using assms by (cases nodeId)
      (simp_all add: SCF_RemoveNodeRoleMapping_def CHECK_SCF_INIT_RET_def split: if_splits)
  with that show thesis by blast
qed

lemma map_inv_SetNodeRoleMapping:
  assumes "SCF_SetNodeRoleMapping g oom (Some c) nodeId role = (r, Some c')" "map_inv c"
  shows "map_inv c'"
  using assms(1)
proof (cases rule: SCF_SetNodeRoleMapping_cases)
  case (ok n)
  let ?m = "AList.update (cstr n) role (ctx_nodeRoleMap c)"
  have wf: "um_wf (ctx_nodeRoleMap c)" using assms(2) by (simp add: map_inv_def)
  have "length ?m \<le> MAX_NODE_ROLE_MAP_SIZE"
    using ok(7) assms(2) by (intro um.insert_within_capacity [OF wf]) (auto simp: map_inv_def)
  moreover have "um_wf ?m" by (rule um.wf_insert [OF wf])
  ultimately show ?thesis
    using assms(2) ok by (auto simp: map_inv_def dest!: set_AList_update)
qed (use assms(2) in simp)

lemma map_inv_RemoveNodeRoleMapping:
  assumes "SCF_RemoveNodeRoleMapping g (Some c) nodeId = (r, Some c')" "map_inv c"
  shows "map_inv c'"
  using assms(1)
proof (cases rule: SCF_RemoveNodeRoleMapping_cases)
  case (ok n)
  have wf: "um_wf (ctx_nodeRoleMap c)" using assms(2) by (simp add: map_inv_def)
  show ?thesis
    using assms(2) ok um.wf_erase [OF wf] um.erase_within_capacity [OF wf]
    by (auto simp: map_inv_def dest!: set_AList_delete)
qed (use assms(2) in simp)

subsection \<open>Rule operations\<close>

definition new_rule :: "u32 \<Rightarrow> string \<Rightarrow> string \<Rightarrow> u32 \<Rightarrow> u32 \<Rightarrow> SCF_POLICY_EFFECT \<Rightarrow> SCF_PolicyRule" where
  "new_rule i s t rt act e =
     \<lparr> pr_ruleId = i, pr_subjectNodeId = cstr s, pr_targetNodeId = cstr t,
       pr_resourceTypeBitmap = rt, pr_actionBitmap = act, pr_effect = e \<rparr>"

definition add_args_ok :: "string \<Rightarrow> string \<Rightarrow> u32 \<Rightarrow> u32 \<Rightarrow> SCF_POLICY_EFFECT \<Rightarrow> bool" where
  "add_args_ok s t rt act e \<longleftrightarrow>
     node_id_ok (cstr s) \<and> (node_id_ok (cstr t) \<or> cstr t = ''*'') \<and>
     IsValidBitmap rt SCF_RES_TYPE_ALL \<and> IsValidBitmap act 3 \<and> IsValidPolicyEffect e"

definition next_id :: "u32 \<Rightarrow> u32" where
  "next_id i = (if i = 0xffffffff then 0 else i + 1)"

lemma next_id_plus: "next_id i = i + 1"
  by (simp add: next_id_def)

text \<open>The complete behaviour of adding a rule behind the argument checks; the test whether
  \<^verbatim>\<open>emplace\<close> found the identifier in use cannot fire under the invariant.\<close>

lemma SCF_AddPolicyRule_eq:
  assumes "rules_inv c" "g_scfInitialized g" "add_args_ok s t rt act e"
  shows "SCF_AddPolicyRule g False False (Some c) (Some s) (Some t) rt act e (Some i0) =
    (if \<exists>(i, r) \<in> set (ctx_policyRuleMap c). IsSamePolicyRuleKey r (new_rule 0 s t rt act e)
     then (SCF_ERRNO_RBAC_POLICY_DUPLICATE, Some c, Some i0)
     else if length (ctx_policyRuleMap c) \<ge> MAX_POLICY_RULE_SIZE \<or> ctx_nextPolicyRuleId c = 0
     then (SCF_ERRNO_RBAC_POLICY_FULL, Some c, Some i0)
     else (SCF_SUCCESS,
           Some (c\<lparr>ctx_policyRuleMap := sm_insert (ctx_nextPolicyRuleId c)
                      (new_rule (ctx_nextPolicyRuleId c) s t rt act e) (ctx_policyRuleMap c),
                   ctx_nextPolicyRuleId := next_id (ctx_nextPolicyRuleId c)\<rparr>),
           Some (ctx_nextPolicyRuleId c)))"
proof -
  have args: "IsValidNodeId (Some s)" "IsValidNodeId (Some t) \<or> strcmp_eq t ''*''"
    "IsValidBitmap rt SCF_RES_TYPE_ALL" "IsValidBitmap act (action_u32 SCF_RES_ACTION_APPLY OR action_u32 SCF_RES_ACTION_RELEASE)"
    "IsValidPolicyEffect e"
    using assms(3) by (auto simp: add_args_ok_def IsValidNodeId_iff strcmp_eq_def)
  have fresh: "ctx_nextPolicyRuleId c \<noteq> 0 \<Longrightarrow> map_of (ctx_policyRuleMap c) (ctx_nextPolicyRuleId c) = None"
    using assms(1) by (auto simp: rules_inv_def map_of_eq_None_iff)
  show ?thesis
    using args assms(2) fresh
    by (simp add: SCF_AddPolicyRule_def InsertPolicyRule_def Let_def sm_emplace_def list_ex_iff new_rule_def next_id_def)
qed

lemma InsertPolicyRule_outcome:
  assumes "InsertPolicyRule oom c rule = Some (r, c', rule')"
  shows "(r \<noteq> SCF_SUCCESS \<and> c' = c) \<or>
    (r = SCF_SUCCESS \<and> (\<forall>(i, x) \<in> set (ctx_policyRuleMap c). \<not> IsSamePolicyRuleKey x rule) \<and>
     length (ctx_policyRuleMap c) < MAX_POLICY_RULE_SIZE \<and> ctx_nextPolicyRuleId c \<noteq> 0 \<and>
     map_of (ctx_policyRuleMap c) (ctx_nextPolicyRuleId c) = None \<and>
     rule' = rule\<lparr>pr_ruleId := ctx_nextPolicyRuleId c\<rparr> \<and>
     c' = c\<lparr>ctx_policyRuleMap := sm_insert (ctx_nextPolicyRuleId c) rule' (ctx_policyRuleMap c),
            ctx_nextPolicyRuleId := next_id (ctx_nextPolicyRuleId c)\<rparr>)"
proof (cases "list_ex (\<lambda>(i, x). IsSamePolicyRuleKey x rule) (ctx_policyRuleMap c) \<or>
    length (ctx_policyRuleMap c) \<ge> MAX_POLICY_RULE_SIZE \<or> ctx_nextPolicyRuleId c = 0")
  case True
  then have "r \<noteq> SCF_SUCCESS \<and> c' = c"
    using assms [symmetric] by (simp add: InsertPolicyRule_def split: if_splits)
  then show ?thesis by (rule disjI1)
next
  case False
  then have pre: "(\<forall>(i, x) \<in> set (ctx_policyRuleMap c). \<not> IsSamePolicyRuleKey x rule) \<and>
      length (ctx_policyRuleMap c) < MAX_POLICY_RULE_SIZE \<and> ctx_nextPolicyRuleId c \<noteq> 0"
    by (auto simp: list_ex_iff)
  show ?thesis
  proof (cases "map_of (ctx_policyRuleMap c) (ctx_nextPolicyRuleId c)")
    case None
    then show ?thesis
      using assms [symmetric] False pre
      by (simp add: InsertPolicyRule_def Let_def sm_emplace_def next_id_def split: if_splits)
  next
    case (Some x)
    then have "r \<noteq> SCF_SUCCESS \<and> c' = c"
      using assms [symmetric] False by (simp add: InsertPolicyRule_def Let_def sm_emplace_def split: if_splits)
    then show ?thesis by (rule disjI1)
  qed
qed

lemma SCF_AddPolicyRule_run:
  assumes "add_args_ok s t rt act e" "g_scfInitialized g" "\<not> oom1"
  shows "SCF_AddPolicyRule g oom1 oom2 (Some c) (Some s) (Some t) rt act e (Some i) =
    (case InsertPolicyRule oom2 c (new_rule 0 s t rt act e) of
        None \<Rightarrow> (SCF_ERRNO_MEM_ALLOC, Some c, Some i)
      | Some (ret, c, rule') \<Rightarrow>
          if ret \<noteq> SCF_SUCCESS then (ret, Some c, Some i) else (SCF_SUCCESS, Some c, Some (pr_ruleId rule')))"
  using assms by (simp add: SCF_AddPolicyRule_def add_args_ok_def IsValidNodeId_iff strcmp_eq_def new_rule_def)

lemma SCF_AddPolicyRule_refused:
  assumes "SCF_AddPolicyRule g oom1 oom2 (Some c) s t rt act e i0 = (r, Some c', i1)"
    and "\<not> (\<exists>s' t'. s = Some s' \<and> t = Some t' \<and> i0 \<noteq> None \<and> add_args_ok s' t' rt act e \<and> g_scfInitialized g \<and> \<not> oom1)"
  shows "r \<noteq> SCF_SUCCESS \<and> c' = c \<and> i1 = i0"
  using assms
  by (cases s; cases t; cases i0)
    (simp_all add: SCF_AddPolicyRule_def add_args_ok_def IsValidNodeId_iff strcmp_eq_def CHECK_SCF_INIT_RET_def split: if_splits)

lemma SCF_AddPolicyRule_cases:
  assumes "SCF_AddPolicyRule g oom1 oom2 (Some c) s t rt act e i0 = (r, Some c', i1)"
  obtains (same) "r \<noteq> SCF_SUCCESS" "c' = c" "i1 = i0"
  | (ok) s' t' where "r = SCF_SUCCESS" "s = Some s'" "t = Some t'" "add_args_ok s' t' rt act e"
      "\<forall>(i, x) \<in> set (ctx_policyRuleMap c). \<not> IsSamePolicyRuleKey x (new_rule 0 s' t' rt act e)"
      "length (ctx_policyRuleMap c) < MAX_POLICY_RULE_SIZE" "ctx_nextPolicyRuleId c \<noteq> 0"
      "map_of (ctx_policyRuleMap c) (ctx_nextPolicyRuleId c) = None"
      "c' = c\<lparr>ctx_policyRuleMap := sm_insert (ctx_nextPolicyRuleId c)
                 (new_rule (ctx_nextPolicyRuleId c) s' t' rt act e) (ctx_policyRuleMap c),
              ctx_nextPolicyRuleId := next_id (ctx_nextPolicyRuleId c)\<rparr>"
      "i1 = Some (ctx_nextPolicyRuleId c)"
proof (cases "\<exists>s' t'. s = Some s' \<and> t = Some t' \<and> i0 \<noteq> None \<and> add_args_ok s' t' rt act e \<and> g_scfInitialized g \<and> \<not> oom1")
  case False
  from SCF_AddPolicyRule_refused [OF assms this] show thesis using same by blast
next
  case True
  then obtain s' t' i where args: "s = Some s'" "t = Some t'" "i0 = Some i" "add_args_ok s' t' rt act e" "g_scfInitialized g" "\<not> oom1"
    by blast
  note res = assms [unfolded args(1-3) SCF_AddPolicyRule_run [OF args(4-6)]]
  show thesis
  proof (cases "InsertPolicyRule oom2 c (new_rule 0 s' t' rt act e)")
    case None
    with res show thesis by (intro same) (simp_all add: args(3))
  next
    case (Some x)
    obtain ret c2 rule' where x: "x = (ret, c2, rule')" by (cases x)
    note out = InsertPolicyRule_outcome [OF Some [unfolded x]]
    show thesis
    proof (cases "ret = SCF_SUCCESS")
      case False
      with res out show thesis by (intro same) (simp_all add: Some x args(3))
    next
      case True
      with res have r: "r = SCF_SUCCESS" "c' = c2" "i1 = Some (pr_ruleId rule')" by (simp_all add: Some x)
      with True out show thesis by (intro ok [OF _ args(1,2,4)]) (simp_all add: new_rule_def)
    qed
  qed
qed

lemma SCF_RemovePolicyRule_cases:
  assumes "SCF_RemovePolicyRule g (Some c) i = (r, Some c')"
  obtains (same) "r \<noteq> SCF_SUCCESS" "c' = c"
  | (ok) "r = SCF_SUCCESS" "i \<noteq> 0" "map_of (ctx_policyRuleMap c) i \<noteq> None"
      "c' = c\<lparr>ctx_policyRuleMap := sm_erase i (ctx_policyRuleMap c)\<rparr>"
proof -
  have "(r \<noteq> SCF_SUCCESS \<and> c' = c) \<or>
    (r = SCF_SUCCESS \<and> i \<noteq> 0 \<and> map_of (ctx_policyRuleMap c) i \<noteq> None \<and>
     c' = c\<lparr>ctx_policyRuleMap := sm_erase i (ctx_policyRuleMap c)\<rparr>)"
  proof (cases "i \<noteq> 0 \<and> g_scfInitialized g \<and> map_of (ctx_policyRuleMap c) i \<noteq> None")
    case True
    then show ?thesis
      using assms by (intro disjI2) (auto simp: SCF_RemovePolicyRule_def)
  next
    case False
    then show ?thesis
      using assms [symmetric]
      by (intro disjI1) (auto simp: SCF_RemovePolicyRule_def CHECK_SCF_INIT_RET_def split: if_splits)
  qed
  with that show thesis by blast
qed

lemma IsSamePolicyRuleKey_sym: "IsSamePolicyRuleKey a b \<longleftrightarrow> IsSamePolicyRuleKey b a"
  by (auto simp: IsSamePolicyRuleKey_def)

lemma IsSamePolicyRuleKey_new_rule:
  "IsSamePolicyRuleKey x (new_rule i s t rt act e) \<longleftrightarrow> IsSamePolicyRuleKey x (new_rule 0 s t rt act e)"
  by (simp add: IsSamePolicyRuleKey_def new_rule_def)

lemma rule_ok_new_rule: "add_args_ok s t rt act e \<Longrightarrow> i \<noteq> 0 \<Longrightarrow> rule_ok i (new_rule i s t rt act e)"
  by (auto simp: rule_ok_def new_rule_def add_args_ok_def)

lemma next_id_greater:
  assumes "next_id i \<noteq> 0" "j \<le> i"
  shows "j < next_id i"
proof -
  have "unat (1 + i) = Suc (unat i)"
    using assms(1) by (intro unatSuc) (simp add: next_id_plus add.commute)
  then show ?thesis
    using assms(2) by (simp add: next_id_plus add.commute word_less_nat_alt word_le_nat_alt)
qed

lemma rules_inv_AddPolicyRule:
  assumes "SCF_AddPolicyRule g o1 o2 (Some c) s t rt act e i0 = (r, Some c', i1)" "rules_inv c"
  shows "rules_inv c'"
  using assms(1)
proof (cases rule: SCF_AddPolicyRule_cases)
  case (ok s' t')
  let ?n = "ctx_nextPolicyRuleId c"
  let ?rule = "new_rule ?n s' t' rt act e"
  let ?m = "sm_insert ?n ?rule (ctx_policyRuleMap c)"
  have wf: "sm_wf (ctx_policyRuleMap c)" and len: "length (ctx_policyRuleMap c) \<le> MAX_POLICY_RULE_SIZE"
    and rules: "\<And>i x. (i, x) \<in> set (ctx_policyRuleMap c) \<Longrightarrow> rule_ok i x \<and> i < ?n"
    and keys: "\<And>i x j y. (i, x) \<in> set (ctx_policyRuleMap c) \<Longrightarrow> (j, y) \<in> set (ctx_policyRuleMap c) \<Longrightarrow>
        IsSamePolicyRuleKey x y \<Longrightarrow> i = j"
    using assms(2) ok(7) by (auto simp: rules_inv_def)
  have set: "set ?m = insert (?n, ?rule) (set (ctx_policyRuleMap c))"
    by (rule set_sm_insert_fresh [OF ok(8)])
  have fresh: "\<not> IsSamePolicyRuleKey x ?rule" "\<not> IsSamePolicyRuleKey ?rule x" if "(i, x) \<in> set (ctx_policyRuleMap c)" for i x
    using ok(5) that IsSamePolicyRuleKey_new_rule IsSamePolicyRuleKey_sym by blast+
  have "sm_wf ?m" "length ?m \<le> MAX_POLICY_RULE_SIZE"
    using sm.wf_insert [OF wf] sm.insert_within_capacity [OF wf len] ok(6) by auto
  moreover have "\<forall>(i, x) \<in> set ?m. rule_ok i x"
    unfolding set using rules rule_ok_new_rule [OF ok(4,7)] by auto
  moreover have "\<forall>(i, x) \<in> set ?m. \<forall>(j, y) \<in> set ?m. IsSamePolicyRuleKey x y \<longrightarrow> i = j"
    unfolding set using keys fresh by fast
  moreover have "next_id ?n \<noteq> 0 \<longrightarrow> (\<forall>(i, x) \<in> set ?m. i < next_id ?n)"
    unfolding set using rules next_id_greater by (auto simp: less_imp_le)
  ultimately show ?thesis
    by (simp add: rules_inv_def ok(9))
qed (use assms(2) in simp)

lemma rules_inv_RemovePolicyRule:
  assumes "SCF_RemovePolicyRule g (Some c) i = (r, Some c')" "rules_inv c"
  shows "rules_inv c'"
  using assms(1)
proof (cases rule: SCF_RemovePolicyRule_cases)
  case ok
  have wf: "sm_wf (ctx_policyRuleMap c)" using assms(2) by (simp add: rules_inv_def)
  show ?thesis
    using assms(2) ok sm.wf_erase [OF wf] sm.erase_within_capacity [OF wf]
    by (auto simp: rules_inv_def set_sm_erase)
qed (use assms(2) in simp)

section \<open>Sequences of operations\<close>

text \<open>One call of a context-changing operation of the access control, with arbitrary arguments and
  any outcome.\<close>

inductive rbac_step :: "SCFPolicyCtx \<Rightarrow> SCFPolicyCtx \<Rightarrow> bool" where
  set_map: "SCF_SetNodeRoleMapping (g :: cert_reader scf_globals) oom (Some c) nodeId role = (r, Some c') \<Longrightarrow> rbac_step c c'"
| remove_map: "SCF_RemoveNodeRoleMapping (g :: cert_reader scf_globals) (Some c) nodeId = (r, Some c') \<Longrightarrow> rbac_step c c'"
| freeze: "FreezeNodeRoleMapping (Some c) = Some c' \<Longrightarrow> rbac_step c c'"
| enable: "SCF_EnableRbac (g :: cert_reader scf_globals) (Some c) b = (r, Some c') \<Longrightarrow> rbac_step c c'"
| add_rule: "SCF_AddPolicyRule (g :: cert_reader scf_globals) o1 o2 (Some c) s t rt act e i0 = (r, Some c', i1) \<Longrightarrow> rbac_step c c'"
| remove_rule: "SCF_RemovePolicyRule (g :: cert_reader scf_globals) (Some c) i = (r, Some c') \<Longrightarrow> rbac_step c c'"

inductive_cases rbac_stepE: "rbac_step c c'"

lemma FreezeNodeRoleMapping_Some: "FreezeNodeRoleMapping (Some c) = Some c' \<longleftrightarrow> c' = c\<lparr>ctx_nodeRoleMapFrozen := True\<rparr>"
  by (auto simp: FreezeNodeRoleMapping_def)

lemma SCF_EnableRbac_Some:
  "SCF_EnableRbac g (Some c) b = (r, Some c') \<Longrightarrow> c' = c \<or> c' = c\<lparr>ctx_rbacEnabled := b\<rparr>"
  by (auto simp: SCF_EnableRbac_def CHECK_SCF_INIT_RET_def split: if_splits)

lemma map_inv_frame:
  "map_inv (c\<lparr>ctx_nodeRoleMapFrozen := f\<rparr>) = map_inv c" "map_inv (c\<lparr>ctx_rbacEnabled := f\<rparr>) = map_inv c"
  "map_inv (c\<lparr>ctx_policyRuleMap := m\<rparr>) = map_inv c" "map_inv (c\<lparr>ctx_nextPolicyRuleId := n\<rparr>) = map_inv c"
  by (simp_all add: map_inv_def)

lemma rules_inv_frame:
  "rules_inv (c\<lparr>ctx_nodeRoleMapFrozen := f\<rparr>) = rules_inv c" "rules_inv (c\<lparr>ctx_rbacEnabled := f\<rparr>) = rules_inv c"
  "rules_inv (c\<lparr>ctx_nodeRoleMap := nm\<rparr>) = rules_inv c"
  by (simp_all add: rules_inv_def)

lemma map_ops_rules_inv:
  "SCF_SetNodeRoleMapping g oom (Some c) nodeId role = (r, Some c') \<Longrightarrow> rules_inv c' = rules_inv c"
  "SCF_RemoveNodeRoleMapping g (Some c) nodeId = (r, Some c') \<Longrightarrow> rules_inv c' = rules_inv c"
  by (auto elim!: SCF_SetNodeRoleMapping_cases SCF_RemoveNodeRoleMapping_cases simp: rules_inv_frame)

lemma rule_ops_map_inv:
  "SCF_AddPolicyRule g o1 o2 (Some c) s t rt act e i0 = (r, Some c', i1) \<Longrightarrow> map_inv c' = map_inv c"
  "SCF_RemovePolicyRule g (Some c) i = (r, Some c') \<Longrightarrow> map_inv c' = map_inv c"
  by (auto elim!: SCF_AddPolicyRule_cases SCF_RemovePolicyRule_cases simp: map_inv_frame)

lemma rbac_inv_step:
  assumes "rbac_inv c" "rbac_step c c'"
  shows "rbac_inv c'"
  using assms(2)
proof cases
  case (set_map g oom nodeId role r)
  then show ?thesis
    using assms(1) map_inv_SetNodeRoleMapping map_ops_rules_inv(1) unfolding rbac_inv_def by blast
next
  case (remove_map g nodeId r)
  then show ?thesis
    using assms(1) map_inv_RemoveNodeRoleMapping map_ops_rules_inv(2) unfolding rbac_inv_def by blast
next
  case freeze
  then show ?thesis
    using assms(1) by (simp add: FreezeNodeRoleMapping_Some rbac_inv_def map_inv_frame rules_inv_frame)
next
  case (enable g b r)
  then show ?thesis
    using assms(1) SCF_EnableRbac_Some [OF enable] by (auto simp: rbac_inv_def map_inv_frame rules_inv_frame)
next
  case (add_rule g o1 o2 s t rt act e i0 r i1)
  then show ?thesis
    using assms(1) rules_inv_AddPolicyRule [OF add_rule] rule_ops_map_inv(1) [OF add_rule] unfolding rbac_inv_def by blast
next
  case (remove_rule g i r)
  then show ?thesis
    using assms(1) rules_inv_RemovePolicyRule rule_ops_map_inv(2) unfolding rbac_inv_def by blast
qed

interpretation rbac_sys: invariant_system rbac_step rbac_inv
  by unfold_locales (rule rbac_inv_step)

lemma rbac_inv_fresh: "ctx_nodeRoleMap c = [] \<Longrightarrow> ctx_policyRuleMap c = [] \<Longrightarrow> rbac_inv c"
  by (simp add: rbac_inv_def map_inv_def rules_inv_def um_wf_def)

subsection \<open>Freezing\<close>

definition frozen_with :: "(string \<times> SCF_RBAC_ROLE) list \<Rightarrow> SCFPolicyCtx \<Rightarrow> bool" where
  "frozen_with m c \<longleftrightarrow> ctx_nodeRoleMapFrozen c \<and> ctx_nodeRoleMap c = m"

lemma frozen_with_step: "frozen_with m c \<Longrightarrow> rbac_step c c' \<Longrightarrow> frozen_with m c'"
  by (erule rbac_stepE)
    (auto simp: frozen_with_def FreezeNodeRoleMapping_Some dest: SCF_EnableRbac_Some
      elim!: SCF_SetNodeRoleMapping_cases SCF_RemoveNodeRoleMapping_cases SCF_AddPolicyRule_cases SCF_RemovePolicyRule_cases)

interpretation frozen_sys: invariant_system rbac_step "frozen_with m" for m
  by unfold_locales (rule frozen_with_step)

subsection \<open>Rule identifiers\<close>

text \<open>All identifiers up to \<^verbatim>\<open>i\<close> have been given out.\<close>

definition issued :: "u32 \<Rightarrow> SCFPolicyCtx \<Rightarrow> bool" where
  "issued i c \<longleftrightarrow> ctx_nextPolicyRuleId c = 0 \<or> i < ctx_nextPolicyRuleId c"

lemma next_id_wraps: "i < n \<Longrightarrow> \<not> i < next_id n \<Longrightarrow> next_id n = 0"
  using next_id_greater less_imp_le by blast

lemma issued_step: "issued i c \<Longrightarrow> rbac_step c c' \<Longrightarrow> issued i c'"
  by (erule rbac_stepE)
    (auto simp: issued_def FreezeNodeRoleMapping_Some dest: SCF_EnableRbac_Some
      intro: next_id_wraps
      elim!: SCF_SetNodeRoleMapping_cases SCF_RemoveNodeRoleMapping_cases SCF_AddPolicyRule_cases SCF_RemovePolicyRule_cases)

interpretation issued_sys: invariant_system rbac_step "issued i" for i
  by unfold_locales (rule issued_step)

lemma add_rule_issues:
  assumes "SCF_AddPolicyRule g o1 o2 (Some c) s t rt act e i0 = (SCF_SUCCESS, Some c', Some i)"
  shows "i = ctx_nextPolicyRuleId c" "i \<noteq> 0" "issued i c'"
  using assms
  by (auto elim!: SCF_AddPolicyRule_cases simp: issued_def intro: next_id_greater)

section \<open>Listings\<close>

definition master_ids :: "(string \<times> SCF_RBAC_ROLE) list \<Rightarrow> string list" where
  "master_ids m = map fst (filter (\<lambda>p. snd p = SCF_RBAC_ROLE_MASTER) m)"

lemma u32_Suc: "k < n \<Longrightarrow> unat (k + 1) = Suc (unat k)" for k n :: u32
  using unsigned_less [where 'a = nat, of n] by (simp add: word_less_nat_alt unat_word_ariths)

text \<open>One row written: the identifier and its terminator at the start of a full row.\<close>

lemma ListMasterNodes_row:
  assumes "memcpy_s_ok mc" "node_id_ok key" "length row = MAX_NODE_ID_LEN"
  shows "mc row MAX_NODE_ID_LEN key (length key) = (0, key @ drop (length key) row)"
    "cstr ((key @ drop (length key) row)[length key := NUL]) = key"
    "length ((key @ drop (length key) row)[length key := NUL]) = MAX_NODE_ID_LEN"
proof -
  have key: "length key < 128" "NUL \<notin> set key" using assms(2) by (simp_all add: node_id_ok_def MAX_NODE_ID_LEN_def)
  show "mc row MAX_NODE_ID_LEN key (length key) = (0, key @ drop (length key) row)"
    using memcpy_s_okD [OF assms(1), of MAX_NODE_ID_LEN row "length key" key] key assms(3)
    by (simp add: MAX_NODE_ID_LEN_def)
  have "(key @ drop (length key) row)[length key := NUL] = key @ NUL # drop (Suc (length key)) row"
    using key assms(3) by (intro copy_and_terminate) (simp add: MAX_NODE_ID_LEN_def)
  then show "cstr ((key @ drop (length key) row)[length key := NUL]) = key"
    "length ((key @ drop (length key) row)[length key := NUL]) = MAX_NODE_ID_LEN"
    using key assms(3) by (simp_all add: cstr_append_NUL MAX_NODE_ID_LEN_def)
qed

lemma row_written:
  assumes "i < length rows" "i < cap" "cstr row = key" "n = min cap (Suc i + length ms)"
    and "map cstr (take n rows') = map cstr (take (Suc i) (rows[i := row])) @ take (cap - Suc i) ms"
    and "drop n rows' = drop n (rows[i := row])"
  shows "n = min cap (i + length (key # ms)) \<and> map cstr (take n rows') = map cstr (take i rows) @ take (cap - i) (key # ms) \<and>
    drop n rows' = drop n rows"
proof -
  have "map cstr (take (Suc i) (rows[i := row])) = map cstr (take i rows) @ [key]"
    using assms(1,3) by (simp add: take_Suc_conv_app_nth)
  moreover have "take (cap - i) (key # ms) = key # take (cap - Suc i) ms" using assms(2) by (simp add: take_Cons')
  moreover have "i < n" using assms(2,4) by simp
  ultimately show ?thesis using assms(4-6) by simp
qed

lemma ListMasterNodes_loop_ok:
  assumes "memcpy_s_ok mc" "\<forall>(k, r) \<in> set m. node_id_ok k" "n \<le> listCap" "unat listCap \<le> length rows"
    "\<forall>row \<in> set rows. length row = MAX_NODE_ID_LEN"
    and "ListMasterNodes_loop mc m listCap rows n = (r, rows', n')"
  shows "r = SCF_SUCCESS \<and>
    unat n' = min (unat listCap) (unat n + length (master_ids m)) \<and>
    length rows' = length rows \<and>
    map cstr (take (unat n') rows') =
      map cstr (take (unat n) rows) @ take (unat listCap - unat n) (master_ids m) \<and>
    drop (unat n') rows' = drop (unat n') rows"
  using assms(2-6)
proof (induction m arbitrary: rows n)
  case Nil
  then show ?case by (simp add: master_ids_def word_le_nat_alt)
next
  case (Cons p m)
  obtain key role where p: "p = (key, role)" by (cases p)
  consider (full) "n = listCap" | (skip) "n \<noteq> listCap" "role \<noteq> SCF_RBAC_ROLE_MASTER"
    | (copy) "n \<noteq> listCap" "role = SCF_RBAC_ROLE_MASTER" by blast
  then show ?case
  proof cases
    case full
    then show ?thesis using Cons.prems by (simp add: p)
  next
    case skip
    then have eq: "master_ids (p # m) = master_ids m" by (simp add: master_ids_def p)
    show ?thesis
      unfolding eq using skip Cons.prems by (intro Cons.IH) (auto simp: p)
  next
    case copy
    let ?i = "unat n"
    let ?row = "(key @ drop (length key) (rows ! ?i))[length key := NUL]"
    have lt: "n < listCap" using copy(1) Cons.prems(2) by simp
    then have i: "?i < length rows" "?i < unat listCap" using Cons.prems(3) by (auto simp: word_less_nat_alt)
    have row: "length (rows ! ?i) = MAX_NODE_ID_LEN" using Cons.prems(4) i by simp
    have key: "node_id_ok key" using Cons.prems(1) p by auto
    note R = ListMasterNodes_row [OF assms(1) key row]
    have next': "unat (n + 1) = Suc ?i" by (rule u32_Suc [OF lt])
    have loop: "ListMasterNodes_loop mc m listCap (rows[?i := ?row]) (n + 1) = (r, rows', n')"
      using Cons.prems(5) copy by (simp add: p R(1) Let_def)
    have full: "\<forall>row \<in> set (rows[?i := ?row]). length row = MAX_NODE_ID_LEN"
      using Cons.prems(4) R(3) by (auto dest!: set_update_subset_insert [THEN subsetD])
    have le: "n + 1 \<le> listCap" using i(2) next' by (simp add: word_le_nat_alt)
    have ok: "\<forall>(k, r) \<in> set m. node_id_ok k" and len: "unat listCap \<le> length (rows[?i := ?row])"
      using Cons.prems(1,3) by auto
    have IH: "r = SCF_SUCCESS \<and> unat n' = min (unat listCap) (Suc ?i + length (master_ids m)) \<and>
        length rows' = length rows \<and>
        map cstr (take (unat n') rows') =
          map cstr (take (Suc ?i) (rows[?i := ?row])) @ take (unat listCap - Suc ?i) (master_ids m) \<and>
        drop (unat n') rows' = drop (unat n') (rows[?i := ?row])"
      using Cons.IH [OF ok le len full loop] unfolding next' length_list_update .
    have ids: "master_ids (p # m) = key # master_ids m" by (simp add: master_ids_def p copy(2))
    show ?thesis
      unfolding ids using IH row_written [OF i R(2), of "unat n'" "master_ids m" rows'] by blast
  qed
qed

text \<open>C10: Listing the master nodes succeeds for every well-formed mapping: it writes the identifiers
  of masters only, all of them when the caller's list is large enough and otherwise as many as
  fit, each terminated inside its row, reports their number, and leaves the remaining rows
  untouched, whatever the iteration order of the mapping.\<close>

theorem SCF_ListMasterNodes_correct:
  assumes "memcpy_s_ok mc" "map_inv c" "g_scfInitialized g" "listCap \<noteq> 0" "unat listCap \<le> length rows"
    and "\<forall>row \<in> set rows. length row = MAX_NODE_ID_LEN"
    and iter: "mset (iter (ctx_nodeRoleMap c)) = mset (ctx_nodeRoleMap c)"
  shows "\<exists>rows' n.
     SCF_ListMasterNodes g mc iter (Some c) (Some rows) listCap (Some n0) = (SCF_SUCCESS, Some rows', Some n) \<and>
     unat n = min (unat listCap) (length (master_ids (ctx_nodeRoleMap c))) \<and>
     map cstr (take (unat n) rows') = take (unat listCap) (master_ids (iter (ctx_nodeRoleMap c))) \<and>
     mset (master_ids (iter (ctx_nodeRoleMap c))) = mset (master_ids (ctx_nodeRoleMap c)) \<and>
     drop (unat n) rows' = drop (unat n) rows"
proof -
  obtain r rows' n where loop: "ListMasterNodes_loop mc (iter (ctx_nodeRoleMap c)) listCap rows 0 = (r, rows', n)"
    by (metis prod_cases3)
  have ids: "\<forall>(k, r) \<in> set (iter (ctx_nodeRoleMap c)). node_id_ok k"
    using assms(2) mset_eq_setD [OF iter] by (auto simp: map_inv_def)
  have ms: "mset (master_ids (iter (ctx_nodeRoleMap c))) = mset (master_ids (ctx_nodeRoleMap c))"
    using iter by (simp add: master_ids_def)
  have "SCF_ListMasterNodes g mc iter (Some c) (Some rows) listCap (Some n0) = (r, Some rows', Some n)"
    using assms(3,4) loop by (simp add: SCF_ListMasterNodes_def)
  with ListMasterNodes_loop_ok [OF assms(1) ids _ assms(5,6) loop] ms show ?thesis
    by (auto dest: mset_eq_length)
qed

text \<open>A concrete context and concrete globals for the witnesses.\<close>

definition sample_ctx :: SCFPolicyCtx where
  "sample_ctx =
     \<lparr> ctx_refCnt = 1, ctx_sslConfig = None, ctx_policyMode = SCF_POLICY_HIGH, ctx_verifyMode = 1,
       ctx_role = SCF_ROLE_SERVER, ctx_isSetRole = True, ctx_pskFindSessionCb = None, ctx_pskUseSessionCb = None,
       ctx_isNeedKeyUpdate = False, ctx_keyUpdateTime = 3600, ctx_keyUpdateTraffic = 0, ctx_isNullVersion = False,
       ctx_nodeRoleMap = [(''n1'', SCF_RBAC_ROLE_MASTER), (''n2'', SCF_RBAC_ROLE_SLAVE)],
       ctx_nodeRoleMapFrozen = False, ctx_rbacEnabled = True,
       ctx_policyRuleMap = [(1, sample_rule 1 ''*'' 1 SCF_POLICY_EFFECT_DENY)], ctx_nextPolicyRuleId = 2 \<rparr>"

definition sample_globals :: "string \<Rightarrow> cert_reader scf_globals" where
  "sample_globals node =
     \<lparr> g_scfInitialized = True, g_adaptor = Some (GetCertExtensionByOid (small_crypto (enc_short node))) \<rparr>"

lemma node_id_ok_examples: "node_id_ok ''n1''" "node_id_ok ''n2''"
  by (simp_all add: node_id_ok_def NUL_def MAX_NODE_ID_LEN_def)

lemma sample_ctx_inv: "rbac_inv sample_ctx"
  by (simp add: rbac_inv_def map_inv_def rules_inv_def rule_ok_def sample_ctx_def sample_rule_def um_wf_def sm_wf_def
      node_id_ok_examples IsValidRole_def IsValidBitmap_def IsValidPolicyEffect_def scf_const)

lemma sample_globals_init [simp]: "g_scfInitialized (sample_globals node)"
  by (simp add: sample_globals_def)

lemma sample_map_inv: "map_inv sample_ctx"
  using sample_ctx_inv by (simp add: rbac_inv_def)

theorem SCF_ListMasterNodes_correct_witness:
  "\<exists>rows'. SCF_ListMasterNodes (sample_globals ''n1'') memcpy_s_ref rev (Some sample_ctx)
      (Some [zero_buf 128, zero_buf 128]) 2 (Some 0) = (SCF_SUCCESS, Some rows', Some 1) \<and>
      map cstr (take 1 rows') = [''n1'']"
proof -
  have ids: "master_ids (ctx_nodeRoleMap sample_ctx) = [''n1'']" "master_ids (rev (ctx_nodeRoleMap sample_ctx)) = [''n1'']"
    by (simp_all add: sample_ctx_def master_ids_def)
  obtain rows' n where
    "SCF_ListMasterNodes (sample_globals ''n1'') memcpy_s_ref rev (Some sample_ctx)
      (Some [zero_buf 128, zero_buf 128]) 2 (Some 0) = (SCF_SUCCESS, Some rows', Some n)"
    "unat n = 1" "map cstr (take (unat n) rows') = [''n1'']"
    using SCF_ListMasterNodes_correct [OF memcpy_s_ref_ok sample_map_inv, of "sample_globals ''n1''" 2 "[zero_buf 128, zero_buf 128]" rev 0]
    by (auto simp: ids MAX_NODE_ID_LEN_def)
  moreover have "n = 1" using \<open>unat n = 1\<close> by (metis unat_1 word_unat_eq_iff)
  ultimately show ?thesis by auto
qed

section \<open>Main properties\<close>

lemma rbac_inv_effects: "rbac_inv c \<Longrightarrow> wf_effects (ctx_policyRuleMap c)"
  by (simp add: rbac_inv_def rules_inv_wf_effects)

lemma sample_reader:
  "GetCertExtensionByOid (small_crypto (enc_short ''n1'')) (Some 7) (Some SCF_OID_NODE_ID) = (SCF_SUCCESS, ''n1'')"
  "GetCertExtensionByOid (small_crypto (enc_short ''n1'')) (Some 7) (Some SCF_OID_RBAC_ROLE) = (SCF_SSL_ERR_CERT_EXT_ABSENT, '''')"
  by (simp_all add: GetCertExtensionByOid_def small_crypto_def enc_short_def DecodeDerUtf8String_def d2i_short_def
      IsCanonicalDerUtf8String_def Let_def scf_const)

lemma sample_identity:
  "cert_identity (GetCertExtensionByOid (small_crypto (enc_short ''n1''))) sample_ctx 7 = Some (''n1'', SCF_RBAC_ROLE_MASTER)"
  using sample_reader node_id_ok_examples by (simp add: cert_identity_def sample_ctx_def)

theorem SCF_GetCertNodeId_safe_witness:
  "\<exists>v. SCF_GetCertNodeId (sample_globals ''n1'') memcpy_s_ref (Some 7) (Some (zero_buf 16)) 16 (Some 0) =
     (SCF_SUCCESS, Some (v @ NUL # drop (Suc (length v)) (zero_buf 16)), Some (length v)) \<and> node_id_ok v"
proof -
  obtain r out len where eq:
    "SCF_GetCertNodeId (sample_globals ''n1'') memcpy_s_ref (Some 7) (Some (zero_buf 16)) 16 (Some 0) = (r, out, len)"
    by (metis prod_cases3)
  have "r = SCF_SUCCESS"
    using eq SCF_GetCertNodeId_eq [OF memcpy_s_ref_ok, of "sample_globals ''n1''" _ 16 "zero_buf 16" 7 0]
      sample_reader(1) node_id_ok_examples
    by (simp add: sample_globals_def)
  then show ?thesis
    using eq SCF_GetCertNodeId_safe [OF memcpy_s_ref_ok _ _ eq] by auto
qed

text \<open>C1: Access is granted only, and always, when the library is initialised with an adaptor, access
  control is enabled, the arguments are valid, the certificate yields a node identifier and a
  role, and the access matrix allows that node the action on the target: the check fails closed.\<close>

theorem SCF_CheckResourcePermission_fail_closed:
  assumes "memcpy_s_ok mc" and "rbac_inv ctx"
    and "g_adaptor g = Some (GetCertExtensionByOid api) \<or> g_adaptor g = None"
  shows "SCF_CheckResourcePermission g mc (Some ctx) cert target rt act = SCF_SUCCESS \<longleftrightarrow>
    (\<exists>c t subject role. cert = Some c \<and> target = Some t \<and> check_args_ok t rt act \<and>
       g_scfInitialized g \<and> g_adaptor g = Some (GetCertExtensionByOid api) \<and> ctx_rbacEnabled ctx \<and>
       cert_identity (GetCertExtensionByOid api) ctx c = Some (subject, role) \<and>
       access_allowed ctx subject role (cstr t) rt act)"
  by (rule adaptor_ext.check_allowed_iff [OF assms(1) rbac_inv_effects [OF assms(2)] assms(3)])

lemma sample_args_ok: "check_args_ok ''n2'' 1 SCF_RES_ACTION_APPLY" "check_args_ok ''n2'' 2 SCF_RES_ACTION_APPLY"
  by (simp_all add: check_args_ok_def node_id_ok_def cstr_def NUL_def IsSingleResourceType_def IsSingleResourceAction_def scf_const)

lemma sample_decisions:
  "decide (ctx_policyRuleMap sample_ctx) (access_request ''n1'' ''n2'' 1 SCF_RES_ACTION_APPLY) = Some SCF_POLICY_EFFECT_DENY"
  "decide (ctx_policyRuleMap sample_ctx) (access_request ''n1'' ''n2'' 2 SCF_RES_ACTION_APPLY) = None"
  by (auto simp: decide_def top_matching_def matching_def sample_ctx_def sample_rule_def access_request_def
      IsRuleMatched_def cstr_def NUL_def)

theorem SCF_CheckResourcePermission_fail_closed_witness:
  "SCF_CheckResourcePermission (sample_globals ''n1'') memcpy_s_ref (Some sample_ctx) (Some 7) (Some ''n2'') 2
     SCF_RES_ACTION_APPLY = SCF_SUCCESS"
proof -
  have "access_allowed sample_ctx ''n1'' SCF_RBAC_ROLE_MASTER (cstr ''n2'') 2 SCF_RES_ACTION_APPLY"
    using sample_decisions(2) by (simp add: access_allowed_def cstr_def NUL_def)
  then show ?thesis
    using sample_args_ok(2) sample_identity
      SCF_CheckResourcePermission_fail_closed [OF memcpy_s_ref_ok sample_ctx_inv, of "sample_globals ''n1''"
        "small_crypto (enc_short ''n1'')" "Some 7" "Some ''n2''" 2 SCF_RES_ACTION_APPLY]
    by (simp add: sample_globals_def sample_ctx_def)
qed

text \<open>C2: The denial code is exact: with valid arguments and access control enabled, access is
  reported as denied exactly when the holder is identified and either the custom rules deny, or no
  custom rule matches and a slave asks for another node; failures to read the certificate are
  never reported as a denial.\<close>

theorem SCF_CheckResourcePermission_denied_iff:
  assumes "memcpy_s_ok mc" and "rbac_inv ctx" and "g_adaptor g = Some (GetCertExtensionByOid api)"
    and "g_scfInitialized g" and "check_args_ok t rt act" and "ctx_rbacEnabled ctx"
  shows "SCF_CheckResourcePermission g mc (Some ctx) (Some c) (Some t) rt act = SCF_ERRNO_RBAC_DENIED \<longleftrightarrow>
    (\<exists>subject role. cert_identity (GetCertExtensionByOid api) ctx c = Some (subject, role) \<and>
       (decide (ctx_policyRuleMap ctx) (access_request subject (cstr t) rt act) = Some SCF_POLICY_EFFECT_DENY \<or>
        decide (ctx_policyRuleMap ctx) (access_request subject (cstr t) rt act) = None \<and>
        role = SCF_RBAC_ROLE_SLAVE \<and> subject \<noteq> cstr t))"
  by (rule adaptor_ext.check_denied_iff [OF assms(1) rbac_inv_effects [OF assms(2)] assms(3-6)])

theorem SCF_CheckResourcePermission_denied_iff_witness:
  "SCF_CheckResourcePermission (sample_globals ''n1'') memcpy_s_ref (Some sample_ctx) (Some 7) (Some ''n2'') 1
     SCF_RES_ACTION_APPLY = SCF_ERRNO_RBAC_DENIED"
proof -
  have "cstr ''n2'' = ''n2''" by (simp add: cstr_def NUL_def)
  then show ?thesis
    using sample_args_ok(1) sample_identity sample_decisions(1)
      SCF_CheckResourcePermission_denied_iff [OF memcpy_s_ref_ok sample_ctx_inv, of "sample_globals ''n1''"
        "small_crypto (enc_short ''n1'')" "''n2''" 1 SCF_RES_ACTION_APPLY 7]
    by (simp add: sample_globals_def sample_ctx_def)
qed

text \<open>C4: Every sequence of calls of the context-changing operations keeps the invariant: mapped
  identifiers are valid and distinct, at most 4096 of them; rules are valid, at most 8192, no two
  have the same key, and their identifiers are nonzero, equal to their table key and below the
  next identifier to be given out.\<close>

theorem rbac_reachable_inv:
  assumes "rbac_inv c" and "rbac_step\<^sup>*\<^sup>* c c'"
  shows "rbac_inv c'"
  using assms(2,1) by (rule rbac_sys.inv_steps)

theorem rbac_reachable_inv_witness:
  "rbac_inv (the (snd (SCF_RemovePolicyRule (sample_globals ''n1'') (Some sample_ctx) 1)))"
proof (rule rbac_reachable_inv [OF sample_ctx_inv])
  have "SCF_RemovePolicyRule (sample_globals ''n1'') (Some sample_ctx) 1 = (SCF_SUCCESS, Some (sample_ctx\<lparr>ctx_policyRuleMap := []\<rparr>))"
    by (simp add: SCF_RemovePolicyRule_def sample_ctx_def sm_erase_def)
  then have "rbac_step sample_ctx (the (snd (SCF_RemovePolicyRule (sample_globals ''n1'') (Some sample_ctx) 1)))"
    by (intro rbac_step.remove_rule) simp
  then show "rbac_step\<^sup>*\<^sup>* sample_ctx (the (snd (SCF_RemovePolicyRule (sample_globals ''n1'') (Some sample_ctx) 1)))"
    by (rule r_into_rtranclp)
qed

text \<open>C5: Once the mapping is frozen, no sequence of operations changes it or unfreezes it, and every
  attempt to set or remove a mapping with valid arguments reports that it is frozen.\<close>

theorem frozen_mapping_stable:
  assumes "rbac_step\<^sup>*\<^sup>* (the (FreezeNodeRoleMapping (Some c))) c'"
  shows "ctx_nodeRoleMap c' = ctx_nodeRoleMap c \<and> ctx_nodeRoleMapFrozen c' \<and>
    (g_scfInitialized g \<and> IsValidNodeId (Some n) \<and> IsValidRole role \<longrightarrow>
       SCF_SetNodeRoleMapping g oom (Some c') (Some n) role = (SCF_ERRNO_RBAC_MAP_FROZEN, Some c') \<and>
       SCF_RemoveNodeRoleMapping g (Some c') (Some n) = (SCF_ERRNO_RBAC_MAP_FROZEN, Some c'))"
proof -
  have "frozen_with (ctx_nodeRoleMap c) (the (FreezeNodeRoleMapping (Some c)))"
    by (simp add: frozen_with_def FreezeNodeRoleMapping_def)
  from frozen_sys.inv_steps [OF assms this] show ?thesis
    by (simp add: frozen_with_def SCF_SetNodeRoleMapping_def SCF_RemoveNodeRoleMapping_def)
qed

theorem frozen_mapping_stable_witness:
  "ctx_nodeRoleMap (the (FreezeNodeRoleMapping (Some sample_ctx))) = ctx_nodeRoleMap sample_ctx \<and>
   SCF_SetNodeRoleMapping (sample_globals ''n1'') False (FreezeNodeRoleMapping (Some sample_ctx)) (Some ''n1'') SCF_RBAC_ROLE_SLAVE =
     (SCF_ERRNO_RBAC_MAP_FROZEN, FreezeNodeRoleMapping (Some sample_ctx))"
proof -
  have "IsValidNodeId (Some ''n1'')" "IsValidRole SCF_RBAC_ROLE_SLAVE"
    using node_id_ok_examples by (simp_all add: IsValidNodeId_iff IsValidRole_def cstr_def NUL_def)
  then show ?thesis
    using frozen_mapping_stable [of sample_ctx "the (FreezeNodeRoleMapping (Some sample_ctx))" "sample_globals ''n1''" "''n1''" SCF_RBAC_ROLE_SLAVE False]
    by (simp add: FreezeNodeRoleMapping_def)
qed

text \<open>C6: Rule identifiers are never reused: if a rule was added with identifier i and later, after
  any operations (removals included), another rule is added with identifier j, then i < j; when
  the 32 bit counter is exhausted adding fails instead of wrapping around.\<close>

theorem rule_ids_never_reused:
  assumes "SCF_AddPolicyRule g o1 o2 (Some c) s t rt act e i0 = (SCF_SUCCESS, Some c1, Some i)"
    and "rbac_step\<^sup>*\<^sup>* c1 c2"
    and "SCF_AddPolicyRule g' o1' o2' (Some c2) s' t' rt' act' e' j0 = (SCF_SUCCESS, Some c3, Some j)"
  shows "i < j"
  using issued_sys.inv_steps [OF assms(2) add_rule_issues(3) [OF assms(1)]] add_rule_issues(1,2) [OF assms(3)]
  by (auto simp: issued_def)

lemma sample_add:
  assumes "ctx_policyRuleMap c = []" "ctx_nextPolicyRuleId c = n" "n \<noteq> 0" "n \<noteq> 0xffffffff"
  shows "SCF_AddPolicyRule (sample_globals ''n1'') False False (Some c) (Some ''n1'') (Some ''n2'') 1 1 SCF_POLICY_EFFECT_ALLOW (Some 0) =
    (SCF_SUCCESS, Some (c\<lparr>ctx_policyRuleMap := [(n, new_rule n ''n1'' ''n2'' 1 1 SCF_POLICY_EFFECT_ALLOW)],
       ctx_nextPolicyRuleId := n + 1\<rparr>), Some n)"
proof -
  have "rules_inv c" using assms(1) by (simp add: rules_inv_def)
  moreover have "add_args_ok ''n1'' ''n2'' 1 1 SCF_POLICY_EFFECT_ALLOW"
    using node_id_ok_examples
    by (simp add: add_args_ok_def cstr_def NUL_def IsValidBitmap_def IsValidPolicyEffect_def scf_const)
  ultimately show ?thesis
    using assms by (simp add: SCF_AddPolicyRule_eq MAX_POLICY_RULE_SIZE_def next_id_def)
qed

theorem rule_ids_never_reused_witness:
  "\<exists>c c1 c2 c3. SCF_AddPolicyRule (sample_globals ''n1'') False False (Some c) (Some ''n1'') (Some ''n2'') 1 1
       SCF_POLICY_EFFECT_ALLOW (Some 0) = (SCF_SUCCESS, Some c1, Some 2) \<and>
     rbac_step\<^sup>*\<^sup>* c1 c2 \<and>
     SCF_AddPolicyRule (sample_globals ''n1'') False False (Some c2) (Some ''n1'') (Some ''n2'') 1 1
       SCF_POLICY_EFFECT_ALLOW (Some 0) = (SCF_SUCCESS, Some c3, Some 3) \<and> (2 :: u32) < 3"
proof -
  let ?c = "sample_ctx\<lparr>ctx_policyRuleMap := []\<rparr>"
  let ?rule = "new_rule 2 ''n1'' ''n2'' 1 1 SCF_POLICY_EFFECT_ALLOW"
  let ?c1 = "?c\<lparr>ctx_policyRuleMap := [(2, ?rule)], ctx_nextPolicyRuleId := 3\<rparr>"
  let ?c2 = "?c1\<lparr>ctx_policyRuleMap := []\<rparr>"
  have add1: "SCF_AddPolicyRule (sample_globals ''n1'') False False (Some ?c) (Some ''n1'') (Some ''n2'') 1 1
      SCF_POLICY_EFFECT_ALLOW (Some 0) = (SCF_SUCCESS, Some ?c1, Some 2)"
    using sample_add [of ?c 2] by (simp add: sample_ctx_def)
  have "SCF_RemovePolicyRule (sample_globals ''n1'') (Some ?c1) 2 = (SCF_SUCCESS, Some ?c2)"
    by (simp add: SCF_RemovePolicyRule_def sm_erase_def)
  then have steps: "rbac_step\<^sup>*\<^sup>* ?c1 ?c2" by (intro r_into_rtranclp rbac_step.remove_rule)
  have add2: "SCF_AddPolicyRule (sample_globals ''n1'') False False (Some ?c2) (Some ''n1'') (Some ''n2'') 1 1
      SCF_POLICY_EFFECT_ALLOW (Some 0) =
      (SCF_SUCCESS, Some (?c2\<lparr>ctx_policyRuleMap := [(3, new_rule 3 ''n1'' ''n2'' 1 1 SCF_POLICY_EFFECT_ALLOW)],
        ctx_nextPolicyRuleId := 4\<rparr>), Some 3)"
    using sample_add [of ?c2 3] by simp
  show ?thesis
    using add1 steps add2 rule_ids_never_reused [OF add1 steps add2] by blast
qed



lemma sm_erase_insert_fresh: "map_of m k = None \<Longrightarrow> sm_erase k (sm_insert k v m) = m"
proof (induction k v m rule: sm_insert.induct)
  case (2 k v a b m)
  then have "\<forall>p \<in> set m. fst p \<noteq> k" by (auto simp: map_of_eq_None_iff split: if_splits)
  with 2 show ?case by (auto simp: sm_erase_def split: if_splits)
qed (simp add: sm_erase_def)

text \<open>C8: Removing the rule that was just added restores the rule table exactly; only the identifier
  counter has moved on, and removing it a second time reports that it is not found.\<close>

theorem add_remove_roundtrip:
  assumes "SCF_AddPolicyRule g o1 o2 (Some c) s t rt act e i0 = (SCF_SUCCESS, Some c1, Some i)" "g_scfInitialized g"
  shows "\<exists>c2. SCF_RemovePolicyRule g (Some c1) i = (SCF_SUCCESS, Some c2) \<and>
    c2 = c\<lparr>ctx_nextPolicyRuleId := ctx_nextPolicyRuleId c1\<rparr> \<and>
    SCF_RemovePolicyRule g (Some c2) i = (SCF_ERRNO_RBAC_POLICY_NOT_FOUND, Some c2)"
  using assms(1)
proof (cases rule: SCF_AddPolicyRule_cases)
  case (ok s' t')
  let ?m = "ctx_policyRuleMap c"
  have i: "i = ctx_nextPolicyRuleId c" "i \<noteq> 0" using ok by auto
  let ?m1 = "sm_insert i (new_rule i s' t' rt act e) ?m"
  have c1: "c1 = c\<lparr>ctx_policyRuleMap := ?m1, ctx_nextPolicyRuleId := next_id i\<rparr>" using ok i by simp
  have none: "map_of ?m i = None" using ok i by simp
  have "(i, new_rule i s' t' rt act e) \<in> set ?m1" by (simp add: set_sm_insert_fresh [OF none])
  then have some: "map_of ?m1 i \<noteq> None" using weak_map_of_SomeI by force
  let ?c2 = "c\<lparr>ctx_nextPolicyRuleId := next_id i\<rparr>"
  have "SCF_RemovePolicyRule g (Some c1) i = (SCF_SUCCESS, Some ?c2)"
    using some assms(2) i(2) by (auto simp: SCF_RemovePolicyRule_def c1 sm_erase_insert_fresh [OF none])
  moreover have "SCF_RemovePolicyRule g (Some ?c2) i = (SCF_ERRNO_RBAC_POLICY_NOT_FOUND, Some ?c2)"
    using none assms(2) i(2) by (simp add: SCF_RemovePolicyRule_def)
  ultimately show ?thesis by (simp add: c1)
qed simp

theorem add_remove_roundtrip_witness:
  "\<exists>c1 c2. SCF_AddPolicyRule (sample_globals ''n1'') False False (Some (sample_ctx\<lparr>ctx_policyRuleMap := []\<rparr>)) (Some ''n1'')
       (Some ''n2'') 1 1 SCF_POLICY_EFFECT_ALLOW (Some 0) = (SCF_SUCCESS, Some c1, Some 2) \<and>
     SCF_RemovePolicyRule (sample_globals ''n1'') (Some c1) 2 = (SCF_SUCCESS, Some c2)"
proof -
  have add: "SCF_AddPolicyRule (sample_globals ''n1'') False False (Some (sample_ctx\<lparr>ctx_policyRuleMap := []\<rparr>)) (Some ''n1'')
      (Some ''n2'') 1 1 SCF_POLICY_EFFECT_ALLOW (Some 0) =
      (SCF_SUCCESS, Some (sample_ctx\<lparr>ctx_policyRuleMap := [(2, new_rule 2 ''n1'' ''n2'' 1 1 SCF_POLICY_EFFECT_ALLOW)],
        ctx_nextPolicyRuleId := 3\<rparr>), Some 2)"
    using sample_add [of "sample_ctx\<lparr>ctx_policyRuleMap := []\<rparr>" 2] by (simp add: sample_ctx_def)
  show ?thesis using add add_remove_roundtrip [OF add] by auto
qed

lemma ListPolicyRules_loop_ok:
  assumes "n \<le> ruleCap" "unat ruleCap \<le> length rules" "\<forall>k. \<not> oom k"
    and "ListPolicyRules_loop oom m ruleCap rules n = (r, rules', n')"
  shows "r = SCF_SUCCESS \<and> unat n' = min (unat ruleCap) (unat n + length m) \<and>
    rules' = take (unat n) rules @ take (unat ruleCap - unat n) (map snd m) @ drop (unat n') rules"
  using assms
proof (induction m arbitrary: rules n)
  case (Cons p m)
  obtain i rule where p: "p = (i, rule)" by (cases p)
  show ?case
  proof (cases "n = ruleCap")
    case False
    then have lt: "n < ruleCap" using Cons.prems(1) by simp
    then have len: "unat n < unat ruleCap" "unat n < length rules" using Cons.prems(2) by (auto simp: word_less_nat_alt)
    have next': "unat (n + 1) = Suc (unat n)" by (rule u32_Suc [OF lt])
    have le: "n + 1 \<le> ruleCap" using len next' by (simp add: word_le_nat_alt)
    have loop: "ListPolicyRules_loop oom m ruleCap (rules[unat n := rule]) (n + 1) = (r, rules', n')"
      using Cons.prems(4) Cons.prems(3) [THEN spec, of n] False by (simp add: p)
    note IH = Cons.IH [OF le _ Cons.prems(3) loop, unfolded next' length_list_update, OF Cons.prems(2)]
    then have n': "unat n' = min (unat ruleCap) (Suc (unat n) + length m)" by blast
    then have "unat n < unat n'" using len by simp
    then have "drop (unat n') (rules[unat n := rule]) = drop (unat n') rules" by simp
    moreover have "take (Suc (unat n)) (rules[unat n := rule]) = take (unat n) rules @ [rule]"
      using len by (simp add: take_Suc_conv_app_nth)
    moreover have "take (unat ruleCap - unat n) (map snd (p # m)) = rule # take (unat ruleCap - Suc (unat n)) (map snd m)"
      using len(1) by (simp add: p take_Cons')
    ultimately show ?thesis using IH n' by (simp only: append.simps append_assoc list.size add_Suc add_Suc_right add_0_right simp_thms)
  qed (use Cons.prems in \<open>simp add: p\<close>)
qed (simp add: word_le_nat_alt)

text \<open>Listing the rules writes the rules of the table in the order of their identifiers, as many
  as the caller's array has room for, reports that number and leaves the rest of the array
  untouched.\<close>

lemma SCF_ListPolicyRules_correct:
  assumes "g_scfInitialized g" "ruleCap \<noteq> 0" "unat ruleCap \<le> length rules" "\<forall>k. \<not> oom k"
  shows "\<exists>n. SCF_ListPolicyRules g oom (Some c) (Some rules) ruleCap (Some n0) =
      (SCF_SUCCESS, Some (take (unat ruleCap) (map snd (ctx_policyRuleMap c)) @ drop (unat n) rules), Some n) \<and>
    unat n = min (unat ruleCap) (length (ctx_policyRuleMap c))"
proof -
  obtain r rules' n where loop: "ListPolicyRules_loop oom (ctx_policyRuleMap c) ruleCap rules 0 = (r, rules', n)"
    by (metis prod_cases3)
  have "SCF_ListPolicyRules g oom (Some c) (Some rules) ruleCap (Some n0) = (r, Some rules', Some n)"
    using assms(1,2) loop by (simp add: SCF_ListPolicyRules_def)
  with ListPolicyRules_loop_ok [OF _ assms(3,4) loop] show ?thesis by simp
qed

end
