(* ===== verification/Openssl_Api.thy ===== *)
theory Openssl_Api
  imports Cert_Ext
begin

text \<open>
  What the adaptor uses of libssl and libcrypto, as a parameter of the model: the record
  \<^verbatim>\<open>ossl_api\<close> has one field per library function the adaptor calls, over an opaque library state
  \<^verbatim>\<open>'o\<close>; handles of the library are pointers (\<^verbatim>\<open>None\<close> is null).  The constants are those of
  \<^verbatim>\<open>adaptor/openssl/openssl_def.h\<close>, and the function-like macros of that header, all of them
  wrappers of \<^verbatim>\<open>SSL_CTX_ctrl\<close>, are definitions.
\<close>

type_synonym ptr = "addr option"

datatype ctrl_arg = NoArg | StrArg string | PtrArg ptr

record 'o ossl_api =
  SSL_free :: "ptr \<Rightarrow> 'o \<Rightarrow> 'o"
  SSL_connect :: "ptr \<Rightarrow> 'o \<Rightarrow> int \<times> 'o"
  SSL_accept :: "ptr \<Rightarrow> 'o \<Rightarrow> int \<times> 'o"
  SSL_get_error :: "ptr \<Rightarrow> int \<Rightarrow> 'o \<Rightarrow> int"
  SSL_read_ex :: "ptr \<Rightarrow> u32 \<Rightarrow> 'o \<Rightarrow> int \<times> string \<times> u64 \<times> 'o"
  SSL_write_ex :: "ptr \<Rightarrow> string \<Rightarrow> u32 \<Rightarrow> 'o \<Rightarrow> int \<times> u64 \<times> 'o"
  SSL_shutdown :: "ptr \<Rightarrow> 'o \<Rightarrow> int \<times> 'o"
  SSL_new :: "ptr \<Rightarrow> 'o \<Rightarrow> ptr \<times> 'o"
  SSL_set_ex_data :: "ptr \<Rightarrow> int \<Rightarrow> addr \<Rightarrow> 'o \<Rightarrow> int \<times> 'o"
  SSL_get_ex_data :: "ptr \<Rightarrow> int \<Rightarrow> 'o \<Rightarrow> ptr"
  SSL_set_fd :: "ptr \<Rightarrow> int \<Rightarrow> 'o \<Rightarrow> int \<times> 'o"
  SSL_is_init_finished :: "ptr \<Rightarrow> 'o \<Rightarrow> int"
  SSL_key_update :: "ptr \<Rightarrow> int \<Rightarrow> 'o \<Rightarrow> int \<times> 'o"
  SSL_get_version :: "ptr \<Rightarrow> 'o \<Rightarrow> string option"
  SSL_get_peer_certificate :: "ptr \<Rightarrow> 'o \<Rightarrow> ptr"
  SSL_get_certificate :: "ptr \<Rightarrow> 'o \<Rightarrow> ptr"
  SSL_get_current_cipher :: "ptr \<Rightarrow> 'o \<Rightarrow> ptr"
  SSL_CIPHER_find :: "ptr \<Rightarrow> string \<Rightarrow> 'o \<Rightarrow> ptr"
  SSL_CIPHER_get_id :: "ptr \<Rightarrow> 'o \<Rightarrow> u32"
  SSL_set_verify :: "ptr \<Rightarrow> int \<Rightarrow> 'o \<Rightarrow> 'o"
  SSL_CTX_ctrl :: "ptr \<Rightarrow> int \<Rightarrow> int \<Rightarrow> ctrl_arg \<Rightarrow> 'o \<Rightarrow> int \<times> 'o"
  SSL_CTX_get_options :: "ptr \<Rightarrow> 'o \<Rightarrow> u64"
  SSL_CTX_set_options :: "ptr \<Rightarrow> u64 \<Rightarrow> 'o \<Rightarrow> 'o"
  SSL_CTX_new :: "ptr \<Rightarrow> 'o \<Rightarrow> ptr \<times> 'o"
  SSL_CTX_new_ex :: "(ptr \<Rightarrow> ptr \<Rightarrow> 'o \<Rightarrow> ptr \<times> 'o) option"
  SSL_CTX_free :: "ptr \<Rightarrow> 'o \<Rightarrow> 'o"
  SSL_CTX_set_security_level :: "ptr \<Rightarrow> int \<Rightarrow> 'o \<Rightarrow> 'o"
  SSL_CTX_set_verify :: "ptr \<Rightarrow> int \<Rightarrow> 'o \<Rightarrow> 'o"
  SSL_CTX_set_cert_verify_callback :: "ptr \<Rightarrow> ptr \<Rightarrow> ptr \<Rightarrow> 'o \<Rightarrow> 'o"
  SSL_CTX_set_ciphersuites :: "ptr \<Rightarrow> string \<Rightarrow> 'o \<Rightarrow> int \<times> 'o"
  SSL_CTX_get_ciphers :: "ptr \<Rightarrow> 'o \<Rightarrow> ptr list option"
  SSL_CTX_check_private_key :: "ptr \<Rightarrow> 'o \<Rightarrow> int"
  SSL_CTX_load_verify_locations :: "ptr \<Rightarrow> string \<Rightarrow> 'o \<Rightarrow> int \<times> 'o"
  SSL_CTX_use_certificate_file :: "ptr \<Rightarrow> string \<Rightarrow> int \<Rightarrow> 'o \<Rightarrow> int \<times> 'o"
  SSL_CTX_use_certificate :: "ptr \<Rightarrow> ptr \<Rightarrow> 'o \<Rightarrow> int \<times> 'o"
  SSL_CTX_use_certificate_chain_file :: "ptr \<Rightarrow> string \<Rightarrow> 'o \<Rightarrow> int \<times> 'o"
  SSL_CTX_use_PrivateKey_file :: "ptr \<Rightarrow> string \<Rightarrow> int \<Rightarrow> 'o \<Rightarrow> int \<times> 'o"
  SSL_CTX_use_PrivateKey :: "ptr \<Rightarrow> ptr \<Rightarrow> 'o \<Rightarrow> int \<times> 'o"
  SSL_CTX_set_default_passwd_cb :: "ptr \<Rightarrow> 'o \<Rightarrow> 'o"
  SSL_CTX_set_default_passwd_cb_userdata :: "ptr \<Rightarrow> string option \<Rightarrow> 'o \<Rightarrow> 'o"
  SSL_CTX_get_cert_store :: "ptr \<Rightarrow> 'o \<Rightarrow> ptr"
  SSL_CTX_set_psk_find_session_callback :: "ptr \<Rightarrow> bool \<Rightarrow> 'o \<Rightarrow> 'o"
  SSL_CTX_set_psk_use_session_callback :: "ptr \<Rightarrow> bool \<Rightarrow> 'o \<Rightarrow> 'o"
  SSL_SESSION_new :: "'o \<Rightarrow> ptr \<times> 'o"
  SSL_SESSION_free :: "ptr \<Rightarrow> 'o \<Rightarrow> 'o"
  SSL_SESSION_get0_cipher :: "ptr \<Rightarrow> 'o \<Rightarrow> ptr"
  SSL_SESSION_set1_master_key :: "ptr \<Rightarrow> string \<Rightarrow> nat \<Rightarrow> 'o \<Rightarrow> int \<times> 'o"
  SSL_SESSION_set_cipher :: "ptr \<Rightarrow> ptr \<Rightarrow> 'o \<Rightarrow> int \<times> 'o"
  SSL_SESSION_set_protocol_version :: "ptr \<Rightarrow> int \<Rightarrow> 'o \<Rightarrow> int \<times> 'o"
  SSL_SESSION_get_protocol_version :: "ptr \<Rightarrow> 'o \<Rightarrow> int"
  TLS_server_method :: "ptr"
  TLS_client_method :: "ptr"
  BIO_new_mem_buf :: "string option \<Rightarrow> int \<Rightarrow> 'o \<Rightarrow> ptr \<times> 'o"
  BIO_free :: "ptr \<Rightarrow> 'o \<Rightarrow> 'o"
  PEM_read_bio_X509 :: "ptr \<Rightarrow> 'o \<Rightarrow> ptr \<times> 'o"
  PEM_read_bio_X509_CRL :: "ptr \<Rightarrow> 'o \<Rightarrow> ptr \<times> 'o"
  PEM_read_X509_CRL :: "string \<Rightarrow> 'o \<Rightarrow> ptr \<times> 'o"
  PEM_read_bio_PrivateKey :: "ptr \<Rightarrow> 'o \<Rightarrow> ptr \<times> 'o"
  EVP_PKEY_free :: "ptr \<Rightarrow> 'o \<Rightarrow> 'o"
  X509_free :: "ptr \<Rightarrow> 'o \<Rightarrow> 'o"
  X509_CRL_free :: "ptr \<Rightarrow> 'o \<Rightarrow> 'o"
  X509_STORE_add_cert :: "ptr \<Rightarrow> ptr \<Rightarrow> 'o \<Rightarrow> int \<times> 'o"
  X509_STORE_add_crl :: "ptr \<Rightarrow> ptr \<Rightarrow> 'o \<Rightarrow> int \<times> 'o"
  X509_STORE_set_flags :: "ptr \<Rightarrow> int \<Rightarrow> 'o \<Rightarrow> int \<times> 'o"
  X509_verify_cert :: "ptr \<Rightarrow> 'o \<Rightarrow> int \<times> 'o"
  EVP_sha256 :: "ptr"
  EVP_sha384 :: "ptr"

text \<open>The adaptor object: the two libraries it has loaded and the injected crypto engine, of which it
  only asks for the provider context (\<^verbatim>\<open>None\<close>: no engine).\<close>

record 'o OpenSSLAdaptor =
  ad_ssl :: "'o ossl_api"
  ad_crypto :: crypto_api
  ad_cryptoEngine :: "ptr option"

definition SSL_SUCCESS :: int where [scf_const]: "SSL_SUCCESS = 1"
definition SSL_ERROR :: int where [scf_const]: "SSL_ERROR = 0"
definition SSL_ERROR_WANT_READ :: int where [scf_const]: "SSL_ERROR_WANT_READ = 2"
definition SSL_ERROR_WANT_WRITE :: int where [scf_const]: "SSL_ERROR_WANT_WRITE = 3"
definition SSL_EX_DATA_ID :: int where [scf_const]: "SSL_EX_DATA_ID = 1"
definition SSL_KEY_UPDATE_NONE :: int where [scf_const]: "SSL_KEY_UPDATE_NONE = -1"
definition SSL_KEY_UPDATE_NOT_REQUESTED :: int where [scf_const]: "SSL_KEY_UPDATE_NOT_REQUESTED = 0"
definition SSL_KEY_UPDATE_REQUESTED :: int where [scf_const]: "SSL_KEY_UPDATE_REQUESTED = 1"
definition SSL_FILETYPE_PEM :: int where [scf_const]: "SSL_FILETYPE_PEM = 1"
definition X509_V_FLAG_CRL_CHECK :: int where [scf_const]: "X509_V_FLAG_CRL_CHECK = 4"
definition SSL_VERIFY_NONE :: u32 where [scf_const]: "SSL_VERIFY_NONE = 0"
definition SSL_VERIFY_PEER :: u32 where [scf_const]: "SSL_VERIFY_PEER = 1"
definition SSL_VERIFY_FAIL_IF_NO_PEER_CERT :: u32 where [scf_const]: "SSL_VERIFY_FAIL_IF_NO_PEER_CERT = 2"
definition SSL_SESS_CACHE_OFF :: int where [scf_const]: "SSL_SESS_CACHE_OFF = 0"
definition SSL_OP_NO_TLSv1_2 :: u32 where [scf_const]: "SSL_OP_NO_TLSv1_2 = 0x08000000"
definition SSL_OP_NO_TLSv1_3 :: u32 where [scf_const]: "SSL_OP_NO_TLSv1_3 = 0x20000000"
definition SSL_OP_NO_RENEGOTIATION :: u32 where [scf_const]: "SSL_OP_NO_RENEGOTIATION = 0x40000000"
definition TLS1_2_VERSION :: int where [scf_const]: "TLS1_2_VERSION = 0x0303"
definition TLS1_3_VERSION :: int where [scf_const]: "TLS1_3_VERSION = 0x0304"
definition SSL_SECURITY_LEVEL_TWO :: int where [scf_const]: "SSL_SECURITY_LEVEL_TWO = 2"

definition SSL_CTX_add_extra_chain_cert :: "'o ossl_api \<Rightarrow> ptr \<Rightarrow> ptr \<Rightarrow> 'o \<Rightarrow> int \<times> 'o" where
  "SSL_CTX_add_extra_chain_cert api ctx x509 = SSL_CTX_ctrl api ctx 14 0 (PtrArg x509)"
definition SSL_CTX_set_session_cache_mode :: "'o ossl_api \<Rightarrow> ptr \<Rightarrow> int \<Rightarrow> 'o \<Rightarrow> int \<times> 'o" where
  "SSL_CTX_set_session_cache_mode api ctx m = SSL_CTX_ctrl api ctx 44 m NoArg"
definition SSL_CTX_get_session_cache_mode :: "'o ossl_api \<Rightarrow> ptr \<Rightarrow> 'o \<Rightarrow> int \<times> 'o" where
  "SSL_CTX_get_session_cache_mode api ctx = SSL_CTX_ctrl api ctx 45 0 NoArg"
definition SSL_CTX_set1_groups_list :: "'o ossl_api \<Rightarrow> ptr \<Rightarrow> string \<Rightarrow> 'o \<Rightarrow> int \<times> 'o" where
  "SSL_CTX_set1_groups_list api ctx s = SSL_CTX_ctrl api ctx 92 0 (StrArg s)"
definition SSL_CTX_set_min_proto_version :: "'o ossl_api \<Rightarrow> ptr \<Rightarrow> int \<Rightarrow> 'o \<Rightarrow> int \<times> 'o" where
  "SSL_CTX_set_min_proto_version api ctx version = SSL_CTX_ctrl api ctx 123 version NoArg"
definition SSL_CTX_set_max_proto_version :: "'o ossl_api \<Rightarrow> ptr \<Rightarrow> int \<Rightarrow> 'o \<Rightarrow> int \<times> 'o" where
  "SSL_CTX_set_max_proto_version api ctx version = SSL_CTX_ctrl api ctx 124 version NoArg"
definition SSL_CTX_get_min_proto_version :: "'o ossl_api \<Rightarrow> ptr \<Rightarrow> 'o \<Rightarrow> int \<times> 'o" where
  "SSL_CTX_get_min_proto_version api ctx = SSL_CTX_ctrl api ctx 130 0 NoArg"
definition SSL_CTX_get_max_proto_version :: "'o ossl_api \<Rightarrow> ptr \<Rightarrow> 'o \<Rightarrow> int \<times> 'o" where
  "SSL_CTX_get_max_proto_version api ctx = SSL_CTX_ctrl api ctx 131 0 NoArg"

end
