(* ===== verification/Adaptor_Conn.thy ===== *)
theory Adaptor_Conn
  imports Openssl_Api
begin

text \<open>
  The connection part of \<^verbatim>\<open>adaptor/openssl/openssl_adaptor.cpp\<close>: handshake, transfer, shutdown,
  version check, descriptor and key update of one policy object.  Each function takes the object
  (\<^verbatim>\<open>None\<close>: null pointer), for the ones that look at the object's context also that context, and
  the library state, and returns the result code, the object and the library state.  The object's
  own address is passed where the code hands the object itself to the library.
\<close>

section \<open>Transport errors\<close>

definition HandleTransPortError :: "int \<Rightarrow> ret" where
  "HandleTransPortError errorCode =
     (if errorCode = SSL_ERROR_WANT_READ then SCF_SSL_ERR_WANT_READ
      else if errorCode = SSL_ERROR_WANT_WRITE then SCF_SSL_ERR_WANT_WRITE
      else SCF_ERRNO_SECURE_TRANSPORT)"

definition FreeSslObj :: "'o ossl_api \<Rightarrow> SCFPolicyObj option \<Rightarrow> 'o \<Rightarrow> SCFPolicyObj option \<times> 'o" where
  "FreeSslObj api obj st =
     (case obj of
        None \<Rightarrow> (obj, st)
      | Some b \<Rightarrow>
          if obj_sslCtx b = None then (obj, st)
          else (Some (b\<lparr>obj_sslCtx := None\<rparr>), SSL_free api (obj_sslCtx b) st))"

section \<open>Handshake\<close>

definition adaptor_Connect :: "'o ossl_api \<Rightarrow> SCFPolicyObj option \<Rightarrow> 'o \<Rightarrow> ret \<times> SCFPolicyObj option \<times> 'o" where
  "adaptor_Connect api obj st =
     (case obj of
        None \<Rightarrow> (SCF_ERRNO_NULL_INPUT, obj, st)
      | Some b \<Rightarrow>
          if obj_sslCtx b = None then (SCF_ERRNO_NULL_INPUT, obj, st)
          else if obj_role b \<noteq> SCF_ROLE_CLIENT then (SCF_SSL_ERR_ROLE, obj, st)
          else
            let b1 = (if \<not> obj_isSetRole b then b\<lparr>obj_isSetRole := True\<rparr> else b);
                (r, st1) = SSL_connect api (obj_sslCtx b1) st in
            if r \<noteq> SSL_SUCCESS
            then (HandleTransPortError (SSL_get_error api (obj_sslCtx b1) r st1), Some b1, st1)
            else (SCF_SUCCESS, Some b1, st1))"

definition adaptor_Accept :: "'o ossl_api \<Rightarrow> SCFPolicyObj option \<Rightarrow> 'o \<Rightarrow> ret \<times> SCFPolicyObj option \<times> 'o" where
  "adaptor_Accept api obj st =
     (case obj of
        None \<Rightarrow> (SCF_ERRNO_NULL_INPUT, obj, st)
      | Some b \<Rightarrow>
          if obj_sslCtx b = None then (SCF_ERRNO_NULL_INPUT, obj, st)
          else if obj_role b \<noteq> SCF_ROLE_SERVER then (SCF_SSL_ERR_ROLE, obj, st)
          else
            let b1 = (if \<not> obj_isSetRole b then b\<lparr>obj_isSetRole := True\<rparr> else b);
                (r, st1) = SSL_accept api (obj_sslCtx b1) st in
            if r \<noteq> SSL_SUCCESS
            then (HandleTransPortError (SSL_get_error api (obj_sslCtx b1) r st1), Some b1, st1)
            else (SCF_SUCCESS, Some b1, st1))"

section \<open>Transfer\<close>

text \<open>\<^verbatim>\<open>Read\<close> returns the code, the data the library wrote, the new value of \<^verbatim>\<open>*readLen\<close> and the library
  state; \<^verbatim>\<open>size_t\<close> lengths are truncated to 32 bits as in the source.\<close>

definition adaptor_Read :: "'o ossl_api \<Rightarrow> SCFPolicyObj option \<Rightarrow> u32 \<Rightarrow> u32 \<Rightarrow> 'o \<Rightarrow> ret \<times> string \<times> u32 \<times> 'o" where
  "adaptor_Read api obj dataLen readLen st =
     (case obj of
        None \<Rightarrow> (SCF_ERRNO_NULL_INPUT, [], readLen, st)
      | Some b \<Rightarrow>
          if obj_sslCtx b = None then (SCF_ERRNO_NULL_INPUT, [], readLen, st)
          else
            let (r, data, readLenIn, st1) = SSL_read_ex api (obj_sslCtx b) dataLen st in
            if r \<noteq> SSL_SUCCESS
            then (if SSL_get_error api (obj_sslCtx b) r st1 = SSL_ERROR_WANT_READ
                  then (SCF_SSL_ERR_WANT_READ, data, readLen, st1)
                  else (SCF_SSL_ERR_READ, data, readLen, st1))
            else (SCF_SUCCESS, data, ucast readLenIn, st1))"

definition adaptor_Write :: "'o ossl_api \<Rightarrow> SCFPolicyObj option \<Rightarrow> string \<Rightarrow> u32 \<Rightarrow> u32 \<Rightarrow> 'o \<Rightarrow> ret \<times> u32 \<times> 'o" where
  "adaptor_Write api obj data dataLen writeLen st =
     (case obj of
        None \<Rightarrow> (SCF_ERRNO_NULL_INPUT, writeLen, st)
      | Some b \<Rightarrow>
          if obj_sslCtx b = None then (SCF_ERRNO_NULL_INPUT, writeLen, st)
          else
            let (r, writeLenIn, st1) = SSL_write_ex api (obj_sslCtx b) data dataLen st in
            if r \<noteq> SSL_SUCCESS
            then (if SSL_get_error api (obj_sslCtx b) r st1 = SSL_ERROR_WANT_WRITE
                  then (SCF_SSL_ERR_WANT_WRITE, writeLen, st1)
                  else (SCF_SSL_ERR_WRITE, writeLen, st1))
            else (SCF_SUCCESS, ucast writeLenIn, st1))"

definition adaptor_Close :: "'o ossl_api \<Rightarrow> SCFPolicyObj option \<Rightarrow> 'o \<Rightarrow> ret \<times> 'o" where
  "adaptor_Close api obj st =
     (case obj of
        None \<Rightarrow> (SCF_ERRNO_NULL_INPUT, st)
      | Some b \<Rightarrow>
          if obj_sslCtx b = None then (SCF_ERRNO_NULL_INPUT, st)
          else
            let (r, st1) = SSL_shutdown api (obj_sslCtx b) st in
            if r < 0 then (SCF_SSL_ERR_CLOSE, st1) else (SCF_SUCCESS, st1))"

section \<open>Version check and descriptor\<close>

definition MapVersion2NoOpt :: "int \<Rightarrow> u32 option \<Rightarrow> ret \<times> u32 option" where
  "MapVersion2NoOpt version sslOp =
     (if sslOp = None then (SCF_ERRNO_NULL_INPUT, sslOp)
      else if version = TLS1_2_VERSION then (of_int SSL_SUCCESS, Some SSL_OP_NO_TLSv1_2)
      else if version = TLS1_3_VERSION then (of_int SSL_SUCCESS, Some SSL_OP_NO_TLSv1_3)
      else (of_int SSL_ERROR, sslOp))"

text \<open>The loop over the versions from \<^verbatim>\<open>minVersion\<close> to \<^verbatim>\<open>maxVersion\<close>.\<close>

function CheckVersion_loop :: "u64 \<Rightarrow> int \<Rightarrow> int \<Rightarrow> int" where
  "CheckVersion_loop options version maxVersion =
     (if version \<le> maxVersion
      then (let (r, sslOp) = MapVersion2NoOpt version (Some 0) in
            if r \<noteq> of_int SSL_SUCCESS then SSL_ERROR
            else if ucast (the sslOp) AND options = 0 then SSL_SUCCESS
            else CheckVersion_loop options (version + 1) maxVersion)
      else SSL_ERROR)"
  by pat_completeness auto
termination by (relation "measure (\<lambda>(opts, v, m). nat (m + 1 - v))") auto

declare CheckVersion_loop.simps [simp del]

definition CheckVersion :: "'o ossl_api \<Rightarrow> SCFPolicyObj option \<Rightarrow> SCFPolicyCtx option \<Rightarrow> 'o \<Rightarrow> int \<times> 'o" where
  "CheckVersion api obj ctx st =
     (case (obj, ctx) of
        (Some b, Some c) \<Rightarrow>
          if ctx_sslConfig c = None then (SSL_ERROR, st)
          else
            let (minVersion, st1) = SSL_CTX_get_min_proto_version api (ctx_sslConfig c) st;
                (maxVersion, st2) = SSL_CTX_get_max_proto_version api (ctx_sslConfig c) st1 in
            if minVersion = 0 \<and> maxVersion = 0 then (SSL_SUCCESS, st2)
            else (CheckVersion_loop (SSL_CTX_get_options api (ctx_sslConfig c) st2) minVersion maxVersion, st2)
      | _ \<Rightarrow> (SSL_ERROR, st))"

definition adaptor_SetFd ::
  "'o ossl_api \<Rightarrow> addr \<Rightarrow> SCFPolicyObj option \<Rightarrow> SCFPolicyCtx option \<Rightarrow> int \<Rightarrow> 'o \<Rightarrow> ret \<times> SCFPolicyObj option \<times> 'o" where
  "adaptor_SetFd api self obj ctx fd st =
     (case obj of
        None \<Rightarrow> (SCF_ERRNO_NULL_INPUT, obj, st)
      | Some b \<Rightarrow>
          let set_fd = (\<lambda>b hasNewSSL st.
                let (r, st1) = SSL_set_fd api (obj_sslCtx b) fd st in
                if r \<noteq> SSL_SUCCESS
                then (if hasNewSSL
                      then (SCF_SSL_ERR_SET_SOCKET_FD, Some (b\<lparr>obj_sslCtx := None\<rparr>), SSL_free api (obj_sslCtx b) st1)
                      else (SCF_SSL_ERR_SET_SOCKET_FD, Some b, st1))
                else (SCF_SUCCESS, Some (b\<lparr>obj_fd := fd\<rparr>), st1)) in
          if obj_sslCtx b \<noteq> None then set_fd b False st
          else
            let (v, st1) = CheckVersion api obj ctx st in
            if v \<noteq> SSL_SUCCESS then (SCF_SSL_ERR_POLICY_VERSION, obj, st1)
            else
              let (ssl, st2) = SSL_new api (ctx_sslConfig (the ctx)) st1;
                  (r, st3) = SSL_set_ex_data api ssl SSL_EX_DATA_ID self st2 in
              if r \<noteq> SSL_SUCCESS then (SCF_SSL_ERR_SET_EX_DATA, obj, SSL_free api ssl st3)
              else set_fd (b\<lparr>obj_sslCtx := ssl\<rparr>) True st3)"

section \<open>Key update\<close>

datatype KeyUpdateType = KEY_UPDATE_NONE | KEY_UPDATE_NOT_REQUESTED | KEY_UPDATE_REQUESTED | KEY_UPDATE_END

definition InnerGetOpensslUpdateType :: "KeyUpdateType \<Rightarrow> int option \<Rightarrow> ret \<times> int option" where
  "InnerGetOpensslUpdateType updateType opensslUpdateType =
     (if opensslUpdateType = None then (SCF_ERRNO_NULL_INPUT, opensslUpdateType)
      else if updateType = KEY_UPDATE_NONE then (SCF_SUCCESS, Some SSL_KEY_UPDATE_NONE)
      else if updateType = KEY_UPDATE_NOT_REQUESTED then (SCF_SUCCESS, Some SSL_KEY_UPDATE_NOT_REQUESTED)
      else if updateType = KEY_UPDATE_REQUESTED then (SCF_SUCCESS, Some SSL_KEY_UPDATE_REQUESTED)
      else (SCF_ERROR, opensslUpdateType))"

definition adaptor_KeyUpdate ::
  "'o ossl_api \<Rightarrow> SCFPolicyObj option \<Rightarrow> KeyUpdateType \<Rightarrow> 'o \<Rightarrow> ret \<times> SCFPolicyObj option \<times> 'o" where
  "adaptor_KeyUpdate api obj updateType st =
     (case obj of
        None \<Rightarrow> (SCF_SSL_ERR_KEY_UPDATE, obj, st)
      | Some b \<Rightarrow>
          if obj_sslCtx b = None then (SCF_SSL_ERR_KEY_UPDATE, obj, st)
          else if SSL_is_init_finished api (obj_sslCtx b) st \<noteq> SSL_SUCCESS
          then (SCF_SSL_ERR_IS_INIT_FINISHED, obj, st)
          else
            let (r, opensslUpdateType) = InnerGetOpensslUpdateType updateType (Some 0) in
            if r \<noteq> SCF_SUCCESS then (SCF_SSL_ERR_KEY_UPDATE, obj, st)
            else
              let (r2, st1) = SSL_key_update api (obj_sslCtx b) (the opensslUpdateType) st in
              if r2 \<noteq> SSL_SUCCESS then (SCF_SSL_ERR_KEY_UPDATE, obj, st1)
              else
                (SCF_SUCCESS,
                 Some (b\<lparr>obj_keyUpdateInfo := (obj_keyUpdateInfo b)
                         \<lparr>ku_totalSizeOfWriteData := 0, ku_lastKeyUpdateTime := 0, ku_isLastUpdateSuccess := True\<rparr>\<rparr>),
                 st1))"

section \<open>Queries\<close>

definition adaptor_GetVersion :: "'o ossl_api \<Rightarrow> SCFPolicyObj option \<Rightarrow> 'o \<Rightarrow> string option" where
  "adaptor_GetVersion api obj st =
     (case obj of
        None \<Rightarrow> None
      | Some b \<Rightarrow> if obj_sslCtx b = None then None else SSL_get_version api (obj_sslCtx b) st)"

definition adaptor_GetPeerCert :: "'o ossl_api \<Rightarrow> SCFPolicyObj option \<Rightarrow> 'o \<Rightarrow> ptr" where
  "adaptor_GetPeerCert api obj st =
     (case obj of
        None \<Rightarrow> None
      | Some b \<Rightarrow> if obj_sslCtx b = None then None else SSL_get_peer_certificate api (obj_sslCtx b) st)"

definition adaptor_GetCurrentCert :: "'o ossl_api \<Rightarrow> SCFPolicyObj option \<Rightarrow> 'o \<Rightarrow> ptr" where
  "adaptor_GetCurrentCert api obj st =
     (case obj of
        None \<Rightarrow> None
      | Some b \<Rightarrow> if obj_sslCtx b = None then None else SSL_get_certificate api (obj_sslCtx b) st)"

definition adaptor_CipherFind :: "'o ossl_api \<Rightarrow> SCFPolicyObj option \<Rightarrow> string \<Rightarrow> 'o \<Rightarrow> ptr" where
  "adaptor_CipherFind api obj cipherId st =
     (case obj of
        None \<Rightarrow> None
      | Some b \<Rightarrow> if obj_sslCtx b = None then None else SSL_CIPHER_find api (obj_sslCtx b) cipherId st)"

definition adaptor_NegotiateCipherSuite ::
  "'o ossl_api \<Rightarrow> SCFPolicyObj option \<Rightarrow> u16 \<Rightarrow> 'o \<Rightarrow> ret \<times> u16" where
  "adaptor_NegotiateCipherSuite api obj data st =
     (case obj of
        None \<Rightarrow> (SCF_ERRNO_NULL_INPUT, data)
      | Some b \<Rightarrow>
          if obj_sslCtx b = None then (SCF_ERRNO_NULL_INPUT, data)
          else
            (case SSL_get_current_cipher api (obj_sslCtx b) st of
               None \<Rightarrow> (SCF_SSL_ERR_GET_CIPHER, data)
             | Some cipher \<Rightarrow> (SCF_SUCCESS, ucast (SSL_CIPHER_get_id api (Some cipher) st))))"

text \<open>\<^verbatim>\<open>LogCertError\<close> logs what it can read of the local certificate; its result here is the sequence of
  logged strings.  The serial number goes through a stack buffer of 41 bytes.\<close>

definition LogCertError ::
  "'o OpenSSLAdaptor \<Rightarrow> (string \<Rightarrow> nat \<Rightarrow> string \<Rightarrow> nat \<Rightarrow> int \<times> string) \<Rightarrow> string option \<Rightarrow> string option \<Rightarrow> string
     \<Rightarrow> SCFPolicyObj option \<Rightarrow> 'o \<Rightarrow> string option list" where
  "LogCertError ad mc fresh1 fresh2 stack obj st =
     (case obj of
        None \<Rightarrow> []
      | Some b \<Rightarrow>
          let cert = adaptor_GetCurrentCert (ad_ssl ad) obj st;
              (certSN, snLen) = GetCertSerialNumber (ad_crypto ad) cert;
              (r, certHexSN) = Num2HexStr certSN snLen (Some stack) (of_nat MAX_SERINALNUM_HEX_LEN);
              startTime = GetCertStartTime (ad_crypto ad) mc fresh1 cert;
              endTime = GetCertEndTime (ad_crypto ad) mc fresh2 cert in
          [if r = SCF_SUCCESS then certHexSN else None, startTime, endTime])"

text \<open>The switch \<^verbatim>\<open>g_certlog_switch\<close>, and what a failed handshake adds to the log with it.\<close>

definition OpenCertErrorLog :: "bool \<Rightarrow> bool" where
  "OpenCertErrorLog g_certlog_switch = True"

definition CloseCertErrorLog :: "bool \<Rightarrow> bool" where
  "CloseCertErrorLog g_certlog_switch = False"

definition HandleTransPortError_log ::
  "'o OpenSSLAdaptor \<Rightarrow> (string \<Rightarrow> nat \<Rightarrow> string \<Rightarrow> nat \<Rightarrow> int \<times> string) \<Rightarrow> string option \<Rightarrow> string option \<Rightarrow> string
     \<Rightarrow> bool \<Rightarrow> SCFPolicyObj option \<Rightarrow> int \<Rightarrow> 'o \<Rightarrow> string option list" where
  "HandleTransPortError_log ad mc fresh1 fresh2 stack g_certlog_switch obj errorCode st =
     (if errorCode = SSL_ERROR_WANT_READ \<or> errorCode = SSL_ERROR_WANT_WRITE then []
      else if g_certlog_switch then LogCertError ad mc fresh1 fresh2 stack obj st else [])"

end
