(* ===== verification/Key_Update.thy ===== *)
theory Key_Update
  imports Adaptor_Conn Rbac
begin

text \<open>
  Session key update: the decision when to update (\<^verbatim>\<open>adaptor/session_key_update.cpp\<close>), its parameters
  and the explicit update (\<^verbatim>\<open>scf/policy/auth/psk/psk_key_policy.cpp\<close>), and the transfer functions of
  \<^verbatim>\<open>scf/connection/connection.cpp\<close> that use them.  \<^verbatim>\<open>now\<close> is the result of \<^verbatim>\<open>gettimeofday\<close>: its return
  code and the seconds.  \<^verbatim>\<open>obj\<close> is the policy object and \<^verbatim>\<open>ctx\<close> the context it points to (\<^verbatim>\<open>None\<close>: null
  pointer).
\<close>

section \<open>When to update\<close>

definition CheckTimeInterval :: "SCFPolicyObj \<Rightarrow> SCFPolicyCtx \<Rightarrow> int \<times> u64 \<Rightarrow> ret \<times> bool" where
  "CheckTimeInterval obj ctx now =
     (let curTime = snd now in
      if curTime < ku_lastKeyUpdateTime (obj_keyUpdateInfo obj) then (SCF_ERRNO_SYSTEM_TIME_ERROR, False)
      else
        let relativeSec = curTime - ku_lastKeyUpdateTime (obj_keyUpdateInfo obj) in
        (SCF_SUCCESS, relativeSec \<ge> ucast (ctx_keyUpdateTime ctx)))"

definition set_total :: "u64 \<Rightarrow> SCFPolicyObj \<Rightarrow> SCFPolicyObj" where
  "set_total n b = b\<lparr>obj_keyUpdateInfo := (obj_keyUpdateInfo b)\<lparr>ku_totalSizeOfWriteData := n\<rparr>\<rparr>"

definition CheckNeedKeyUpdate ::
  "'o ossl_api \<Rightarrow> SCFPolicyObj option \<Rightarrow> SCFPolicyCtx \<Rightarrow> u32 \<Rightarrow> bool option \<Rightarrow> int \<times> u64 \<Rightarrow> 'o
     \<Rightarrow> ret \<times> SCFPolicyObj option \<times> bool option" where
  "CheckNeedKeyUpdate api obj ctx processDataLen isNeedKeyUpdate now st =
     (case (obj, isNeedKeyUpdate) of
        (Some b, Some _) \<Rightarrow>
          let tlsVersion = adaptor_GetVersion api obj st in
          if tlsVersion = None \<or> \<not> strcmp_eq (the tlsVersion) SCF_SSL_VERSION_TLS13_STR
          then (SCF_SUCCESS, obj, Some False)
          else
            let total = ku_totalSizeOfWriteData (obj_keyUpdateInfo b);
                len = (ucast processDataLen :: u64);
                traffic = ctx_keyUpdateTraffic ctx in
            if len \<ge> traffic \<or> total \<ge> traffic - len
            then (SCF_SUCCESS, Some (set_total (total + min (0xffffffffffffffff - total) len) b), Some True)
            else
              let b1 = set_total (total + len) b in
              if ku_totalSizeOfWriteData (obj_keyUpdateInfo b1) \<ge> traffic
              then (SCF_SUCCESS, Some b1, Some True)
              else let (r, due) = CheckTimeInterval b1 ctx now in (r, Some b1, Some due)
      | _ \<Rightarrow> (SCF_ERRNO_NULL_INPUT, obj, isNeedKeyUpdate))"

section \<open>Parameters and explicit update\<close>

definition SCF_SetKeyAutoUpdateParam ::
  "'a scf_globals \<Rightarrow> SCFPolicyCtx option \<Rightarrow> bool \<Rightarrow> u32 \<Rightarrow> u64 \<Rightarrow> ret \<times> SCFPolicyCtx option" where
  "SCF_SetKeyAutoUpdateParam g ctx isNeedKeyUpdate keyUpdateTime keyUpdateTraffic =
     (case ctx of
        None \<Rightarrow> (SCF_ERRNO_NULL_INPUT, ctx)
      | Some c \<Rightarrow>
          (case CHECK_SCF_INIT_RET g of Some r \<Rightarrow> (r, ctx) | None \<Rightarrow>
             let c1 = c\<lparr>ctx_isNeedKeyUpdate := isNeedKeyUpdate\<rparr> in
             if \<not> isNeedKeyUpdate then (SCF_SUCCESS, Some c1)
             else if keyUpdateTime < MIN_KEY_UPDATE_TIME \<or> keyUpdateTime > MAX_KEY_UPDATE_TIME \<or>
                     keyUpdateTraffic < MIN_KEY_UPDATE_TRAFFIC \<or> keyUpdateTraffic > MAX_KEY_UPDATE_TRAFFIC
             then (SCF_SSL_ERR_SET_UPDATE_PARAM, Some c1)
             else (SCF_SUCCESS, Some (c1\<lparr>ctx_keyUpdateTime := keyUpdateTime, ctx_keyUpdateTraffic := keyUpdateTraffic\<rparr>))))"

definition SCF_GetKeyAutoUpdateParam ::
  "'a scf_globals \<Rightarrow> SCFPolicyCtx option \<Rightarrow> bool \<Rightarrow> u32 \<Rightarrow> u64 \<Rightarrow> ret \<times> bool \<times> u32 \<times> u64" where
  "SCF_GetKeyAutoUpdateParam g ctx isNeedKeyUpdate keyUpdateTime keyUpdateTraffic =
     (case ctx of
        None \<Rightarrow> (SCF_ERRNO_NULL_INPUT, isNeedKeyUpdate, keyUpdateTime, keyUpdateTraffic)
      | Some c \<Rightarrow>
          (case CHECK_SCF_INIT_RET g of Some r \<Rightarrow> (r, isNeedKeyUpdate, keyUpdateTime, keyUpdateTraffic) | None \<Rightarrow>
             if \<not> ctx_isNeedKeyUpdate c then (SCF_SUCCESS, False, keyUpdateTime, keyUpdateTraffic)
             else (SCF_SUCCESS, True, ctx_keyUpdateTime c, ctx_keyUpdateTraffic c)))"

definition SCF_GetKeyUpdateInfo ::
  "'a scf_globals \<Rightarrow> SCFPolicyObj option \<Rightarrow> SCFPolicyCtx option \<Rightarrow> u64 option \<Rightarrow> u32 option \<Rightarrow> u64 option
     \<Rightarrow> ret \<times> u64 option \<times> u32 option \<times> u64 option" where
  "SCF_GetKeyUpdateInfo g obj ctx lastKeyUpdateTime timeInterval remainTraffic =
     (if obj = None \<or> ctx = None then (SCF_ERRNO_NULL_INPUT, lastKeyUpdateTime, timeInterval, remainTraffic)
      else if lastKeyUpdateTime = None \<or> timeInterval = None \<or> remainTraffic = None
      then (SCF_ERRNO_NULL_INPUT, lastKeyUpdateTime, timeInterval, remainTraffic)
      else case CHECK_SCF_INIT_RET g of Some r \<Rightarrow> (r, lastKeyUpdateTime, timeInterval, remainTraffic) | None \<Rightarrow>
        let info = obj_keyUpdateInfo (the obj); c = the ctx in
        (SCF_SUCCESS, Some (ku_lastKeyUpdateTime info), Some (ctx_keyUpdateTime c),
         Some (if ctx_keyUpdateTraffic c > ku_totalSizeOfWriteData info
               then ctx_keyUpdateTraffic c - ku_totalSizeOfWriteData info else 0)))"

definition SCF_ObjKeyUpdate ::
  "'o OpenSSLAdaptor scf_globals \<Rightarrow> SCFPolicyObj option \<Rightarrow> int \<times> u64 \<Rightarrow> 'o \<Rightarrow> ret \<times> SCFPolicyObj option \<times> 'o" where
  "SCF_ObjKeyUpdate g obj now st =
     (case obj of
        None \<Rightarrow> (SCF_ERRNO_NULL_INPUT, obj, st)
      | Some b \<Rightarrow>
          (case CHECK_SCF_INIT_RET g of Some r \<Rightarrow> (r, obj, st) | None \<Rightarrow>
           case g_adaptor g of None \<Rightarrow> (SCF_ERRNO_INVALID_PARAM, obj, st) | Some ad \<Rightarrow>
             if fst now \<noteq> 0 then (SCF_ERRNO_SYSTEM_TIME_ERROR, obj, st)
             else
               let b1 = b\<lparr>obj_keyUpdateInfo := (obj_keyUpdateInfo b)
                            \<lparr>ku_totalSizeOfWriteData := 0, ku_lastKeyUpdateTime := snd now\<rparr>\<rparr>;
                   (r, obj2, st1) = adaptor_KeyUpdate (ad_ssl ad) (Some b1) KEY_UPDATE_NOT_REQUESTED st;
                   b2 = the obj2;
                   b3 = b2\<lparr>obj_keyUpdateInfo := (obj_keyUpdateInfo b2)\<lparr>ku_isLastUpdateSuccess := (r = SCF_SUCCESS)\<rparr>\<rparr> in
               if r \<noteq> SCF_SUCCESS then (r, Some b3, st1)
               else (SCF_SUCCESS,
                     Some (b3\<lparr>obj_keyUpdateInfo := (obj_keyUpdateInfo b3)
                       \<lparr>ku_totalKeyUpdateCnt := ku_totalKeyUpdateCnt (obj_keyUpdateInfo b3) + 1\<rparr>\<rparr>), st1)))"

section \<open>Connection functions\<close>

definition SCF_Connect ::
  "'o OpenSSLAdaptor scf_globals \<Rightarrow> SCFPolicyObj option \<Rightarrow> SCFPolicyCtx option \<Rightarrow> 'o
     \<Rightarrow> ret \<times> SCFPolicyObj option \<times> SCFPolicyCtx option \<times> 'o" where
  "SCF_Connect g obj ctx st =
     (if obj = None \<or> obj_role (the obj) = SCF_ROLE_NONE then (SCF_ERRNO_NULL_INPUT, obj, ctx, st)
      else case CHECK_SCF_INIT_RET g of Some r \<Rightarrow> (r, obj, ctx, st) | None \<Rightarrow>
      case g_adaptor g of None \<Rightarrow> (SCF_ERRNO_INVALID_PARAM, obj, ctx, st) | Some ad \<Rightarrow>
        let (r, obj1, st1) = adaptor_Connect (ad_ssl ad) obj st in
        if r = SCF_SUCCESS then (SCF_SUCCESS, obj1, FreezeNodeRoleMapping ctx, st1)
        else (r, obj1, ctx, st1))"

definition SCF_Accept ::
  "'o OpenSSLAdaptor scf_globals \<Rightarrow> SCFPolicyObj option \<Rightarrow> SCFPolicyCtx option \<Rightarrow> 'o
     \<Rightarrow> ret \<times> SCFPolicyObj option \<times> SCFPolicyCtx option \<times> 'o" where
  "SCF_Accept g obj ctx st =
     (if obj = None \<or> obj_role (the obj) = SCF_ROLE_NONE then (SCF_ERRNO_NULL_INPUT, obj, ctx, st)
      else case CHECK_SCF_INIT_RET g of Some r \<Rightarrow> (r, obj, ctx, st) | None \<Rightarrow>
      case g_adaptor g of None \<Rightarrow> (SCF_ERRNO_INVALID_PARAM, obj, ctx, st) | Some ad \<Rightarrow>
        let (r, obj1, st1) = adaptor_Accept (ad_ssl ad) obj st in
        if r = SCF_SUCCESS then (SCF_SUCCESS, obj1, FreezeNodeRoleMapping ctx, st1)
        else (r, obj1, ctx, st1))"

definition SCF_Close :: "'o OpenSSLAdaptor scf_globals \<Rightarrow> SCFPolicyObj option \<Rightarrow> 'o \<Rightarrow> ret \<times> 'o" where
  "SCF_Close g obj st =
     (if obj = None \<or> obj_sslCtx (the obj) = None then (SCF_SUCCESS, st)
      else case CHECK_SCF_INIT_RET g of Some r \<Rightarrow> (r, st) | None \<Rightarrow>
      case g_adaptor g of None \<Rightarrow> (SCF_ERRNO_INVALID_PARAM, st) | Some ad \<Rightarrow> adaptor_Close (ad_ssl ad) obj st)"

text \<open>The caller's buffers: \<^verbatim>\<open>None\<close> for a null pointer.  \<^verbatim>\<open>SCF_Read\<close> returns the data the library wrote
  into the buffer.\<close>

definition SCF_Read ::
  "'o OpenSSLAdaptor scf_globals \<Rightarrow> SCFPolicyObj option \<Rightarrow> string option \<Rightarrow> u32 \<Rightarrow> u32 option \<Rightarrow> 'o
     \<Rightarrow> ret \<times> string \<times> u32 option \<times> 'o" where
  "SCF_Read g obj data dataLen readLen st =
     (if obj = None \<or> data = None \<or> dataLen = 0 \<or> readLen = None then (SCF_ERRNO_INVALID_PARAM, [], readLen, st)
      else if obj_role (the obj) = SCF_ROLE_NONE then (SCF_ERRNO_INVALID_PARAM, [], readLen, st)
      else case CHECK_SCF_INIT_RET g of Some r \<Rightarrow> (r, [], readLen, st) | None \<Rightarrow>
      case g_adaptor g of None \<Rightarrow> (SCF_ERRNO_INVALID_PARAM, [], readLen, st) | Some ad \<Rightarrow>
        let (r, d, n, st1) = adaptor_Read (ad_ssl ad) obj dataLen (the readLen) st in (r, d, Some n, st1))"

definition SCF_Write ::
  "'o OpenSSLAdaptor scf_globals \<Rightarrow> SCFPolicyObj option \<Rightarrow> SCFPolicyCtx option \<Rightarrow> string option \<Rightarrow> u32 \<Rightarrow> u32 option
     \<Rightarrow> int \<times> u64 \<Rightarrow> 'o \<Rightarrow> ret \<times> SCFPolicyObj option \<times> u32 option \<times> 'o" where
  "SCF_Write g obj ctx data dataLen writeLen now st =
     (if obj = None \<or> data = None \<or> dataLen = 0 \<or> writeLen = None
      then (SCF_ERRNO_INVALID_PARAM, obj, writeLen, st)
      else if obj_role (the obj) = SCF_ROLE_NONE then (SCF_ERRNO_INVALID_PARAM, obj, writeLen, st)
      else case CHECK_SCF_INIT_RET g of Some r \<Rightarrow> (r, obj, writeLen, st) | None \<Rightarrow>
      case g_adaptor g of None \<Rightarrow> (SCF_ERRNO_INVALID_PARAM, obj, writeLen, st) | Some ad \<Rightarrow>
        let (r, n, st1) = adaptor_Write (ad_ssl ad) obj (the data) dataLen (the writeLen) st in
        if r \<noteq> SCF_SUCCESS then (r, obj, Some n, st1)
        else if ctx \<noteq> None \<and> ctx_isNeedKeyUpdate (the ctx) then
          (let (r1, obj1, need) = CheckNeedKeyUpdate (ad_ssl ad) obj (the ctx) n (Some False) now st1 in
           if r1 = SCF_SUCCESS \<and> need = Some True then
             (let (r2, obj2, st2) = adaptor_KeyUpdate (ad_ssl ad) obj1 KEY_UPDATE_NOT_REQUESTED st1 in
              (r2, obj2, Some n, st2))
           else (r1, obj1, Some n, st1))
        else (r, obj, Some n, st1))"

end
