(* ===== verification/Ossl_Sim.thy ===== *)
theory Ossl_Sim
  imports Openssl_Api
begin

text \<open>
  A small concrete TLS library: one context and one connection that remember what was configured.
  It shows that the hypotheses about the library are satisfiable and gives the witnesses something
  to run on; no property of the program is stated about it.
\<close>

record sim_state =
  sim_min :: int
  sim_max :: int
  sim_opts :: u64
  sim_verify :: int
  sim_level :: int
  sim_cache :: int
  sim_suites :: string
  sim_updates :: nat
  sim_ex :: ptr
  sim_fd :: int

definition sim0 :: sim_state where
  "sim0 = \<lparr> sim_min = 0, sim_max = 0, sim_opts = 0, sim_verify = 0, sim_level = 1, sim_cache = 2, sim_suites = '''',
            sim_updates = 0, sim_ex = None, sim_fd = -1 \<rparr>"

fun sim_ctrl :: "ptr \<Rightarrow> int \<Rightarrow> int \<Rightarrow> ctrl_arg \<Rightarrow> sim_state \<Rightarrow> int \<times> sim_state" where
  "sim_ctrl None cmd larg parg st = (0, st)"
| "sim_ctrl (Some c) cmd larg parg st =
     (if cmd = 44 then (sim_cache st, st\<lparr>sim_cache := larg\<rparr>)
      else if cmd = 45 then (sim_cache st, st)
      else if cmd = 123 then (1, st\<lparr>sim_min := larg\<rparr>)
      else if cmd = 124 then (1, st\<lparr>sim_max := larg\<rparr>)
      else if cmd = 130 then (sim_min st, st)
      else if cmd = 131 then (sim_max st, st)
      else (1, st))"

definition sim_ossl :: "sim_state ossl_api" where
  "sim_ossl = \<lparr>
     SSL_free = (\<lambda>s st. st),
     SSL_connect = (\<lambda>s st. (1, st)),
     SSL_accept = (\<lambda>s st. (1, st)),
     SSL_get_error = (\<lambda>s r st. 2),
     SSL_read_ex = (\<lambda>s n st. (1, ''hi'', 2, st)),
     SSL_write_ex = (\<lambda>s d n st. (1, ucast n, st)),
     SSL_shutdown = (\<lambda>s st. (1, st)),
     SSL_new = (\<lambda>c st. (Some 11, st)),
     SSL_set_ex_data = (\<lambda>s i a st. (1, st\<lparr>sim_ex := Some a\<rparr>)),
     SSL_get_ex_data = (\<lambda>s i st. sim_ex st),
     SSL_set_fd = (\<lambda>s fd st. (1, st\<lparr>sim_fd := fd\<rparr>)),
     SSL_is_init_finished = (\<lambda>s st. 1),
     SSL_key_update = (\<lambda>s t st. (1, st\<lparr>sim_updates := Suc (sim_updates st)\<rparr>)),
     SSL_get_version = (\<lambda>s st. Some ''TLSv1.3''),
     SSL_get_peer_certificate = (\<lambda>s st. Some 7),
     SSL_get_certificate = (\<lambda>s st. Some 7),
     SSL_get_current_cipher = (\<lambda>s st. Some 5),
     SSL_CIPHER_find = (\<lambda>s c st. Some 5),
     SSL_CIPHER_get_id = (\<lambda>c st. 0x03001302),
     SSL_set_verify = (\<lambda>s m st. st\<lparr>sim_verify := m\<rparr>),
     SSL_CTX_ctrl = sim_ctrl,
     SSL_CTX_get_options = (\<lambda>c st. sim_opts st),
     SSL_CTX_set_options = (\<lambda>c opt st. st\<lparr>sim_opts := sim_opts st OR opt\<rparr>),
     SSL_CTX_new = (\<lambda>m st. (Some 10, st)),
     SSL_CTX_new_ex = None,
     SSL_CTX_free = (\<lambda>c st. st),
     SSL_CTX_set_security_level = (\<lambda>c l st. st\<lparr>sim_level := l\<rparr>),
     SSL_CTX_set_verify = (\<lambda>c m st. st\<lparr>sim_verify := m\<rparr>),
     SSL_CTX_set_cert_verify_callback = (\<lambda>c cb arg st. st),
     SSL_CTX_set_ciphersuites = (\<lambda>c s st. (1, st\<lparr>sim_suites := cstr s\<rparr>)),
     SSL_CTX_get_ciphers = (\<lambda>c st. Some [Some 5]),
     SSL_CTX_check_private_key = (\<lambda>c st. 1),
     SSL_CTX_load_verify_locations = (\<lambda>c f st. (1, st)),
     SSL_CTX_use_certificate_file = (\<lambda>c f t st. (1, st)),
     SSL_CTX_use_certificate = (\<lambda>c x st. (1, st)),
     SSL_CTX_use_certificate_chain_file = (\<lambda>c f st. (1, st)),
     SSL_CTX_use_PrivateKey_file = (\<lambda>c f t st. (1, st)),
     SSL_CTX_use_PrivateKey = (\<lambda>c k st. (1, st)),
     SSL_CTX_set_default_passwd_cb = (\<lambda>c st. st),
     SSL_CTX_set_default_passwd_cb_userdata = (\<lambda>c u st. st),
     SSL_CTX_get_cert_store = (\<lambda>c st. Some 12),
     SSL_CTX_set_psk_find_session_callback = (\<lambda>c cb st. st),
     SSL_CTX_set_psk_use_session_callback = (\<lambda>c cb st. st),
     SSL_SESSION_new = (\<lambda>st. (Some 20, st)),
     SSL_SESSION_free = (\<lambda>s st. st),
     SSL_SESSION_get0_cipher = (\<lambda>s st. Some 5),
     SSL_SESSION_set1_master_key = (\<lambda>s k n st. (1, st)),
     SSL_SESSION_set_cipher = (\<lambda>s c st. (1, st)),
     SSL_SESSION_set_protocol_version = (\<lambda>s v st. (1, st\<lparr>sim_max := v\<rparr>)),
     SSL_SESSION_get_protocol_version = (\<lambda>s st. sim_max st),
     TLS_server_method = Some 1,
     TLS_client_method = Some 2,
     BIO_new_mem_buf = (\<lambda>b n st. (Some 30, st)),
     BIO_free = (\<lambda>b st. st),
     PEM_read_bio_X509 = (\<lambda>b st. (Some 31, st)),
     PEM_read_bio_X509_CRL = (\<lambda>b st. (Some 32, st)),
     PEM_read_X509_CRL = (\<lambda>f st. (Some 32, st)),
     PEM_read_bio_PrivateKey = (\<lambda>b st. (Some 33, st)),
     EVP_PKEY_free = (\<lambda>k st. st),
     X509_free = (\<lambda>x st. st),
     X509_CRL_free = (\<lambda>x st. st),
     X509_STORE_add_cert = (\<lambda>s x st. (1, st)),
     X509_STORE_add_crl = (\<lambda>s x st. (1, st)),
     X509_STORE_set_flags = (\<lambda>s f st. (1, st)),
     X509_verify_cert = (\<lambda>s st. (1, st)),
     EVP_sha256 = Some 40,
     EVP_sha384 = Some 41 \<rparr>"

definition sim_adaptor :: "string \<Rightarrow> sim_state OpenSSLAdaptor" where
  "sim_adaptor node = \<lparr> ad_ssl = sim_ossl, ad_crypto = small_crypto (enc_short node), ad_cryptoEngine = None \<rparr>"

definition sim_globals :: "sim_state OpenSSLAdaptor scf_globals" where
  "sim_globals = \<lparr> g_scfInitialized = True, g_adaptor = Some (sim_adaptor ''n1'') \<rparr>"

definition sim_obj :: SCFPolicyObj where
  "sim_obj = \<lparr> obj_policyCtx = Some 100, obj_sslCtx = Some 11, obj_policyMode = SCF_POLICY_HIGH, obj_verifyMode = 1,
     obj_role = SCF_ROLE_CLIENT, obj_isSetRole = False, obj_fd = 3, obj_pskFindSessionCb = None, obj_pskUseSessionCb = None,
     obj_keyUpdateInfo = \<lparr> ku_timeInterval = 3600, ku_trafficThreshold = 0x40000000, ku_totalSizeOfWriteData = 0,
       ku_lastKeyUpdateTime = 1700000000, ku_totalKeyUpdateCnt = 0, ku_isLastUpdateSuccess = True \<rparr>,
     obj_userData = None \<rparr>"

lemma sim_globals_simps [simp]:
  "g_scfInitialized sim_globals" "g_adaptor sim_globals = Some (sim_adaptor ''n1'')" "ad_ssl (sim_adaptor n) = sim_ossl"
  by (simp_all add: sim_globals_def sim_adaptor_def)

end
