(* ===== verification/Key_Update_Correct.thy ===== *)
theory Key_Update_Correct
  imports Key_Update Rbac_Correct Ossl_Sim
begin

text \<open>
  Key update: the traffic counter cannot wrap around and the trigger is exact; what the reset of the
  timestamp in the adaptor does to the following writes; parameters; freezing by a handshake.
\<close>

section \<open>The trigger\<close>

lemma unat_le_max64: "unat (w :: u64) \<le> 0xffffffffffffffff"
  using unsigned_less [where 'a = nat, of w] by simp

lemma unat_ucast_32_64: "unat (ucast (n :: u32) :: u64) = unat n"
proof -
  have "unat n < 2 ^ 64" using unsigned_less [where 'a = nat, of n] by simp
  then show ?thesis by (simp add: unsigned_ucast_eq take_bit_nat_eq_self)
qed

lemma word_nat_of_unat: "of_nat (unat w) = (w :: u64)"
  by simp

lemma traffic_test:
  fixes total len T :: u64
  shows "len \<ge> T \<or> total \<ge> T - len \<longleftrightarrow> unat T \<le> unat total + unat len"
proof (cases "len \<ge> T")
  case False
  then have "unat (T - len) = unat T - unat len" by (simp add: unat_sub)
  then show ?thesis using False by (auto simp: word_le_nat_alt)
qed (auto simp: word_le_nat_alt)

lemma saturating_add:
  fixes total len :: u64
  shows "unat (total + min (0xffffffffffffffff - total) len) = min 0xffffffffffffffff (unat total + unat len)"
proof -
  have "total \<le> 0xffffffffffffffff" using unat_le_max64 [of total] by (simp add: word_le_nat_alt)
  then have rest: "unat (0xffffffffffffffff - total) = 0xffffffffffffffff - unat total"
    by (simp add: unat_sub)
  have m: "unat (min (0xffffffffffffffff - total) len) = min (0xffffffffffffffff - unat total) (unat len)"
    using rest by (simp add: min_def word_le_nat_alt)
  have "unat total + min (0xffffffffffffffff - unat total) (unat len) < 2 ^ 64"
    using unat_le_max64 [of total] by simp
  then have "unat (total + min (0xffffffffffffffff - total) len) =
      unat total + min (0xffffffffffffffff - unat total) (unat len)"
    by (simp add: unat_word_ariths m)
  then show ?thesis using unat_le_max64 [of total] by simp
qed

lemma unat_add_small:
  fixes a b :: u64
  assumes "unat a + unat b < 2 ^ 64"
  shows "unat (a + b) = unat a + unat b"
  using assms by (simp add: unat_word_ariths)

definition interval_elapsed :: "SCFPolicyObj \<Rightarrow> SCFPolicyCtx \<Rightarrow> u64 \<Rightarrow> bool" where
  "interval_elapsed b c t \<longleftrightarrow>
     unat (ku_lastKeyUpdateTime (obj_keyUpdateInfo b)) + unat (ctx_keyUpdateTime c) \<le> unat t"

lemma CheckTimeInterval_eq:
  "CheckTimeInterval b c (r, t) =
     (if t < ku_lastKeyUpdateTime (obj_keyUpdateInfo b) then (SCF_ERRNO_SYSTEM_TIME_ERROR, False)
      else (SCF_SUCCESS, interval_elapsed b c t))"
proof (cases "t < ku_lastKeyUpdateTime (obj_keyUpdateInfo b)")
  case False
  then have "ku_lastKeyUpdateTime (obj_keyUpdateInfo b) \<le> t" by simp
  then show ?thesis
    by (auto simp: CheckTimeInterval_def interval_elapsed_def word_le_nat_alt unat_sub unat_ucast_32_64)
qed (simp add: CheckTimeInterval_def)

lemma set_total_info [simp]:
  "ku_totalSizeOfWriteData (obj_keyUpdateInfo (set_total n b)) = n"
  "ku_lastKeyUpdateTime (obj_keyUpdateInfo (set_total n b)) = ku_lastKeyUpdateTime (obj_keyUpdateInfo b)"
  "interval_elapsed (set_total n b) c t = interval_elapsed b c t"
  "obj_sslCtx (set_total n b) = obj_sslCtx b"
  by (simp_all add: set_total_def interval_elapsed_def)

definition written :: "SCFPolicyObj \<Rightarrow> nat" where
  "written b = unat (ku_totalSizeOfWriteData (obj_keyUpdateInfo b))"

lemma of_nat_written: "of_nat (written b) = ku_totalSizeOfWriteData (obj_keyUpdateInfo b)"
  by (simp add: written_def)

definition is_tls13 :: "'o ossl_api \<Rightarrow> SCFPolicyObj \<Rightarrow> 'o \<Rightarrow> bool" where
  "is_tls13 api b st \<longleftrightarrow> (\<exists>v. adaptor_GetVersion api (Some b) st = Some v \<and> cstr v = ''TLSv1.3'')"

lemma tls13_cstr: "cstr SCF_SSL_VERSION_TLS13_STR = ''TLSv1.3''"
  by (simp add: scf_const cstr_def NUL_def)

lemma CheckNeedKeyUpdate_eq:
  assumes "is_tls13 api b st"
  shows "CheckNeedKeyUpdate api (Some b) c len (Some n0) (tr, t) st =
    (if unat (ctx_keyUpdateTraffic c) \<le> written b + unat len
     then (SCF_SUCCESS, Some (set_total (of_nat (min 0xffffffffffffffff (written b + unat len))) b), Some True)
     else if t < ku_lastKeyUpdateTime (obj_keyUpdateInfo b)
     then (SCF_ERRNO_SYSTEM_TIME_ERROR, Some (set_total (of_nat (written b + unat len)) b), Some False)
     else (SCF_SUCCESS, Some (set_total (of_nat (written b + unat len)) b), Some (interval_elapsed b c t)))"
proof -
  let ?total = "ku_totalSizeOfWriteData (obj_keyUpdateInfo b)"
  let ?len = "ucast len :: u64"
  let ?T = "ctx_keyUpdateTraffic c"
  obtain v where v: "adaptor_GetVersion api (Some b) st = Some v" "strcmp_eq v SCF_SSL_VERSION_TLS13_STR"
    using assms by (auto simp: is_tls13_def strcmp_eq_def tls13_cstr)
  have test: "?len \<ge> ?T \<or> ?total \<ge> ?T - ?len \<longleftrightarrow> unat ?T \<le> written b + unat len"
    using traffic_test by (simp add: written_def unat_ucast_32_64)
  have sat: "?total + min (0xffffffffffffffff - ?total) ?len = of_nat (min 0xffffffffffffffff (written b + unat len))"
    using saturating_add [of ?total ?len] by (metis unat_ucast_32_64 word_nat_of_unat written_def)
  show ?thesis
  proof (cases "unat ?T \<le> written b + unat len")
    case True
    then show ?thesis
      using v test sat by (simp add: CheckNeedKeyUpdate_def Let_def)
  next
    case False
    then have "written b + unat len < 2 ^ 64" using unat_le_max64 [of ?T] by simp
    then have sum: "unat (?total + ?len) = written b + unat len"
      using unat_add_small [of ?total ?len] by (simp add: written_def unat_ucast_32_64)
    have "\<not> ?T \<le> ?total + ?len" using False sum by (simp add: word_le_nat_alt)
    then show ?thesis
      using v test False of_nat_written [of b] by (simp add: CheckNeedKeyUpdate_def Let_def CheckTimeInterval_eq)
  qed
qed

lemma CheckNeedKeyUpdate_other:
  assumes "\<not> is_tls13 api b st"
  shows "CheckNeedKeyUpdate api (Some b) c len (Some n0) now st = (SCF_SUCCESS, Some b, Some False)"
  using assms
  by (cases "adaptor_GetVersion api (Some b) st")
    (auto simp: CheckNeedKeyUpdate_def Let_def is_tls13_def strcmp_eq_def tls13_cstr)

lemma written_set_total: "n < 2 ^ 64 \<Longrightarrow> written (set_total (of_nat n) b) = n"
  by (simp add: written_def unat_of_nat)

section \<open>One transfer\<close>

text \<open>A transfer that gets past the guards of \<^verbatim>\<open>SCF_Write\<close> and whose data the library takes.\<close>

definition write_ok :: "'o ossl_api \<Rightarrow> SCFPolicyObj \<Rightarrow> string \<Rightarrow> u32 \<Rightarrow> 'o \<Rightarrow> u64 \<Rightarrow> 'o \<Rightarrow> bool" where
  "write_ok api b data len st n st1 \<longleftrightarrow>
     len \<noteq> 0 \<and> obj_role b \<noteq> SCF_ROLE_NONE \<and> obj_sslCtx b \<noteq> None \<and>
     SSL_write_ex api (obj_sslCtx b) data len st = (SSL_SUCCESS, n, st1)"

lemma SCF_Write_ok:
  assumes "g_scfInitialized g" "g_adaptor g = Some ad" "write_ok (ad_ssl ad) b data len st n st1"
  shows "SCF_Write g (Some b) ctx (Some data) len (Some w) now st =
    (if ctx \<noteq> None \<and> ctx_isNeedKeyUpdate (the ctx) then
       (let (r1, obj1, need) = CheckNeedKeyUpdate (ad_ssl ad) (Some b) (the ctx) (ucast n) (Some False) now st1 in
        if r1 = SCF_SUCCESS \<and> need = Some True then
          (let (r2, obj2, st2) = adaptor_KeyUpdate (ad_ssl ad) obj1 KEY_UPDATE_NOT_REQUESTED st1 in
           (r2, obj2, Some (ucast n), st2))
        else (r1, obj1, Some (ucast n), st1))
     else (SCF_SUCCESS, Some b, Some (ucast n), st1))"
proof -
  obtain ssl where "obj_sslCtx b = Some ssl" using assms(3) by (auto simp: write_ok_def)
  with assms show ?thesis by (simp add: SCF_Write_def adaptor_Write_def write_ok_def)
qed

text \<open>The library takes part in a key update of the connection behind \<^verbatim>\<open>b\<close>.\<close>

definition update_ok :: "'o ossl_api \<Rightarrow> SCFPolicyObj \<Rightarrow> 'o \<Rightarrow> 'o \<Rightarrow> bool" where
  "update_ok api b st st2 \<longleftrightarrow>
     SSL_is_init_finished api (obj_sslCtx b) st = SSL_SUCCESS \<and>
     SSL_key_update api (obj_sslCtx b) SSL_KEY_UPDATE_NOT_REQUESTED st = (SSL_SUCCESS, st2)"

definition updated :: "SCFPolicyObj \<Rightarrow> SCFPolicyObj" where
  "updated b = b\<lparr>obj_keyUpdateInfo := (obj_keyUpdateInfo b)
     \<lparr>ku_totalSizeOfWriteData := 0, ku_lastKeyUpdateTime := 0, ku_isLastUpdateSuccess := True\<rparr>\<rparr>"

lemma adaptor_KeyUpdate_ok:
  assumes "obj_sslCtx b \<noteq> None" "update_ok api b st st2"
  shows "adaptor_KeyUpdate api (Some b) KEY_UPDATE_NOT_REQUESTED st = (SCF_SUCCESS, Some (updated b), st2)"
  using assms by (auto simp: adaptor_KeyUpdate_def InnerGetOpensslUpdateType_def update_ok_def updated_def)

lemma update_ok_set_total [simp]: "update_ok api (set_total n b) st st2 = update_ok api b st st2"
  by (simp add: update_ok_def)

lemma updated_set_total [simp]: "updated (set_total n b) = updated b"
  by (simp add: updated_def set_total_def)

lemma updated_sel [simp]:
  "obj_sslCtx (updated b) = obj_sslCtx b" "obj_role (updated b) = obj_role b"
  "ku_lastKeyUpdateTime (obj_keyUpdateInfo (updated b)) = 0" "written (updated b) = 0"
  "updated (updated b) = updated b"
  by (simp_all add: updated_def written_def)

section \<open>Properties\<close>

text \<open>C14: The decision to update the session key of a TLS 1.3 connection is exact: it is taken when the
  bytes written since the last update, counted without wrap-around, reach the traffic limit of the
  context, or when the interval has elapsed; the counter saturates at the largest 64-bit value.  A clock
  that is behind the last update is an error below the limit, and other protocol versions are left alone.\<close>

theorem CheckNeedKeyUpdate_exact:
  "(let (r, obj', need) = CheckNeedKeyUpdate api (Some b) c len (Some n0) (tr, t) st;
        reached = unat (ctx_keyUpdateTraffic c) \<le> written b + unat len;
        behind = t < ku_lastKeyUpdateTime (obj_keyUpdateInfo b) in
    (r = (if is_tls13 api b st \<and> \<not> reached \<and> behind then SCF_ERRNO_SYSTEM_TIME_ERROR else SCF_SUCCESS)) \<and>
    need = Some (is_tls13 api b st \<and> (reached \<or> \<not> behind \<and> interval_elapsed b c t)) \<and>
    (\<exists>b'. obj' = Some b' \<and> b' = set_total (ku_totalSizeOfWriteData (obj_keyUpdateInfo b')) b \<and>
       written b' = (if is_tls13 api b st then min 0xffffffffffffffff (written b + unat len) else written b)))"
proof (cases "is_tls13 api b st")
  case False
  then show ?thesis by (simp add: CheckNeedKeyUpdate_other set_total_def)
next
  case True
  let ?s = "written b + unat len"
  have sat: "written (set_total (of_nat (min 0xffffffffffffffff ?s)) b) = min 0xffffffffffffffff ?s"
    by (rule written_set_total) simp
  have plain: "written (set_total (of_nat ?s) b) = min 0xffffffffffffffff ?s"
    if "\<not> unat (ctx_keyUpdateTraffic c) \<le> ?s"
    using that unat_le_max64 [of "ctx_keyUpdateTraffic c"] written_set_total [of ?s b] by simp
  show ?thesis
    using True sat plain by (simp add: CheckNeedKeyUpdate_eq Let_def)
qed

text \<open>C21: An update records the time 0 instead of the current time, so with automatic updates enabled
  every further write on a TLS 1.3 connection that has been updated once performs an update again, whatever
  the traffic and the configured interval are, as soon as the clock shows at least that interval in
  seconds since 1970; the object is then in the same state as before.\<close>

theorem SCF_Write_updates_again:
  assumes "g_scfInitialized g" "g_adaptor g = Some ad"
    and "ctx_isNeedKeyUpdate c" "unat (ctx_keyUpdateTime c) \<le> unat t"
    and "write_ok (ad_ssl ad) (updated b) data len st n st1"
    and "is_tls13 (ad_ssl ad) (updated b) st1" "update_ok (ad_ssl ad) b st1 st2"
  shows "SCF_Write g (Some (updated b)) (Some c) (Some data) len (Some w) (tr, t) st =
    (SCF_SUCCESS, Some (updated b), Some (ucast n), st2)"
proof -
  have el: "interval_elapsed (updated b) c t" and nb: "\<not> t < ku_lastKeyUpdateTime (obj_keyUpdateInfo (updated b))"
    using assms(4) by (simp_all add: interval_elapsed_def)
  have "update_ok (ad_ssl ad) (updated b) st1 st2" using assms(7) by (simp add: update_ok_def)
  moreover have "obj_sslCtx b \<noteq> None" using assms(5) by (simp add: write_ok_def)
  ultimately have ku: "adaptor_KeyUpdate (ad_ssl ad) (Some (set_total m (updated b))) KEY_UPDATE_NOT_REQUESTED st1 =
      (SCF_SUCCESS, Some (updated b), st2)" for m
    using adaptor_KeyUpdate_ok [of "set_total m (updated b)" "ad_ssl ad" st1 st2] by simp
  show ?thesis
    using assms(3,6) el nb by (simp add: SCF_Write_ok [OF assms(1,2,5)] CheckNeedKeyUpdate_eq ku)
qed

lemma sim_write_ok:
  "len \<noteq> 0 \<Longrightarrow> write_ok sim_ossl (updated sim_obj) data len st (ucast len) st"
  by (simp add: write_ok_def sim_ossl_def sim_obj_def SSL_SUCCESS_def)

lemma sim_is_tls13: "is_tls13 sim_ossl (updated sim_obj) st" "is_tls13 sim_ossl sim_obj st"
  by (simp_all add: is_tls13_def adaptor_GetVersion_def sim_ossl_def sim_obj_def cstr_def NUL_def)

lemma sim_update_ok: "update_ok sim_ossl sim_obj st (st\<lparr>sim_updates := Suc (sim_updates st)\<rparr>)"
  by (simp add: update_ok_def sim_ossl_def SSL_SUCCESS_def)

theorem SCF_Write_updates_again_witness:
  "SCF_Write sim_globals (Some (updated sim_obj)) (Some (sample_ctx\<lparr>ctx_isNeedKeyUpdate := True\<rparr>)) (Some ''x'') 1 (Some 0)
     (0, 1700000000) sim0 = (SCF_SUCCESS, Some (updated sim_obj), Some 1, sim0\<lparr>sim_updates := 1\<rparr>)"
  using SCF_Write_updates_again [of sim_globals "sim_adaptor ''n1''" "sample_ctx\<lparr>ctx_isNeedKeyUpdate := True\<rparr>" 1700000000
      sim_obj "''x''" 1 sim0 1 sim0 "sim0\<lparr>sim_updates := 1\<rparr>" 0 0]
    sim_write_ok [of 1 "''x''" sim0] sim_is_tls13 [of sim0] sim_update_ok [of sim0]
  by (simp add: sample_ctx_def sim0_def)

text \<open>C22: An explicit update resets the traffic counter and then asks the library; whatever the library
  answers the counter stays 0, the success flag tells whether the library took part, the update counter
  grows by one exactly on success, and the time stamp is the current time only if the library refused: on
  success the adaptor has overwritten it with 0.\<close>

theorem SCF_ObjKeyUpdate_result:
  assumes "g_scfInitialized g" "g_adaptor g = Some ad"
  shows "\<exists>r b' st'. SCF_ObjKeyUpdate g (Some b) (0, t) st = (r, Some b', st') \<and>
    written b' = 0 \<and>
    ku_isLastUpdateSuccess (obj_keyUpdateInfo b') = (r = SCF_SUCCESS) \<and>
    ku_totalKeyUpdateCnt (obj_keyUpdateInfo b') =
      ku_totalKeyUpdateCnt (obj_keyUpdateInfo b) + (if r = SCF_SUCCESS then 1 else 0) \<and>
    ku_lastKeyUpdateTime (obj_keyUpdateInfo b') = (if r = SCF_SUCCESS then 0 else t) \<and>
    (r = SCF_SUCCESS \<longleftrightarrow> obj_sslCtx b \<noteq> None \<and> (\<exists>st2. update_ok (ad_ssl ad) b st st2))"
  using assms
  by (cases "SSL_key_update (ad_ssl ad) (obj_sslCtx b) SSL_KEY_UPDATE_NOT_REQUESTED st")
    (auto simp: SCF_ObjKeyUpdate_def adaptor_KeyUpdate_def InnerGetOpensslUpdateType_def update_ok_def written_def Let_def
      errno SCF_SUCCESS_def)

theorem SCF_ObjKeyUpdate_result_witness:
  "\<exists>b' st'. SCF_ObjKeyUpdate sim_globals (Some sim_obj) (0, 1700000000) sim0 = (SCF_SUCCESS, Some b', st') \<and>
     ku_lastKeyUpdateTime (obj_keyUpdateInfo b') = 0"
proof -
  have "obj_sslCtx sim_obj \<noteq> None" by (simp add: sim_obj_def)
  then show ?thesis
    using SCF_ObjKeyUpdate_result [of sim_globals "sim_adaptor ''n1''" sim_obj 1700000000 sim0] sim_update_ok [of sim0]
    by auto
qed

text \<open>C23: Automatic update parameters read back exactly as they were set, and only parameters inside the
  documented limits can be set; a rejected pair leaves the limits of the context as they were but has
  already switched automatic updates on.\<close>

theorem SCF_SetKeyAutoUpdateParam_spec:
  assumes "g_scfInitialized g"
  shows "(let (r, ctx') = SCF_SetKeyAutoUpdateParam g (Some c) on time traffic;
              ok = (on \<longrightarrow> 1 \<le> unat time \<and> unat time \<le> 31536000 \<and> 1000 \<le> unat traffic) in
    r = (if ok then SCF_SUCCESS else SCF_SSL_ERR_SET_UPDATE_PARAM) \<and>
    SCF_GetKeyAutoUpdateParam g ctx' on0 time0 traffic0 =
      (if \<not> on then (SCF_SUCCESS, False, time0, traffic0)
       else if ok then (SCF_SUCCESS, True, time, traffic)
       else (SCF_SUCCESS, True, ctx_keyUpdateTime c, ctx_keyUpdateTraffic c)))"
proof -
  have "traffic \<le> 0xffffffffffffffff" using unat_le_max64 [of traffic] by (simp add: word_le_nat_alt)
  moreover have "time < 1 \<longleftrightarrow> unat time < 1" "31536000 < time \<longleftrightarrow> 31536000 < unat time" "traffic < 1000 \<longleftrightarrow> unat traffic < 1000"
    by (simp_all add: word_less_nat_alt)
  ultimately show ?thesis
    using assms
    by (auto simp: SCF_SetKeyAutoUpdateParam_def SCF_GetKeyAutoUpdateParam_def Let_def MIN_KEY_UPDATE_TIME_def
        MAX_KEY_UPDATE_TIME_def MIN_KEY_UPDATE_TRAFFIC_def MAX_KEY_UPDATE_TRAFFIC_def)
qed

theorem SCF_SetKeyAutoUpdateParam_spec_witness:
  "fst (SCF_SetKeyAutoUpdateParam sim_globals (Some sample_ctx) True 60 5000) = SCF_SUCCESS \<and>
   fst (SCF_SetKeyAutoUpdateParam sim_globals (Some sample_ctx) True 60 5) = SCF_SSL_ERR_SET_UPDATE_PARAM"
  using SCF_SetKeyAutoUpdateParam_spec [of sim_globals sample_ctx True 60 5000 False 0 0]
    SCF_SetKeyAutoUpdateParam_spec [of sim_globals sample_ctx True 60 5 False 0 0]
  by (simp add: Let_def split: prod.splits)

text \<open>C15: A completed handshake freezes the node/role mapping of the context for good, an attempt that did
  not complete leaves the context untouched: after a successful connect or accept no sequence of
  operations on the context changes the mapping.\<close>

theorem handshake_freezes_mapping:
  assumes "SCF_Connect g (Some b) (Some c) st = (r, obj', Some c1, st') \<or> SCF_Accept g (Some b) (Some c) st = (r, obj', Some c1, st')"
    and "rbac_step\<^sup>*\<^sup>* c1 c2"
  shows "(r = SCF_SUCCESS \<longrightarrow> ctx_nodeRoleMapFrozen c2 \<and> ctx_nodeRoleMap c2 = ctx_nodeRoleMap c) \<and> (r \<noteq> SCF_SUCCESS \<longrightarrow> c1 = c)"
proof -
  have c1: "c1 = (if r = SCF_SUCCESS then c\<lparr>ctx_nodeRoleMapFrozen := True\<rparr> else c)"
    using assms(1) by (auto simp: SCF_Connect_def SCF_Accept_def CHECK_SCF_INIT_RET_def FreezeNodeRoleMapping_def errno SCF_SUCCESS_def
        split: if_splits option.splits prod.splits)
  moreover have "frozen_with (ctx_nodeRoleMap c) c1" if "r = SCF_SUCCESS"
    using that c1 by (simp add: frozen_with_def)
  ultimately show ?thesis
    using frozen_sys.inv_steps [OF assms(2), of "ctx_nodeRoleMap c"] by (auto simp: frozen_with_def)
qed

theorem handshake_freezes_mapping_witness:
  "\<exists>c1. SCF_Connect sim_globals (Some sim_obj) (Some sample_ctx) sim0 =
     (SCF_SUCCESS, Some (sim_obj\<lparr>obj_isSetRole := True\<rparr>), Some c1, sim0) \<and> ctx_nodeRoleMapFrozen c1 \<and>
     ctx_nodeRoleMap c1 = ctx_nodeRoleMap sample_ctx"
proof -
  have "SCF_Connect sim_globals (Some sim_obj) (Some sample_ctx) sim0 =
      (SCF_SUCCESS, Some (sim_obj\<lparr>obj_isSetRole := True\<rparr>), Some (sample_ctx\<lparr>ctx_nodeRoleMapFrozen := True\<rparr>), sim0)"
    by (simp add: SCF_Connect_def adaptor_Connect_def sim_ossl_def sim_obj_def FreezeNodeRoleMapping_def SSL_SUCCESS_def)
  from handshake_freezes_mapping [OF disjI1 [OF this] rtranclp.rtrancl_refl] this show ?thesis by blast
qed

section \<open>Version check and descriptor\<close>

lemma MapVersion2NoOpt_simps:
  "MapVersion2NoOpt 0x0303 (Some x) = (1, Some SSL_OP_NO_TLSv1_2)"
  "MapVersion2NoOpt 0x0304 (Some x) = (1, Some SSL_OP_NO_TLSv1_3)"
  "v \<noteq> 0x0303 \<Longrightarrow> v \<noteq> 0x0304 \<Longrightarrow> MapVersion2NoOpt v (Some x) = (0, Some x)"
  by (simp_all add: MapVersion2NoOpt_def TLS1_2_VERSION_def TLS1_3_VERSION_def SSL_SUCCESS_def SSL_ERROR_def)

lemma CheckVersion_loop_304:
  "CheckVersion_loop opts 0x0304 m = (if 0x0304 \<le> m \<and> ucast SSL_OP_NO_TLSv1_3 AND opts = 0 then SSL_SUCCESS else SSL_ERROR)"
  by (simp add: CheckVersion_loop.simps [of opts "0x0304" m] CheckVersion_loop.simps [of opts "0x0305" m] MapVersion2NoOpt_simps
      SSL_SUCCESS_def SSL_ERROR_def)

lemma CheckVersion_loop_303:
  "CheckVersion_loop opts 0x0303 m =
     (if 0x0303 \<le> m \<and> (ucast SSL_OP_NO_TLSv1_2 AND opts = 0 \<or> 0x0304 \<le> m \<and> ucast SSL_OP_NO_TLSv1_3 AND opts = 0)
      then SSL_SUCCESS else SSL_ERROR)"
  by (simp add: CheckVersion_loop.simps [of opts "0x0303" m] CheckVersion_loop_304 MapVersion2NoOpt_simps SSL_SUCCESS_def SSL_ERROR_def)

text \<open>The version check accepts a configured range exactly when it starts at TLS 1.2 or TLS 1.3 and one
  of these two versions lies inside it and is not switched off by its option; a range that starts at any
  other value, the library's own 0 included, is refused.\<close>

theorem CheckVersion_loop_iff:
  "CheckVersion_loop opts v m = SSL_SUCCESS \<longleftrightarrow>
     v \<in> {TLS1_2_VERSION, TLS1_3_VERSION} \<and>
     (v = TLS1_2_VERSION \<and> v \<le> m \<and> ucast SSL_OP_NO_TLSv1_2 AND opts = 0 \<or>
      TLS1_3_VERSION \<le> m \<and> ucast SSL_OP_NO_TLSv1_3 AND opts = 0)"
proof -
  consider "v = 0x0303" | "v = 0x0304" | "v \<noteq> 0x0303" "v \<noteq> 0x0304" by blast
  then show ?thesis
  proof cases
    case 3
    then show ?thesis
      by (simp add: CheckVersion_loop.simps [of opts v m] MapVersion2NoOpt_simps SSL_SUCCESS_def SSL_ERROR_def
          TLS1_2_VERSION_def TLS1_3_VERSION_def)
  qed (auto simp: CheckVersion_loop_303 CheckVersion_loop_304 TLS1_2_VERSION_def TLS1_3_VERSION_def SSL_SUCCESS_def SSL_ERROR_def)
qed

text \<open>Attaching a descriptor is atomic: a call that fails leaves the policy object exactly as it was
  (a connection created on the way is released again), and a call that succeeds changes the descriptor
  and, if there was none, the connection, and nothing else.\<close>

lemma adaptor_SetFd_atomic:
  assumes "adaptor_SetFd api self (Some b) ctx fd st = (r, obj', st')"
  shows "(r \<noteq> SCF_SUCCESS \<longrightarrow> obj' = Some b) \<and>
    (r = SCF_SUCCESS \<longrightarrow> (\<exists>ssl. obj' = Some (b\<lparr>obj_fd := fd, obj_sslCtx := ssl\<rparr>) \<and> (obj_sslCtx b \<noteq> None \<longrightarrow> ssl = obj_sslCtx b)))"
  using assms
  by (cases b) (auto simp: adaptor_SetFd_def Let_def errno SCF_SUCCESS_def split: if_splits prod.splits)

end
