(* ===== verification/Dl_Loader.thy ===== *)
theory Dl_Loader
  imports Utils
begin

text \<open>
  Dynamic loading of libssl and libcrypto: \<^verbatim>\<open>adaptor/base/dlopen_lib_base.{h,cpp}\<close>,
  \<^verbatim>\<open>adaptor/openssl/lib_ssl_api.cpp\<close>, \<^verbatim>\<open>adaptor/openssl/lib_crypto_api.cpp\<close>, and the adaptor's \<^verbatim>\<open>Init\<close> and
  \<^verbatim>\<open>DeInit\<close>.

  A library object keeps the handle, the cache of resolved pointers, the version number and its
  \<^verbatim>\<open>DlFun\<close> members; a member is a slot that holds the resolved address or nothing.  Calling an empty
  slot throws: \<^verbatim>\<open>None\<close> as the result of an operation stands for the exception.  The dynamic linker and the
  two library functions called while loading are the record \<^verbatim>\<open>dl_api\<close>; \<^verbatim>\<open>dl_closed\<close> lists the handles
  given back with \<^verbatim>\<open>dlclose\<close>.
\<close>

record dl_api =
  dl_open :: "string \<Rightarrow> addr option"
  dl_sym :: "addr \<Rightarrow> string \<Rightarrow> addr option"
  dl_call_version :: "addr \<Rightarrow> u64"
  dl_call_init :: "addr \<Rightarrow> int"

record dl_lib =
  dl_libptr :: "addr option"
  dl_funCache :: "addr list"
  dl_slots :: "string \<Rightarrow> addr option"
  dl_versionNum :: u64
  dl_closed :: "addr list"

section \<open>Base class\<close>

definition SelfDlClose :: "dl_lib \<Rightarrow> dl_lib" where
  "SelfDlClose lib =
     (let lib1 = lib\<lparr>dl_funCache := []\<rparr> in
      case dl_libptr lib1 of
        None \<Rightarrow> lib1
      | Some p \<Rightarrow> lib1\<lparr>dl_libptr := None, dl_closed := p # dl_closed lib1\<rparr>)"

definition SelfDlOpen :: "os_api \<Rightarrow> dl_api \<Rightarrow> string \<Rightarrow> dl_lib \<Rightarrow> ret \<times> dl_lib" where
  "SelfDlOpen os dl libPath lib =
     (if \<not> SCF_CheckFilePathAndStat os libPath then (SCF_ERRNO_LOAD_LIB, lib)
      else
        let lib1 = lib\<lparr>dl_libptr := dl_open dl libPath\<rparr> in
        if dl_libptr lib1 = None then (SCF_ERRNO_LOAD_LIB, lib1) else (SCF_SUCCESS, lib1))"

definition SelfDlSym :: "dl_api \<Rightarrow> string \<Rightarrow> string \<Rightarrow> dl_lib \<Rightarrow> ret \<times> dl_lib" where
  "SelfDlSym dl funName outFun lib =
     (if dl_libptr lib = None \<or> funName = '''' then (SCF_ERRNO_LOAD_SYMBOL, lib)
      else
        (case dl_sym dl (the (dl_libptr lib)) funName of
           None \<Rightarrow> (SCF_ERRNO_LOAD_SYMBOL, lib)
         | Some funPtr \<Rightarrow>
             (SCF_SUCCESS, lib\<lparr>dl_funCache := dl_funCache lib @ [funPtr], dl_slots := (dl_slots lib)(outFun \<mapsto> funPtr)\<rparr>)))"

text \<open>The cache holds the pointers as the code stored them, so a null entry is an address of value 0.\<close>

fun CheckFunCache_loop :: "addr list \<Rightarrow> ret" where
  "CheckFunCache_loop [] = SCF_SUCCESS"
| "CheckFunCache_loop (p # ps) = (if p = 0 then SCF_ERRNO_LOAD_LIB else CheckFunCache_loop ps)"

definition CheckFunCache :: "dl_lib \<Rightarrow> ret" where
  "CheckFunCache lib = CheckFunCache_loop (dl_funCache lib)"

definition GetFunCacheSize :: "dl_lib \<Rightarrow> nat" where
  "GetFunCacheSize lib = length (dl_funCache lib)"

text \<open>A run of statements \<^verbatim>\<open>ret |= SelfDlSym(symbol, member)\<close>, and the \<^verbatim>\<open>Reset\<close> of a list of members.\<close>

fun load_syms :: "dl_api \<Rightarrow> (string \<times> string) list \<Rightarrow> ret \<Rightarrow> dl_lib \<Rightarrow> ret \<times> dl_lib" where
  "load_syms dl [] r lib = (r, lib)"
| "load_syms dl ((funName, slot) # xs) r lib =
     (let (r1, lib1) = SelfDlSym dl funName slot lib in load_syms dl xs (r OR r1) lib1)"

definition reset_slots :: "string list \<Rightarrow> dl_lib \<Rightarrow> dl_lib" where
  "reset_slots xs lib = lib\<lparr>dl_slots := (\<lambda>n. if n \<in> set xs then None else dl_slots lib n)\<rparr>"

definition same_name :: "string \<Rightarrow> string \<times> string" where
  "same_name n = (n, n)"

definition SSL_VERSION_3_X :: u64 where [scf_const]: "SSL_VERSION_3_X = 0x30000000"

section \<open>Symbols\<close>

definition ssl_base_symbols :: "u64 \<Rightarrow> (string \<times> string) list" where
  "ssl_base_symbols v =
     map same_name
       [''OPENSSL_init_ssl'', ''SSL_new'', ''SSL_free'', ''SSL_connect'', ''SSL_accept'', ''SSL_get_error'',
        ''SSL_read_ex'', ''SSL_write_ex'', ''SSL_shutdown'', ''SSL_set_ex_data'', ''SSL_get_ex_data'',
        ''SSL_set_fd'', ''SSL_is_init_finished'', ''SSL_key_update'', ''SSL_get_version''] @
     (if v \<ge> SSL_VERSION_3_X then [(''SSL_get1_peer_certificate'', ''SSL_get_peer_certificate'')]
      else map same_name [''SSL_get_peer_certificate'']) @
     map same_name [''SSL_get_certificate'', ''SSL_set_verify'']"

definition ssl_CipherSuit_symbols :: "u64 \<Rightarrow> (string \<times> string) list" where
  "ssl_CipherSuit_symbols v =
     map same_name [''SSL_CIPHER_find'', ''SSL_CIPHER_get_id'']"

definition ssl_Ctx_symbols :: "u64 \<Rightarrow> (string \<times> string) list" where
  "ssl_Ctx_symbols v =
     map same_name [''SSL_CTX_new''] @
     (if v \<ge> SSL_VERSION_3_X then map same_name [''SSL_CTX_new_ex'']
      else []) @
     map same_name
       [''SSL_CTX_free'', ''SSL_CTX_load_verify_locations'', ''SSL_CTX_get_cert_store'',
        ''SSL_CTX_use_certificate_file'', ''SSL_CTX_use_certificate'', ''SSL_CTX_use_certificate_chain_file'',
        ''SSL_CTX_use_PrivateKey_file'', ''SSL_CTX_use_PrivateKey'', ''SSL_CTX_set_default_passwd_cb_userdata'',
        ''SSL_CTX_set_ciphersuites'', ''SSL_get_current_cipher'', ''SSL_CTX_set_options'', ''SSL_CTX_get_options'',
        ''SSL_CTX_set_cert_verify_callback'', ''SSL_CTX_check_private_key'', ''SSL_CTX_set_verify'',
        ''SSL_CTX_set_security_level'', ''SSL_CTX_set_psk_find_session_callback'',
        ''SSL_CTX_set_psk_use_session_callback'', ''SSL_CTX_get_ciphers'', ''SSL_CTX_ctrl'',
        ''SSL_CTX_set_default_passwd_cb'']"

definition ssl_SSLObj_symbols :: "u64 \<Rightarrow> (string \<times> string) list" where
  "ssl_SSLObj_symbols v =
     map same_name
       [''SSL_SESSION_new'', ''SSL_SESSION_free'', ''SSL_SESSION_get0_cipher'', ''SSL_SESSION_set1_master_key'',
        ''SSL_SESSION_set_cipher'', ''SSL_SESSION_set_protocol_version'', ''SSL_SESSION_get_protocol_version'']"

definition ssl_TLSMethod_symbols :: "u64 \<Rightarrow> (string \<times> string) list" where
  "ssl_TLSMethod_symbols v =
     map same_name [''TLS_server_method'', ''TLS_client_method'']"

definition ssl_BIO_symbols :: "u64 \<Rightarrow> (string \<times> string) list" where
  "ssl_BIO_symbols v =
     map same_name
       [''PEM_read_bio_X509'', ''PEM_read_bio_X509_CRL'', ''PEM_read_bio_PrivateKey'', ''PEM_read_X509_CRL'']"

definition ssl_StackOpt_symbols :: "u64 \<Rightarrow> (string \<times> string) list" where
  "ssl_StackOpt_symbols v =
     map same_name [''OPENSSL_sk_num'', ''OPENSSL_sk_value'']"

definition ssl_UnLoadAll_names :: "string list" where
  "ssl_UnLoadAll_names =
     [''OPENSSL_init_ssl'', ''SSL_new'', ''SSL_free'', ''SSL_connect'', ''SSL_accept'', ''SSL_get_error'',
      ''SSL_read_ex'', ''SSL_write_ex'', ''SSL_shutdown'', ''SSL_set_ex_data'', ''SSL_get_ex_data'', ''SSL_set_fd'',
      ''SSL_is_init_finished'', ''SSL_key_update'', ''SSL_get_version'', ''SSL_get_peer_certificate'',
      ''SSL_get_certificate'', ''SSL_set_verify'']"

definition ssl_UnLoadCipherSuit_names :: "string list" where
  "ssl_UnLoadCipherSuit_names =
     [''SSL_CIPHER_find'', ''SSL_CIPHER_get_id'']"

definition ssl_UnLoadCtx_names :: "string list" where
  "ssl_UnLoadCtx_names =
     [''SSL_CTX_new'', ''SSL_CTX_new_ex'', ''SSL_CTX_free'', ''SSL_CTX_load_verify_locations'',
      ''SSL_CTX_get_cert_store'', ''SSL_CTX_use_certificate_file'', ''SSL_CTX_use_certificate'',
      ''SSL_CTX_use_certificate_chain_file'', ''SSL_CTX_use_PrivateKey_file'', ''SSL_CTX_use_PrivateKey'',
      ''SSL_CTX_set_default_passwd_cb_userdata'', ''SSL_CTX_set_ciphersuites'', ''SSL_get_current_cipher'',
      ''SSL_CTX_set_options'', ''SSL_CTX_get_options'', ''SSL_CTX_set_cert_verify_callback'',
      ''SSL_CTX_check_private_key'', ''SSL_CTX_set_verify'', ''SSL_CTX_set_security_level'',
      ''SSL_CTX_set_psk_find_session_callback'', ''SSL_CTX_set_psk_use_session_callback'', ''SSL_CTX_get_ciphers'',
      ''SSL_CTX_ctrl'', ''SSL_CTX_set_default_passwd_cb'']"

definition ssl_UnLoadSSLObj_names :: "string list" where
  "ssl_UnLoadSSLObj_names =
     [''SSL_SESSION_new'', ''SSL_SESSION_free'', ''SSL_SESSION_get0_cipher'', ''SSL_SESSION_set1_master_key'',
      ''SSL_SESSION_set_cipher'', ''SSL_SESSION_set_protocol_version'', ''SSL_SESSION_get_protocol_version'']"

definition ssl_UnLoadTLSMethod_names :: "string list" where
  "ssl_UnLoadTLSMethod_names =
     [''TLS_server_method'', ''TLS_client_method'']"

definition ssl_UnLoadBIO_names :: "string list" where
  "ssl_UnLoadBIO_names =
     [''PEM_read_bio_X509'', ''PEM_read_bio_X509_CRL'', ''PEM_read_bio_PrivateKey'', ''PEM_read_X509_CRL'']"

definition ssl_UnLoadStackOpt_names :: "string list" where
  "ssl_UnLoadStackOpt_names =
     [''OPENSSL_sk_num'', ''OPENSSL_sk_value'']"

definition crypto_core_symbols :: "u64 \<Rightarrow> (string \<times> string) list" where
  "crypto_core_symbols v =
     map same_name
       [''OPENSSL_init_crypto'', ''X509_STORE_add_cert'', ''X509_STORE_add_crl'', ''X509_STORE_set_flags'',
        ''X509_free'', ''X509_CRL_free'', ''X509_get_version'', ''X509_getm_notBefore'', ''X509_getm_notAfter'',
        ''X509_get_serialNumber'', ''X509_get0_serialNumber'', ''X509_verify_cert'', ''X509_STORE_CTX_get_error'',
        ''OBJ_txt2obj'', ''ASN1_OBJECT_free'', ''X509_get_ext_by_OBJ'', ''X509_get_ext'',
        ''X509_EXTENSION_get_data'', ''ASN1_STRING_get0_data'', ''ASN1_STRING_length'', ''d2i_ASN1_UTF8STRING'',
        ''i2d_ASN1_UTF8STRING'', ''ASN1_STRING_to_UTF8'', ''ASN1_UTF8STRING_free'', ''CRYPTO_free'',
        ''BIO_new_mem_buf'', ''BIO_free'', ''EVP_PKEY_free'', ''ERR_get_error'', ''ERR_error_string'',
        ''ERR_print_errors_cb'']"

definition crypto_core_last_symbols :: "u64 \<Rightarrow> (string \<times> string) list" where
  "crypto_core_last_symbols v =
     map same_name [''OpenSSL_version'']"

definition crypto_algorithm_symbols :: "u64 \<Rightarrow> (string \<times> string) list" where
  "crypto_algorithm_symbols v =
     map same_name
       [''EVP_sha256'', ''EVP_sha384'', ''EVP_aes_128_gcm'', ''EVP_aes_256_gcm'', ''EVP_aes_128_ccm'',
        ''EVP_chacha20_poly1305'', ''EVP_CIPHER_CTX_new'', ''EVP_CIPHER_CTX_free'', ''EVP_CIPHER_CTX_ctrl'',
        ''EVP_EncryptInit_ex'', ''EVP_EncryptUpdate'', ''EVP_EncryptFinal_ex'', ''EVP_DecryptInit_ex'',
        ''EVP_DecryptUpdate'', ''EVP_DecryptFinal_ex'', ''EVP_sha512'', ''EVP_MD_CTX_new'', ''EVP_MD_CTX_free'',
        ''EVP_DigestInit_ex'', ''EVP_DigestUpdate'', ''EVP_DigestFinal_ex''] @
     (if v \<ge> SSL_VERSION_3_X then map same_name [''EVP_MD_get_size'']
      else [(''EVP_MD_size'', ''EVP_MD_get_size'')]) @
     map same_name [''HMAC'']"

definition crypto_pkey_symbols :: "u64 \<Rightarrow> (string \<times> string) list" where
  "crypto_pkey_symbols v =
     map same_name
       [''EVP_PKEY_new'', ''EVP_PKEY_CTX_new_id'', ''EVP_PKEY_CTX_new'', ''EVP_PKEY_CTX_free'',
        ''EVP_PKEY_keygen_init'', ''EVP_PKEY_keygen'', ''EVP_PKEY_derive_init'', ''EVP_PKEY_derive_set_peer'',
        ''EVP_PKEY_derive'', ''d2i_PUBKEY'', ''RAND_bytes'', ''EVP_PKEY_CTX_ctrl''] @
     (if v \<ge> SSL_VERSION_3_X then map same_name
       [''EVP_PKEY_CTX_set_ec_paramgen_curve_nid'', ''EVP_PKEY_CTX_set_hkdf_md'', ''EVP_PKEY_CTX_set1_hkdf_salt'',
        ''EVP_PKEY_CTX_set1_hkdf_key'', ''EVP_PKEY_CTX_set_hkdf_mode'', ''EVP_PKEY_CTX_add1_hkdf_info'',
        ''OSSL_LIB_CTX_new'', ''OSSL_LIB_CTX_free'', ''OSSL_PROVIDER_load'', ''OSSL_PROVIDER_unload'',
        ''ERR_error_string_n'']
      else [])"

definition crypto_UnloadCoreSymbols_names :: "string list" where
  "crypto_UnloadCoreSymbols_names =
     [''OPENSSL_init_crypto'', ''X509_STORE_add_cert'', ''X509_STORE_add_crl'', ''X509_STORE_set_flags'',
      ''X509_free'', ''X509_CRL_free'', ''X509_get_version'', ''X509_getm_notBefore'', ''X509_getm_notAfter'',
      ''X509_get_serialNumber'', ''X509_get0_serialNumber'', ''X509_verify_cert'', ''X509_STORE_CTX_get_error'',
      ''OBJ_txt2obj'', ''ASN1_OBJECT_free'', ''X509_get_ext_by_OBJ'', ''X509_get_ext'', ''X509_EXTENSION_get_data'',
      ''ASN1_STRING_get0_data'', ''ASN1_STRING_length'', ''d2i_ASN1_UTF8STRING'', ''i2d_ASN1_UTF8STRING'',
      ''ASN1_STRING_to_UTF8'', ''ASN1_UTF8STRING_free'', ''CRYPTO_free'', ''BIO_new_mem_buf'', ''BIO_free'',
      ''EVP_PKEY_free'', ''ERR_get_error'', ''ERR_error_string'', ''ERR_print_errors_cb'', ''OpenSSL_version'']"

definition crypto_UnloadCryptoAlgorithmSymbols_names :: "string list" where
  "crypto_UnloadCryptoAlgorithmSymbols_names =
     [''EVP_sha256'', ''EVP_sha384'', ''EVP_aes_128_gcm'', ''EVP_aes_256_gcm'', ''EVP_aes_128_ccm'',
      ''EVP_chacha20_poly1305'', ''EVP_CIPHER_CTX_new'', ''EVP_CIPHER_CTX_free'', ''EVP_CIPHER_CTX_ctrl'',
      ''EVP_EncryptInit_ex'', ''EVP_EncryptUpdate'', ''EVP_EncryptFinal_ex'', ''EVP_DecryptInit_ex'',
      ''EVP_DecryptUpdate'', ''EVP_DecryptFinal_ex'', ''EVP_sha512'', ''EVP_MD_CTX_new'', ''EVP_MD_CTX_free'',
      ''EVP_DigestInit_ex'', ''EVP_DigestUpdate'', ''EVP_DigestFinal_ex'', ''EVP_MD_get_size'', ''HMAC'']"

definition crypto_UnloadPkeySymbols_names :: "string list" where
  "crypto_UnloadPkeySymbols_names =
     [''EVP_PKEY_new'', ''EVP_PKEY_CTX_new_id'', ''EVP_PKEY_CTX_new'', ''EVP_PKEY_CTX_free'',
      ''EVP_PKEY_keygen_init'', ''EVP_PKEY_keygen'', ''EVP_PKEY_CTX_set_ec_paramgen_curve_nid'',
      ''EVP_PKEY_derive_init'', ''EVP_PKEY_derive_set_peer'', ''EVP_PKEY_derive'', ''EVP_PKEY_CTX_ctrl'',
      ''EVP_PKEY_CTX_set_hkdf_md'', ''EVP_PKEY_CTX_set1_hkdf_salt'', ''EVP_PKEY_CTX_set1_hkdf_key'',
      ''EVP_PKEY_CTX_set_hkdf_mode'', ''EVP_PKEY_CTX_add1_hkdf_info'', ''d2i_PUBKEY'', ''RAND_bytes'',
      ''OpenSSL_version_num'', ''OSSL_LIB_CTX_new'', ''OSSL_LIB_CTX_free'', ''OSSL_PROVIDER_load'',
      ''OSSL_PROVIDER_unload'', ''ERR_error_string_n'']"
section \<open>libssl\<close>

definition LoadCipherSuit :: "dl_api \<Rightarrow> dl_lib \<Rightarrow> ret \<times> dl_lib" where
  "LoadCipherSuit dl lib = load_syms dl (ssl_CipherSuit_symbols (dl_versionNum lib)) SCF_SUCCESS lib"

definition LoadCtx :: "dl_api \<Rightarrow> dl_lib \<Rightarrow> ret \<times> dl_lib" where
  "LoadCtx dl lib = load_syms dl (ssl_Ctx_symbols (dl_versionNum lib)) SCF_SUCCESS lib"

definition LoadSSLObj :: "dl_api \<Rightarrow> dl_lib \<Rightarrow> ret \<times> dl_lib" where
  "LoadSSLObj dl lib = load_syms dl (ssl_SSLObj_symbols (dl_versionNum lib)) SCF_SUCCESS lib"

definition LoadTLSMethod :: "dl_api \<Rightarrow> dl_lib \<Rightarrow> ret \<times> dl_lib" where
  "LoadTLSMethod dl lib = load_syms dl (ssl_TLSMethod_symbols (dl_versionNum lib)) SCF_SUCCESS lib"

definition LoadBIO :: "dl_api \<Rightarrow> dl_lib \<Rightarrow> ret \<times> dl_lib" where
  "LoadBIO dl lib = load_syms dl (ssl_BIO_symbols (dl_versionNum lib)) SCF_SUCCESS lib"

definition LoadStackOpt :: "dl_api \<Rightarrow> dl_lib \<Rightarrow> ret \<times> dl_lib" where
  "LoadStackOpt dl lib = load_syms dl (ssl_StackOpt_symbols (dl_versionNum lib)) SCF_SUCCESS lib"

definition ssl_LoadAll :: "dl_api \<Rightarrow> dl_lib \<Rightarrow> (ret \<times> dl_lib) option" where
  "ssl_LoadAll dl lib =
     (let (r0, lib0) = SelfDlSym dl ''OpenSSL_version_num'' ''OpenSSL_version_num'' lib in
      if r0 \<noteq> SCF_SUCCESS then Some (SCF_ERRNO_LOAD_SYMBOL, lib0)
      else
        (case dl_slots lib0 ''OpenSSL_version_num'' of
           None \<Rightarrow> None
         | Some f \<Rightarrow>
             let lib1 = lib0\<lparr>dl_versionNum := dl_call_version dl f\<rparr>;
                 (r2, lib2) = load_syms dl (ssl_base_symbols (dl_versionNum lib1)) SCF_SUCCESS lib1;
                 (r3, lib3) = LoadCipherSuit dl lib2;
                 (r4, lib4) = LoadCtx dl lib3;
                 (r5, lib5) = LoadSSLObj dl lib4;
                 (r6, lib6) = LoadTLSMethod dl lib5;
                 (r7, lib7) = LoadBIO dl lib6;
                 (r8, lib8) = LoadStackOpt dl lib7;
                 r = r2 OR r3 OR r4 OR r5 OR r6 OR r7 OR r8 in
             Some (if r \<noteq> SCF_SUCCESS then SCF_ERRNO_LOAD_SYMBOL else SCF_SUCCESS, lib8)))"

definition UnLoadCipherSuit :: "dl_lib \<Rightarrow> dl_lib" where
  "UnLoadCipherSuit = reset_slots ssl_UnLoadCipherSuit_names"

definition UnLoadCtx :: "dl_lib \<Rightarrow> dl_lib" where
  "UnLoadCtx = reset_slots ssl_UnLoadCtx_names"

definition UnLoadSSLObj :: "dl_lib \<Rightarrow> dl_lib" where
  "UnLoadSSLObj = reset_slots ssl_UnLoadSSLObj_names"

definition UnLoadTLSMethod :: "dl_lib \<Rightarrow> dl_lib" where
  "UnLoadTLSMethod = reset_slots ssl_UnLoadTLSMethod_names"

definition UnLoadBIO :: "dl_lib \<Rightarrow> dl_lib" where
  "UnLoadBIO = reset_slots ssl_UnLoadBIO_names"

definition UnLoadStackOpt :: "dl_lib \<Rightarrow> dl_lib" where
  "UnLoadStackOpt = reset_slots ssl_UnLoadStackOpt_names"

definition ssl_UnLoadAll :: "dl_lib \<Rightarrow> dl_lib" where
  "ssl_UnLoadAll lib =
     (let lib1 = reset_slots ssl_UnLoadAll_names lib;
          lib2 = UnLoadCipherSuit lib1;
          lib3 = UnLoadCtx lib2;
          lib4 = UnLoadSSLObj lib3;
          lib5 = UnLoadTLSMethod lib4;
          lib6 = UnLoadBIO lib5;
          lib7 = UnLoadStackOpt lib6 in
      lib7\<lparr>dl_versionNum := 0\<rparr>)"

definition ssl_UnInit :: "dl_lib \<Rightarrow> dl_lib" where
  "ssl_UnInit lib = SelfDlClose (ssl_UnLoadAll lib)"

definition ssl_Init :: "os_api \<Rightarrow> dl_api \<Rightarrow> string \<Rightarrow> dl_lib \<Rightarrow> (ret \<times> dl_lib) option" where
  "ssl_Init os dl libPath lib =
     (let lib1 = ssl_UnInit lib;
          libName = libPath @ ''/'' @ ''libssl.so'';
          (r, lib2) = SelfDlOpen os dl libName lib1 in
      if r \<noteq> SCF_SUCCESS then Some (r, lib2)
      else
        (case ssl_LoadAll dl lib2 of
           None \<Rightarrow> None
         | Some (r1, lib3) \<Rightarrow>
             if r1 \<noteq> SCF_SUCCESS then Some (r1, ssl_UnInit lib3)
             else
               (case dl_slots lib3 ''OPENSSL_init_ssl'' of
                  None \<Rightarrow> None
                | Some f \<Rightarrow>
                    if dl_call_init dl f \<noteq> 1 then Some (SCF_ERRNO_INIT_OPENSSL_CRYPTO, ssl_UnInit lib3)
                    else Some (SCF_SUCCESS, lib3))))"

section \<open>libcrypto\<close>

definition LoadCryptoAlgorithmSymbols :: "dl_api \<Rightarrow> dl_lib \<Rightarrow> ret \<times> dl_lib" where
  "LoadCryptoAlgorithmSymbols dl lib = load_syms dl (crypto_algorithm_symbols (dl_versionNum lib)) SCF_SUCCESS lib"

definition LoadCoreSymbols :: "dl_api \<Rightarrow> dl_lib \<Rightarrow> ret \<times> dl_lib" where
  "LoadCoreSymbols dl lib =
     (let (r1, lib1) = load_syms dl (crypto_core_symbols (dl_versionNum lib)) SCF_SUCCESS lib;
          (r2, lib2) = LoadCryptoAlgorithmSymbols dl lib1;
          (r3, lib3) = load_syms dl (crypto_core_last_symbols (dl_versionNum lib)) SCF_SUCCESS lib2 in
      (r1 OR r2 OR r3, lib3))"

definition LoadPkeySymbols :: "dl_api \<Rightarrow> dl_lib \<Rightarrow> ret \<times> dl_lib" where
  "LoadPkeySymbols dl lib = load_syms dl (crypto_pkey_symbols (dl_versionNum lib)) SCF_SUCCESS lib"

definition crypto_LoadAll :: "dl_api \<Rightarrow> dl_lib \<Rightarrow> (ret \<times> dl_lib) option" where
  "crypto_LoadAll dl lib =
     (let (r0, lib0) = SelfDlSym dl ''OpenSSL_version_num'' ''OpenSSL_version_num'' lib in
      if r0 \<noteq> SCF_SUCCESS then Some (SCF_ERRNO_LOAD_SYMBOL, lib0)
      else
        (case dl_slots lib0 ''OpenSSL_version_num'' of
           None \<Rightarrow> None
         | Some f \<Rightarrow>
             let lib1 = lib0\<lparr>dl_versionNum := dl_call_version dl f\<rparr>;
                 (r2, lib2) = LoadCoreSymbols dl lib1;
                 (r3, lib3) = LoadPkeySymbols dl lib2 in
             Some (if r0 OR r2 OR r3 \<noteq> SCF_SUCCESS then SCF_ERRNO_LOAD_SYMBOL else SCF_SUCCESS, lib3)))"

definition UnloadCryptoAlgorithmSymbols :: "dl_lib \<Rightarrow> dl_lib" where
  "UnloadCryptoAlgorithmSymbols = reset_slots crypto_UnloadCryptoAlgorithmSymbols_names"

definition UnloadCoreSymbols :: "dl_lib \<Rightarrow> dl_lib" where
  "UnloadCoreSymbols lib = UnloadCryptoAlgorithmSymbols (reset_slots crypto_UnloadCoreSymbols_names lib)"

definition UnloadPkeySymbols :: "dl_lib \<Rightarrow> dl_lib" where
  "UnloadPkeySymbols lib = (reset_slots crypto_UnloadPkeySymbols_names lib)\<lparr>dl_versionNum := 0\<rparr>"

definition crypto_UnLoadAll :: "dl_lib \<Rightarrow> dl_lib" where
  "crypto_UnLoadAll lib = UnloadPkeySymbols (UnloadCoreSymbols lib)"

definition crypto_UnInit :: "dl_lib \<Rightarrow> dl_lib" where
  "crypto_UnInit lib = SelfDlClose (crypto_UnLoadAll lib)"

definition crypto_Init :: "os_api \<Rightarrow> dl_api \<Rightarrow> string \<Rightarrow> dl_lib \<Rightarrow> (ret \<times> dl_lib) option" where
  "crypto_Init os dl libPath lib =
     (let lib1 = crypto_UnInit lib;
          libName = libPath @ ''/'' @ ''libcrypto.so'';
          (r, lib2) = SelfDlOpen os dl libName lib1 in
      if r \<noteq> SCF_SUCCESS then Some (r, lib2)
      else
        (case crypto_LoadAll dl lib2 of
           None \<Rightarrow> None
         | Some (r1, lib3) \<Rightarrow>
             if r1 \<noteq> SCF_SUCCESS then Some (r1, crypto_UnInit lib3)
             else
               (case dl_slots lib3 ''OPENSSL_init_crypto'' of
                  None \<Rightarrow> None
                | Some f \<Rightarrow>
                    if dl_call_init dl f \<noteq> 1 then Some (SCF_ERRNO_INIT_OPENSSL_CRYPTO, crypto_UnInit lib3)
                    else Some (SCF_SUCCESS, lib3))))"

section \<open>The adaptor\<close>

text \<open>The loading side of the adaptor object: the two libraries and the injected engine.\<close>

record adaptor_libs =
  al_crypto :: dl_lib
  al_ssl :: dl_lib
  al_engine :: "addr option"

definition adaptor_DeInit :: "adaptor_libs \<Rightarrow> adaptor_libs" where
  "adaptor_DeInit libs =
     (let l1 = libs\<lparr>al_engine := None\<rparr>;
          l2 = l1\<lparr>al_crypto := crypto_UnInit (al_crypto l1)\<rparr> in
      l2\<lparr>al_ssl := ssl_UnInit (al_ssl l2)\<rparr>)"

definition adaptor_Init :: "os_api \<Rightarrow> dl_api \<Rightarrow> u64 \<Rightarrow> string option \<Rightarrow> adaptor_libs \<Rightarrow> (ret \<times> adaptor_libs) option" where
  "adaptor_Init os dl flag settings libs =
     (case settings of
        None \<Rightarrow> Some (SCF_ERRNO_LOAD_LIB, libs)
      | Some s \<Rightarrow>
          let libPath = cstr s in
          (case crypto_Init os dl libPath (al_crypto libs) of
             None \<Rightarrow> None
           | Some (r, c) \<Rightarrow>
               let libs1 = libs\<lparr>al_crypto := c\<rparr> in
               if r \<noteq> SCF_SUCCESS then Some (r, adaptor_DeInit libs1)
               else
                 (case ssl_Init os dl libPath (al_ssl libs1) of
                    None \<Rightarrow> None
                  | Some (r1, s1) \<Rightarrow>
                      let libs2 = libs1\<lparr>al_ssl := s1\<rparr> in
                      if r1 \<noteq> SCF_SUCCESS then Some (r1, adaptor_DeInit libs2) else Some (SCF_SUCCESS, libs2))))"

definition SetCryptoEngine :: "addr option \<Rightarrow> adaptor_libs \<Rightarrow> adaptor_libs" where
  "SetCryptoEngine engine libs = libs\<lparr>al_engine := engine\<rparr>"

definition GetCryptoEngine :: "adaptor_libs \<Rightarrow> addr option" where
  "GetCryptoEngine libs = al_engine libs"

end
