(* ===== verification/Dl_Loader_Correct.thy ===== *)
theory Dl_Loader_Correct
  imports Dl_Loader
begin

text \<open>
  Loading the libraries is all or nothing.  The argument is the same for both libraries and is made once in
  the locale \<^verbatim>\<open>dl_library\<close>, interpreted for libssl and for libcrypto.
\<close>

section \<open>Runs of symbol loads\<close>

lemma SelfDlSym_frame:
  assumes "SelfDlSym dl n s lib = (r, lib')"
  shows "dl_libptr lib' = dl_libptr lib" "dl_versionNum lib' = dl_versionNum lib" "dl_closed lib' = dl_closed lib"
    "k \<noteq> s \<Longrightarrow> dl_slots lib' k = dl_slots lib k"
  using assms by (auto simp: SelfDlSym_def split: if_splits option.splits)

lemma SelfDlSym_ok:
  assumes "dl_libptr lib = Some p" "SelfDlSym dl n s lib = (r, lib')"
  shows "r = SCF_SUCCESS \<longleftrightarrow> n \<noteq> [] \<and> dl_sym dl p n \<noteq> None"
    and "r = SCF_SUCCESS \<Longrightarrow> dl_slots lib' s = dl_sym dl p n"
  using assms by (auto simp: SelfDlSym_def errno SCF_SUCCESS_def split: if_splits option.splits)

lemma or_success: "(a OR b = SCF_SUCCESS) = (a = SCF_SUCCESS \<and> b = SCF_SUCCESS)"
  by (simp add: SCF_SUCCESS_def or_eq_0_iff)

lemma load_syms_frame:
  assumes "load_syms dl xs r lib = (r', lib')"
  shows "dl_libptr lib' = dl_libptr lib \<and> dl_versionNum lib' = dl_versionNum lib \<and> dl_closed lib' = dl_closed lib \<and>
    (\<forall>k. k \<notin> snd ` set xs \<longrightarrow> dl_slots lib' k = dl_slots lib k)"
  using assms
proof (induction dl xs r lib rule: load_syms.induct)
  case (2 dl n s xs r lib)
  obtain r1 lib1 where step: "SelfDlSym dl n s lib = (r1, lib1)" by fastforce
  from 2 step have "load_syms dl xs (r OR r1) lib1 = (r', lib')" by simp
  from 2(1) [OF step [symmetric] refl this] SelfDlSym_frame [OF step] show ?case by simp
qed simp

lemma load_syms_ret:
  assumes "load_syms dl xs r lib = (r', lib')" "dl_libptr lib = Some p"
  shows "r' = SCF_SUCCESS \<longleftrightarrow> r = SCF_SUCCESS \<and> (\<forall>(n, s) \<in> set xs. n \<noteq> [] \<and> dl_sym dl p n \<noteq> None)"
  using assms
proof (induction dl xs r lib rule: load_syms.induct)
  case (2 dl n s xs r lib)
  obtain r1 lib1 where step: "SelfDlSym dl n s lib = (r1, lib1)" by fastforce
  from 2 step have rest: "load_syms dl xs (r OR r1) lib1 = (r', lib')" by simp
  have "dl_libptr lib1 = Some p" using SelfDlSym_frame [OF step] 2(3) by simp
  from 2(1) [OF step [symmetric] refl rest this] SelfDlSym_ok(1) [OF 2(3) step] show ?case
    by (auto simp: or_success)
qed simp

lemma load_syms_slots:
  assumes "load_syms dl xs r lib = (SCF_SUCCESS, lib')" "dl_libptr lib = Some p" "distinct (map snd xs)"
  shows "\<forall>(n, s) \<in> set xs. dl_slots lib' s = dl_sym dl p n"
  using assms
proof (induction dl xs r lib rule: load_syms.induct)
  case (2 dl n s xs r lib)
  obtain r1 lib1 where step: "SelfDlSym dl n s lib = (r1, lib1)" by fastforce
  from 2 step have rest: "load_syms dl xs (r OR r1) lib1 = (SCF_SUCCESS, lib')" by simp
  have p1: "dl_libptr lib1 = Some p" using SelfDlSym_frame [OF step] 2(3) by simp
  have "r1 = SCF_SUCCESS" using load_syms_ret [OF rest p1] by (simp add: or_success)
  then have "dl_slots lib1 s = dl_sym dl p n" by (rule SelfDlSym_ok(2) [OF 2(3) step])
  moreover have "dl_slots lib' s = dl_slots lib1 s" using load_syms_frame [OF rest] 2(4) by auto
  ultimately show ?case using 2(1) [OF step [symmetric] refl rest p1] 2(4) by simp
qed simp

lemma load_syms_acc:
  "load_syms dl xs r lib = (r OR fst (load_syms dl xs SCF_SUCCESS lib), snd (load_syms dl xs SCF_SUCCESS lib))"
proof (induction xs arbitrary: r lib)
  case (Cons x xs)
  obtain n s where x: "x = (n, s)" by fastforce
  obtain r1 lib1 where step: "SelfDlSym dl n s lib = (r1, lib1)" by fastforce
  show ?case
    using Cons.IH [of "r OR r1" lib1] Cons.IH [of "SCF_SUCCESS OR r1" lib1] step x
    by (simp add: SCF_SUCCESS_def or.assoc)
qed (simp add: SCF_SUCCESS_def)

lemma load_syms_append:
  "load_syms dl (xs @ ys) r lib =
     (let (r1, lib1) = load_syms dl xs r lib; (r2, lib2) = load_syms dl ys SCF_SUCCESS lib1 in (r1 OR r2, lib2))"
proof (induction dl xs r lib rule: load_syms.induct)
  case (1 dl r lib)
  then show ?case using load_syms_acc [of dl ys r lib] by (simp add: split_def Let_def)
qed (simp add: split_def Let_def)

lemma load_syms_version: "dl_versionNum (snd (load_syms dl xs r lib)) = dl_versionNum lib"
  using load_syms_frame [of dl xs r lib] by (metis prod.collapse)

section \<open>The contract of a loadable library\<close>

text \<open>What a successful load needs of the system: the file passes the checks and opens as \<^verbatim>\<open>p\<close>, the version
  can be asked, every symbol for that version resolves and the library's own initialisation reports
  success.\<close>

definition version_name :: string where
  "version_name = ''OpenSSL_version_num''"

definition loadable ::
  "(u64 \<Rightarrow> (string \<times> string) list) \<Rightarrow> string \<Rightarrow> os_api \<Rightarrow> dl_api \<Rightarrow> string \<Rightarrow> addr \<Rightarrow> u64 \<Rightarrow> bool" where
  "loadable symbols initName os dl file p v \<longleftrightarrow>
     SCF_CheckFilePathAndStat os file \<and> dl_open dl file = Some p \<and>
     (\<exists>f. dl_sym dl p version_name = Some f \<and> v = dl_call_version dl f) \<and>
     (\<forall>(n, s) \<in> set (symbols v). dl_sym dl p n \<noteq> None) \<and>
     (\<exists>f. dl_sym dl p initName = Some f \<and> dl_call_init dl f = 1)"

locale dl_library =
  fixes symbols :: "u64 \<Rightarrow> (string \<times> string) list"
    and resets :: "string list"
    and initName libName :: string
    and LoadAll :: "dl_api \<Rightarrow> dl_lib \<Rightarrow> (ret \<times> dl_lib) option"
    and UnInit :: "dl_lib \<Rightarrow> dl_lib"
    and Init :: "os_api \<Rightarrow> dl_api \<Rightarrow> string \<Rightarrow> dl_lib \<Rightarrow> (ret \<times> dl_lib) option"
  assumes LoadAll_eq: "LoadAll dl lib =
      (let (r0, lib0) = SelfDlSym dl version_name version_name lib in
       if r0 \<noteq> SCF_SUCCESS then Some (SCF_ERRNO_LOAD_SYMBOL, lib0)
       else case dl_slots lib0 version_name of
         None \<Rightarrow> None
       | Some f \<Rightarrow>
           let lib1 = lib0\<lparr>dl_versionNum := dl_call_version dl f\<rparr>;
               (r, lib2) = load_syms dl (symbols (dl_versionNum lib1)) SCF_SUCCESS lib1 in
           Some (if r \<noteq> SCF_SUCCESS then SCF_ERRNO_LOAD_SYMBOL else SCF_SUCCESS, lib2))"
    and UnInit_eq: "UnInit lib = SelfDlClose ((reset_slots resets lib)\<lparr>dl_versionNum := 0\<rparr>)"
    and Init_eq: "Init os dl libPath lib =
      (let (r, lib2) = SelfDlOpen os dl (libPath @ ''/'' @ libName) (UnInit lib) in
       if r \<noteq> SCF_SUCCESS then Some (r, lib2)
       else case LoadAll dl lib2 of
         None \<Rightarrow> None
       | Some (r1, lib3) \<Rightarrow>
           if r1 \<noteq> SCF_SUCCESS then Some (r1, UnInit lib3)
           else case dl_slots lib3 initName of
             None \<Rightarrow> None
           | Some f \<Rightarrow>
               if dl_call_init dl f \<noteq> 1 then Some (SCF_ERRNO_INIT_OPENSSL_CRYPTO, UnInit lib3) else Some (SCF_SUCCESS, lib3))"
    and distinct_slots: "distinct (map snd (symbols v))"
    and names: "(n, s) \<in> set (symbols v) \<Longrightarrow> n \<noteq> []"
    and init_symbol: "(initName, initName) \<in> set (symbols v)"
    and resets_cover: "(n, s) \<in> set (symbols v) \<Longrightarrow> s \<in> set resets"
begin

lemma UnInit_closed: "dl_libptr (UnInit lib) = None" "n \<in> set resets \<Longrightarrow> dl_slots (UnInit lib) n = None"
  by (auto simp: UnInit_eq SelfDlClose_def reset_slots_def Let_def split: option.split)

lemma UnInit_keeps: "n \<notin> set resets \<Longrightarrow> dl_slots (UnInit lib) n = dl_slots lib n"
  by (auto simp: UnInit_eq SelfDlClose_def reset_slots_def Let_def split: option.split)

lemma LoadAll_cases:
  assumes "dl_libptr lib = Some p"
  obtains (no_version) lib0 where "dl_sym dl p version_name = None" "LoadAll dl lib = Some (SCF_ERRNO_LOAD_SYMBOL, lib0)"
  | (missing) f lib2 where "dl_sym dl p version_name = Some f"
      "\<not> (\<forall>(n, s) \<in> set (symbols (dl_call_version dl f)). dl_sym dl p n \<noteq> None)"
      "LoadAll dl lib = Some (SCF_ERRNO_LOAD_SYMBOL, lib2)"
  | (loaded) f lib2 where "dl_sym dl p version_name = Some f"
      "\<forall>(n, s) \<in> set (symbols (dl_call_version dl f)). dl_sym dl p n \<noteq> None"
      "LoadAll dl lib = Some (SCF_SUCCESS, lib2)" "dl_libptr lib2 = Some p"
      "\<forall>(n, s) \<in> set (symbols (dl_call_version dl f)). dl_slots lib2 s = dl_sym dl p n"
proof (cases "dl_sym dl p version_name")
  case None
  then have "SelfDlSym dl version_name version_name lib = (SCF_ERRNO_LOAD_SYMBOL, lib)"
    using assms by (simp add: SelfDlSym_def)
  then have "LoadAll dl lib = Some (SCF_ERRNO_LOAD_SYMBOL, lib)"
    by (simp add: LoadAll_eq errno SCF_SUCCESS_def)
  then show ?thesis using None no_version by blast
next
  case (Some f)
  let ?lib0 = "lib\<lparr>dl_funCache := dl_funCache lib @ [f], dl_slots := (dl_slots lib)(version_name \<mapsto> f)\<rparr>"
  let ?v = "dl_call_version dl f"
  let ?lib1 = "?lib0\<lparr>dl_versionNum := ?v\<rparr>"
  obtain r lib2 where ls: "load_syms dl (symbols ?v) SCF_SUCCESS ?lib1 = (r, lib2)" by fastforce
  have "SelfDlSym dl version_name version_name lib = (SCF_SUCCESS, ?lib0)"
    using assms Some by (simp add: SelfDlSym_def version_name_def)
  then have all: "LoadAll dl lib = Some (if r \<noteq> SCF_SUCCESS then SCF_ERRNO_LOAD_SYMBOL else SCF_SUCCESS, lib2)"
    using ls by (simp add: LoadAll_eq)
  have p1: "dl_libptr ?lib1 = Some p" using assms by simp
  have ret: "r = SCF_SUCCESS \<longleftrightarrow> (\<forall>(n, s) \<in> set (symbols ?v). dl_sym dl p n \<noteq> None)"
    using load_syms_ret [OF ls p1] names by fastforce
  show ?thesis
  proof (cases "r = SCF_SUCCESS")
    case False
    with all have "LoadAll dl lib = Some (SCF_ERRNO_LOAD_SYMBOL, lib2)" by simp
    moreover have "\<not> (\<forall>(n, s) \<in> set (symbols ?v). dl_sym dl p n \<noteq> None)" using False ret by blast
    ultimately show ?thesis using missing Some by blast
  next
    case True
    have slots: "\<forall>(n, s) \<in> set (symbols ?v). dl_slots lib2 s = dl_sym dl p n"
      using load_syms_slots [OF ls [unfolded True] p1 distinct_slots] .
    have ptr: "dl_libptr lib2 = Some p" using load_syms_frame [OF ls] p1 by simp
    have "LoadAll dl lib = Some (SCF_SUCCESS, lib2)" using all True by simp
    moreover have "\<forall>(n, s) \<in> set (symbols ?v). dl_sym dl p n \<noteq> None" using True ret by blast
    ultimately show ?thesis using loaded Some slots ptr by blast
  qed
qed

text \<open>What the initialisation leaves behind: the outcome of a successful and of a failed call.\<close>

lemma Init_open_fails:
  assumes "\<not> (SCF_CheckFilePathAndStat os (libPath @ ''/'' @ libName) \<and> dl_open dl (libPath @ ''/'' @ libName) \<noteq> None)"
  shows "\<exists>lib'. Init os dl libPath lib = Some (SCF_ERRNO_LOAD_LIB, lib') \<and> dl_libptr lib' = None \<and>
    (\<forall>n \<in> set resets. dl_slots lib' n = None)"
proof -
  have "\<exists>lib2. SelfDlOpen os dl (libPath @ ''/'' @ libName) (UnInit lib) = (SCF_ERRNO_LOAD_LIB, lib2) \<and>
      dl_libptr lib2 = None \<and> (\<forall>n \<in> set resets. dl_slots lib2 n = None)"
    using assms UnInit_closed by (auto simp: SelfDlOpen_def)
  then show ?thesis by (auto simp: Init_eq errno SCF_SUCCESS_def)
qed

lemma Init_load_fails:
  assumes "SelfDlOpen os dl (libPath @ ''/'' @ libName) (UnInit lib) = (SCF_SUCCESS, lib2)"
    "LoadAll dl lib2 = Some (SCF_ERRNO_LOAD_SYMBOL, lib3)"
  shows "Init os dl libPath lib = Some (SCF_ERRNO_LOAD_SYMBOL, UnInit lib3)"
  using assms by (simp add: Init_eq errno SCF_SUCCESS_def)

lemma Init_loaded:
  assumes "SelfDlOpen os dl (libPath @ ''/'' @ libName) (UnInit lib) = (SCF_SUCCESS, lib2)"
    "LoadAll dl lib2 = Some (SCF_SUCCESS, lib3)" "dl_slots lib3 initName = Some g"
  shows "Init os dl libPath lib =
    (if dl_call_init dl g = 1 then Some (SCF_SUCCESS, lib3) else Some (SCF_ERRNO_INIT_OPENSSL_CRYPTO, UnInit lib3))"
  using assms by (simp add: Init_eq)

text \<open>All or nothing: the initialisation never throws; it succeeds exactly for a loadable library, and then
  every member holds its symbol; otherwise the handle is closed and every member is empty.\<close>

lemma Init_all_or_nothing:
  "\<exists>r lib'. Init os dl libPath lib = Some (r, lib') \<and>
     (r = SCF_SUCCESS \<longleftrightarrow> (\<exists>p v. loadable symbols initName os dl (libPath @ ''/'' @ libName) p v)) \<and>
     (r = SCF_SUCCESS \<longrightarrow> (\<exists>p v. loadable symbols initName os dl (libPath @ ''/'' @ libName) p v \<and> dl_libptr lib' = Some p \<and>
        (\<forall>(n, s) \<in> set (symbols v). dl_slots lib' s = dl_sym dl p n \<and> dl_slots lib' s \<noteq> None))) \<and>
     (r \<noteq> SCF_SUCCESS \<longrightarrow> dl_libptr lib' = None \<and> (\<forall>n \<in> set resets. dl_slots lib' n = None))"
  (is "\<exists>r lib'. ?I r lib' \<and> (_ \<longleftrightarrow> (\<exists>p v. ?able p v)) \<and> _ \<and> _")
proof (cases "SCF_CheckFilePathAndStat os (libPath @ ''/'' @ libName) \<and> dl_open dl (libPath @ ''/'' @ libName) \<noteq> None")
  case False
  then have "\<not> ?able p v" for p v by (auto simp: loadable_def)
  then show ?thesis using Init_open_fails [OF False, of lib] by (auto simp: errno SCF_SUCCESS_def)
next
  case True
  then obtain p where p: "dl_open dl (libPath @ ''/'' @ libName) = Some p" by blast
  let ?lib2 = "(UnInit lib)\<lparr>dl_libptr := Some p\<rparr>"
  have op: "SelfDlOpen os dl (libPath @ ''/'' @ libName) (UnInit lib) = (SCF_SUCCESS, ?lib2)"
    using True p by (simp add: SelfDlOpen_def)
  have ptr: "dl_libptr ?lib2 = Some p" by simp
  have fails: ?thesis if "LoadAll dl ?lib2 = Some (SCF_ERRNO_LOAD_SYMBOL, lib3)" "\<And>q v. \<not> ?able q v" for lib3
    using Init_load_fails [OF op that(1)] that(2) UnInit_closed by (auto simp: errno SCF_SUCCESS_def)
  from ptr show ?thesis
  proof (cases rule: LoadAll_cases [where dl = dl, case_names no_version missing loaded])
    case (no_version lib0)
    have "\<not> ?able q v" for q v using no_version(1) p by (auto simp: loadable_def)
    with no_version(2) show ?thesis by (rule fails)
  next
    case (missing f lib3)
    have "\<not> ?able q v" for q v using missing(1,2) p by (fastforce simp: loadable_def)
    with missing(3) show ?thesis by (rule fails)
  next
    case (loaded f lib3)
    let ?v = "dl_call_version dl f"
    obtain g where g: "dl_sym dl p initName = Some g" "dl_slots lib3 initName = Some g"
      using loaded(2,5) init_symbol [of ?v] by fastforce
    have able: "?able q v \<longleftrightarrow> q = p \<and> v = ?v \<and> dl_call_init dl g = 1" for q v
      using True p loaded(1,2) g by (auto simp: loadable_def)
    have "\<forall>(n, s) \<in> set (symbols ?v). dl_slots lib3 s = dl_sym dl p n \<and> dl_slots lib3 s \<noteq> None"
      using loaded(2,5) by fastforce
    then show ?thesis
      using Init_loaded [OF op loaded(3) g(2)] loaded(4) able UnInit_closed by (auto simp: errno SCF_SUCCESS_def)
  qed
qed

end

section \<open>The two libraries\<close>

definition ssl_symbols :: "u64 \<Rightarrow> (string \<times> string) list" where
  "ssl_symbols v = ssl_base_symbols v @ ssl_CipherSuit_symbols v @ ssl_Ctx_symbols v @ ssl_SSLObj_symbols v @
     ssl_TLSMethod_symbols v @ ssl_BIO_symbols v @ ssl_StackOpt_symbols v"

definition ssl_resets :: "string list" where
  "ssl_resets = ssl_UnLoadAll_names @ ssl_UnLoadCipherSuit_names @ ssl_UnLoadCtx_names @ ssl_UnLoadSSLObj_names @
     ssl_UnLoadTLSMethod_names @ ssl_UnLoadBIO_names @ ssl_UnLoadStackOpt_names"

definition crypto_symbols :: "u64 \<Rightarrow> (string \<times> string) list" where
  "crypto_symbols v = crypto_core_symbols v @ crypto_algorithm_symbols v @ crypto_core_last_symbols v @ crypto_pkey_symbols v"

definition crypto_resets :: "string list" where
  "crypto_resets = crypto_UnloadCoreSymbols_names @ crypto_UnloadCryptoAlgorithmSymbols_names @ crypto_UnloadPkeySymbols_names"

lemma reset_slots_append: "reset_slots ys (reset_slots xs lib) = reset_slots (xs @ ys) lib"
  by (cases lib) (simp add: reset_slots_def fun_eq_iff)

lemma ssl_LoadAll_eq:
  "ssl_LoadAll dl lib =
      (let (r0, lib0) = SelfDlSym dl version_name version_name lib in
       if r0 \<noteq> SCF_SUCCESS then Some (SCF_ERRNO_LOAD_SYMBOL, lib0)
       else case dl_slots lib0 version_name of
         None \<Rightarrow> None
       | Some f \<Rightarrow>
           let lib1 = lib0\<lparr>dl_versionNum := dl_call_version dl f\<rparr>;
               (r, lib2) = load_syms dl (ssl_symbols (dl_versionNum lib1)) SCF_SUCCESS lib1 in
           Some (if r \<noteq> SCF_SUCCESS then SCF_ERRNO_LOAD_SYMBOL else SCF_SUCCESS, lib2))"
  by (simp add: ssl_LoadAll_def ssl_symbols_def load_syms_append version_name_def LoadCipherSuit_def LoadCtx_def LoadSSLObj_def
      LoadTLSMethod_def LoadBIO_def LoadStackOpt_def split_def Let_def load_syms_version or.assoc cong: option.case_cong)

lemma ssl_UnInit_eq: "ssl_UnInit lib = SelfDlClose ((reset_slots ssl_resets lib)\<lparr>dl_versionNum := 0\<rparr>)"
  by (simp add: ssl_UnInit_def ssl_UnLoadAll_def UnLoadCipherSuit_def UnLoadCtx_def UnLoadSSLObj_def UnLoadTLSMethod_def
      UnLoadBIO_def UnLoadStackOpt_def reset_slots_append ssl_resets_def Let_def)

lemma crypto_LoadAll_eq:
  "crypto_LoadAll dl lib =
      (let (r0, lib0) = SelfDlSym dl version_name version_name lib in
       if r0 \<noteq> SCF_SUCCESS then Some (SCF_ERRNO_LOAD_SYMBOL, lib0)
       else case dl_slots lib0 version_name of
         None \<Rightarrow> None
       | Some f \<Rightarrow>
           let lib1 = lib0\<lparr>dl_versionNum := dl_call_version dl f\<rparr>;
               (r, lib2) = load_syms dl (crypto_symbols (dl_versionNum lib1)) SCF_SUCCESS lib1 in
           Some (if r \<noteq> SCF_SUCCESS then SCF_ERRNO_LOAD_SYMBOL else SCF_SUCCESS, lib2))"
  by (simp add: crypto_LoadAll_def crypto_symbols_def load_syms_append version_name_def LoadCoreSymbols_def
      LoadCryptoAlgorithmSymbols_def LoadPkeySymbols_def split_def Let_def load_syms_version or.assoc or_success
      split: option.split)

lemma crypto_UnInit_eq: "crypto_UnInit lib = SelfDlClose ((reset_slots crypto_resets lib)\<lparr>dl_versionNum := 0\<rparr>)"
  by (simp add: crypto_UnInit_def crypto_UnLoadAll_def UnloadCoreSymbols_def UnloadPkeySymbols_def
      UnloadCryptoAlgorithmSymbols_def reset_slots_append crypto_resets_def)

lemmas symbol_list_defs =
  ssl_symbols_def ssl_base_symbols_def ssl_CipherSuit_symbols_def ssl_Ctx_symbols_def ssl_SSLObj_symbols_def
  ssl_TLSMethod_symbols_def ssl_BIO_symbols_def ssl_StackOpt_symbols_def crypto_symbols_def crypto_core_symbols_def
  crypto_core_last_symbols_def crypto_algorithm_symbols_def crypto_pkey_symbols_def same_name_def

lemmas reset_list_defs =
  ssl_resets_def ssl_UnLoadAll_names_def ssl_UnLoadCipherSuit_names_def ssl_UnLoadCtx_names_def ssl_UnLoadSSLObj_names_def
  ssl_UnLoadTLSMethod_names_def ssl_UnLoadBIO_names_def ssl_UnLoadStackOpt_names_def crypto_resets_def
  crypto_UnloadCoreSymbols_names_def crypto_UnloadCryptoAlgorithmSymbols_names_def crypto_UnloadPkeySymbols_names_def

lemma ssl_symbols_distinct: "distinct (map snd (ssl_symbols v))"
  by (cases "SSL_VERSION_3_X \<le> v") (simp_all add: symbol_list_defs)

lemma ssl_resets_cover: "set (map snd (ssl_symbols v)) \<subseteq> set ssl_resets"
  by (cases "SSL_VERSION_3_X \<le> v") (simp_all add: symbol_list_defs reset_list_defs)

lemma ssl_names: "[] \<notin> set (map fst (ssl_symbols v))"
  by (cases "SSL_VERSION_3_X \<le> v") (simp_all add: symbol_list_defs)

lemma crypto_symbols_distinct: "distinct (map snd (crypto_symbols v))"
  by (cases "SSL_VERSION_3_X \<le> v") (simp_all add: symbol_list_defs)

lemma crypto_resets_cover: "set (map snd (crypto_symbols v)) \<subseteq> set crypto_resets"
  by (cases "SSL_VERSION_3_X \<le> v") (simp_all add: symbol_list_defs reset_list_defs)

lemma crypto_names: "[] \<notin> set (map fst (crypto_symbols v))"
  by (cases "SSL_VERSION_3_X \<le> v") (simp_all add: symbol_list_defs)

lemma ssl_symbols_in: "(n, s) \<in> set (ssl_symbols v) \<Longrightarrow> n \<noteq> [] \<and> s \<in> set ssl_resets"
  using ssl_names [of v] ssl_resets_cover [of v] by force

lemma crypto_symbols_in: "(n, s) \<in> set (crypto_symbols v) \<Longrightarrow> n \<noteq> [] \<and> s \<in> set crypto_resets"
  using crypto_names [of v] crypto_resets_cover [of v] by force

interpretation libssl: dl_library ssl_symbols ssl_resets "''OPENSSL_init_ssl''" "''libssl.so''" ssl_LoadAll ssl_UnInit ssl_Init
proof unfold_locales
  fix v show "distinct (map snd (ssl_symbols v))" by (rule ssl_symbols_distinct)
  show "(''OPENSSL_init_ssl'', ''OPENSSL_init_ssl'') \<in> set (ssl_symbols v)"
    by (simp add: ssl_symbols_def ssl_base_symbols_def same_name_def)
qed (simp_all add: ssl_symbols_in ssl_LoadAll_eq ssl_UnInit_eq ssl_Init_def Let_def)

interpretation libcrypto: dl_library crypto_symbols crypto_resets "''OPENSSL_init_crypto''" "''libcrypto.so''" crypto_LoadAll
    crypto_UnInit crypto_Init
proof unfold_locales
  fix v show "distinct (map snd (crypto_symbols v))" by (rule crypto_symbols_distinct)
  show "(''OPENSSL_init_crypto'', ''OPENSSL_init_crypto'') \<in> set (crypto_symbols v)"
    by (simp add: crypto_symbols_def crypto_core_symbols_def same_name_def)
qed (simp_all add: crypto_symbols_in crypto_LoadAll_eq crypto_UnInit_eq crypto_Init_def Let_def)

text \<open>The version member is reset with libcrypto but not with libssl.\<close>

lemma version_resets: "version_name \<in> set crypto_resets" "version_name \<notin> set ssl_resets"
  by (simp_all add: reset_list_defs version_name_def)

section \<open>Properties\<close>

definition lib_closed :: "string list \<Rightarrow> dl_lib \<Rightarrow> bool" where
  "lib_closed resets lib \<longleftrightarrow> dl_libptr lib = None \<and> (\<forall>n \<in> set resets. dl_slots lib n = None)"

definition lib_loaded :: "(u64 \<Rightarrow> (string \<times> string) list) \<Rightarrow> dl_api \<Rightarrow> addr \<Rightarrow> u64 \<Rightarrow> dl_lib \<Rightarrow> bool" where
  "lib_loaded symbols dl p v lib \<longleftrightarrow> dl_libptr lib = Some p \<and>
     (\<forall>(n, s) \<in> set (symbols v). dl_slots lib s = dl_sym dl p n \<and> dl_slots lib s \<noteq> None)"

lemma UnInit_lib_closed: "lib_closed ssl_resets (ssl_UnInit s)" "lib_closed crypto_resets (crypto_UnInit c)"
  by (simp_all add: lib_closed_def libssl.UnInit_closed libcrypto.UnInit_closed)

lemma DeInit_closed:
  "lib_closed crypto_resets (al_crypto (adaptor_DeInit libs))" "lib_closed ssl_resets (al_ssl (adaptor_DeInit libs))"
  by (simp_all add: adaptor_DeInit_def Let_def UnInit_lib_closed)

lemma adaptor_Init_total:
  "\<exists>r libs'. adaptor_Init os dl flag settings libs = Some (r, libs') \<and>
     (r = SCF_SUCCESS \<longleftrightarrow> (\<exists>s p v p' v'. settings = Some s \<and>
        loadable crypto_symbols ''OPENSSL_init_crypto'' os dl (cstr s @ ''/libcrypto.so'') p v \<and>
        loadable ssl_symbols ''OPENSSL_init_ssl'' os dl (cstr s @ ''/libssl.so'') p' v')) \<and>
     (r = SCF_SUCCESS \<longrightarrow> (\<exists>p v p' v'. lib_loaded crypto_symbols dl p v (al_crypto libs') \<and> lib_loaded ssl_symbols dl p' v' (al_ssl libs'))) \<and>
     (r \<noteq> SCF_SUCCESS \<and> settings \<noteq> None \<longrightarrow>
        lib_closed crypto_resets (al_crypto libs') \<and> lib_closed ssl_resets (al_ssl libs'))"
proof (cases settings)
  case None
  then show ?thesis by (simp add: adaptor_Init_def errno SCF_SUCCESS_def)
next
  case (Some s)
  let ?C = "\<exists>p v. loadable crypto_symbols ''OPENSSL_init_crypto'' os dl (cstr s @ ''/libcrypto.so'') p v"
  let ?S = "\<exists>p v. loadable ssl_symbols ''OPENSSL_init_ssl'' os dl (cstr s @ ''/libssl.so'') p v"
  obtain r c where c: "crypto_Init os dl (cstr s) (al_crypto libs) = Some (r, c)" "r = SCF_SUCCESS \<longleftrightarrow> ?C"
      "r = SCF_SUCCESS \<Longrightarrow> \<exists>p v. lib_loaded crypto_symbols dl p v c"
    using libcrypto.Init_all_or_nothing [of os dl "cstr s" "al_crypto libs"] by (auto simp: lib_loaded_def)
  obtain r1 s1 where s1: "ssl_Init os dl (cstr s) (al_ssl libs) = Some (r1, s1)" "r1 = SCF_SUCCESS \<longleftrightarrow> ?S"
      "r1 = SCF_SUCCESS \<Longrightarrow> \<exists>p v. lib_loaded ssl_symbols dl p v s1"
    using libssl.Init_all_or_nothing [of os dl "cstr s" "al_ssl libs"] by (auto simp: lib_loaded_def)
  consider (no_crypto) "r \<noteq> SCF_SUCCESS" | (no_ssl) "r = SCF_SUCCESS" "r1 \<noteq> SCF_SUCCESS"
    | (both) "r = SCF_SUCCESS" "r1 = SCF_SUCCESS" by blast
  then show ?thesis
  proof cases
    case no_crypto
    then have "adaptor_Init os dl flag settings libs = Some (r, adaptor_DeInit (libs\<lparr>al_crypto := c\<rparr>))"
      using Some c(1) by (simp add: adaptor_Init_def)
    then show ?thesis using no_crypto c(2) Some DeInit_closed by blast
  next
    case no_ssl
    then have "adaptor_Init os dl flag settings libs = Some (r1, adaptor_DeInit (libs\<lparr>al_crypto := c, al_ssl := s1\<rparr>))"
      using Some c(1) s1(1) by (simp add: adaptor_Init_def)
    then show ?thesis using no_ssl s1(2) Some DeInit_closed by blast
  next
    case both
    then have "adaptor_Init os dl flag settings libs = Some (SCF_SUCCESS, libs\<lparr>al_crypto := c, al_ssl := s1\<rparr>)"
      using Some c(1) s1(1) by (simp add: adaptor_Init_def)
    then show ?thesis using both Some c(2,3) s1(2,3) by fastforce
  qed
qed

lemma adaptor_Init_no_path: "settings = None \<Longrightarrow> adaptor_Init os dl flag settings libs = Some (SCF_ERRNO_LOAD_LIB, libs)"
  by (simp add: adaptor_Init_def)


definition full_dl :: dl_api where
  "full_dl = \<lparr> dl_open = (\<lambda>f. Some 7), dl_sym = (\<lambda>p n. Some 8), dl_call_version = (\<lambda>f. 0x30000000), dl_call_init = (\<lambda>f. 1) \<rparr>"

definition empty_lib :: dl_lib where
  "empty_lib = \<lparr> dl_libptr = None, dl_funCache = [], dl_slots = (\<lambda>n. None), dl_versionNum = 0, dl_closed = [] \<rparr>"

lemma full_dl_loadable:
  "SCF_CheckFilePathAndStat plain_os file \<Longrightarrow> loadable symbols initName plain_os full_dl file 7 0x30000000"
  by (auto simp: loadable_def full_dl_def)


text \<open>Unloading libssl keeps its version member: after \<^verbatim>\<open>UnInit\<close> it still points into the closed library.\<close>

lemma ssl_UnInit_keeps_version: "dl_slots (ssl_UnInit lib) version_name = dl_slots lib version_name"
  using libssl.UnInit_keeps version_resets by simp

end
