(* ===== verification/Scf_Init.thy ===== *)
theory Scf_Init
  imports Dl_Loader_Correct
begin

text \<open>
  Start and stop of the library: \<^verbatim>\<open>SCF_Init\<close> and \<^verbatim>\<open>SCF_DeInit\<close> of \<^verbatim>\<open>scf/policy/policy.cpp\<close> over
  \<^verbatim>\<open>adaptor/tls_init.cpp\<close>.  The state is the process globals: the two initialisation flags, whether
  \<^verbatim>\<open>g_adaptor\<close> points to the adaptor, and the libraries of the adaptor.  Both entry points hold the
  global mutex, so each call is one step.
\<close>

record init_state =
  is_scfInitialized :: bool
  is_isTlsInit :: bool
  is_adaptor :: bool
  is_libs :: adaptor_libs

definition RegisterTlsAdaptor ::
  "os_api \<Rightarrow> dl_api \<Rightarrow> u64 \<Rightarrow> string option \<Rightarrow> init_state \<Rightarrow> (ret \<times> init_state) option" where
  "RegisterTlsAdaptor os dl flag settings s =
     (if is_isTlsInit s then Some (SCF_ERRNO_TLS_ALREADY_INIT, s)
      else if flag = SCF_INIT_FLAG_OPENSSL then
        (case adaptor_Init os dl flag settings (is_libs s) of
           None \<Rightarrow> None
         | Some (r, libs) \<Rightarrow>
             let s1 = s\<lparr>is_libs := libs\<rparr> in
             if r \<noteq> SCF_SUCCESS then Some (r, s1)
             else Some (SCF_SUCCESS, s1\<lparr>is_isTlsInit := True, is_adaptor := True\<rparr>))
      else Some (SCF_ERRNO_INVALID_PARAM, s))"

definition UnRegisterTlsAdaptor :: "init_state \<Rightarrow> init_state" where
  "UnRegisterTlsAdaptor s =
     (if \<not> is_isTlsInit s \<or> \<not> is_adaptor s then s
      else s\<lparr>is_libs := adaptor_DeInit (is_libs s), is_adaptor := False, is_isTlsInit := False\<rparr>)"

definition SCFInitInner ::
  "os_api \<Rightarrow> dl_api \<Rightarrow> u64 \<Rightarrow> string option \<Rightarrow> init_state \<Rightarrow> (ret \<times> init_state) option" where
  "SCFInitInner os dl flag settings s =
     (if is_scfInitialized s then Some (SCF_SUCCESS, s)
      else
        (case RegisterTlsAdaptor os dl flag settings s of
           None \<Rightarrow> None
         | Some (r, s1) \<Rightarrow>
             if r \<noteq> SCF_SUCCESS then Some (r, s1) else Some (SCF_SUCCESS, s1\<lparr>is_scfInitialized := True\<rparr>)))"

definition SCFDeInitInner :: "init_state \<Rightarrow> init_state" where
  "SCFDeInitInner s =
     (if \<not> is_scfInitialized s then s else (UnRegisterTlsAdaptor s)\<lparr>is_scfInitialized := False\<rparr>)"

definition SCF_Init ::
  "os_api \<Rightarrow> dl_api \<Rightarrow> u64 \<Rightarrow> string option \<Rightarrow> init_state \<Rightarrow> (ret \<times> init_state) option" where
  "SCF_Init os dl flag settings s =
     (if is_scfInitialized s then Some (SCF_SUCCESS, s)
      else if flag \<noteq> SCF_INIT_FLAG_OPENSSL then Some (SCF_ERRNO_INVALID_PARAM, s)
      else
        (case SCFInitInner os dl flag settings s of
           None \<Rightarrow> None
         | Some (r, s1) \<Rightarrow>
             if r \<noteq> SCF_SUCCESS then Some (r, s1) else Some (r, s1\<lparr>is_scfInitialized := True\<rparr>)))"

definition SCF_DeInit :: "init_state \<Rightarrow> init_state" where
  "SCF_DeInit s =
     (if \<not> is_scfInitialized s then s else (SCFDeInitInner s)\<lparr>is_scfInitialized := False\<rparr>)"

section \<open>The initialisation state machine\<close>

inductive init_step :: "init_state \<Rightarrow> init_state \<Rightarrow> bool" where
  init: "SCF_Init os dl flag settings s = Some (r, s') \<Longrightarrow> init_step s s'"
| deinit: "init_step s (SCF_DeInit s)"

definition init0 :: init_state where
  "init0 = \<lparr> is_scfInitialized = False, is_isTlsInit = False, is_adaptor = False,
     is_libs = \<lparr> al_crypto = empty_lib, al_ssl = empty_lib, al_engine = None \<rparr> \<rparr>"

text \<open>The flags agree; with the library started both shared objects are loaded, otherwise they are closed.\<close>

definition libs_loaded :: "adaptor_libs \<Rightarrow> bool" where
  "libs_loaded libs \<longleftrightarrow> (\<exists>dl p v p' v'. lib_loaded crypto_symbols dl p v (al_crypto libs) \<and> lib_loaded ssl_symbols dl p' v' (al_ssl libs))"

definition libs_closed :: "adaptor_libs \<Rightarrow> bool" where
  "libs_closed libs \<longleftrightarrow> lib_closed crypto_resets (al_crypto libs) \<and> lib_closed ssl_resets (al_ssl libs)"

definition init_inv :: "init_state \<Rightarrow> bool" where
  "init_inv s \<longleftrightarrow> is_isTlsInit s = is_scfInitialized s \<and> is_adaptor s = is_scfInitialized s \<and>
     (if is_scfInitialized s then libs_loaded (is_libs s) else libs_closed (is_libs s))"

lemma adaptor_Init_cases:
  obtains (loaded) libs' where "adaptor_Init os dl flag settings libs = Some (SCF_SUCCESS, libs')" "libs_loaded libs'"
  | (no_path) "settings = None" "adaptor_Init os dl flag settings libs = Some (SCF_ERRNO_LOAD_LIB, libs)"
  | (failed) r libs' where "r \<noteq> SCF_SUCCESS" "adaptor_Init os dl flag settings libs = Some (r, libs')" "libs_closed libs'"
  using adaptor_Init_total [of os dl flag settings libs]
  by (metis adaptor_Init_no_path libs_loaded_def libs_closed_def)

lemma init_inv_step:
  assumes "init_inv s" "init_step s s'"
  shows "init_inv s'"
  using assms(2)
proof cases
  case (init os dl flag settings r)
  show ?thesis
  proof (cases "is_scfInitialized s \<or> flag \<noteq> SCF_INIT_FLAG_OPENSSL")
    case True
    then have "s' = s" using init by (auto simp: SCF_Init_def split: if_splits)
    then show ?thesis using assms(1) by simp
  next
    case False
    then have off: "\<not> is_scfInitialized s" "\<not> is_isTlsInit s" "\<not> is_adaptor s" "flag = SCF_INIT_FLAG_OPENSSL"
      using assms(1) by (auto simp: init_inv_def)
    show ?thesis
      by (cases rule: adaptor_Init_cases [of os dl flag settings "is_libs s", case_names loaded no_path failed])
        (use init off assms(1) in \<open>auto simp: SCF_Init_def SCFInitInner_def RegisterTlsAdaptor_def init_inv_def errno SCF_SUCCESS_def split: if_splits\<close>)
  qed
next
  case deinit
  then show ?thesis
    using assms(1) DeInit_closed
    by (auto simp: SCF_DeInit_def SCFDeInitInner_def UnRegisterTlsAdaptor_def init_inv_def libs_closed_def)
qed

interpretation init_sys: invariant_system init_step init_inv
  by unfold_locales (rule init_inv_step)

lemma init0_inv: "init_inv init0"
  by (simp add: init_inv_def init0_def libs_closed_def lib_closed_def empty_lib_def)

text \<open>C19: After any sequence of calls of \<^verbatim>\<open>SCF_Init\<close> and \<^verbatim>\<open>SCF_DeInit\<close>, with whatever arguments and whatever
  the system answers, the three initialisation flags agree, both libraries are completely loaded if the
  library is initialised and closed with empty members if not, and no call has thrown.\<close>

theorem init_reachable_inv:
  assumes "init_step\<^sup>*\<^sup>* init0 s"
  shows "init_inv s \<and> (\<exists>r s'. SCF_Init os dl flag settings s = Some (r, s') \<and> (r = SCF_SUCCESS \<longleftrightarrow> is_scfInitialized s'))"
proof -
  have inv: "init_inv s" using init_sys.inv_steps [OF assms init0_inv] .
  have "\<exists>r s'. SCF_Init os dl flag settings s = Some (r, s') \<and> (r = SCF_SUCCESS \<longleftrightarrow> is_scfInitialized s')"
    by (cases rule: adaptor_Init_cases [of os dl flag settings "is_libs s", case_names loaded no_path failed])
      (use inv in \<open>auto simp: SCF_Init_def SCFInitInner_def RegisterTlsAdaptor_def init_inv_def errno SCF_SUCCESS_def\<close>)
  with inv show ?thesis by blast
qed

theorem init_reachable_inv_witness:
  "\<exists>s'. SCF_Init plain_os full_dl 1 (Some ''/l'') (SCF_DeInit init0) = Some s' \<and> init_inv (SCF_DeInit init0)"
proof -
  have "init_step\<^sup>*\<^sup>* init0 (SCF_DeInit init0)" by (rule r_into_rtranclp) (rule deinit)
  from init_reachable_inv [OF this, of plain_os full_dl 1 "Some ''/l''"] show ?thesis by blast
qed

end
