(* ===== verification/Adaptor_Policy.thy ===== *)
theory Adaptor_Policy
  imports Openssl_Api Adaptor_Conn
begin

text \<open>
  The policy part of \<^verbatim>\<open>adaptor/openssl/openssl_adaptor.cpp\<close>: cipher suites, protocol versions, verification
  mode, creation of the TLS context of a policy mode, pre-shared-key callbacks and sessions.  C arrays are lists
  that are at least as long as their declared size.
\<close>

section \<open>Context\<close>

definition FreeSsl :: "'o ossl_api \<Rightarrow> SCFPolicyCtx option \<Rightarrow> 'o \<Rightarrow> SCFPolicyCtx option \<times> 'o" where
  "FreeSsl api ctx st =
     (case ctx of
        None \<Rightarrow> (ctx, st)
      | Some c \<Rightarrow>
          if ctx_sslConfig c = None then (ctx, st)
          else (Some (c\<lparr>ctx_sslConfig := None\<rparr>), SSL_CTX_free api (ctx_sslConfig c) st))"

text \<open>\<^verbatim>\<open>join_groups\<close> is the loop that builds the colon separated list.\<close>

fun join_groups :: "string list \<Rightarrow> string" where
  "join_groups [] = ''''"
| "join_groups [g] = g"
| "join_groups (g # gs) = g @ '':'' @ join_groups gs"

definition SetKeyExchangeGroups ::
  "'o ossl_api \<Rightarrow> SCFPolicyCtx option \<Rightarrow> string list \<Rightarrow> 'o \<Rightarrow> ret \<times> 'o" where
  "SetKeyExchangeGroups api ctx groups st =
     (case ctx of
        None \<Rightarrow> (SCF_ERRNO_NULL_INPUT, st)
      | Some c \<Rightarrow>
          if ctx_sslConfig c = None then (SCF_ERRNO_NULL_INPUT, st)
          else if groups = [] then (SCF_SUCCESS, st)
          else
            let groupsStr = join_groups groups;
                (r, st1) = SSL_CTX_set1_groups_list api (ctx_sslConfig c) groupsStr st in
            (SCF_SUCCESS, st1))"

section \<open>Cipher suites\<close>

definition CipherId2CipherStr :: "u16 \<Rightarrow> string option" where
  "CipherId2CipherStr cipherId =
     (let i = (ucast cipherId :: u32) in
      if i = SCF_SSL_ECDHE_ECDSA_WITH_AES_128_GCM_SHA256 then Some ''TLS_ECDHE_ECDSA_WITH_AES_128_GCM_SHA256:''
      else if i = SCF_SSL_ECDHE_ECDSA_WITH_AES_256_GCM_SHA384 then Some ''TLS_ECDHE_ECDSA_WITH_AES_256_GCM_SHA384:''
      else if i = SCF_SSL_ECDHE_RSA_WITH_AES_128_GCM_SHA256 then Some ''TLS_ECDHE_RSA_WITH_AES_128_GCM_SHA256:''
      else if i = SCF_SSL_ECDHE_RSA_WITH_AES_256_GCM_SHA384 then Some ''TLS_ECDHE_RSA_WITH_AES_256_GCM_SHA384:''
      else if i = SCF_SSL_ECDHE_RSA_WITH_CHACHA20_POLY1305_SHA256 then Some ''TLS_ECDHE_RSA_WITH_CHACHA20_POLY1305_SHA256:''
      else if i = SCF_SSL_ECDHE_ECDSA_WITH_CHACHA20_POLY1305_SHA256 then Some ''TLS_ECDHE_ECDSA_WITH_CHACHA20_POLY1305_SHA256:''
      else if i = SCF_SSL_AES_128_GCM_SHA256 then Some ''TLS_AES_128_GCM_SHA256:''
      else if i = SCF_SSL_AES_256_GCM_SHA384 then Some ''TLS_AES_256_GCM_SHA384:''
      else if i = SCF_SSL_CHACHA20_POLY1305_SHA256 then Some ''TLS_CHACHA20_POLY1305_SHA256:''
      else if i = SCF_SSL_AES_128_CCM_SHA256 then Some ''TLS_AES_128_CCM_SHA256:''
      else None)"

text \<open>Lengths are natural numbers: at most 2^32 names of at most 50 characters stay far below 2^64.\<close>

fun CipherSuitesStrLen_loop :: "u16 list \<Rightarrow> nat \<Rightarrow> nat" where
  "CipherSuitesStrLen_loop [] len = len"
| "CipherSuitesStrLen_loop (x # xs) len =
     (case CipherId2CipherStr x of
        None \<Rightarrow> CipherSuitesStrLen_loop xs len
      | Some p \<Rightarrow> CipherSuitesStrLen_loop xs (len + length p))"

definition GetCipherSuitesStrLen :: "u16 list \<Rightarrow> u32 \<Rightarrow> nat" where
  "GetCipherSuitesStrLen cipherSuites cipherSuitesSize =
     CipherSuitesStrLen_loop (take (unat cipherSuitesSize) cipherSuites) 0"

text \<open>The copy loop: \<^verbatim>\<open>memcpy_s\<close> writes at \<^verbatim>\<open>buf + offset\<close>; a copy that fails is skipped (its effect on the
  rest of the buffer stays).\<close>

fun SetCipherSuites_loop ::
  "(string \<Rightarrow> nat \<Rightarrow> string \<Rightarrow> nat \<Rightarrow> int \<times> string) \<Rightarrow> u16 list \<Rightarrow> nat \<Rightarrow> nat \<Rightarrow> string \<Rightarrow> string" where
  "SetCipherSuites_loop mc [] totalLen offset buf = buf"
| "SetCipherSuites_loop mc (x # xs) totalLen offset buf =
     (case CipherId2CipherStr x of
        None \<Rightarrow> SetCipherSuites_loop mc xs totalLen offset buf
      | Some p \<Rightarrow>
          let (r, rest) = mc (drop offset buf) (totalLen - offset) p (length p);
              buf1 = take offset buf @ rest in
          SetCipherSuites_loop mc xs totalLen (if r \<noteq> 0 then offset else offset + length p) buf1)"

definition adaptor_SetCipherSuites ::
  "'o ossl_api \<Rightarrow> (string \<Rightarrow> nat \<Rightarrow> string \<Rightarrow> nat \<Rightarrow> int \<times> string) \<Rightarrow> (nat \<Rightarrow> string option)
     \<Rightarrow> SCFPolicyCtx option \<Rightarrow> u16 list option \<Rightarrow> u32 \<Rightarrow> 'o \<Rightarrow> ret \<times> 'o" where
  "adaptor_SetCipherSuites api mc alloc ctx cipherSuites cipherSuitesSize st =
     (case (ctx, cipherSuites) of
        (Some c, Some cs) \<Rightarrow>
          let totalLen = GetCipherSuitesStrLen cs cipherSuitesSize in
          if totalLen = 0 then (SCF_SSL_ERR_SET_CIPHER, st)
          else
            (case alloc totalLen of
               None \<Rightarrow> (SCF_ERRNO_MEM_ALLOC, st)
             | Some fresh \<Rightarrow>
                 let buf = SetCipherSuites_loop mc (take (unat cipherSuitesSize) cs) totalLen 0 fresh;
                     cipherSuitesStr = buf[totalLen - 1 := NUL];
                     (r, st1) = SSL_CTX_set_ciphersuites api (ctx_sslConfig c) cipherSuitesStr st in
                 if r \<noteq> SSL_SUCCESS then (SCF_SSL_ERR_SET_CIPHER, st1) else (SCF_SUCCESS, st1))
      | _ \<Rightarrow> (SCF_ERRNO_NULL_INPUT, st))"

text \<open>\<^verbatim>\<open>GetCipherSuites\<close> fills the caller's array from its start; the stack of the library is the list of
  cipher handles.\<close>

definition adaptor_GetCipherSuites ::
  "'o ossl_api \<Rightarrow> SCFPolicyCtx \<Rightarrow> u16 list \<Rightarrow> u32 \<Rightarrow> 'o \<Rightarrow> ret \<times> u16 list \<times> u32" where
  "adaptor_GetCipherSuites api ctx data dataLen st =
     (let ciphersStack = SSL_CTX_get_ciphers api (ctx_sslConfig ctx) st;
          cipherLen = (case ciphersStack of None \<Rightarrow> 0 | Some cs \<Rightarrow> length cs) in
      if cipherLen = 0 \<or> cipherLen > unat dataLen then (SCF_SSL_ERR_GET_CIPHER, data, 0)
      else (SCF_SUCCESS,
            map (\<lambda>cipher. ucast (SSL_CIPHER_get_id api cipher st)) (the ciphersStack) @ drop cipherLen data,
            of_nat cipherLen))"

section \<open>Versions, verification\<close>

fun forbid_loop :: "u32 list \<Rightarrow> u64 \<Rightarrow> u64 option" where
  "forbid_loop [] forbidOpt = Some forbidOpt"
| "forbid_loop (v # vs) forbidOpt =
     (let (r, sslOp) = MapVersion2NoOpt (uint v) (Some 0) in
      if r \<noteq> of_int SSL_SUCCESS then None
      else forbid_loop vs (forbidOpt OR ucast (the sslOp)))"

definition adaptor_SetProtocolVersion ::
  "'o ossl_api \<Rightarrow> SCFPolicyCtx option \<Rightarrow> u32 \<Rightarrow> u32 \<Rightarrow> u32 list option \<Rightarrow> u32 \<Rightarrow> 'o \<Rightarrow> ret \<times> 'o" where
  "adaptor_SetProtocolVersion api ctx minVersion maxVersion forbidVersion forbidVersionLen st =
     (case ctx of
        None \<Rightarrow> (SCF_ERRNO_NULL_INPUT, st)
      | Some c \<Rightarrow>
          let sslCtxConfig = ctx_sslConfig c;
              (r1, st1) = SSL_CTX_set_min_proto_version api sslCtxConfig (uint minVersion) st in
          if r1 \<noteq> SSL_SUCCESS then (SCF_SSL_ERR_SET_PROTOCOL_VER, st1)
          else
            let (r2, st2) = SSL_CTX_set_max_proto_version api sslCtxConfig (uint maxVersion) st1 in
            if r2 \<noteq> SSL_SUCCESS then (SCF_SSL_ERR_SET_PROTOCOL_VER, st2)
            else if forbidVersion = None \<or> forbidVersionLen = 0 then (SCF_SUCCESS, st2)
            else
              (case forbid_loop (take (unat forbidVersionLen) (the forbidVersion)) 0 of
                 None \<Rightarrow> (SCF_SSL_ERR_SET_VER_FORBID, st2)
               | Some forbidOpt \<Rightarrow>
                   (SCF_SUCCESS, if forbidOpt \<noteq> 0 then SSL_CTX_set_options api sslCtxConfig forbidOpt st2 else st2)))"

definition adaptor_SetAppVerifyCallback ::
  "'o ossl_api \<Rightarrow> SCFPolicyCtx option \<Rightarrow> ptr \<Rightarrow> ptr \<Rightarrow> 'o \<Rightarrow> ret \<times> 'o" where
  "adaptor_SetAppVerifyCallback api ctx cb arg st =
     (case ctx of
        None \<Rightarrow> (SCF_ERRNO_NULL_INPUT, st)
      | Some c \<Rightarrow> (SCF_SUCCESS, SSL_CTX_set_cert_verify_callback api (ctx_sslConfig c) cb arg st))"

definition adaptor_CheckPrivateKey :: "'o ossl_api \<Rightarrow> SCFPolicyCtx option \<Rightarrow> 'o \<Rightarrow> ret" where
  "adaptor_CheckPrivateKey api ctx st =
     (case ctx of
        None \<Rightarrow> SCF_ERRNO_NULL_INPUT
      | Some c \<Rightarrow>
          if SSL_CTX_check_private_key api (ctx_sslConfig c) st \<noteq> SSL_SUCCESS then SCF_SSL_ERR_CHECK_PKEY
          else SCF_SUCCESS)"

definition adaptor_SetVerifyMode :: "'o ossl_api \<Rightarrow> SCFPolicyCtx option \<Rightarrow> u32 \<Rightarrow> 'o \<Rightarrow> ret \<times> 'o" where
  "adaptor_SetVerifyMode api policyCtx verifyMode st =
     (case policyCtx of
        None \<Rightarrow> (SCF_ERRNO_INVALID_PARAM, st)
      | Some c \<Rightarrow>
          if ctx_sslConfig c = None then (SCF_ERRNO_INVALID_PARAM, st)
          else
            let sslCtxConfig = ctx_sslConfig c in
            if verifyMode = SCF_VERIFY_MODE_NONE
            then (SCF_SUCCESS, SSL_CTX_set_verify api sslCtxConfig (uint SSL_VERIFY_NONE) st)
            else
              let mode0 = (0 :: u16);
                  mode1 = (if verifyMode AND SCF_VERIFY_PEER = SCF_VERIFY_PEER then mode0 OR ucast SSL_VERIFY_PEER else mode0);
                  mode2 = (if verifyMode AND SCF_VERIFY_FAIL_IF_NO_PEER_CERT = SCF_VERIFY_FAIL_IF_NO_PEER_CERT
                           then mode1 OR ucast SSL_VERIFY_FAIL_IF_NO_PEER_CERT else mode1) in
              (SCF_SUCCESS, SSL_CTX_set_verify api sslCtxConfig (uint mode2) st))"

section \<open>TLS context of a policy mode\<close>

definition CalGetSslMethod :: "'o ossl_api \<Rightarrow> SCF_ROLE \<Rightarrow> ptr" where
  "CalGetSslMethod api role =
     (if role = SCF_ROLE_SERVER then TLS_server_method api
      else if role = SCF_ROLE_CLIENT then TLS_client_method api
      else None)"

text \<open>The creation of the \<^verbatim>\<open>SSL_CTX\<close>, the same statements in \<^verbatim>\<open>InitSsl\<close> and \<^verbatim>\<open>InitSslCustomer\<close>: with the
  provider context of the crypto engine if there is one, else the default way.\<close>

definition create_ssl_ctx :: "'o OpenSSLAdaptor \<Rightarrow> ptr \<Rightarrow> 'o \<Rightarrow> ptr \<times> 'o" where
  "create_ssl_ctx ad sslMethod st =
     (let (cfg, st1) =
        (case (ad_cryptoEngine ad, SSL_CTX_new_ex (ad_ssl ad)) of
           (Some (Some providerCtx), Some new_ex) \<Rightarrow> new_ex (Some providerCtx) sslMethod st
         | _ \<Rightarrow> (None, st)) in
      if cfg = None then SSL_CTX_new (ad_ssl ad) sslMethod st1 else (cfg, st1))"

definition InitSsl ::
  "'o OpenSSLAdaptor \<Rightarrow> SCFPolicyCtx \<Rightarrow> u32 \<Rightarrow> u32 \<Rightarrow> u32 list option \<Rightarrow> u32 \<Rightarrow> 'o \<Rightarrow> ret \<times> SCFPolicyCtx \<times> 'o" where
  "InitSsl ad ctx minVersion maxVersion forbidVersion forbidVersionLen st =
     (let api = ad_ssl ad; sslMethod = CalGetSslMethod api (ctx_role ctx) in
      if sslMethod = None then (SCF_SSL_ERR_ROLE, ctx, st)
      else
        let (cfg, st1) = create_ssl_ctx ad sslMethod st in
        if cfg = None then (SCF_ERRNO_MEM_ALLOC, ctx, st1)
        else
          let st2 = SSL_CTX_set_security_level api cfg SSL_SECURITY_LEVEL_TWO st1;
              (_, st3) = SSL_CTX_set_session_cache_mode api cfg SSL_SESS_CACHE_OFF st2;
              (m, st4) = SSL_CTX_get_session_cache_mode api cfg st3 in
          if m \<noteq> SSL_SESS_CACHE_OFF then (SCF_SSL_ERR_SET_SESS_TICKET, ctx, SSL_CTX_free api cfg st4)
          else
            let (c1, st5) = FreeSsl api (Some ctx) st4;
                ctx1 = (the c1)\<lparr>ctx_sslConfig := cfg\<rparr>;
                (r, st6) = adaptor_SetProtocolVersion api (Some ctx1) minVersion maxVersion forbidVersion forbidVersionLen st5 in
            if r \<noteq> SCF_SUCCESS then (let (c2, st7) = FreeSsl api (Some ctx1) st6 in (r, the c2, st7))
            else (r, ctx1, SSL_CTX_set_options api (ctx_sslConfig ctx1) (ucast SSL_OP_NO_RENEGOTIATION) st6))"

definition InitSslCustomer :: "'o OpenSSLAdaptor \<Rightarrow> SCFPolicyCtx \<Rightarrow> 'o \<Rightarrow> ret \<times> SCFPolicyCtx \<times> 'o" where
  "InitSslCustomer ad ctx st =
     (let api = ad_ssl ad; sslMethod = CalGetSslMethod api (ctx_role ctx) in
      if sslMethod = None then (SCF_SSL_ERR_ROLE, ctx, st)
      else
        let (cfg, st1) = create_ssl_ctx ad sslMethod st in
        if cfg = None then (SCF_ERRNO_MEM_ALLOC, ctx, st1)
        else
          let (_, st2) = SSL_CTX_set_session_cache_mode api cfg SSL_SESS_CACHE_OFF st1;
              (m, st3) = SSL_CTX_get_session_cache_mode api cfg st2 in
          if m \<noteq> SSL_SESS_CACHE_OFF then (SCF_SSL_ERR_SET_SESS_TICKET, ctx, SSL_CTX_free api cfg st3)
          else
            let st4 = SSL_CTX_set_options api cfg (ucast SSL_OP_NO_RENEGOTIATION) st3;
                (c1, st5) = FreeSsl api (Some ctx) st4 in
            (SCF_SUCCESS, (the c1)\<lparr>ctx_sslConfig := cfg\<rparr>, st5))"

definition InitPolicyByMode :: "'o OpenSSLAdaptor \<Rightarrow> SCFPolicyCtx \<Rightarrow> 'o \<Rightarrow> ret \<times> SCFPolicyCtx \<times> 'o" where
  "InitPolicyByMode ad ctx st =
     (if ctx_policyMode ctx = SCF_POLICY_HIGH then InitSsl ad ctx SCF_SSL_VERSION_TLS13 SCF_SSL_VERSION_TLS13 None 0 st
      else if ctx_policyMode ctx = SCF_POLICY_MIDDLE then InitSsl ad ctx SCF_SSL_VERSION_TLS12 SCF_SSL_VERSION_TLS13 None 0 st
      else InitSslCustomer ad ctx st)"

end
