(* ===== verification/Adaptor_Session.thy ===== *)
theory Adaptor_Session
  imports Openssl_Api
begin

text \<open>
  Pre-shared-key callbacks and sessions of \<^verbatim>\<open>adaptor/openssl/openssl_adaptor.cpp\<close>.  The application's
  callbacks are arguments; the policy object a connection belongs to is found through the library's
  ex-data pointer, so the wrappers also take the objects of the process by address.
\<close>

section \<open>Digest identifiers\<close>

definition SCF_CRYPT_MD_UNKNOWN :: u32 where [scf_const]: "SCF_CRYPT_MD_UNKNOWN = 0"
definition SCF_CRYPT_MD_SHA256 :: u32 where [scf_const]: "SCF_CRYPT_MD_SHA256 = 10006"
definition SCF_CRYPT_MD_SHA384 :: u32 where [scf_const]: "SCF_CRYPT_MD_SHA384 = 10007"

definition GetHashAlgo :: "'o ossl_api \<Rightarrow> ptr \<Rightarrow> u32" where
  "GetHashAlgo api md =
     (if md = EVP_sha256 api then SCF_CRYPT_MD_SHA256
      else if md = EVP_sha384 api then SCF_CRYPT_MD_SHA384
      else SCF_CRYPT_MD_UNKNOWN)"

section \<open>Callback wrappers\<close>

text \<open>\<^verbatim>\<open>sess\<close> is the caller's \<^verbatim>\<open>void **\<close>: \<^verbatim>\<open>None\<close> for a null pointer, otherwise the pointer stored there.\<close>

definition PskFindSessionCbWrapper ::
  "'o ossl_api \<Rightarrow> (addr \<Rightarrow> SCFPolicyObj option)
     \<Rightarrow> (addr \<Rightarrow> SCFPolicyObj \<Rightarrow> string \<Rightarrow> u32 \<Rightarrow> ptr option \<Rightarrow> 'o \<Rightarrow> ret \<times> ptr option \<times> 'o)
     \<Rightarrow> ptr \<Rightarrow> string \<Rightarrow> u64 \<Rightarrow> ptr option \<Rightarrow> 'o \<Rightarrow> int \<times> ptr option \<times> 'o" where
  "PskFindSessionCbWrapper api objs app ssl ident idLen sess st =
     (case Option.bind (SSL_get_ex_data api ssl SSL_EX_DATA_ID st) objs of
        None \<Rightarrow> (SSL_ERROR, sess, st)
      | Some b \<Rightarrow>
          (case obj_pskFindSessionCb b of
             None \<Rightarrow> (SSL_ERROR, sess, st)
           | Some cb \<Rightarrow>
               let (r, sess1, st1) = app cb b ident (ucast idLen) sess st in
               if r \<noteq> SCF_SUCCESS then (SSL_ERROR, sess1, st1)
               else if sess1 \<noteq> None \<and> the sess1 \<noteq> None \<and> SSL_SESSION_get0_cipher api (the sess1) st1 = None
               then (SSL_ERROR, Some None, SSL_SESSION_free api (the sess1) st1)
               else (SSL_SUCCESS, sess1, SSL_set_verify api ssl (uint SSL_VERIFY_NONE) st1)))"

definition PskUseSessionCbWrapper ::
  "'o ossl_api \<Rightarrow> (addr \<Rightarrow> SCFPolicyObj option)
     \<Rightarrow> (addr \<Rightarrow> SCFPolicyObj \<Rightarrow> u32 \<Rightarrow> string option \<Rightarrow> u32 \<Rightarrow> ptr option \<Rightarrow> 'o \<Rightarrow> ret \<times> string option \<times> u32 \<times> ptr option \<times> 'o)
     \<Rightarrow> ptr \<Rightarrow> ptr \<Rightarrow> string option \<Rightarrow> u64 \<Rightarrow> ptr option \<Rightarrow> 'o \<Rightarrow> int \<times> string option \<times> u64 \<times> ptr option \<times> 'o" where
  "PskUseSessionCbWrapper api objs app ssl md ident idLen sess st =
     (case Option.bind (SSL_get_ex_data api ssl SSL_EX_DATA_ID st) objs of
        None \<Rightarrow> (SSL_ERROR, ident, idLen, sess, st)
      | Some b \<Rightarrow>
          (case obj_pskUseSessionCb b of
             None \<Rightarrow> (SSL_ERROR, ident, idLen, sess, st)
           | Some cb \<Rightarrow>
               let (r, ident1, idLenIn, sess1, st1) = app cb b (GetHashAlgo api md) ident 0 sess st in
               if r \<noteq> SCF_SUCCESS then (SSL_ERROR, ident1, idLen, sess1, st1)
               else (SSL_SUCCESS, ident1, ucast idLenIn, sess1, st1)))"

definition adaptor_SetPskFindSessionCallback ::
  "'o ossl_api \<Rightarrow> SCFPolicyCtx option \<Rightarrow> ptr \<Rightarrow> 'o \<Rightarrow> ret \<times> SCFPolicyCtx option \<times> 'o" where
  "adaptor_SetPskFindSessionCallback api ctx cb st =
     (case ctx of
        None \<Rightarrow> (SCF_ERRNO_INVALID_PARAM, ctx, st)
      | Some c \<Rightarrow>
          if ctx_sslConfig c = None then (SCF_ERRNO_INVALID_PARAM, ctx, st)
          else (SCF_SUCCESS, Some (c\<lparr>ctx_pskFindSessionCb := cb\<rparr>),
                SSL_CTX_set_psk_find_session_callback api (ctx_sslConfig c) (cb \<noteq> None) st))"

definition adaptor_SetPskUseSessionCallback ::
  "'o ossl_api \<Rightarrow> SCFPolicyCtx option \<Rightarrow> ptr \<Rightarrow> 'o \<Rightarrow> ret \<times> SCFPolicyCtx option \<times> 'o" where
  "adaptor_SetPskUseSessionCallback api ctx cb st =
     (case ctx of
        None \<Rightarrow> (SCF_ERRNO_INVALID_PARAM, ctx, st)
      | Some c \<Rightarrow>
          if ctx_sslConfig c = None then (SCF_ERRNO_INVALID_PARAM, ctx, st)
          else (SCF_SUCCESS, Some (c\<lparr>ctx_pskUseSessionCb := cb\<rparr>),
                SSL_CTX_set_psk_use_session_callback api (ctx_sslConfig c) (cb \<noteq> None) st))"

section \<open>Sessions\<close>

definition SessionNew :: "'o ossl_api \<Rightarrow> 'o \<Rightarrow> ptr \<times> 'o" where
  "SessionNew api st = SSL_SESSION_new api st"

definition SessionSetMasterKey :: "'o ossl_api \<Rightarrow> ptr \<Rightarrow> string \<Rightarrow> nat \<Rightarrow> 'o \<Rightarrow> ret \<times> 'o" where
  "SessionSetMasterKey api sess masterKey masterKeySize st =
     (let (r, st1) = SSL_SESSION_set1_master_key api sess masterKey masterKeySize st in
      (if r \<noteq> SSL_SUCCESS then SCF_SSL_ERR_SESS_SET_KEY else SCF_SUCCESS, st1))"

definition SessionSetCipher :: "'o ossl_api \<Rightarrow> ptr \<Rightarrow> ptr \<Rightarrow> 'o \<Rightarrow> ret \<times> 'o" where
  "SessionSetCipher api sess cipherSuite st =
     (let (r, st1) = SSL_SESSION_set_cipher api sess cipherSuite st in
      (if r \<noteq> SSL_SUCCESS then SCF_SSL_ERR_SESS_SET_CIPHER else SCF_SUCCESS, st1))"

text \<open>Result: code, \<^verbatim>\<open>*cipherSuite\<close>, \<^verbatim>\<open>cipherLen\<close>.\<close>

definition SessionGetCipher :: "'o ossl_api \<Rightarrow> ptr \<Rightarrow> ptr option \<Rightarrow> 'o \<Rightarrow> ret \<times> ptr option \<times> nat" where
  "SessionGetCipher api sess cipherSuite st =
     (if cipherSuite = None then (SCF_ERRNO_NULL_INPUT, cipherSuite, 0)
      else
        let c = SSL_SESSION_get0_cipher api sess st in
        if c = None then (SCF_SSL_ERR_SESS_GET_CIPHER, Some c, 0) else (SCF_SUCCESS, Some c, 1))"

definition SessionFreeCipher :: "ptr option \<Rightarrow> nat \<Rightarrow> ptr option \<times> nat" where
  "SessionFreeCipher cipherSuite cipherLen = (if cipherSuite \<noteq> None then (Some None, 0) else (cipherSuite, 0))"

text \<open>\<^verbatim>\<open>FreeBuffer\<close>: \<^verbatim>\<open>None\<close> is a null \<^verbatim>\<open>char **\<close>, \<^verbatim>\<open>Some None\<close> one that points to null; the third component is
  the content of the block when it was released.\<close>

definition FreeBuffer :: "string option option \<Rightarrow> nat \<Rightarrow> string option option \<times> nat \<times> string option" where
  "FreeBuffer buffer bufferLen =
     (case buffer of
        Some (Some b) \<Rightarrow>
          if bufferLen = 0 then (buffer, bufferLen, None)
          else (Some None, 0, Some (zero_buf bufferLen @ drop bufferLen b))
      | _ \<Rightarrow> (buffer, bufferLen, None))"

definition protocolMap :: "(string \<times> int) list" where
  "protocolMap = [(''TLSv1.2'', TLS1_2_VERSION), (''TLSv1.3'', TLS1_3_VERSION)]"

definition ProtocolStrToInt :: "string option \<Rightarrow> int \<Rightarrow> ret \<times> int" where
  "ProtocolStrToInt version intVer =
     (case version of
        None \<Rightarrow> (SCF_ERRNO_NULL_INPUT, intVer)
      | Some v \<Rightarrow>
          (case map_of protocolMap (cstr v) of
             None \<Rightarrow> (SCF_ERROR, intVer)
           | Some n \<Rightarrow> (SCF_SUCCESS, n)))"

definition ProtocolIntToStr :: "int \<Rightarrow> string \<Rightarrow> ret \<times> string" where
  "ProtocolIntToStr version strVer =
     (case map_of (map (\<lambda>(s, n). (n, s)) protocolMap) version of
        None \<Rightarrow> (SCF_ERROR, strVer)
      | Some s \<Rightarrow> (SCF_SUCCESS, s))"

definition SessionSetProtocolVersion :: "'o ossl_api \<Rightarrow> ptr \<Rightarrow> string option \<Rightarrow> 'o \<Rightarrow> ret \<times> 'o" where
  "SessionSetProtocolVersion api sess version st =
     (if sess = None \<or> version = None then (SCF_ERRNO_NULL_INPUT, st)
      else
        let (r, sslVersion) = ProtocolStrToInt version 0 in
        if r \<noteq> SCF_SUCCESS then (SCF_SSL_ERR_VERSION, st)
        else
          let (r2, st1) = SSL_SESSION_set_protocol_version api sess sslVersion st in
          (if r2 \<noteq> SSL_SUCCESS then SCF_SSL_ERR_SESS_SET_PROTOCOL_VER else SCF_SUCCESS, st1))"

text \<open>Result: code, the new \<^verbatim>\<open>*version\<close> (\<^verbatim>\<open>None\<close>: not written), \<^verbatim>\<open>versionLen\<close>.\<close>

definition SessionGetProtocolVersion ::
  "'o ossl_api \<Rightarrow> (string \<Rightarrow> nat \<Rightarrow> string \<Rightarrow> nat \<Rightarrow> int \<times> string) \<Rightarrow> (nat \<Rightarrow> string option) \<Rightarrow> ptr \<Rightarrow> 'o
     \<Rightarrow> ret \<times> string option \<times> nat" where
  "SessionGetProtocolVersion api mc alloc sess st =
     (let intVer = SSL_SESSION_get_protocol_version api sess st;
          (r, versionStr) = ProtocolIntToStr intVer '''' in
      if r \<noteq> SCF_SUCCESS then (SCF_SSL_ERR_SESS_GET_PROTOCOL_VER, None, 0)
      else
        let versionLen = length versionStr in
        (case alloc (versionLen + 1) of
           None \<Rightarrow> (SCF_SSL_ERR_SESS_GET_PROTOCOL_VER, None, 0)
         | Some vers \<Rightarrow>
             let (e, vers1) = mc vers (versionLen + 1) versionStr (length versionStr) in
             if e \<noteq> 0 then (SCF_SSL_ERR_SESS_GET_PROTOCOL_VER, None, 0)
             else (SCF_SUCCESS, Some (vers1[length versionStr := NUL]), versionLen)))"

definition SessionFree :: "'o ossl_api \<Rightarrow> ptr \<Rightarrow> 'o \<Rightarrow> 'o" where
  "SessionFree api sess st = SSL_SESSION_free api sess st"

definition adaptor_FreeCert :: "'o ossl_api \<Rightarrow> ptr \<Rightarrow> 'o \<Rightarrow> 'o" where
  "adaptor_FreeCert api cert st = X509_free api cert st"

definition X509VerifyChain :: "'o ossl_api \<Rightarrow> ptr \<Rightarrow> 'o \<Rightarrow> ret \<times> 'o" where
  "X509VerifyChain api storeCtx st =
     (if storeCtx = None then (SCF_ERRNO_NULL_INPUT, st)
      else
        let (r, st1) = X509_verify_cert api storeCtx st in
        (if r \<noteq> SSL_SUCCESS then SCF_SSL_ERR_X509_VERIFY_CHAIN else SCF_SUCCESS, st1))"

end
