(* ===== verification/Adaptor_Cert.thy ===== *)
theory Adaptor_Cert
  imports Openssl_Api Utils
begin

text \<open>
  Certificates, revocation lists and keys of \<^verbatim>\<open>adaptor/openssl/openssl_adaptor.cpp\<close>.  \<^verbatim>\<open>certCtx\<close> is the file
  context: a path or a PEM buffer.  The loop over the certificates of a chain runs until the library
  finds no further certificate, so the functions above it are partial: \<^verbatim>\<open>None\<close> is a loop that does not end.
\<close>

definition INT32_MAX :: nat where [scf_const]: "INT32_MAX = 0x7fffffff"

section \<open>CA certificates\<close>

definition AddCaCertByFile :: "'o ossl_api \<Rightarrow> ptr \<Rightarrow> string option \<Rightarrow> nat \<Rightarrow> 'o \<Rightarrow> ret \<times> 'o" where
  "AddCaCertByFile api sslCtx path len st =
     (if path = None \<or> len = 0 then (SCF_ERRNO_INVALID_PARAM, st)
      else
        let (r, st1) = SSL_CTX_load_verify_locations api sslCtx (the path) st in
        (if r = SSL_SUCCESS then SCF_SUCCESS else SCF_SSL_ERR_ADD_CA_CERT_TO_STORE, st1))"

definition CertBuffer2X509 :: "'o ossl_api \<Rightarrow> string option \<Rightarrow> nat \<Rightarrow> 'o \<Rightarrow> ptr \<times> 'o" where
  "CertBuffer2X509 api cert len st =
     (if len > INT32_MAX then (None, st)
      else
        let (b, st1) = BIO_new_mem_buf api cert (int len) st in
        if b = None then (None, st1)
        else
          let (x509, st2) = PEM_read_bio_X509 api b st1 in (x509, BIO_free api b st2))"

definition AddCaCertByBuffer :: "'o ossl_api \<Rightarrow> ptr \<Rightarrow> string option \<Rightarrow> nat \<Rightarrow> 'o \<Rightarrow> ret \<times> 'o" where
  "AddCaCertByBuffer api sslCtx buf len st =
     (let certStore = SSL_CTX_get_cert_store api sslCtx st in
      if certStore = None then (SCF_SSL_ERR_GET_CERT_STORE, st)
      else
        let (x509, st1) = CertBuffer2X509 api buf len st in
        if x509 = None then (SCF_SSL_ERR_PARSE_CERT, st1)
        else
          let (r, st2) = X509_STORE_add_cert api certStore x509 st1;
              st3 = X509_free api x509 st2 in
          (if r = SSL_SUCCESS then SCF_SUCCESS else SCF_SSL_ERR_ADD_CA_CERT_TO_STORE, st3))"

definition AddCaCert :: "'o ossl_api \<Rightarrow> SCFPolicyCtx \<Rightarrow> SCFFileCtx \<Rightarrow> 'o \<Rightarrow> ret \<times> 'o" where
  "AddCaCert api ctx certCtx st =
     (if fc_format certCtx \<noteq> SCF_STORE_FORMAT_PEM then (SCF_SSL_ERR_FORMAT_TYPE, st)
      else if fc_storeType certCtx = SCF_STORE_FILE_PATH
      then AddCaCertByFile api (ctx_sslConfig ctx) (fc_buf certCtx) (fc_bufLen certCtx) st
      else if fc_storeType certCtx = SCF_STORE_BUFFER
      then AddCaCertByBuffer api (ctx_sslConfig ctx) (fc_buf certCtx) (fc_bufLen certCtx) st
      else (SCF_SSL_ERR_STORE_TYPE, st))"

section \<open>End entity certificates\<close>

definition AddEeCertByFile :: "'o ossl_api \<Rightarrow> ptr \<Rightarrow> string option \<Rightarrow> nat \<Rightarrow> 'o \<Rightarrow> ret \<times> 'o" where
  "AddEeCertByFile api sslCtx path pathLen st =
     (if path = None \<or> pathLen = 0 then (SCF_ERRNO_INVALID_PARAM, st)
      else
        let (r, st1) = SSL_CTX_use_certificate_file api sslCtx (the path) SSL_FILETYPE_PEM st in
        (if r \<noteq> SSL_SUCCESS then SCF_SSL_ERR_ADD_EE_CERT_TO_STORE else SCF_SUCCESS, st1))"

definition LoadEeCert :: "'o ossl_api \<Rightarrow> ptr \<Rightarrow> ptr \<Rightarrow> 'o \<Rightarrow> ret \<times> 'o" where
  "LoadEeCert api sslCtx b st =
     (let (x509, st1) = PEM_read_bio_X509 api b st in
      if x509 = None then (SCF_SSL_ERR_PARSE_CERT, st1)
      else
        let (r, st2) = SSL_CTX_use_certificate api sslCtx x509 st1;
            st3 = X509_free api x509 st2 in
        (if r \<noteq> SSL_SUCCESS then SCF_SSL_ERR_ADD_EE_CERT_TO_STORE else SCF_SUCCESS, st3))"

definition AddEeCertByBuffer :: "'o ossl_api \<Rightarrow> ptr \<Rightarrow> string option \<Rightarrow> nat \<Rightarrow> 'o \<Rightarrow> ret \<times> 'o" where
  "AddEeCertByBuffer api sslCtx buf len st =
     (if len > INT32_MAX then (SCF_ERRNO_MEM_ALLOC, st)
      else
        let (b, st1) = BIO_new_mem_buf api buf (int len) st in
        if b = None then (SCF_ERRNO_MEM_ALLOC, st1)
        else
          let (r, st2) = LoadEeCert api sslCtx b st1 in (r, BIO_free api b st2))"

definition AddEeCert :: "'o ossl_api \<Rightarrow> SCFPolicyCtx \<Rightarrow> SCFFileCtx \<Rightarrow> 'o \<Rightarrow> ret \<times> 'o" where
  "AddEeCert api ctx certCtx st =
     (if fc_format certCtx \<noteq> SCF_STORE_FORMAT_PEM then (SCF_SSL_ERR_FORMAT_TYPE, st)
      else if fc_storeType certCtx = SCF_STORE_FILE_PATH
      then AddEeCertByFile api (ctx_sslConfig ctx) (fc_buf certCtx) (fc_bufLen certCtx) st
      else if fc_storeType certCtx = SCF_STORE_BUFFER
      then AddEeCertByBuffer api (ctx_sslConfig ctx) (fc_buf certCtx) (fc_bufLen certCtx) st
      else (SCF_SSL_ERR_STORE_TYPE, st))"

section \<open>Revocation lists\<close>

text \<open>Opening the file is a query of the system (\<^verbatim>\<open>os_read_file\<close>); the list is parsed by the library.\<close>

definition ReadCrlByFile :: "'o ossl_api \<Rightarrow> os_api \<Rightarrow> string option \<Rightarrow> nat \<Rightarrow> 'o \<Rightarrow> ptr \<times> 'o" where
  "ReadCrlByFile api os path pathLen st =
     (if path = None \<or> pathLen = 0 then (None, st)
      else
        let filePath = cstr (the path) in
        if \<not> SCF_CheckFilePathAndStat os filePath then (None, st)
        else
          (case os_read_file os filePath of
             None \<Rightarrow> (None, st)
           | Some content \<Rightarrow> PEM_read_X509_CRL api content st))"

definition ReadCrlByBuffer :: "'o ossl_api \<Rightarrow> string option \<Rightarrow> nat \<Rightarrow> 'o \<Rightarrow> ptr \<times> 'o" where
  "ReadCrlByBuffer api buf len st =
     (if buf = None \<or> len = 0 \<or> len > INT32_MAX then (None, st)
      else
        let (bio, st1) = BIO_new_mem_buf api buf (int len) st in
        if bio = None then (None, st1)
        else
          let (crl, st2) = PEM_read_bio_X509_CRL api bio st1 in (crl, BIO_free api bio st2))"

definition AddCrl :: "'o ossl_api \<Rightarrow> os_api \<Rightarrow> SCFPolicyCtx \<Rightarrow> SCFFileCtx \<Rightarrow> 'o \<Rightarrow> ret \<times> 'o" where
  "AddCrl api os ctx certCtx st =
     (if fc_format certCtx \<noteq> SCF_STORE_FORMAT_PEM then (SCF_SSL_ERR_FORMAT_TYPE, st)
      else
        let certStore = SSL_CTX_get_cert_store api (ctx_sslConfig ctx) st in
        if certStore = None then (SCF_SSL_ERR_GET_CERT_STORE, st)
        else
          let (f, st1) = X509_STORE_set_flags api certStore X509_V_FLAG_CRL_CHECK st in
          if f \<noteq> SSL_SUCCESS then (SCF_SSL_ERR_SET_CRL_CHECK_FLAGS, st1)
          else if fc_storeType certCtx \<noteq> SCF_STORE_FILE_PATH \<and> fc_storeType certCtx \<noteq> SCF_STORE_BUFFER
          then (SCF_SSL_ERR_STORE_TYPE, st1)
          else
            let (crl, st2) = (if fc_storeType certCtx = SCF_STORE_FILE_PATH
                              then ReadCrlByFile api os (fc_buf certCtx) (fc_bufLen certCtx) st1
                              else ReadCrlByBuffer api (fc_buf certCtx) (fc_bufLen certCtx) st1);
                (r, st3) = X509_STORE_add_crl api certStore crl st2;
                st4 = X509_CRL_free api crl st3 in
            (if r \<noteq> SSL_SUCCESS then SCF_SSL_ERR_LOAD_CRL else SCF_SUCCESS, st4))"

section \<open>Certificate chains\<close>

definition AddEeChainByFile :: "'o ossl_api \<Rightarrow> ptr \<Rightarrow> string option \<Rightarrow> nat \<Rightarrow> 'o \<Rightarrow> ret \<times> 'o" where
  "AddEeChainByFile api sslCtx path pathLen st =
     (if path = None \<or> pathLen = 0 then (SCF_ERRNO_INVALID_PARAM, st)
      else
        let (r, st1) = SSL_CTX_use_certificate_chain_file api sslCtx (the path) st in
        (if r \<noteq> SSL_SUCCESS then SCF_SSL_ERR_ADD_EE_CHAIN_TO_STORE else SCF_SUCCESS, st1))"

partial_function (option) LoadCaChain :: "'o ossl_api \<Rightarrow> ptr \<Rightarrow> ptr \<Rightarrow> 'o \<Rightarrow> (ret \<times> 'o) option" where
  "LoadCaChain api sslCtx b st =
     (let (ca, st1) = PEM_read_bio_X509 api b st in
      if ca = None then Some (SCF_SUCCESS, st1)
      else
        let (addRet, st2) = SSL_CTX_add_extra_chain_cert api sslCtx ca st1;
            st3 = X509_free api ca st2 in
        if addRet \<noteq> SSL_SUCCESS then Some (SCF_SSL_ERR_LOAD_CA_CERT_CHAIN, st3)
        else LoadCaChain api sslCtx b st3)"

definition AddEeChainByBuffer :: "'o ossl_api \<Rightarrow> ptr \<Rightarrow> string option \<Rightarrow> nat \<Rightarrow> 'o \<Rightarrow> (ret \<times> 'o) option" where
  "AddEeChainByBuffer api sslCtx buf len st =
     (if len > INT32_MAX then Some (SCF_ERRNO_MEM_ALLOC, st)
      else
        let (b, st1) = BIO_new_mem_buf api buf (int len) st in
        if b = None then Some (SCF_ERRNO_MEM_ALLOC, st1)
        else
          let (r, st2) = LoadEeCert api sslCtx b st1 in
          if r = SCF_SUCCESS
          then map_option (\<lambda>(r1, st3). (r1, BIO_free api b st3)) (LoadCaChain api sslCtx b st2)
          else Some (r, BIO_free api b st2))"

definition AddEeChain :: "'o ossl_api \<Rightarrow> SCFPolicyCtx \<Rightarrow> SCFFileCtx \<Rightarrow> 'o \<Rightarrow> (ret \<times> 'o) option" where
  "AddEeChain api ctx certCtx st =
     (if fc_format certCtx \<noteq> SCF_STORE_FORMAT_PEM then Some (SCF_SSL_ERR_FORMAT_TYPE, st)
      else if fc_storeType certCtx = SCF_STORE_FILE_PATH
      then Some (AddEeChainByFile api (ctx_sslConfig ctx) (fc_buf certCtx) (fc_bufLen certCtx) st)
      else if fc_storeType certCtx = SCF_STORE_BUFFER
      then AddEeChainByBuffer api (ctx_sslConfig ctx) (fc_buf certCtx) (fc_bufLen certCtx) st
      else Some (SCF_SSL_ERR_STORE_TYPE, st))"

definition adaptor_AddCert ::
  "'o ossl_api \<Rightarrow> os_api \<Rightarrow> SCFPolicyCtx \<Rightarrow> SCFFileCtx \<Rightarrow> SCF_CERT_TYPE \<Rightarrow> 'o \<Rightarrow> (ret \<times> 'o) option" where
  "adaptor_AddCert api os ctx certCtx type st =
     (if type = SCF_CERT_TYPE_CA then Some (AddCaCert api ctx certCtx st)
      else if type = SCF_CERT_TYPE_EE then Some (AddEeCert api ctx certCtx st)
      else if type = SCF_CERT_TYPE_CRL then Some (AddCrl api os ctx certCtx st)
      else if type = SCF_CERT_TYPE_EE_CHAIN then AddEeChain api ctx certCtx st
      else Some (SCF_ERRNO_INVALID_PARAM, st))"

section \<open>Private keys\<close>

definition SetKeyByFile :: "'o ossl_api \<Rightarrow> ptr \<Rightarrow> string option \<Rightarrow> nat \<Rightarrow> 'o \<Rightarrow> ret \<times> 'o" where
  "SetKeyByFile api sslCtx file len st =
     (if file = None \<or> len = 0 then (SCF_ERRNO_INVALID_PARAM, st)
      else
        let (r, st1) = SSL_CTX_use_PrivateKey_file api sslCtx (the file) SSL_FILETYPE_PEM st in
        (if r \<noteq> SSL_SUCCESS then SCF_SSL_ERR_LOAD_KEY else SCF_SUCCESS, st1))"

definition KeyBuffer2Evp :: "'o ossl_api \<Rightarrow> string option \<Rightarrow> nat \<Rightarrow> 'o \<Rightarrow> ptr \<times> 'o" where
  "KeyBuffer2Evp api key len st =
     (if len > INT32_MAX then (None, st)
      else
        let (b, st1) = BIO_new_mem_buf api key (int len) st in
        if b = None then (None, st1)
        else
          let (evpKey, st2) = PEM_read_bio_PrivateKey api b st1 in (evpKey, BIO_free api b st2))"

definition SetKeyByBuffer :: "'o ossl_api \<Rightarrow> ptr \<Rightarrow> string option \<Rightarrow> nat \<Rightarrow> 'o \<Rightarrow> ret \<times> 'o" where
  "SetKeyByBuffer api sslCtx buf len st =
     (let (evpKey, st1) = KeyBuffer2Evp api buf len st in
      if evpKey = None then (SCF_SSL_ERR_LOAD_KEY, st1)
      else
        let (r, st2) = SSL_CTX_use_PrivateKey api sslCtx evpKey st1;
            st3 = EVP_PKEY_free api evpKey st2 in
        (if r \<noteq> SSL_SUCCESS then SCF_SSL_ERR_LOAD_KEY else SCF_SUCCESS, st3))"

text \<open>The password callback: result and the buffer (\<^verbatim>\<open>None\<close>: null); \<^verbatim>\<open>size\<close> is the size of the buffer,
  \<^verbatim>\<open>userdata\<close> the memory behind the password pointer.\<close>

definition DefaultPemPasswordCb ::
  "(string \<Rightarrow> nat \<Rightarrow> string \<Rightarrow> nat \<Rightarrow> int \<times> string) \<Rightarrow> string option \<Rightarrow> nat \<Rightarrow> string option \<Rightarrow> nat \<times> string option" where
  "DefaultPemPasswordCb mc buf sz userdata =
     (if buf = None \<or> sz = 0 then (0, buf)
      else if userdata = None then (0, Some (zero_buf sz @ drop sz (the buf)))
      else
        let i0 = length (cstr (the userdata));
            i = (if i0 > sz then sz else i0);
            (e, buf1) = mc (the buf) sz (the userdata) i in
        if e \<noteq> 0 then (0, Some (zero_buf sz @ drop sz buf1)) else (i, Some buf1))"

definition adaptor_SetKey :: "'o ossl_api \<Rightarrow> SCFPolicyCtx option \<Rightarrow> SCFFileCtx option \<Rightarrow> 'o \<Rightarrow> ret \<times> 'o" where
  "adaptor_SetKey api ctx keyCtx st =
     (case (ctx, keyCtx) of
        (Some c, Some k) \<Rightarrow>
          if ctx_sslConfig c = None then (SCF_ERRNO_INVALID_PARAM, st)
          else if fc_format k \<noteq> SCF_STORE_FORMAT_PEM then (SCF_SSL_ERR_FORMAT_TYPE, st)
          else
            let sslCtxConfig = ctx_sslConfig c;
                st1 = SSL_CTX_set_default_passwd_cb api sslCtxConfig st;
                st2 = SSL_CTX_set_default_passwd_cb_userdata api sslCtxConfig (fc_passwd k) st1 in
            if fc_storeType k = SCF_STORE_FILE_PATH then SetKeyByFile api sslCtxConfig (fc_buf k) (fc_bufLen k) st2
            else if fc_storeType k = SCF_STORE_BUFFER then SetKeyByBuffer api sslCtxConfig (fc_buf k) (fc_bufLen k) st2
            else (SCF_SSL_ERR_STORE_TYPE, st2)
      | _ \<Rightarrow> (SCF_ERRNO_INVALID_PARAM, st))"

end
