(* ===== verification/Scf_Policy.thy ===== *)
theory Scf_Policy
  imports Adaptor_Policy Adaptor_Session Adaptor_Cert Adaptor_Conn
begin

text \<open>
  The policy interface: \<^verbatim>\<open>scf/policy/policy.cpp\<close> (context and policy), \<^verbatim>\<open>scf/policy/auth/cert/cert.cpp\<close>
  (certificates and keys) and \<^verbatim>\<open>scf/policy/auth/psk/\<close> (pre-shared-key callbacks and sessions).  Every
  entry point checks its arguments, that the library is initialised and that there is an adaptor, and
  then calls the adaptor; the order of the checks is the order of the code.
\<close>

section \<open>Buffers and context\<close>

definition SCF_FreeBuffer ::
  "'o OpenSSLAdaptor scf_globals \<Rightarrow> string option option \<Rightarrow> nat \<Rightarrow> string option option \<times> nat \<times> string option" where
  "SCF_FreeBuffer g buffer bufferLen =
     (if buffer = None \<or> buffer = Some None \<or> bufferLen = 0 then (buffer, bufferLen, None)
      else if \<not> g_scfInitialized g \<or> g_adaptor g = None then (buffer, bufferLen, None)
      else
        let (buffer1, bufferLen1, wiped) = FreeBuffer buffer bufferLen in (Some None, 0, wiped))"

text \<open>\<^verbatim>\<open>oom\<close>: the allocation fails.\<close>

definition SCF_CreatePolicyCtx :: "'a scf_globals \<Rightarrow> bool \<Rightarrow> SCFPolicyCtx option" where
  "SCF_CreatePolicyCtx g oom =
     (if CHECK_SCF_INIT_RET g \<noteq> None then None
      else if CHECK_SCF_ADAPTOR_RET g \<noteq> None then None
      else if oom then None
      else Some \<lparr> ctx_refCnt = 1, ctx_sslConfig = None, ctx_policyMode = SCF_POLICY_HIGH, ctx_verifyMode = SCF_VERIFY_DEFAULT,
        ctx_role = SCF_ROLE_NONE, ctx_isSetRole = False, ctx_pskFindSessionCb = None, ctx_pskUseSessionCb = None,
        ctx_isNeedKeyUpdate = False, ctx_keyUpdateTime = DEFAULT_KEY_UPDATE_TIME, ctx_keyUpdateTraffic = DEFAULT_KEY_UPDATE_TRAFFIC,
        ctx_isNullVersion = False, ctx_nodeRoleMap = [], ctx_nodeRoleMapFrozen = False, ctx_rbacEnabled = False,
        ctx_policyRuleMap = [], ctx_nextPolicyRuleId = 1 \<rparr>)"

definition SCF_SetPolicy ::
  "'o OpenSSLAdaptor scf_globals \<Rightarrow> SCFPolicyCtx option \<Rightarrow> SCF_ROLE \<Rightarrow> u32 \<Rightarrow> SCF_POLICY_MODE \<Rightarrow> 'o
     \<Rightarrow> ret \<times> SCFPolicyCtx option \<times> 'o" where
  "SCF_SetPolicy g ctx role verifyMode policyMode st =
     (if ctx = None \<or> CheckRole role \<noteq> SCF_SUCCESS \<or> CheckVerifyMode verifyMode \<noteq> SCF_SUCCESS \<or>
         CheckPolicyMode policyMode \<noteq> SCF_SUCCESS
      then (SCF_ERRNO_INVALID_PARAM, ctx, st)
      else case CHECK_SCF_INIT_RET g of Some r \<Rightarrow> (r, ctx, st) | None \<Rightarrow>
      case g_adaptor g of None \<Rightarrow> (SCF_ERRNO_INVALID_PARAM, ctx, st) | Some ad \<Rightarrow>
        let c1 = (the ctx)\<lparr>ctx_role := role, ctx_verifyMode := verifyMode, ctx_policyMode := policyMode\<rparr>;
            (r, c2, st1) = InitPolicyByMode ad c1 st in
        if r \<noteq> SCF_SUCCESS then (r, Some c2, st1)
        else
          let mode = (if verifyMode = SCF_VERIFY_DEFAULT then SCF_VERIFY_PEER OR SCF_VERIFY_FAIL_IF_NO_PEER_CERT else verifyMode);
              (r2, st2) = adaptor_SetVerifyMode (ad_ssl ad) (Some c2) mode st1 in
          if r2 \<noteq> SCF_SUCCESS then (r2, Some c2, st2) else (SCF_SUCCESS, Some c2, st2))"

text \<open>Output pointers: \<^verbatim>\<open>None\<close> is a null pointer.\<close>

definition SCF_GetPolicy ::
  "SCFPolicyCtx option \<Rightarrow> SCF_ROLE option \<Rightarrow> u32 option \<Rightarrow> SCF_POLICY_MODE option
     \<Rightarrow> ret \<times> SCF_ROLE option \<times> u32 option \<times> SCF_POLICY_MODE option" where
  "SCF_GetPolicy ctx role verifyMode policyMode =
     (if ctx = None \<or> role = None \<or> verifyMode = None \<or> policyMode = None
      then (SCF_ERRNO_NULL_INPUT, role, verifyMode, policyMode)
      else (SCF_SUCCESS, Some (ctx_role (the ctx)), Some (ctx_verifyMode (the ctx)), Some (ctx_policyMode (the ctx))))"

definition SCF_SetAppVerifyCallback ::
  "'o OpenSSLAdaptor scf_globals \<Rightarrow> SCFPolicyCtx option \<Rightarrow> ptr \<Rightarrow> ptr \<Rightarrow> 'o \<Rightarrow> ret \<times> 'o" where
  "SCF_SetAppVerifyCallback g ctx cb arg st =
     (if ctx = None then (SCF_ERRNO_NULL_INPUT, st)
      else if ctx_role (the ctx) = SCF_ROLE_NONE then (SCF_ERRNO_INVALID_PARAM, st)
      else case CHECK_SCF_INIT_RET g of Some r \<Rightarrow> (r, st) | None \<Rightarrow>
        if ctx_policyMode (the ctx) \<noteq> SCF_POLICY_CUSTOMER \<or> ctx_verifyMode (the ctx) AND SCF_VERIFY_CUSTOMER = 0
        then (SCF_SSL_ERR_SEC_LEVEL_MISMATCH, st)
        else case g_adaptor g of None \<Rightarrow> (SCF_ERRNO_INVALID_PARAM, st) | Some ad \<Rightarrow>
          adaptor_SetAppVerifyCallback (ad_ssl ad) ctx cb arg st)"

definition SCF_SetCipherSuites ::
  "'o OpenSSLAdaptor scf_globals \<Rightarrow> (string \<Rightarrow> nat \<Rightarrow> string \<Rightarrow> nat \<Rightarrow> int \<times> string) \<Rightarrow> (nat \<Rightarrow> string option)
     \<Rightarrow> SCFPolicyCtx option \<Rightarrow> u16 list option \<Rightarrow> u32 \<Rightarrow> 'o \<Rightarrow> ret \<times> 'o" where
  "SCF_SetCipherSuites g mc alloc ctx cipherSuites cipherSuitesSize st =
     (if ctx = None \<or> cipherSuites = None then (SCF_ERRNO_NULL_INPUT, st)
      else if cipherSuitesSize = 0 then (SCF_ERRNO_INVALID_PARAM, st)
      else if ctx_role (the ctx) = SCF_ROLE_NONE then (SCF_ERRNO_INVALID_PARAM, st)
      else case CHECK_SCF_INIT_RET g of Some r \<Rightarrow> (r, st) | None \<Rightarrow>
      case g_adaptor g of None \<Rightarrow> (SCF_ERRNO_INVALID_PARAM, st) | Some ad \<Rightarrow>
        adaptor_SetCipherSuites (ad_ssl ad) mc alloc ctx cipherSuites cipherSuitesSize st)"

definition SCF_GetCipherSuites ::
  "'o OpenSSLAdaptor scf_globals \<Rightarrow> SCFPolicyCtx option \<Rightarrow> u16 list option \<Rightarrow> u32 \<Rightarrow> u32 option \<Rightarrow> 'o
     \<Rightarrow> ret \<times> u16 list option \<times> u32 option" where
  "SCF_GetCipherSuites g ctx data dataLen cipherSuitesSize st =
     (if ctx = None \<or> data = None \<or> dataLen = 0 \<or> cipherSuitesSize = None
      then (SCF_ERRNO_NULL_INPUT, data, cipherSuitesSize)
      else case CHECK_SCF_INIT_RET g of Some r \<Rightarrow> (r, data, cipherSuitesSize) | None \<Rightarrow>
      case g_adaptor g of None \<Rightarrow> (SCF_ERRNO_INVALID_PARAM, data, cipherSuitesSize) | Some ad \<Rightarrow>
        let (r, d, n) = adaptor_GetCipherSuites (ad_ssl ad) (the ctx) (the data) dataLen st in (r, Some d, Some n))"

definition SCF_SetProtocolVersion ::
  "'o OpenSSLAdaptor scf_globals \<Rightarrow> SCFPolicyCtx option \<Rightarrow> u32 \<Rightarrow> u32 \<Rightarrow> u32 list option \<Rightarrow> u32 \<Rightarrow> 'o \<Rightarrow> ret \<times> 'o" where
  "SCF_SetProtocolVersion g ctx minVersion maxVersion forbidVersion forbidVersionLen st =
     (if ctx = None then (SCF_ERRNO_NULL_INPUT, st)
      else if ctx_role (the ctx) = SCF_ROLE_NONE then (SCF_ERRNO_INVALID_PARAM, st)
      else if ctx_policyMode (the ctx) = SCF_POLICY_HIGH \<and>
              (minVersion \<noteq> SCF_SSL_VERSION_TLS13 \<or> maxVersion \<noteq> SCF_SSL_VERSION_TLS13)
      then (SCF_SSL_ERR_POLICY_VERSION, st)
      else case CHECK_SCF_INIT_RET g of Some r \<Rightarrow> (r, st) | None \<Rightarrow>
      case g_adaptor g of None \<Rightarrow> (SCF_ERRNO_INVALID_PARAM, st) | Some ad \<Rightarrow>
        adaptor_SetProtocolVersion (ad_ssl ad) ctx minVersion maxVersion forbidVersion forbidVersionLen st)"

definition SCF_GetProtocolVersion :: "'o OpenSSLAdaptor scf_globals \<Rightarrow> SCFPolicyObj option \<Rightarrow> 'o \<Rightarrow> string option" where
  "SCF_GetProtocolVersion g obj st =
     (if obj = None then None
      else if CHECK_SCF_INIT_RET g \<noteq> None then None
      else case g_adaptor g of None \<Rightarrow> None | Some ad \<Rightarrow> adaptor_GetVersion (ad_ssl ad) obj st)"

section \<open>Certificates and keys\<close>

definition SCF_AddCert ::
  "'o OpenSSLAdaptor scf_globals \<Rightarrow> os_api \<Rightarrow> SCFPolicyCtx option \<Rightarrow> SCFFileCtx option \<Rightarrow> SCF_CERT_TYPE \<Rightarrow> 'o
     \<Rightarrow> (ret \<times> 'o) option" where
  "SCF_AddCert g os ctx certCtx type st =
     (if ctx = None \<or> certCtx = None then Some (SCF_ERRNO_NULL_INPUT, st)
      else if ctx_role (the ctx) = SCF_ROLE_NONE then Some (SCF_ERRNO_INVALID_PARAM, st)
      else case CHECK_SCF_INIT_RET g of Some r \<Rightarrow> Some (r, st) | None \<Rightarrow>
      case g_adaptor g of None \<Rightarrow> Some (SCF_ERRNO_INVALID_PARAM, st) | Some ad \<Rightarrow>
        adaptor_AddCert (ad_ssl ad) os (the ctx) (the certCtx) type st)"

definition SCF_SetKey ::
  "'o OpenSSLAdaptor scf_globals \<Rightarrow> SCFPolicyCtx option \<Rightarrow> SCFFileCtx option \<Rightarrow> 'o \<Rightarrow> ret \<times> 'o" where
  "SCF_SetKey g ctx keyCtx st =
     (if ctx = None \<or> keyCtx = None then (SCF_ERRNO_NULL_INPUT, st)
      else case CHECK_SCF_INIT_RET g of Some r \<Rightarrow> (r, st) | None \<Rightarrow>
      case g_adaptor g of None \<Rightarrow> (SCF_ERRNO_INVALID_PARAM, st) | Some ad \<Rightarrow> adaptor_SetKey (ad_ssl ad) ctx keyCtx st)"

definition SCF_CheckPrivateKey :: "'o OpenSSLAdaptor scf_globals \<Rightarrow> SCFPolicyCtx option \<Rightarrow> 'o \<Rightarrow> ret" where
  "SCF_CheckPrivateKey g ctx st =
     (if ctx = None then SCF_ERRNO_NULL_INPUT
      else case CHECK_SCF_INIT_RET g of Some r \<Rightarrow> r | None \<Rightarrow>
      case g_adaptor g of None \<Rightarrow> SCF_ERRNO_INVALID_PARAM | Some ad \<Rightarrow> adaptor_CheckPrivateKey (ad_ssl ad) ctx st)"

definition SCF_GetCertVersion :: "'o OpenSSLAdaptor scf_globals \<Rightarrow> ptr \<Rightarrow> int" where
  "SCF_GetCertVersion g cert =
     (if cert = None then -1
      else if \<not> g_scfInitialized g \<or> g_adaptor g = None then -1
      else GetCertVersion (ad_crypto (the (g_adaptor g))) cert)"

text \<open>The buffer of the caller is \<^verbatim>\<open>bufferLen\<close> bytes; \<^verbatim>\<open>fresh\<close> is the heap block of the adaptor's copy.\<close>

definition SCF_GetCertStartTime ::
  "'o OpenSSLAdaptor scf_globals \<Rightarrow> (string \<Rightarrow> nat \<Rightarrow> string \<Rightarrow> nat \<Rightarrow> int \<times> string) \<Rightarrow> string option
     \<Rightarrow> ptr \<Rightarrow> string option \<Rightarrow> nat \<Rightarrow> ret \<times> string option" where
  "SCF_GetCertStartTime g mc fresh cert buffer bufferLen =
     (if cert = None \<or> buffer = None then (SCF_ERRNO_NULL_INPUT, buffer)
      else if bufferLen = 0 then (SCF_ERROR, buffer)
      else case CHECK_SCF_INIT_RET g of Some r \<Rightarrow> (r, buffer) | None \<Rightarrow>
      case g_adaptor g of None \<Rightarrow> (SCF_ERRNO_INVALID_PARAM, buffer) | Some ad \<Rightarrow>
        (case GetCertStartTime (ad_crypto ad) mc fresh cert of
           None \<Rightarrow> (SCF_ERROR, buffer)
         | Some datetime \<Rightarrow>
             let datetimeLen = length (cstr datetime) in
             if datetimeLen \<ge> bufferLen then (SCF_ERROR, buffer)
             else
               let (e, b1) = mc (the buffer) bufferLen datetime datetimeLen in
               if e \<noteq> 0 then (SCF_ERROR, Some b1) else (SCF_SUCCESS, Some (b1[datetimeLen := NUL]))))"

definition SCF_GetCertEndTime ::
  "'o OpenSSLAdaptor scf_globals \<Rightarrow> (string \<Rightarrow> nat \<Rightarrow> string \<Rightarrow> nat \<Rightarrow> int \<times> string) \<Rightarrow> string option
     \<Rightarrow> ptr \<Rightarrow> string option \<Rightarrow> nat \<Rightarrow> ret \<times> string option" where
  "SCF_GetCertEndTime g mc fresh cert buffer bufferLen =
     (if cert = None \<or> buffer = None then (SCF_ERRNO_NULL_INPUT, buffer)
      else if bufferLen = 0 then (SCF_ERROR, buffer)
      else case CHECK_SCF_INIT_RET g of Some r \<Rightarrow> (r, buffer) | None \<Rightarrow>
      case g_adaptor g of None \<Rightarrow> (SCF_ERRNO_INVALID_PARAM, buffer) | Some ad \<Rightarrow>
        (case GetCertEndTime (ad_crypto ad) mc fresh cert of
           None \<Rightarrow> (SCF_ERROR, buffer)
         | Some datetime \<Rightarrow>
             let datetimeLen = length (cstr datetime) in
             if datetimeLen \<ge> bufferLen then (SCF_ERROR, buffer)
             else
               let (e, b1) = mc (the buffer) bufferLen datetime datetimeLen in
               if e \<noteq> 0 then (SCF_ERROR, Some b1) else (SCF_SUCCESS, Some (b1[datetimeLen := NUL]))))"

text \<open>Result: the bytes and the new \<^verbatim>\<open>*dataLen\<close>.\<close>

definition SCF_GetCertSerialNumber ::
  "'o OpenSSLAdaptor scf_globals \<Rightarrow> ptr \<Rightarrow> u32 option \<Rightarrow> string option \<times> u32 option" where
  "SCF_GetCertSerialNumber g cert dataLen =
     (if cert = None \<or> dataLen = None then (None, dataLen)
      else if CHECK_SCF_INIT_RET g \<noteq> None then (None, dataLen)
      else case g_adaptor g of None \<Rightarrow> (None, dataLen) | Some ad \<Rightarrow>
        let (sn, n) = GetCertSerialNumber (ad_crypto ad) cert in (sn, Some n))"

section \<open>Pre-shared keys\<close>

definition SCF_SetPskFindSessionCallback ::
  "'o OpenSSLAdaptor scf_globals \<Rightarrow> SCFPolicyCtx option \<Rightarrow> ptr \<Rightarrow> 'o \<Rightarrow> ret \<times> SCFPolicyCtx option \<times> 'o" where
  "SCF_SetPskFindSessionCallback g ctx cb st =
     (if ctx = None then (SCF_ERRNO_NULL_INPUT, ctx, st)
      else case CHECK_SCF_INIT_RET g of Some r \<Rightarrow> (r, ctx, st) | None \<Rightarrow>
      case g_adaptor g of None \<Rightarrow> (SCF_ERRNO_INVALID_PARAM, ctx, st) | Some ad \<Rightarrow>
        adaptor_SetPskFindSessionCallback (ad_ssl ad) ctx cb st)"

definition SCF_SetPskUseSessionCallback ::
  "'o OpenSSLAdaptor scf_globals \<Rightarrow> SCFPolicyCtx option \<Rightarrow> ptr \<Rightarrow> 'o \<Rightarrow> ret \<times> SCFPolicyCtx option \<times> 'o" where
  "SCF_SetPskUseSessionCallback g ctx cb st =
     (if ctx = None then (SCF_ERRNO_NULL_INPUT, ctx, st)
      else case CHECK_SCF_INIT_RET g of Some r \<Rightarrow> (r, ctx, st) | None \<Rightarrow>
      case g_adaptor g of None \<Rightarrow> (SCF_ERRNO_INVALID_PARAM, ctx, st) | Some ad \<Rightarrow>
        adaptor_SetPskUseSessionCallback (ad_ssl ad) ctx cb st)"

section \<open>Sessions\<close>

definition SCF_SessionNew :: "'o OpenSSLAdaptor scf_globals \<Rightarrow> 'o \<Rightarrow> ptr \<times> 'o" where
  "SCF_SessionNew g st =
     (if CHECK_SCF_INIT_RET g \<noteq> None then (None, st)
      else case g_adaptor g of None \<Rightarrow> (None, st) | Some ad \<Rightarrow> SessionNew (ad_ssl ad) st)"

text \<open>\<^verbatim>\<open>sess\<close> is the caller's \<^verbatim>\<open>SCF_Session **\<close>.\<close>

definition SCF_SessionFree :: "'o OpenSSLAdaptor scf_globals \<Rightarrow> ptr option \<Rightarrow> 'o \<Rightarrow> ptr option \<times> 'o" where
  "SCF_SessionFree g sess st =
     (if sess = None \<or> sess = Some None then (sess, st)
      else if \<not> g_scfInitialized g \<or> g_adaptor g = None then (sess, st)
      else (Some None, SessionFree (ad_ssl (the (g_adaptor g))) (the sess) st))"

text \<open>\<^verbatim>\<open>decrypt\<close> is the registered decryption function of \<^verbatim>\<open>CryptoUtil\<close>.\<close>

definition SCF_SessionSetMasterKey ::
  "'o OpenSSLAdaptor scf_globals \<Rightarrow> CryptoUtil \<Rightarrow> ptr \<Rightarrow> string option \<Rightarrow> nat \<Rightarrow> bool \<Rightarrow> 'o \<Rightarrow> ret \<times> 'o" where
  "SCF_SessionSetMasterKey g cu sess masterKey masterKeyLen isCipher st =
     (if sess = None \<or> masterKey = None \<or> masterKeyLen = 0 then (SCF_ERRNO_INVALID_PARAM, st)
      else case CHECK_SCF_INIT_RET g of Some r \<Rightarrow> (r, st) | None \<Rightarrow>
      case g_adaptor g of None \<Rightarrow> (SCF_ERRNO_INVALID_PARAM, st) | Some ad \<Rightarrow>
        let set = (\<lambda>finalKey. SessionSetMasterKey (ad_ssl ad) sess finalKey (length finalKey) st) in
        if isCipher then
          (let (ok, plaintext) = Decrypt cu (the masterKey) masterKeyLen [] in
           if \<not> ok then (SCF_ERROR, st) else set plaintext)
        else set (take masterKeyLen (the masterKey)))"

definition SCF_SessionSetCipher :: "'o OpenSSLAdaptor scf_globals \<Rightarrow> ptr \<Rightarrow> ptr \<Rightarrow> 'o \<Rightarrow> ret \<times> 'o" where
  "SCF_SessionSetCipher g sess cipherSuite st =
     (if sess = None \<or> cipherSuite = None then (SCF_ERRNO_NULL_INPUT, st)
      else case CHECK_SCF_INIT_RET g of Some r \<Rightarrow> (r, st) | None \<Rightarrow>
      case g_adaptor g of None \<Rightarrow> (SCF_ERRNO_INVALID_PARAM, st) | Some ad \<Rightarrow> SessionSetCipher (ad_ssl ad) sess cipherSuite st)"

definition SCF_SessionGetCipher ::
  "'o OpenSSLAdaptor scf_globals \<Rightarrow> ptr \<Rightarrow> ptr option \<Rightarrow> nat \<Rightarrow> 'o \<Rightarrow> ret \<times> ptr option \<times> nat" where
  "SCF_SessionGetCipher g sess cipherSuite cipherLen st =
     (if sess = None \<or> cipherSuite = None then (SCF_ERRNO_NULL_INPUT, cipherSuite, cipherLen)
      else case CHECK_SCF_INIT_RET g of Some r \<Rightarrow> (r, cipherSuite, cipherLen) | None \<Rightarrow>
      case g_adaptor g of None \<Rightarrow> (SCF_ERRNO_INVALID_PARAM, cipherSuite, cipherLen) | Some ad \<Rightarrow>
        SessionGetCipher (ad_ssl ad) sess cipherSuite st)"

definition SCF_SessionFreeCipher :: "'o OpenSSLAdaptor scf_globals \<Rightarrow> ptr option \<Rightarrow> nat \<Rightarrow> ptr option \<times> nat" where
  "SCF_SessionFreeCipher g cipherSuite cipherLen =
     (if cipherSuite = None \<or> cipherSuite = Some None \<or> cipherLen = 0 then (cipherSuite, cipherLen)
      else if \<not> g_scfInitialized g \<or> g_adaptor g = None then (cipherSuite, cipherLen)
      else SessionFreeCipher cipherSuite cipherLen)"

definition SCF_SessionSetProtocolVersion :: "'o OpenSSLAdaptor scf_globals \<Rightarrow> ptr \<Rightarrow> string option \<Rightarrow> 'o \<Rightarrow> ret \<times> 'o" where
  "SCF_SessionSetProtocolVersion g sess version st =
     (if sess = None \<or> version = None then (SCF_ERRNO_NULL_INPUT, st)
      else case CHECK_SCF_INIT_RET g of Some r \<Rightarrow> (r, st) | None \<Rightarrow>
      case g_adaptor g of None \<Rightarrow> (SCF_ERRNO_INVALID_PARAM, st) | Some ad \<Rightarrow>
        SessionSetProtocolVersion (ad_ssl ad) sess version st)"

text \<open>\<^verbatim>\<open>version\<close> is the caller's \<^verbatim>\<open>char **\<close>; the result has its new content and the new length.\<close>

definition SCF_SessionGetProtocolVersion ::
  "'o OpenSSLAdaptor scf_globals \<Rightarrow> (string \<Rightarrow> nat \<Rightarrow> string \<Rightarrow> nat \<Rightarrow> int \<times> string) \<Rightarrow> (nat \<Rightarrow> string option) \<Rightarrow> ptr
     \<Rightarrow> string option option \<Rightarrow> nat \<Rightarrow> 'o \<Rightarrow> ret \<times> string option option \<times> nat" where
  "SCF_SessionGetProtocolVersion g mc alloc sess version versionLen st =
     (if sess = None \<or> version = None then (SCF_ERRNO_NULL_INPUT, version, versionLen)
      else case CHECK_SCF_INIT_RET g of Some r \<Rightarrow> (r, version, versionLen) | None \<Rightarrow>
      case g_adaptor g of None \<Rightarrow> (SCF_ERRNO_INVALID_PARAM, version, versionLen) | Some ad \<Rightarrow>
        let (r, v, n) = SessionGetProtocolVersion (ad_ssl ad) mc alloc sess st in
        (r, if v = None then version else Some v, n))"

definition SCF_CipherFind :: "'o OpenSSLAdaptor scf_globals \<Rightarrow> SCFPolicyObj option \<Rightarrow> string option \<Rightarrow> 'o \<Rightarrow> ptr" where
  "SCF_CipherFind g obj cipherId st =
     (if obj = None \<or> cipherId = None then None
      else if CHECK_SCF_INIT_RET g \<noteq> None then None
      else case g_adaptor g of None \<Rightarrow> None | Some ad \<Rightarrow> adaptor_CipherFind (ad_ssl ad) obj (the cipherId) st)"

end
