(* ===== verification/Scf_Obj.thy ===== *)
theory Scf_Obj
  imports Scf_Policy Ossl_Sim
begin

text \<open>
  Policy objects (\<^verbatim>\<open>scf/connection/obj.cpp\<close>) and the shared ownership of the context
  (\<^verbatim>\<open>SCF_FreePolicyCtx\<close> of \<^verbatim>\<open>scf/policy/policy.cpp\<close>).  Contexts and objects live on a heap, so that a
  dangling pointer is visible: an access to a released address makes the result \<^verbatim>\<open>None\<close>.
\<close>

record scf_heap =
  hp_ctx :: "addr \<Rightarrow> SCFPolicyCtx option"
  hp_obj :: "addr \<Rightarrow> SCFPolicyObj option"

section \<open>Operations\<close>

text \<open>\<^verbatim>\<open>ctx\<close> is the caller's \<^verbatim>\<open>SCF_PolicyCtx **\<close>.  This is the call without interference: the
  compare-and-exchange loop then decrements the counter it has read (interleavings are in
  \<^verbatim>\<open>Ref_Count\<close>).\<close>

definition SCF_FreePolicyCtx ::
  "'o OpenSSLAdaptor scf_globals \<Rightarrow> ptr option \<Rightarrow> scf_heap \<Rightarrow> 'o \<Rightarrow> (ptr option \<times> scf_heap \<times> 'o) option" where
  "SCF_FreePolicyCtx g ctx h st =
     (case ctx of
        Some (Some a) \<Rightarrow>
          (case g_adaptor g of
             None \<Rightarrow> Some (ctx, h, st)
           | Some ad \<Rightarrow>
               if \<not> g_scfInitialized g then Some (ctx, h, st)
               else
                 (case hp_ctx h a of
                    None \<Rightarrow> None
                  | Some c \<Rightarrow>
                      let expected = ctx_refCnt c;
                          c1 = (if expected > 0 then c\<lparr>ctx_refCnt := expected - 1\<rparr> else c);
                          h1 = h\<lparr>hp_ctx := (hp_ctx h)(a \<mapsto> c1)\<rparr> in
                      if expected = 0 then Some (ctx, h, st)
                      else if expected > 1 then Some (ctx, h1, st)
                      else
                        let (_, st1) = FreeSsl (ad_ssl ad) (Some c1) st in
                        Some (Some None, h1\<lparr>hp_ctx := (hp_ctx h1)(a := None)\<rparr>, st1)))
      | _ \<Rightarrow> Some (ctx, h, st))"

text \<open>The fields of a new object.  In \<^verbatim>\<open>SCF_CreatePolicyObj\<close>, \<^verbatim>\<open>fresh\<close> is the address of the new object (\<^verbatim>\<open>None\<close>: the allocation or \<^verbatim>\<open>memset_s\<close> fails); \<^verbatim>\<open>now\<close> the
  result of \<^verbatim>\<open>gettimeofday\<close>.\<close>

definition new_policy_obj :: "addr \<Rightarrow> SCFPolicyCtx \<Rightarrow> u64 \<Rightarrow> SCFPolicyObj" where
  "new_policy_obj a c tv_sec =
     \<lparr> obj_policyCtx = Some a, obj_sslCtx = None, obj_policyMode = ctx_policyMode c,
       obj_verifyMode = ctx_verifyMode c, obj_role = ctx_role c, obj_isSetRole = ctx_isSetRole c,
       obj_fd = -1, obj_pskFindSessionCb = ctx_pskFindSessionCb c, obj_pskUseSessionCb = ctx_pskUseSessionCb c,
       obj_keyUpdateInfo =
         \<lparr> ku_timeInterval = ctx_keyUpdateTime c, ku_trafficThreshold = ctx_keyUpdateTraffic c,
           ku_totalSizeOfWriteData = 0, ku_lastKeyUpdateTime = tv_sec,
           ku_totalKeyUpdateCnt = 0, ku_isLastUpdateSuccess = True \<rparr>,
       obj_userData = None \<rparr>"

definition SCF_CreatePolicyObj ::
  "'a scf_globals \<Rightarrow> ptr \<Rightarrow> int \<times> u64 \<Rightarrow> ptr \<Rightarrow> scf_heap \<Rightarrow> (ptr \<times> scf_heap) option" where
  "SCF_CreatePolicyObj g ctx now fresh h =
     (case ctx of
        None \<Rightarrow> Some (None, h)
      | Some a \<Rightarrow>
          if CHECK_SCF_INIT_RET g \<noteq> None then Some (None, h)
          else if fst now \<noteq> 0 then Some (None, h)
          else
            (case fresh of
               None \<Rightarrow> Some (None, h)
             | Some obj \<Rightarrow>
                 (case hp_ctx h a of
                    None \<Rightarrow> None
                  | Some c \<Rightarrow>
                      let c1 = c\<lparr>ctx_refCnt := ctx_refCnt c + 1\<rparr>;
                          b = new_policy_obj a c (snd now) in
                      Some (Some obj, h\<lparr>hp_ctx := (hp_ctx h)(a \<mapsto> c1), hp_obj := (hp_obj h)(obj \<mapsto> b)\<rparr>))))"

definition SCF_SetFd ::
  "'o OpenSSLAdaptor scf_globals \<Rightarrow> addr \<Rightarrow> SCFPolicyObj option \<Rightarrow> SCFPolicyCtx option \<Rightarrow> int \<Rightarrow> 'o
     \<Rightarrow> ret \<times> SCFPolicyObj option \<times> 'o" where
  "SCF_SetFd g self obj ctx fd st =
     (case CHECK_SCF_INIT_RET g of Some r \<Rightarrow> (r, obj, st) | None \<Rightarrow>
      case g_adaptor g of None \<Rightarrow> (SCF_ERRNO_INVALID_PARAM, obj, st) | Some ad \<Rightarrow>
        if obj = None then (SCF_ERRNO_NULL_INPUT, obj, st)
        else if obj_role (the obj) = SCF_ROLE_NONE \<or> fd < 0 then (SCF_ERRNO_INVALID_PARAM, obj, st)
        else adaptor_SetFd (ad_ssl ad) self obj ctx fd st)"

definition SCF_FreePolicyObj ::
  "'o OpenSSLAdaptor scf_globals \<Rightarrow> ptr option \<Rightarrow> scf_heap \<Rightarrow> 'o \<Rightarrow> (ptr option \<times> scf_heap \<times> 'o) option" where
  "SCF_FreePolicyObj g obj h st =
     (case obj of
        Some (Some o1) \<Rightarrow>
          (case g_adaptor g of
             None \<Rightarrow> Some (obj, h, st)
           | Some ad \<Rightarrow>
               if \<not> g_scfInitialized g then Some (obj, h, st)
               else
                 (case hp_obj h o1 of
                    None \<Rightarrow> None
                  | Some b \<Rightarrow>
                      (case SCF_FreePolicyCtx g (Some (obj_policyCtx b)) h st of
                         None \<Rightarrow> None
                       | Some (p, h1, st1) \<Rightarrow>
                           let b1 = b\<lparr>obj_policyCtx := the p\<rparr>;
                               (_, st2) = FreeSslObj (ad_ssl ad) (Some b1) st1 in
                           Some (Some None, h1\<lparr>hp_obj := (hp_obj h1)(o1 := None)\<rparr>, st2))))
      | _ \<Rightarrow> Some (obj, h, st))"

definition SCF_GetCurrentCert :: "'o OpenSSLAdaptor scf_globals \<Rightarrow> SCFPolicyObj option \<Rightarrow> 'o \<Rightarrow> ptr" where
  "SCF_GetCurrentCert g obj st =
     (if obj = None then None
      else if CHECK_SCF_INIT_RET g \<noteq> None then None
      else case g_adaptor g of None \<Rightarrow> None | Some ad \<Rightarrow> adaptor_GetCurrentCert (ad_ssl ad) obj st)"

definition SCF_GetPeerCert :: "'o OpenSSLAdaptor scf_globals \<Rightarrow> SCFPolicyObj option \<Rightarrow> 'o \<Rightarrow> ptr" where
  "SCF_GetPeerCert g obj st =
     (if obj = None then None
      else if CHECK_SCF_INIT_RET g \<noteq> None then None
      else case g_adaptor g of None \<Rightarrow> None | Some ad \<Rightarrow> adaptor_GetPeerCert (ad_ssl ad) obj st)"

definition SCF_FreeCert :: "'o OpenSSLAdaptor scf_globals \<Rightarrow> ptr option \<Rightarrow> 'o \<Rightarrow> ptr option \<times> 'o" where
  "SCF_FreeCert g cert st =
     (if cert = None \<or> cert = Some None then (cert, st)
      else if \<not> g_scfInitialized g \<or> g_adaptor g = None then (cert, st)
      else (Some None, adaptor_FreeCert (ad_ssl (the (g_adaptor g))) (the cert) st))"

definition SCF_SetUserData :: "'a scf_globals \<Rightarrow> SCFPolicyObj option \<Rightarrow> ptr \<Rightarrow> ret \<times> SCFPolicyObj option" where
  "SCF_SetUserData g obj userData =
     (if obj = None \<or> userData = None then (SCF_ERRNO_NULL_INPUT, obj)
      else case CHECK_SCF_INIT_RET g of Some r \<Rightarrow> (r, obj) | None \<Rightarrow>
        (SCF_SUCCESS, Some ((the obj)\<lparr>obj_userData := userData\<rparr>)))"

definition SCF_GetUserData :: "SCFPolicyObj option \<Rightarrow> ptr" where
  "SCF_GetUserData obj = (case obj of None \<Rightarrow> None | Some b \<Rightarrow> obj_userData b)"

section \<open>Lifetimes\<close>

text \<open>The clients' protocol: a context is created with one reference, which its creator (an \<^verbatim>\<open>owner\<close>) gives
  back at most once; every object holds one more reference and is freed at most once; objects are created
  from a context the creator still holds.  Everything else the library does to a context or an object
  leaves the counter and the pointer to the context alone (\<^verbatim>\<open>use_ctx\<close>, \<^verbatim>\<open>use_obj\<close>).\<close>

record life =
  lf_heap :: scf_heap
  lf_owners :: "addr set"

definition objs_of :: "scf_heap \<Rightarrow> addr \<Rightarrow> addr set" where
  "objs_of h a = {o1. \<exists>b. hp_obj h o1 = Some b \<and> obj_policyCtx b = Some a}"

inductive life_step :: "'o OpenSSLAdaptor scf_globals \<Rightarrow> life \<Rightarrow> life \<Rightarrow> bool" for g where
  create_ctx: "hp_ctx (lf_heap s) a = None \<Longrightarrow> SCF_CreatePolicyCtx g oom = Some c \<Longrightarrow>
    life_step g s \<lparr> lf_heap = (lf_heap s)\<lparr>hp_ctx := (hp_ctx (lf_heap s))(a \<mapsto> c)\<rparr>, lf_owners = insert a (lf_owners s) \<rparr>"
| create_obj: "a \<in> lf_owners s \<Longrightarrow> hp_obj (lf_heap s) o1 = None \<Longrightarrow> card (objs_of (lf_heap s) a) < 2 ^ 32 - 2 \<Longrightarrow>
    SCF_CreatePolicyObj g (Some a) now (Some o1) (lf_heap s) = Some (p, h') \<Longrightarrow> life_step g s (s\<lparr>lf_heap := h'\<rparr>)"
| free_ctx: "a \<in> lf_owners s \<Longrightarrow> SCF_FreePolicyCtx g (Some (Some a)) (lf_heap s) st = Some (p, h', st') \<Longrightarrow>
    life_step g s \<lparr> lf_heap = h', lf_owners = lf_owners s - {a} \<rparr>"
| free_obj: "hp_obj (lf_heap s) o1 \<noteq> None \<Longrightarrow> SCF_FreePolicyObj g (Some (Some o1)) (lf_heap s) st = Some (p, h', st') \<Longrightarrow>
    life_step g s (s\<lparr>lf_heap := h'\<rparr>)"
| use_ctx: "hp_ctx (lf_heap s) a = Some c \<Longrightarrow> ctx_refCnt c' = ctx_refCnt c \<Longrightarrow>
    life_step g s (s\<lparr>lf_heap := (lf_heap s)\<lparr>hp_ctx := (hp_ctx (lf_heap s))(a \<mapsto> c')\<rparr>\<rparr>)"
| use_obj: "hp_obj (lf_heap s) o1 = Some b \<Longrightarrow> obj_policyCtx b' = obj_policyCtx b \<Longrightarrow>
    life_step g s (s\<lparr>lf_heap := (lf_heap s)\<lparr>hp_obj := (hp_obj (lf_heap s))(o1 \<mapsto> b')\<rparr>\<rparr>)"

text \<open>The counter of a live context is its number of references, and it is not 0.\<close>

definition refs :: "life \<Rightarrow> addr \<Rightarrow> nat" where
  "refs s a = card (objs_of (lf_heap s) a) + (if a \<in> lf_owners s then 1 else 0)"

definition life_inv :: "life \<Rightarrow> bool" where
  "life_inv s \<longleftrightarrow>
     finite (dom (hp_obj (lf_heap s))) \<and>
     (\<forall>a. hp_ctx (lf_heap s) a = None \<longrightarrow> a \<notin> lf_owners s \<and> objs_of (lf_heap s) a = {}) \<and>
     (\<forall>a c. hp_ctx (lf_heap s) a = Some c \<longrightarrow> unat (ctx_refCnt c) = refs s a \<and> refs s a > 0) \<and>
     (\<forall>o1 b. hp_obj (lf_heap s) o1 = Some b \<longrightarrow> obj_policyCtx b \<noteq> None)"

end
