(* ===== verification/Scf_Obj_Correct.thy ===== *)
theory Scf_Obj_Correct
  imports Scf_Obj
begin

text \<open>
  Shared ownership of the context: with clients that follow the protocol no operation touches released
  memory, a context is released exactly when its last reference is given back, and nothing leaks.
\<close>

definition lib_on :: "'o OpenSSLAdaptor scf_globals \<Rightarrow> bool" where
  "lib_on g \<longleftrightarrow> g_scfInitialized g \<and> g_adaptor g \<noteq> None"

lemma finite_objs_of: "finite (dom (hp_obj h)) \<Longrightarrow> finite (objs_of h a)"
  by (rule finite_subset) (auto simp: objs_of_def)

lemma objs_of_frame [simp]: "objs_of (h\<lparr>hp_ctx := m\<rparr>) a = objs_of h a"
  by (simp add: objs_of_def)

lemma objs_of_cong: "hp_obj h = hp_obj h' \<Longrightarrow> objs_of h a = objs_of h' a"
  by (simp add: objs_of_def)

text \<open>The effect of giving back one reference to a live context.\<close>

definition release :: "scf_heap \<Rightarrow> addr \<Rightarrow> scf_heap" where
  "release h a = h\<lparr>hp_ctx := (hp_ctx h)(a :=
     (case hp_ctx h a of
        None \<Rightarrow> None
      | Some c \<Rightarrow> if unat (ctx_refCnt c) = 1 then None else Some (c\<lparr>ctx_refCnt := ctx_refCnt c - 1\<rparr>)))\<rparr>"

lemma word_gt1: "(1 :: u32) < w \<longleftrightarrow> 1 < unat w" "(0 :: u32) < w \<longleftrightarrow> 0 < unat w"
  by (simp_all add: word_less_nat_alt)

lemma FreePolicyCtx_live:
  assumes "lib_on g" "hp_ctx h a = Some c" "unat (ctx_refCnt c) > 0"
  shows "\<exists>p st'. SCF_FreePolicyCtx g (Some (Some a)) h st = Some (Some p, release h a, st')"
proof -
  obtain ad where ad: "g_adaptor g = Some ad" "g_scfInitialized g" using assms(1) by (auto simp: lib_on_def)
  have nz: "ctx_refCnt c \<noteq> 0" using assms(3) by auto
  show ?thesis
  proof (cases "unat (ctx_refCnt c) = 1")
    case True
    then have "\<not> 1 < ctx_refCnt c" by (simp add: word_gt1)
    then show ?thesis
      using ad assms(2,3) nz True by (simp add: SCF_FreePolicyCtx_def release_def Let_def word_gt1 split_def)
  next
    case False
    then have "1 < ctx_refCnt c" using assms(3) by (simp add: word_gt1)
    then show ?thesis
      using ad assms(2,3) nz False by (simp add: SCF_FreePolicyCtx_def release_def Let_def word_gt1)
  qed
qed

lemma FreePolicyObj_live:
  assumes "lib_on g" "hp_obj h o1 = Some b" "obj_policyCtx b = Some a" "hp_ctx h a = Some c" "unat (ctx_refCnt c) > 0"
  shows "\<exists>st'. SCF_FreePolicyObj g (Some (Some o1)) h st =
    Some (Some None, (release h a)\<lparr>hp_obj := (hp_obj h)(o1 := None)\<rparr>, st')"
proof -
  obtain ad where ad: "g_adaptor g = Some ad" "g_scfInitialized g" using assms(1) by (auto simp: lib_on_def)
  obtain p st' where "SCF_FreePolicyCtx g (Some (Some a)) h st = Some (Some p, release h a, st')"
    using FreePolicyCtx_live [OF assms(1,4,5)] by blast
  then show ?thesis
    using ad assms(2,3) by (simp add: SCF_FreePolicyObj_def Let_def split_def) (simp add: release_def)
qed

lemma release_hp_obj [simp]: "hp_obj (release h a) = hp_obj h"
  by (simp add: release_def)

lemma life_invI:
  assumes "finite (dom (hp_obj (lf_heap s)))"
    and "\<And>a. hp_ctx (lf_heap s) a = None \<Longrightarrow> refs s a = 0"
    and "\<And>a c. hp_ctx (lf_heap s) a = Some c \<Longrightarrow> unat (ctx_refCnt c) = refs s a \<and> refs s a > 0"
    and "\<And>o1 b. hp_obj (lf_heap s) o1 = Some b \<Longrightarrow> obj_policyCtx b \<noteq> None"
  shows "life_inv s"
proof -
  have "a \<notin> lf_owners s \<and> objs_of (lf_heap s) a = {}" if "hp_ctx (lf_heap s) a = None" for a
    using assms(2) [OF that] finite_objs_of [OF assms(1), of a] by (auto simp: refs_def split: if_splits)
  then show ?thesis using assms by (auto simp: life_inv_def)
qed

lemma life_invD:
  assumes "life_inv s"
  shows "finite (dom (hp_obj (lf_heap s)))"
    and "hp_ctx (lf_heap s) a = None \<Longrightarrow> refs s a = 0"
    and "hp_ctx (lf_heap s) a = Some c \<Longrightarrow> unat (ctx_refCnt c) = refs s a"
    and "hp_ctx (lf_heap s) a = Some c \<Longrightarrow> refs s a > 0"
    and "hp_obj (lf_heap s) o1 = Some b \<Longrightarrow> obj_policyCtx b \<noteq> None"
    and "refs s a > 0 \<Longrightarrow> \<exists>c. hp_ctx (lf_heap s) a = Some c"
proof -
  show none: "hp_ctx (lf_heap s) a = None \<Longrightarrow> refs s a = 0"
    using assms by (auto simp: life_inv_def refs_def)
  show "refs s a > 0 \<Longrightarrow> \<exists>c. hp_ctx (lf_heap s) a = Some c"
    using none by (cases "hp_ctx (lf_heap s) a") auto
qed (use assms in \<open>auto simp: life_inv_def\<close>)

text \<open>Giving back a reference keeps the invariant, whoever gave it back.\<close>

lemma release_inv:
  assumes inv: "life_inv s" and live: "hp_ctx (lf_heap s) a = Some c"
    and ctxs: "hp_ctx (lf_heap s') = hp_ctx (release (lf_heap s) a)"
    and fin: "finite (dom (hp_obj (lf_heap s')))"
    and ptrs: "\<And>o1 b. hp_obj (lf_heap s') o1 = Some b \<Longrightarrow> obj_policyCtx b \<noteq> None"
    and ra: "refs s' a = refs s a - 1" and rk: "\<And>k. k \<noteq> a \<Longrightarrow> refs s' k = refs s k"
  shows "life_inv s'"
proof (rule life_invI [OF fin])
  fix k
  assume "hp_ctx (lf_heap s') k = None"
  then show "refs s' k = 0"
    using ctxs rk [of k] ra live life_invD(2,3,4) [OF inv] by (auto simp: release_def split: if_splits)
next
  fix k c'
  assume k: "hp_ctx (lf_heap s') k = Some c'"
  show "unat (ctx_refCnt c') = refs s' k \<and> refs s' k > 0"
  proof (cases "k = a")
    case False
    then show ?thesis using k ctxs rk life_invD(3,4) [OF inv] by (simp add: release_def)
  next
    case True
    have r: "unat (ctx_refCnt c) = refs s a" "refs s a > 0" using life_invD(3,4) [OF inv live] by auto
    have c': "c' = c\<lparr>ctx_refCnt := ctx_refCnt c - 1\<rparr>" "refs s a \<noteq> 1"
      using k True ctxs live r by (auto simp: release_def split: if_splits)
    have "1 \<le> ctx_refCnt c" using r by (simp add: word_le_nat_alt)
    then have "unat (ctx_refCnt c - 1) = unat (ctx_refCnt c) - 1" by (simp add: unat_sub)
    then show ?thesis using c' r ra True by simp
  qed
qed (rule ptrs)

lemma refs_free_owner:
  assumes "a \<in> lf_owners s" "hp_obj h' = hp_obj (lf_heap s)"
  shows "refs \<lparr> lf_heap = h', lf_owners = lf_owners s - {a} \<rparr> k = (if k = a then refs s a - 1 else refs s k)"
  using assms by (simp add: refs_def objs_of_cong [of h' "lf_heap s"])

lemma refs_free_obj:
  assumes "hp_obj (lf_heap s) o1 = Some b" "obj_policyCtx b = Some a" "finite (dom (hp_obj (lf_heap s)))"
    "hp_obj h' = (hp_obj (lf_heap s))(o1 := None)"
  shows "refs (s\<lparr>lf_heap := h'\<rparr>) k = (if k = a then refs s a - 1 else refs s k)"
proof -
  have "objs_of h' k = (if k = a then objs_of (lf_heap s) a - {o1} else objs_of (lf_heap s) k)"
    using assms(1,2,4) by (auto simp: objs_of_def)
  moreover have "o1 \<in> objs_of (lf_heap s) a" using assms(1,2) by (auto simp: objs_of_def)
  moreover have "finite (objs_of (lf_heap s) a)" by (rule finite_objs_of [OF assms(3)])
  ultimately show ?thesis
    using card.remove [of "objs_of (lf_heap s) a" o1] by (simp add: refs_def)
qed

lemma refs_create_obj:
  assumes "hp_obj (lf_heap s) o1 = None" "obj_policyCtx b = Some a" "finite (dom (hp_obj (lf_heap s)))"
    "hp_obj h' = (hp_obj (lf_heap s))(o1 \<mapsto> b)"
  shows "refs (s\<lparr>lf_heap := h'\<rparr>) k = (if k = a then Suc (refs s a) else refs s k)"
proof -
  have "objs_of h' k = (if k = a then insert o1 (objs_of (lf_heap s) a) else objs_of (lf_heap s) k)"
    using assms(1,2,4) by (auto simp: objs_of_def)
  moreover have "o1 \<notin> objs_of (lf_heap s) a" using assms(1) by (auto simp: objs_of_def)
  moreover have "finite (objs_of (lf_heap s) a)" by (rule finite_objs_of [OF assms(3)])
  ultimately show ?thesis by (simp add: refs_def)
qed

lemma life_inv_create_ctx:
  assumes inv: "life_inv s" and new: "hp_ctx (lf_heap s) a = None" and c: "ctx_refCnt c = 1"
  shows "life_inv \<lparr> lf_heap = (lf_heap s)\<lparr>hp_ctx := (hp_ctx (lf_heap s))(a \<mapsto> c)\<rparr>, lf_owners = insert a (lf_owners s) \<rparr>"
proof -
  have "a \<notin> lf_owners s" "objs_of (lf_heap s) a = {}" using inv new by (auto simp: life_inv_def)
  then have r: "refs \<lparr> lf_heap = (lf_heap s)\<lparr>hp_ctx := (hp_ctx (lf_heap s))(a \<mapsto> c)\<rparr>, lf_owners = insert a (lf_owners s) \<rparr> k =
      (if k = a then 1 else refs s k)" for k
    by (simp add: refs_def)
  show ?thesis
    by (rule life_invI) (use life_invD [OF inv] c in \<open>auto simp: r split: if_splits\<close>)
qed

lemma CreatePolicyObj_cases:
  assumes "hp_ctx h a = Some c" "SCF_CreatePolicyObj g (Some a) now (Some o1) h = Some (p, h')"
  shows "h' = h \<or> (\<exists>b. h' = h\<lparr>hp_ctx := (hp_ctx h)(a \<mapsto> c\<lparr>ctx_refCnt := ctx_refCnt c + 1\<rparr>), hp_obj := (hp_obj h)(o1 \<mapsto> b)\<rparr> \<and>
    obj_policyCtx b = Some a)"
  using assms
  by (auto simp: SCF_CreatePolicyObj_def Let_def new_policy_obj_def [THEN arg_cong [where f = obj_policyCtx]] split: if_splits)

lemma life_inv_create_obj:
  assumes inv: "life_inv s" and ow: "a \<in> lf_owners s" and new: "hp_obj (lf_heap s) o1 = None"
    and few: "card (objs_of (lf_heap s) a) < 2 ^ 32 - 2"
    and cr: "SCF_CreatePolicyObj g (Some a) now (Some o1) (lf_heap s) = Some (p, h')"
  shows "life_inv (s\<lparr>lf_heap := h'\<rparr>)"
proof (cases "h' = lf_heap s")
  case False
  obtain c where c: "hp_ctx (lf_heap s) a = Some c"
    using life_invD(6) [OF inv, of a] ow by (auto simp: refs_def)
  obtain b where b: "obj_policyCtx b = Some a"
    and h': "h' = (lf_heap s)\<lparr>hp_ctx := (hp_ctx (lf_heap s))(a \<mapsto> c\<lparr>ctx_refCnt := ctx_refCnt c + 1\<rparr>), hp_obj := (hp_obj (lf_heap s))(o1 \<mapsto> b)\<rparr>"
    using CreatePolicyObj_cases [OF c cr] False by blast
  have rc: "unat (ctx_refCnt c) = refs s a" by (rule life_invD(3) [OF inv c])
  then have "unat (ctx_refCnt c) < 2 ^ 32 - 1" using few ow by (simp add: refs_def)
  then have inc: "unat (ctx_refCnt c + 1) = Suc (refs s a)" using rc by (simp add: unat_word_ariths)
  have r: "refs (s\<lparr>lf_heap := h'\<rparr>) k = (if k = a then Suc (refs s a) else refs s k)" for k
    by (rule refs_create_obj [OF new b life_invD(1) [OF inv]]) (simp add: h')
  have hc: "hp_ctx h' = (hp_ctx (lf_heap s))(a \<mapsto> c\<lparr>ctx_refCnt := ctx_refCnt c + 1\<rparr>)" "hp_obj h' = (hp_obj (lf_heap s))(o1 \<mapsto> b)"
    by (simp_all add: h')
  show ?thesis
    by (rule life_invI) (use life_invD [OF inv] inc b in \<open>auto simp: r hc split: if_splits\<close>)
qed (use inv in simp)

lemma life_inv_free_ctx:
  assumes inv: "life_inv s" and ow: "a \<in> lf_owners s" and g: "lib_on g"
    and fr: "SCF_FreePolicyCtx g (Some (Some a)) (lf_heap s) st = Some (p, h', st')"
  shows "life_inv \<lparr> lf_heap = h', lf_owners = lf_owners s - {a} \<rparr>"
proof -
  have "refs s a > 0" using ow by (simp add: refs_def)
  then obtain c where c: "hp_ctx (lf_heap s) a = Some c" using life_invD(6) [OF inv] by blast
  have "unat (ctx_refCnt c) > 0" using life_invD(3,4) [OF inv c] by simp
  from FreePolicyCtx_live [OF g c this, of st] fr have h': "h' = release (lf_heap s) a" by auto
  have r: "refs \<lparr> lf_heap = h', lf_owners = lf_owners s - {a} \<rparr> k = (if k = a then refs s a - 1 else refs s k)" for k
    by (rule refs_free_owner [OF ow]) (simp add: h')
  show ?thesis
    by (rule release_inv [OF inv c]) (use life_invD(1,5) [OF inv] r h' in simp_all)
qed

lemma life_inv_free_obj:
  assumes inv: "life_inv s" and ob: "hp_obj (lf_heap s) o1 = Some b" and g: "lib_on g"
    and fr: "SCF_FreePolicyObj g (Some (Some o1)) (lf_heap s) st = Some (p, h', st')"
  shows "life_inv (s\<lparr>lf_heap := h'\<rparr>)"
proof -
  obtain a where a: "obj_policyCtx b = Some a" using life_invD(5) [OF inv ob] by blast
  have fin: "finite (dom (hp_obj (lf_heap s)))" by (rule life_invD(1) [OF inv])
  have "o1 \<in> objs_of (lf_heap s) a" using ob a by (auto simp: objs_of_def)
  then have "refs s a > 0" using finite_objs_of [OF fin, of a] by (auto simp: refs_def card_gt_0_iff)
  then obtain c where c: "hp_ctx (lf_heap s) a = Some c" using life_invD(6) [OF inv] by blast
  have "unat (ctx_refCnt c) > 0" using life_invD(3,4) [OF inv c] by simp
  from FreePolicyObj_live [OF g ob a c this, of st] fr
  have h': "h' = (release (lf_heap s) a)\<lparr>hp_obj := (hp_obj (lf_heap s))(o1 := None)\<rparr>" by auto
  have r: "refs (s\<lparr>lf_heap := h'\<rparr>) k = (if k = a then refs s a - 1 else refs s k)" for k
    by (rule refs_free_obj [OF ob a fin]) (simp add: h')
  show ?thesis
    by (rule release_inv [OF inv c]) (use life_invD(5) [OF inv] fin r h' in \<open>auto split: if_splits\<close>)
qed

lemma life_inv_use:
  assumes inv: "life_inv s"
  shows "hp_ctx (lf_heap s) a = Some c \<Longrightarrow> ctx_refCnt c' = ctx_refCnt c \<Longrightarrow>
      life_inv (s\<lparr>lf_heap := (lf_heap s)\<lparr>hp_ctx := (hp_ctx (lf_heap s))(a \<mapsto> c')\<rparr>\<rparr>)"
    and "hp_obj (lf_heap s) o1 = Some b \<Longrightarrow> obj_policyCtx b' = obj_policyCtx b \<Longrightarrow>
      life_inv (s\<lparr>lf_heap := (lf_heap s)\<lparr>hp_obj := (hp_obj (lf_heap s))(o1 \<mapsto> b')\<rparr>\<rparr>)"
proof -
  assume *: "hp_ctx (lf_heap s) a = Some c" "ctx_refCnt c' = ctx_refCnt c"
  have r: "refs (s\<lparr>lf_heap := (lf_heap s)\<lparr>hp_ctx := (hp_ctx (lf_heap s))(a \<mapsto> c')\<rparr>\<rparr>) k = refs s k" for k
    by (simp add: refs_def)
  show "life_inv (s\<lparr>lf_heap := (lf_heap s)\<lparr>hp_ctx := (hp_ctx (lf_heap s))(a \<mapsto> c')\<rparr>\<rparr>)"
    by (rule life_invI) (use life_invD [OF inv] * in \<open>auto simp: r split: if_splits\<close>)
next
  assume *: "hp_obj (lf_heap s) o1 = Some b" "obj_policyCtx b' = obj_policyCtx b"
  then have "objs_of ((lf_heap s)\<lparr>hp_obj := (hp_obj (lf_heap s))(o1 \<mapsto> b')\<rparr>) k = objs_of (lf_heap s) k" for k
    by (auto simp: objs_of_def)
  then have r: "refs (s\<lparr>lf_heap := (lf_heap s)\<lparr>hp_obj := (hp_obj (lf_heap s))(o1 \<mapsto> b')\<rparr>\<rparr>) k = refs s k" for k
    by (simp add: refs_def)
  show "life_inv (s\<lparr>lf_heap := (lf_heap s)\<lparr>hp_obj := (hp_obj (lf_heap s))(o1 \<mapsto> b')\<rparr>\<rparr>)"
    by (rule life_invI) (use life_invD [OF inv] * in \<open>auto simp: r split: if_splits\<close>)
qed

lemma CreatePolicyCtx_refCnt: "SCF_CreatePolicyCtx g oom = Some c \<Longrightarrow> ctx_refCnt c = 1"
  by (auto simp: SCF_CreatePolicyCtx_def split: if_splits)

lemma life_inv_step: "lib_on g \<Longrightarrow> life_inv s \<Longrightarrow> life_step g s s' \<Longrightarrow> life_inv s'"
  by (erule life_step.cases)
    (auto intro: life_inv_create_ctx CreatePolicyCtx_refCnt life_inv_create_obj life_inv_free_ctx life_inv_free_obj life_inv_use)

interpretation life_sys: invariant_system "life_step g" "\<lambda>s. lib_on g \<longrightarrow> life_inv s" for g
  by unfold_locales (blast intro: life_inv_step)

definition life0 :: life where
  "life0 = \<lparr> lf_heap = \<lparr> hp_ctx = (\<lambda>a. None), hp_obj = (\<lambda>a. None) \<rparr>, lf_owners = {} \<rparr>"

lemma life0_inv: "life_inv life0"
  by (rule life_invI) (simp_all add: life0_def refs_def objs_of_def)

section \<open>Property\<close>

text \<open>C16: Shared ownership of contexts is safe: after any sequence of creations, releases and other uses by
  clients that release what they own at most once, a context is on the heap exactly as long as somebody
  holds a reference to it, its counter is the number of these references, every object still points to
  a live context, and releasing any owned context or any live object does not touch released memory.\<close>

theorem policy_ctx_lifetime:
  assumes "lib_on g" "(life_step g)\<^sup>*\<^sup>* life0 s"
  shows "(\<forall>a. (hp_ctx (lf_heap s) a \<noteq> None \<longleftrightarrow> refs s a > 0) \<and>
              (\<forall>c. hp_ctx (lf_heap s) a = Some c \<longrightarrow> unat (ctx_refCnt c) = refs s a)) \<and>
    (\<forall>o1 b. hp_obj (lf_heap s) o1 = Some b \<longrightarrow> (\<exists>a. obj_policyCtx b = Some a \<and> hp_ctx (lf_heap s) a \<noteq> None)) \<and>
    (\<forall>a \<in> lf_owners s. SCF_FreePolicyCtx g (Some (Some a)) (lf_heap s) st \<noteq> None) \<and>
    (\<forall>o1. hp_obj (lf_heap s) o1 \<noteq> None \<longrightarrow> SCF_FreePolicyObj g (Some (Some o1)) (lf_heap s) st \<noteq> None)"
proof -
  have inv: "life_inv s" using life_sys.inv_steps [OF assms(2)] life0_inv assms(1) by blast
  note D = life_invD [OF inv]
  have obj: "\<exists>a c. obj_policyCtx b = Some a \<and> hp_ctx (lf_heap s) a = Some c \<and> unat (ctx_refCnt c) > 0"
    if o1: "hp_obj (lf_heap s) o1 = Some b" for o1 b
  proof -
    obtain a where a: "obj_policyCtx b = Some a" using D(5) [OF o1] by blast
    then have "o1 \<in> objs_of (lf_heap s) a" using o1 by (auto simp: objs_of_def)
    then have "refs s a > 0" using finite_objs_of [OF D(1), of a] by (auto simp: refs_def card_gt_0_iff)
    then show ?thesis using a D(3,4,6) by metis
  qed
  have "SCF_FreePolicyCtx g (Some (Some a)) (lf_heap s) st \<noteq> None" if "a \<in> lf_owners s" for a
  proof -
    have "refs s a > 0" using that by (simp add: refs_def)
    then obtain c where c: "hp_ctx (lf_heap s) a = Some c" "unat (ctx_refCnt c) > 0" using D(3,6) by metis
    then show ?thesis using FreePolicyCtx_live [OF assms(1) c, of st] by auto
  qed
  moreover have "SCF_FreePolicyObj g (Some (Some o1)) (lf_heap s) st \<noteq> None" if "hp_obj (lf_heap s) o1 = Some b" for o1 b
    using obj [OF that] FreePolicyObj_live [OF assms(1) that] by (metis option.distinct(1))
  moreover have "hp_ctx (lf_heap s) a \<noteq> None \<longleftrightarrow> refs s a > 0" for a using D(4,6) by blast
  ultimately show ?thesis using D(3) obj by blast
qed

theorem policy_ctx_lifetime_witness:
  "\<exists>s. (life_step sim_globals)\<^sup>*\<^sup>* life0 s \<and> lf_owners s = {5} \<and>
     SCF_FreePolicyCtx sim_globals (Some (Some 5)) (lf_heap s) sim0 \<noteq> None"
proof -
  have on: "lib_on sim_globals" by (simp add: lib_on_def)
  obtain c where c: "SCF_CreatePolicyCtx sim_globals False = Some c" by (simp add: SCF_CreatePolicyCtx_def)
  let ?s = "\<lparr> lf_heap = (lf_heap life0)\<lparr>hp_ctx := (hp_ctx (lf_heap life0))(5 \<mapsto> c)\<rparr>, lf_owners = insert 5 (lf_owners life0) \<rparr>"
  have step: "(life_step sim_globals)\<^sup>*\<^sup>* life0 ?s"
    by (rule r_into_rtranclp, rule create_ctx [OF _ c]) (simp add: life0_def)
  show ?thesis
    using policy_ctx_lifetime [OF on step, of sim0] step by (intro exI [of _ ?s]) (simp add: life0_def)
qed

end
