(* ===== verification/Scf_Policy_Correct.thy ===== *)
theory Scf_Policy_Correct
  imports Scf_Policy Ossl_Sim
begin

text \<open>
  The policy operations: what is handed to the TLS library for a list of cipher suites and for a policy,
  and what that means for the connections made with it.
\<close>

section \<open>Cipher suites\<close>

text \<open>Reference: the names of the known suites, in the order of the input, joined by colons.\<close>

definition suite_name :: "u16 \<Rightarrow> string option" where
  "suite_name i = map_option butlast (CipherId2CipherStr i)"

definition suites_string :: "u16 list \<Rightarrow> string" where
  "suites_string cs = join_groups (List.map_filter suite_name cs)"

definition raw_names :: "u16 list \<Rightarrow> string list" where
  "raw_names cs = List.map_filter CipherId2CipherStr cs"

lemma CipherId2CipherStr_shape:
  assumes "CipherId2CipherStr i = Some p"
  shows "p = butlast p @ '':''" "butlast p \<noteq> []" "NUL \<notin> set p" "length p \<le> 50"
  using assms by (auto simp: CipherId2CipherStr_def NUL_def Let_def split: if_splits)

lemma raw_names_Cons:
  "raw_names (i # cs) = (case CipherId2CipherStr i of None \<Rightarrow> raw_names cs | Some p \<Rightarrow> p # raw_names cs)"
  by (simp add: raw_names_def List.map_filter_simps split: option.split)

lemma raw_names_Nil [simp]: "raw_names [] = []"
  by (simp add: raw_names_def List.map_filter_simps)

lemma raw_names_in: "p \<in> set (raw_names cs) \<Longrightarrow> p = butlast p @ '':'' \<and> NUL \<notin> set p \<and> length p \<le> 50"
  by (induction cs) (auto simp: raw_names_Cons CipherId2CipherStr_shape(1,3,4) split: option.splits)

lemma StrLen_loop: "CipherSuitesStrLen_loop cs len = len + length (concat (raw_names cs))"
  by (induction cs arbitrary: len) (auto simp: raw_names_Cons split: option.split)

lemma concat_raw_names: "raw_names cs \<noteq> [] \<Longrightarrow> concat (raw_names cs) = suites_string cs @ '':''"
proof -
  have names: "List.map_filter suite_name cs = map butlast (raw_names cs)"
    by (induction cs) (auto simp: raw_names_Cons suite_name_def List.map_filter_simps split: option.split)
  have "concat ps = join_groups (map butlast ps) @ '':''" if "ps \<noteq> []" "\<forall>p \<in> set ps. p = butlast p @ '':''" for ps
    using that by (induction ps rule: join_groups.induct) auto
  then show "raw_names cs \<noteq> [] \<Longrightarrow> ?thesis"
    using raw_names_in unfolding suites_string_def names by blast
qed

text \<open>The copy loop fills the buffer from the left.\<close>

lemma SetCipherSuites_loop_eq:
  assumes "memcpy_s_ok mc" "length buf = tot" "tot \<le> 0x7fffffff" "length dn + length (concat (raw_names cs)) = tot"
    "take (length dn) buf = dn"
  shows "SetCipherSuites_loop mc cs tot (length dn) buf = dn @ concat (raw_names cs)"
  using assms(2,4,5)
proof (induction cs arbitrary: buf dn)
  case (Cons i cs)
  show ?case
  proof (cases "CipherId2CipherStr i")
    case None
    then show ?thesis using Cons by (simp add: raw_names_Cons)
  next
    case (Some p)
    have "p \<noteq> []" using CipherId2CipherStr_shape(1) [OF Some] by auto
    then have fits: "0 < tot - length dn" "length p \<le> tot - length dn"
      using Cons.prems(2) Some by (auto simp: raw_names_Cons)
    have "mc (drop (length dn) buf) (tot - length dn) p (length p) =
        (0, take (length p) p @ drop (length p) (drop (length dn) buf))"
      by (rule memcpy_s_okD [OF assms(1)]) (use fits Cons.prems(1) assms(3) in simp_all)
    then have step: "SetCipherSuites_loop mc (i # cs) tot (length dn) buf =
        SetCipherSuites_loop mc cs tot (length (dn @ p)) (dn @ p @ drop (length dn + length p) buf)"
      using Some Cons.prems(3) by (simp add: add.commute)
    have "SetCipherSuites_loop mc cs tot (length (dn @ p)) (dn @ p @ drop (length dn + length p) buf) =
        (dn @ p) @ concat (raw_names cs)"
      by (rule Cons.IH) (use Cons.prems(1,2) Some fits in \<open>auto simp: raw_names_Cons\<close>)
    then show ?thesis using step Some by (simp add: raw_names_Cons)
  qed
qed simp

lemma suites_string_no_NUL: "raw_names cs \<noteq> [] \<Longrightarrow> NUL \<notin> set (suites_string cs)"
proof -
  assume "raw_names cs \<noteq> []"
  then have "set (suites_string cs) \<subseteq> set (concat (raw_names cs))" by (auto simp: concat_raw_names)
  then show ?thesis using raw_names_in by fastforce
qed

text \<open>C24: Configuring cipher suites passes the library exactly the names of the known suites of the list, in
  their order and joined by colons, as a terminated string that fills the allocated buffer; unknown
  identifiers are skipped, and a list without any known suite is refused without calling the library.\<close>

theorem adaptor_SetCipherSuites_string:
  assumes "memcpy_s_ok mc" "\<And>n. alloc n = Some (block n) \<and> length (block n) = n"
    and "cs = take (unat sz) suites" "length (concat (raw_names cs)) \<le> 0x7fffffff"
  shows "adaptor_SetCipherSuites api mc alloc (Some c) (Some suites) sz st =
    (if List.map_filter suite_name cs = [] then (SCF_SSL_ERR_SET_CIPHER, st)
     else case SSL_CTX_set_ciphersuites api (ctx_sslConfig c) (suites_string cs @ [NUL]) st of
       (r, st1) \<Rightarrow> (if r = SSL_SUCCESS then SCF_SUCCESS else SCF_SSL_ERR_SET_CIPHER, st1)) \<and>
    (List.map_filter suite_name cs \<noteq> [] \<longrightarrow> cstr (suites_string cs @ [NUL]) = suites_string cs)"
proof -
  have filt: "List.map_filter suite_name cs = [] \<longleftrightarrow> raw_names cs = []"
    by (induction cs) (auto simp: raw_names_Cons suite_name_def List.map_filter_simps split: option.split)
  have len: "GetCipherSuitesStrLen suites sz = length (concat (raw_names cs))"
    using assms(3) by (simp add: GetCipherSuitesStrLen_def StrLen_loop)
  show ?thesis
  proof (cases "raw_names cs = []")
    case True
    then show ?thesis using filt len by (simp add: adaptor_SetCipherSuites_def)
  next
    case False
    let ?n = "length (concat (raw_names cs))"
    have "SetCipherSuites_loop mc cs ?n (length ([] :: string)) (block ?n) = [] @ concat (raw_names cs)"
      by (rule SetCipherSuites_loop_eq [OF assms(1)]) (use assms(2,4) in simp_all)
    then have loop: "SetCipherSuites_loop mc (take (unat sz) suites) ?n 0 (block ?n) = suites_string cs @ '':''"
      using concat_raw_names [OF False] assms(3) by simp
    have n: "?n = Suc (length (suites_string cs))" using concat_raw_names [OF False] by simp
    have "cstr (suites_string cs @ [NUL]) = suites_string cs"
      by (rule cstr_append_NUL) (rule suites_string_no_NUL [OF False])
    moreover have "adaptor_SetCipherSuites api mc alloc (Some c) (Some suites) sz st =
        (case SSL_CTX_set_ciphersuites api (ctx_sslConfig c) (suites_string cs @ [NUL]) st of
          (r, st1) \<Rightarrow> (if r = SSL_SUCCESS then SCF_SUCCESS else SCF_SSL_ERR_SET_CIPHER, st1))"
      using len loop n assms(2) by (simp add: adaptor_SetCipherSuites_def Let_def split: prod.split)
    ultimately show ?thesis using False filt by simp
  qed
qed

theorem adaptor_SetCipherSuites_string_witness:
  "adaptor_SetCipherSuites sim_ossl memcpy_s_ref (\<lambda>n. Some (zero_buf n)) (SCF_CreatePolicyCtx sim_globals False) (Some [0x1302, 7, 0x1301]) 3 sim0 =
     (SCF_SUCCESS, sim0\<lparr>sim_suites := ''TLS_AES_256_GCM_SHA384:TLS_AES_128_GCM_SHA256''\<rparr>)"
proof -
  have raw: "raw_names [0x1302, 7, 0x1301] = [''TLS_AES_256_GCM_SHA384:'', ''TLS_AES_128_GCM_SHA256:'']"
    by (simp add: raw_names_def List.map_filter_simps CipherId2CipherStr_def scf_const)
  have names: "List.map_filter suite_name [0x1302, 7, 0x1301] = [''TLS_AES_256_GCM_SHA384'', ''TLS_AES_128_GCM_SHA256'']"
    by (simp add: suite_name_def List.map_filter_simps CipherId2CipherStr_def scf_const)
  show ?thesis
    using adaptor_SetCipherSuites_string [OF memcpy_s_ref_ok, of "\<lambda>n. Some (zero_buf n)" zero_buf "[0x1302, 7, 0x1301]" 3
        "[0x1302, 7, 0x1301]" sim_ossl "the (SCF_CreatePolicyCtx sim_globals False)" sim0] raw names
    by (simp add: suites_string_def sim_ossl_def SSL_SUCCESS_def SCF_CreatePolicyCtx_def)
qed

section \<open>Versions of a policy\<close>

text \<open>What the documentation of libssl says of the calls used for versions and options: reading the range of
  a context back gives what was set, the two bounds and the options are independent, options
  accumulate, and setting the verification mode touches none of them.\<close>

definition proto_range :: "'o ossl_api \<Rightarrow> ptr \<Rightarrow> 'o \<Rightarrow> int \<times> int" where
  "proto_range api c st = (fst (SSL_CTX_get_min_proto_version api c st), fst (SSL_CTX_get_max_proto_version api c st))"

definition ssl_ctx_laws :: "'o ossl_api \<Rightarrow> bool" where
  "ssl_ctx_laws api \<longleftrightarrow> (\<forall>c v st st1.
     (SSL_CTX_set_min_proto_version api (Some c) v st = (SSL_SUCCESS, st1) \<longrightarrow>
        proto_range api (Some c) st1 = (v, snd (proto_range api (Some c) st)) \<and>
        SSL_CTX_get_options api (Some c) st1 = SSL_CTX_get_options api (Some c) st) \<and>
     (SSL_CTX_set_max_proto_version api (Some c) v st = (SSL_SUCCESS, st1) \<longrightarrow>
        proto_range api (Some c) st1 = (fst (proto_range api (Some c) st), v) \<and>
        SSL_CTX_get_options api (Some c) st1 = SSL_CTX_get_options api (Some c) st)) \<and>
   (\<forall>c opt st.
        proto_range api (Some c) (SSL_CTX_set_options api (Some c) opt st) = proto_range api (Some c) st \<and>
        SSL_CTX_get_options api (Some c) (SSL_CTX_set_options api (Some c) opt st) = SSL_CTX_get_options api (Some c) st OR opt) \<and>
   (\<forall>c m st.
        proto_range api (Some c) (SSL_CTX_set_verify api (Some c) m st) = proto_range api (Some c) st \<and>
        SSL_CTX_get_options api (Some c) (SSL_CTX_set_verify api (Some c) m st) = SSL_CTX_get_options api (Some c) st)"

lemma ssl_ctx_lawsD:
  assumes "ssl_ctx_laws api"
  shows "SSL_CTX_set_min_proto_version api (Some c) v st = (SSL_SUCCESS, st1) \<Longrightarrow>
      proto_range api (Some c) st1 = (v, snd (proto_range api (Some c) st))"
    and "SSL_CTX_set_max_proto_version api (Some c) v st = (SSL_SUCCESS, st1) \<Longrightarrow>
      proto_range api (Some c) st1 = (fst (proto_range api (Some c) st), v)"
    and "proto_range api (Some c) (SSL_CTX_set_options api (Some c) opt st) = proto_range api (Some c) st"
    and "SSL_CTX_get_options api (Some c) (SSL_CTX_set_options api (Some c) opt st) = SSL_CTX_get_options api (Some c) st OR opt"
    and "proto_range api (Some c) (SSL_CTX_set_verify api (Some c) m st) = proto_range api (Some c) st"
    and "SSL_CTX_get_options api (Some c) (SSL_CTX_set_verify api (Some c) m st) = SSL_CTX_get_options api (Some c) st"
  using assms unfolding ssl_ctx_laws_def by blast+

lemma sim_ssl_ctx_laws: "ssl_ctx_laws sim_ossl"
  by (auto simp: ssl_ctx_laws_def proto_range_def sim_ossl_def SSL_CTX_set_min_proto_version_def SSL_CTX_set_max_proto_version_def
      SSL_CTX_get_min_proto_version_def SSL_CTX_get_max_proto_version_def)

lemma SetProtocolVersion_range:
  assumes "ssl_ctx_laws api" "ctx_sslConfig c = Some cfg"
    and "adaptor_SetProtocolVersion api (Some c) mn mx forbid n st = (SCF_SUCCESS, st')"
  shows "proto_range api (Some cfg) st' = (uint mn, uint mx)"
proof -
  obtain st1 st2 where m: "SSL_CTX_set_min_proto_version api (Some cfg) (uint mn) st = (SSL_SUCCESS, st1)"
      "SSL_CTX_set_max_proto_version api (Some cfg) (uint mx) st1 = (SSL_SUCCESS, st2)"
    and st': "st' = st2 \<or> (\<exists>opt. st' = SSL_CTX_set_options api (Some cfg) opt st2)"
    using assms(2,3) by (auto simp: adaptor_SetProtocolVersion_def Let_def errno SCF_SUCCESS_def split: prod.splits if_splits option.splits)
  have "proto_range api (Some cfg) st2 = (uint mn, uint mx)"
    using ssl_ctx_lawsD(1) [OF assms(1) m(1)] ssl_ctx_lawsD(2) [OF assms(1) m(2)] by simp
  then show ?thesis using st' ssl_ctx_lawsD(3) [OF assms(1)] by auto
qed

lemma InitSsl_success:
  assumes "InitSsl ad c mn mx None 0 st = (SCF_SUCCESS, c', st')"
  shows "\<exists>cfg st5 st6. c' = c\<lparr>ctx_sslConfig := Some cfg\<rparr> \<and>
    adaptor_SetProtocolVersion (ad_ssl ad) (Some c') mn mx None 0 st5 = (SCF_SUCCESS, st6) \<and>
    st' = SSL_CTX_set_options (ad_ssl ad) (Some cfg) (ucast SSL_OP_NO_RENEGOTIATION) st6"
  using assms
  by (auto simp: InitSsl_def Let_def FreeSsl_def errno SCF_SUCCESS_def split: prod.splits if_splits option.splits) blast+

text \<open>The verification bits of the library that a mode of the interface stands for.\<close>

definition verify_bits :: "u32 \<Rightarrow> int" where
  "verify_bits mode =
     (if mode = SCF_VERIFY_DEFAULT then 3 else (if bit mode 2 then 1 else 0) + (if bit mode 3 then 2 else 0))"

lemma and_pow2_eq:
  fixes mode :: u32
  shows "mode AND 4 = 4 \<longleftrightarrow> bit mode 2" "mode AND 8 = 8 \<longleftrightarrow> bit mode 3"
proof -
  have "mode AND 2 ^ n = 2 ^ n \<longleftrightarrow> bit mode n" if "n < 32" for n
    using that by (auto simp: bit_eq_iff [of "mode AND 2 ^ n" "2 ^ n"] bit_and_iff bit_exp_iff)
  from this [of 2] this [of 3] show "mode AND 4 = 4 \<longleftrightarrow> bit mode 2" "mode AND 8 = 8 \<longleftrightarrow> bit mode 3" by simp_all
qed

lemma SetVerifyMode_bits:
  assumes "ctx_sslConfig c = Some cfg"
  shows "adaptor_SetVerifyMode api (Some c) (if mode = SCF_VERIFY_DEFAULT then SCF_VERIFY_PEER OR SCF_VERIFY_FAIL_IF_NO_PEER_CERT else mode) st =
    (SCF_SUCCESS, SSL_CTX_set_verify api (Some cfg) (verify_bits mode) st)"
  using assms
  by (auto simp: adaptor_SetVerifyMode_def verify_bits_def Let_def and_pow2_eq SCF_VERIFY_DEFAULT_def SCF_VERIFY_PEER_def
      SCF_VERIFY_FAIL_IF_NO_PEER_CERT_def SCF_VERIFY_MODE_NONE_def SSL_VERIFY_NONE_def SSL_VERIFY_PEER_def
      SSL_VERIFY_FAIL_IF_NO_PEER_CERT_def)

text \<open>The arguments of \<^verbatim>\<open>SCF_SetPolicy\<close> that pass its checks.\<close>

definition policy_args_ok :: "SCF_ROLE \<Rightarrow> u32 \<Rightarrow> SCF_POLICY_MODE \<Rightarrow> bool" where
  "policy_args_ok role vm pm \<longleftrightarrow> CheckRole role = SCF_SUCCESS \<and> CheckVerifyMode vm = SCF_SUCCESS \<and> CheckPolicyMode pm = SCF_SUCCESS"

lemma SCF_SetPolicy_success:
  assumes "SCF_SetPolicy g (Some c) role vm pm st = (SCF_SUCCESS, Some c', st')" "g_adaptor g = Some ad"
  shows "\<exists>st1. policy_args_ok role vm pm \<and>
    InitPolicyByMode ad (c\<lparr>ctx_role := role, ctx_verifyMode := vm, ctx_policyMode := pm\<rparr>) st = (SCF_SUCCESS, c', st1) \<and>
    adaptor_SetVerifyMode (ad_ssl ad) (Some c')
      (if vm = SCF_VERIFY_DEFAULT then SCF_VERIFY_PEER OR SCF_VERIFY_FAIL_IF_NO_PEER_CERT else vm) st1 = (SCF_SUCCESS, st')"
  using assms
  by (auto simp: SCF_SetPolicy_def Let_def policy_args_ok_def CHECK_SCF_INIT_RET_def errno SCF_SUCCESS_def
      split: prod.splits if_splits option.splits)



end
