(* ===== verification/Adaptor_Correct.thy ===== *)
theory Adaptor_Correct
  imports Scf_Policy Ossl_Sim
begin

text \<open>
  Certificates, keys, sessions and pre-shared keys: the chain loop ends, the password callback stays in its
  buffer, protocol versions of sessions read back as they were set, and when the wrapper of the
  pre-shared-key callback switches certificate verification off.
\<close>

section \<open>Loading a chain ends\<close>

text \<open>A memory BIO holds finitely many certificates: there is a measure of what is left that every certificate
  read decreases and that handing a certificate to the context or releasing it does not increase.\<close>

definition finite_bio :: "'o ossl_api \<Rightarrow> ('o \<Rightarrow> nat) \<Rightarrow> bool" where
  "finite_bio api left \<longleftrightarrow>
     (\<forall>b x st st1. PEM_read_bio_X509 api b st = (Some x, st1) \<longrightarrow> left st1 < left st) \<and>
     (\<forall>c x st. left (snd (SSL_CTX_add_extra_chain_cert api c x st)) \<le> left st) \<and>
     (\<forall>x st. left (X509_free api x st) \<le> left st)"

lemma LoadCaChain_returns:
  assumes "finite_bio api left"
  shows "\<exists>r st'. LoadCaChain api sslCtx b st = Some (r, st') \<and> r \<in> {SCF_SUCCESS, SCF_SSL_ERR_LOAD_CA_CERT_CHAIN}"
proof (induction "left st" arbitrary: st rule: less_induct)
  case less
  obtain ca st1 where rd: "PEM_read_bio_X509 api b st = (ca, st1)" by fastforce
  show ?case
  proof (cases ca)
    case None
    then show ?thesis using rd by (simp add: LoadCaChain.simps)
  next
    case (Some x)
    obtain addRet st2 where ad: "SSL_CTX_add_extra_chain_cert api sslCtx ca st1 = (addRet, st2)" by fastforce
    have "left (X509_free api ca st2) \<le> left st2" "left st2 \<le> left st1" "left st1 < left st"
      using assms rd ad Some unfolding finite_bio_def by (auto dest: spec, metis snd_conv)
    then have "left (X509_free api ca st2) < left st" by simp
    from less [OF this] show ?thesis
      using rd ad Some by (cases "addRet = SSL_SUCCESS") (simp_all add: LoadCaChain.simps [of api sslCtx b st] Let_def)
  qed
qed


definition one_cert_ossl :: "sim_state ossl_api" where
  "one_cert_ossl = sim_ossl\<lparr>PEM_read_bio_X509 := (\<lambda>b st. if sim_fd st > 0 then (Some 31, st\<lparr>sim_fd := sim_fd st - 1\<rparr>) else (None, st))\<rparr>"

lemma one_cert_finite: "finite_bio one_cert_ossl (\<lambda>st. nat (sim_fd st))"
proof -
  have "sim_fd (snd (sim_ctrl c 14 0 p st)) = sim_fd st" for c p st by (cases c) simp_all
  then show ?thesis
    by (auto simp: finite_bio_def one_cert_ossl_def sim_ossl_def SSL_CTX_add_extra_chain_cert_def split: if_splits)
qed


section \<open>The password callback\<close>

text \<open>The password callback never writes outside the buffer it is given and never returns more than its
  size: it returns the length of the password, cut off at the size of the buffer, with exactly these
  characters in front of the unchanged rest, and without a password it returns 0 and wipes the buffer.\<close>

theorem DefaultPemPasswordCb_bounds:
  assumes "memcpy_s_ok mc" "0 < sz" "sz \<le> length buf" "sz \<le> 0x7fffffff"
  shows "DefaultPemPasswordCb mc (Some buf) sz (Some pw) =
      (min (length (cstr pw)) sz, Some (take sz (cstr pw) @ drop (min (length (cstr pw)) sz) buf)) \<and>
    DefaultPemPasswordCb mc (Some buf) sz None = (0, Some (zero_buf sz @ drop sz buf)) \<and>
    length (the (snd (DefaultPemPasswordCb mc (Some buf) sz (Some pw)))) = length buf"
proof -
  let ?i = "min (length (cstr pw)) sz"
  have cut: "(if length (cstr pw) > sz then sz else length (cstr pw)) = ?i" by simp
  have pre: "take ?i pw = take sz (cstr pw)"
  proof -
    have "take (length (cstr pw)) pw = cstr pw" unfolding cstr_def by (rule takeWhile_eq_take [symmetric])
    then have "take sz (cstr pw) = take sz (take (length (cstr pw)) pw)" by simp
    then show ?thesis by (simp add: min.commute)
  qed
  have "mc buf sz pw ?i = (0, take ?i pw @ drop ?i buf)"
    by (rule memcpy_s_okD [OF assms]) (use cstr_length_le [of pw] in simp_all)
  then have eq: "DefaultPemPasswordCb mc (Some buf) sz (Some pw) = (?i, Some (take sz (cstr pw) @ drop ?i buf))"
    using assms(2) pre by (simp add: DefaultPemPasswordCb_def cut Let_def)
  moreover have "length (take sz (cstr pw) @ drop ?i buf) = length buf" using assms(3) by simp
  ultimately show ?thesis using assms(2) by (simp add: DefaultPemPasswordCb_def)
qed

section \<open>Sessions\<close>

lemma protocol_str_int:
  assumes "ProtocolStrToInt (Some v) d = (SCF_SUCCESS, n)"
  shows "ProtocolIntToStr n s = (SCF_SUCCESS, cstr v)"
  using assms
  by (auto simp: ProtocolStrToInt_def ProtocolIntToStr_def protocolMap_def TLS1_2_VERSION_def TLS1_3_VERSION_def errno SCF_SUCCESS_def
      split: option.splits if_splits)

text \<open>The protocol version of a session reads back as the string that was set, terminated and with its
  length, for every library that reports the version it was given; only the two supported names can be
  set.\<close>

lemma session_version_roundtrip:
  assumes "SessionSetProtocolVersion api sess (Some v) st = (SCF_SUCCESS, st1)"
    and "\<And>n st2. SSL_SESSION_set_protocol_version api sess n st = (SSL_SUCCESS, st2) \<Longrightarrow> SSL_SESSION_get_protocol_version api sess st2 = n"
    and "memcpy_s_ok mc" "\<And>n. alloc n = Some (block n) \<and> length (block n) = n"
  shows "SessionGetProtocolVersion api mc alloc sess st1 = (SCF_SUCCESS, Some (cstr v @ [NUL]), length (cstr v)) \<and>
    cstr v \<in> {''TLSv1.2'', ''TLSv1.3''}"
proof -
  obtain n where n: "ProtocolStrToInt (Some v) 0 = (SCF_SUCCESS, n)"
    and set: "SSL_SESSION_set_protocol_version api sess n st = (SSL_SUCCESS, st1)"
    using assms(1) by (auto simp: SessionSetProtocolVersion_def errno SCF_SUCCESS_def split: prod.splits if_splits)
  have get: "SSL_SESSION_get_protocol_version api sess st1 = n" by (rule assms(2) [OF set])
  have str: "ProtocolIntToStr n '''' = (SCF_SUCCESS, cstr v)" by (rule protocol_str_int [OF n])
  have v: "cstr v \<in> {''TLSv1.2'', ''TLSv1.3''}"
    using n by (auto simp: ProtocolStrToInt_def protocolMap_def errno SCF_SUCCESS_def split: option.splits if_splits)
  then have len: "length (cstr v) = 7" by auto
  let ?b = "block (Suc (length (cstr v)))"
  have lb: "length ?b = 8" using assms(4) len by simp
  have "mc ?b (length (cstr v) + 1) (cstr v) (length (cstr v)) = (0, take (length (cstr v)) (cstr v) @ drop (length (cstr v)) ?b)"
    by (rule memcpy_s_okD [OF assms(3)]) (use len lb in simp_all)
  moreover have "(cstr v @ drop (length (cstr v)) ?b)[length (cstr v) := NUL] = cstr v @ [NUL]"
    using copy_and_terminate [of "cstr v" ?b] len lb by simp
  ultimately show ?thesis
    using get str assms(4) v by (simp add: SessionGetProtocolVersion_def Let_def)
qed

section \<open>Pre-shared keys and peer verification\<close>

text \<open>C36: The server side of a pre-shared key handshake is fail closed: whatever state of the library records
  how a connection is verified (an observation the application callback and the release of a session leave
  alone), the lookup wrapper can change it only when it reports success, and it reports success only when the
  connection has an object with a callback, this callback succeeded on the identity it was given, and a
  session it delivered has a cipher.\<close>

theorem psk_find_session_fail_closed:
  assumes app: "\<And>cb b i l s x. verification (snd (snd (app cb b i l s x))) = verification x"
    and free: "\<And>p x. verification (SSL_SESSION_free api p x) = verification x"
    and run: "PskFindSessionCbWrapper api objs app ssl ident idLen sess st = (r, sess', st')"
  shows "(verification st' \<noteq> verification st \<longrightarrow> r = SSL_SUCCESS) \<and>
    (r = SSL_SUCCESS \<longleftrightarrow> (\<exists>a b cb s1 st1. SSL_get_ex_data api ssl SSL_EX_DATA_ID st = Some a \<and> objs a = Some b \<and>
       obj_pskFindSessionCb b = Some cb \<and> app cb b ident (ucast idLen) sess st = (SCF_SUCCESS, s1, st1) \<and>
       (\<forall>p. s1 = Some (Some p) \<longrightarrow> SSL_SESSION_get0_cipher api (Some p) st1 \<noteq> None)))"
proof (cases "Option.bind (SSL_get_ex_data api ssl SSL_EX_DATA_ID st) objs")
  case None
  then show ?thesis using run by (auto simp: PskFindSessionCbWrapper_def SSL_ERROR_def SSL_SUCCESS_def)
next
  case (Some b)
  then obtain a where a: "SSL_get_ex_data api ssl SSL_EX_DATA_ID st = Some a" "objs a = Some b"
    by (auto simp: bind_eq_Some_conv)
  show ?thesis
  proof (cases "obj_pskFindSessionCb b")
    case None
    then show ?thesis using run a by (auto simp: PskFindSessionCbWrapper_def SSL_ERROR_def SSL_SUCCESS_def)
  next
    case (Some cb)
    obtain r1 s1 st1 where call: "app cb b ident (ucast idLen) sess st = (r1, s1, st1)" by (metis prod_cases3)
    with app [of cb b ident "ucast idLen" sess st] have "verification st1 = verification st" by simp
    then show ?thesis using run a Some call free
      by (auto simp: PskFindSessionCbWrapper_def SSL_ERROR_def SSL_SUCCESS_def split: if_splits)
  qed
qed

theorem psk_find_session_fail_closed_witness:
  "\<exists>s' st'. PskFindSessionCbWrapper (sim_ossl\<lparr>SSL_get_ex_data := (\<lambda>p i st. Some 9), SSL_SESSION_get0_cipher := (\<lambda>p st. None)\<rparr>)
       (\<lambda>a. Some (sim_obj\<lparr>obj_pskFindSessionCb := Some 7\<rparr>))
       (\<lambda>cb b i l s st. (SCF_SUCCESS, Some (Some 5), st)) (Some 3) ''id'' 2 (Some None) sim0 = (SSL_ERROR, s', st') \<and>
     sim_verify st' = sim_verify sim0"
proof -
  let ?api = "sim_ossl\<lparr>SSL_get_ex_data := (\<lambda>p i st. Some 9), SSL_SESSION_get0_cipher := (\<lambda>p st. None)\<rparr>"
  let ?objs = "\<lambda>a::addr. Some (sim_obj\<lparr>obj_pskFindSessionCb := Some 7\<rparr>)"
  let ?app = "\<lambda>(cb::addr) (b::SCFPolicyObj) (i::string) (l::u32) (s::ptr option) (st::sim_state). (SCF_SUCCESS, Some (Some 5) :: ptr option, st)"
  obtain r s' st' where run: "PskFindSessionCbWrapper ?api ?objs ?app (Some 3) ''id'' 2 (Some None) sim0 = (r, s', st')"
    by (metis prod_cases3)
  have "r = SSL_ERROR" using run
    by (simp add: PskFindSessionCbWrapper_def sim_obj_def sim_ossl_def SCF_SUCCESS_def)
  moreover have "(sim_verify st' \<noteq> sim_verify sim0 \<longrightarrow> r = SSL_SUCCESS)"
    by (rule psk_find_session_fail_closed [where verification = sim_verify, OF _ _ run, THEN conjunct1]) (simp_all add: sim_ossl_def)
  ultimately show ?thesis using run by (auto simp: SSL_ERROR_def SSL_SUCCESS_def)
qed

end
