(* ===== verification/File_Ctx.thy ===== *)
theory File_Ctx
  imports Scf_Policy
begin

text \<open>
  File contexts (\<^verbatim>\<open>scf/policy/file_context.cpp\<close>): a path or buffer with an optional password, handed to
  \<^verbatim>\<open>SCF_AddCert\<close> and \<^verbatim>\<open>SCF_SetKey\<close>.  The operations also return the content of every heap block at the
  moment it is given back (\<^verbatim>\<open>delete[]\<close>, or the end of a vector), so that the wiping of secrets is
  a property of the result.  \<^verbatim>\<open>memset_s\<close> is a parameter like \<^verbatim>\<open>memcpy_s\<close>; its result is ignored by
  the code except when the structure itself is cleared.
\<close>

type_synonym memcpy_fn = "string \<Rightarrow> nat \<Rightarrow> string \<Rightarrow> nat \<Rightarrow> int \<times> string"

text \<open>\<^verbatim>\<open>memset_s dest destMax 0 count\<close>: result and new content of \<^verbatim>\<open>dest\<close>.\<close>

type_synonym memset_fn = "string \<Rightarrow> nat \<Rightarrow> nat \<Rightarrow> int \<times> string"

definition memset_s_ok :: "memset_fn \<Rightarrow> bool" where
  "memset_s_ok ms \<longleftrightarrow>
     (\<forall>dest destMax n. 0 < destMax \<and> destMax \<le> length dest \<and> destMax \<le> 0x7fffffff \<and> n \<le> destMax \<longrightarrow>
        ms dest destMax n = (0, zero_buf n @ drop n dest))"

definition memset_s_ref :: memset_fn where
  "memset_s_ref dest destMax n =
     (if destMax = 0 \<or> destMax > 0x7fffffff then (34, dest)
      else if n > destMax then (162, zero_buf destMax @ drop destMax dest)
      else (0, zero_buf n @ drop n dest))"

text \<open>What the allocations around one file context return: of the structure, of a copy of the path, of the
  buffer and of the password.\<close>

record mem_env =
  me_oom :: bool
  me_cleared :: bool
  me_path :: "nat \<Rightarrow> string option"
  me_buf :: "nat \<Rightarrow> string option"
  me_pwd :: "nat \<Rightarrow> string option"

section \<open>Operations\<close>

text \<open>\<^verbatim>\<open>oom\<close>: the allocation fails; \<^verbatim>\<open>cleared\<close>: \<^verbatim>\<open>memset_s\<close> on the structure succeeds.\<close>

definition SCF_FileCtxNew :: "'a scf_globals \<Rightarrow> bool \<Rightarrow> bool \<Rightarrow> SCFFileCtx option" where
  "SCF_FileCtxNew g oom cleared =
     (if CHECK_SCF_INIT_RET g \<noteq> None then None
      else if oom \<or> \<not> cleared then None
      else Some \<lparr> fc_storeType = SCF_STORE_FILE_PATH, fc_buf = None, fc_bufLen = 0, fc_passwd = None, fc_passwdLen = 0,
        fc_format = SCF_STORE_FORMAT_PEM \<rparr>)"

text \<open>\<^verbatim>\<open>ctx\<close> is the caller's \<^verbatim>\<open>SCF_FILE_CTX **\<close>.\<close>

definition SCF_FileCtxFree :: "memset_fn \<Rightarrow> SCFFileCtx option option \<Rightarrow> SCFFileCtx option option \<times> string list" where
  "SCF_FileCtxFree ms ctx =
     (case ctx of
        Some (Some c) \<Rightarrow>
          (Some None,
           (if fc_buf c \<noteq> None \<and> fc_bufLen c \<noteq> 0 then [snd (ms (the (fc_buf c)) (fc_bufLen c) (fc_bufLen c))] else []) @
           (if fc_passwd c \<noteq> None \<and> fc_passwdLen c \<noteq> 0 then [snd (ms (the (fc_passwd c)) (fc_passwdLen c) (fc_passwdLen c))] else []))
      | _ \<Rightarrow> (ctx, []))"

definition CheckFileCtxBufInput ::
  "os_api \<Rightarrow> SCFFileCtx option \<Rightarrow> SCF_STORE_TYPE \<Rightarrow> string option \<Rightarrow> nat \<Rightarrow> SCF_STORE_FORMAT \<Rightarrow> ret" where
  "CheckFileCtxBufInput os ctx storeType buf bufLen format =
     (if ctx = None \<or> buf = None \<or> bufLen = 0 then SCF_ERRNO_NULL_INPUT
      else if storeType \<noteq> SCF_STORE_FILE_PATH \<and> storeType \<noteq> SCF_STORE_BUFFER \<or> format \<noteq> SCF_STORE_FORMAT_PEM then SCF_ERRNO_NOT_SUPPORT
      else if storeType = SCF_STORE_FILE_PATH \<and> bufLen > PATH_MAX - 1 then SCF_SSL_ERR_PATH_TOO_LONG
      else if storeType = SCF_STORE_FILE_PATH \<and> \<not> SCF_CheckFilePathAndStat os (take bufLen (the buf)) then SCF_ERRNO_FILE_PATH_ERROR
      else if storeType = SCF_STORE_BUFFER \<and> bufLen > BUF_MAX_LEN - 1 then SCF_ERRNO_LARGE_FILE
      else SCF_SUCCESS)"

definition SCF_FileCtxSetBuf ::
  "'a scf_globals \<Rightarrow> os_api \<Rightarrow> memcpy_fn \<Rightarrow> memset_fn \<Rightarrow> (nat \<Rightarrow> string option) \<Rightarrow> SCFFileCtx option \<Rightarrow> SCF_STORE_TYPE
     \<Rightarrow> string option \<Rightarrow> nat \<Rightarrow> SCF_STORE_FORMAT \<Rightarrow> ret \<times> SCFFileCtx option \<times> string list" where
  "SCF_FileCtxSetBuf g os mc ms alloc ctx storeType buf bufLen format =
     (if ctx = None \<or> buf = None \<or> bufLen = 0 then (SCF_ERRNO_NULL_INPUT, ctx, [])
      else if storeType \<noteq> SCF_STORE_BUFFER \<and> storeType \<noteq> SCF_STORE_FILE_PATH \<or> format \<noteq> SCF_STORE_FORMAT_PEM
      then (SCF_ERRNO_NOT_SUPPORT, ctx, [])
      else case CHECK_SCF_INIT_RET g of Some r \<Rightarrow> (r, ctx, []) | None \<Rightarrow>
        let r = CheckFileCtxBufInput os ctx storeType buf bufLen format in
        if r \<noteq> SCF_SUCCESS then (r, ctx, [])
        else case alloc (bufLen + 1) of None \<Rightarrow> (SCF_ERRNO_MEM_ALLOC, ctx, []) | Some newBuf \<Rightarrow>
          let (e, nb) = mc newBuf bufLen (the buf) bufLen in
          if e \<noteq> 0 then (SCF_ERRNO_MEM_ALLOC, ctx, [nb])
          else
            let c = the ctx;
                freed = (if fc_buf c \<noteq> None \<and> fc_bufLen c \<noteq> 0 then [snd (ms (the (fc_buf c)) (fc_bufLen c) (fc_bufLen c))] else []) in
            (SCF_SUCCESS,
             Some (c\<lparr>fc_storeType := storeType, fc_buf := Some (nb[bufLen := NUL]), fc_bufLen := bufLen, fc_format := format\<rparr>),
             freed))"

text \<open>The plain text lives in a vector that is overwritten with zeros before most of the returns; the
  content it has when it goes out of scope is part of the result.\<close>

definition SCF_FileCtxSetPwd ::
  "'a scf_globals \<Rightarrow> CryptoUtil \<Rightarrow> memcpy_fn \<Rightarrow> memset_fn \<Rightarrow> (nat \<Rightarrow> string option) \<Rightarrow> SCFFileCtx option
     \<Rightarrow> string option \<Rightarrow> nat \<Rightarrow> bool \<Rightarrow> ret \<times> SCFFileCtx option \<times> string list" where
  "SCF_FileCtxSetPwd g cu mc ms alloc ctx passwd passwdLen isCipher =
     (case CHECK_SCF_INIT_RET g of Some r \<Rightarrow> (r, ctx, []) | None \<Rightarrow>
      if ctx = None then (SCF_ERRNO_NULL_INPUT, ctx, [])
      else if passwd = None \<or> passwdLen = 0 then (SCF_SUCCESS, ctx, [])
      else
        let (ok, plaintext) = (if isCipher then Decrypt cu (the passwd) passwdLen [] else (True, take passwdLen (the passwd)));
            actPwdLen = length plaintext; filled = zero_buf actPwdLen in
        if \<not> ok then (SCF_ERROR, ctx, [plaintext])
        else if actPwdLen \<ge> 0xffffffff then (SCF_ERRNO_MEM_ALLOC, ctx, [filled])
        else case alloc (actPwdLen + 1) of None \<Rightarrow> (SCF_ERRNO_MEM_ALLOC, ctx, [filled]) | Some newPassWd \<Rightarrow>
          let (cpyRet, np) = mc newPassWd actPwdLen plaintext actPwdLen in
          if cpyRet \<noteq> 0 then (SCF_ERRNO_MEM_ALLOC, ctx, [filled, snd (ms np (actPwdLen + 1) (actPwdLen + 1))])
          else
            let c = the ctx;
                freed = (if fc_passwd c \<noteq> None \<and> fc_passwdLen c \<noteq> 0
                         then [snd (ms (the (fc_passwd c)) (fc_passwdLen c) (fc_passwdLen c))] else []) in
            (SCF_SUCCESS, Some (c\<lparr>fc_passwd := Some (np[actPwdLen := NUL]), fc_passwdLen := actPwdLen\<rparr>), filled # freed))"

section \<open>Well-formed file contexts\<close>

text \<open>Both blocks are one byte longer than the recorded length and terminated there; a set block has a
  recorded length that is not zero, so that it is released.\<close>

definition block_ok :: "string option \<Rightarrow> nat \<Rightarrow> bool" where
  "block_ok b n = (case b of None \<Rightarrow> n = 0 | Some s \<Rightarrow> 0 < n \<and> length s = n + 1 \<and> s ! n = NUL)"

definition file_ctx_ok :: "SCFFileCtx \<Rightarrow> bool" where
  "file_ctx_ok c \<longleftrightarrow> block_ok (fc_buf c) (fc_bufLen c) \<and> block_ok (fc_passwd c) (fc_passwdLen c) \<and>
     fc_storeType c \<in> {SCF_STORE_FILE_PATH, SCF_STORE_BUFFER} \<and> fc_format c = SCF_STORE_FORMAT_PEM"

end
