(* ===== verification/Parse_Config.thy ===== *)
theory Parse_Config
  imports File_Ctx
begin

text \<open>
  The configuration file: \<^verbatim>\<open>common/utils/parse_config.cpp\<close> (reading, validation, application) and
  \<^verbatim>\<open>scf/policy/config.cpp\<close> (the entry point).  The JSON parser is the third-party rapidjson: the parser
  is a parameter and its documents are the datatype \<^verbatim>\<open>json\<close>.  rapidjson asserts that \<^verbatim>\<open>HasMember\<close> is
  called on an object; an operation that would break the assertion has the result \<^verbatim>\<open>None\<close>.  The first
  member of a name counts, and \<^verbatim>\<open>GetString\<close> is read as a C string, up to the first NUL.
\<close>

datatype json =
  JNull | JBool bool | JNumber int | JString string | JArray "json list" | JObject "(string \<times> json) list"

fun IsObject :: "json \<Rightarrow> bool" where
  "IsObject (JObject _) = True" | "IsObject _ = False"

fun IsString :: "json \<Rightarrow> bool" where
  "IsString (JString _) = True" | "IsString _ = False"

fun IsArray :: "json \<Rightarrow> bool" where
  "IsArray (JArray _) = True" | "IsArray _ = False"

fun IsBool :: "json \<Rightarrow> bool" where
  "IsBool (JBool _) = True" | "IsBool _ = False"

fun GetMember :: "json \<Rightarrow> string \<Rightarrow> json option" where
  "GetMember (JObject ms) n = map_of ms n" | "GetMember _ n = None"

fun GetString :: "json \<Rightarrow> string" where
  "GetString (JString s) = cstr s" | "GetString _ = []"

fun GetArray :: "json \<Rightarrow> json list" where
  "GetArray (JArray xs) = xs" | "GetArray _ = []"

fun GetBool :: "json \<Rightarrow> bool" where
  "GetBool (JBool b) = b" | "GetBool _ = False"

section \<open>Names and tables\<close>

definition TLS_VERSION :: string where [scf_const]: "TLS_VERSION = ''tlsVersion''"
definition MIN_VERSION :: string where [scf_const]: "MIN_VERSION = ''minVersion''"
definition MAX_VERSION :: string where [scf_const]: "MAX_VERSION = ''maxVersion''"
definition FORBID_VERSION :: string where [scf_const]: "FORBID_VERSION = ''forbidVersion''"
definition MAX_FORBIN_VERSION_LENGTH :: nat where [scf_const]: "MAX_FORBIN_VERSION_LENGTH = 5"
definition TLS_CIPHER_SUITES :: string where [scf_const]: "TLS_CIPHER_SUITES = ''tlsCipherSuites''"
definition MAX_TLS_CIPHER_SUITES_LENGTH :: nat where [scf_const]: "MAX_TLS_CIPHER_SUITES_LENGTH = 20"
definition CERT :: string where [scf_const]: "CERT = ''cert''"
definition CERTS :: string where [scf_const]: "CERTS = ''certs''"
definition CERT_TYPE :: string where [scf_const]: "CERT_TYPE = ''certType''"
definition STORE_BUF :: string where [scf_const]: "STORE_BUF = ''storeBuf''"
definition IS_CIPHER :: string where [scf_const]: "IS_CIPHER = ''isCipher''"
definition PRIVATE_KEY :: string where [scf_const]: "PRIVATE_KEY = ''privKey''"
definition KEY_AUTH :: string where [scf_const]: "KEY_AUTH = ''keyAuth''"

text \<open>The suites are stored in a \<^verbatim>\<open>std::vector<uint16_t>\<close>.\<close>

definition cipherMap :: "(string \<times> u16) list" where
  "cipherMap = map (\<lambda>(n, v). (n, ucast v))
    [(''SCF_SSL_ECDHE_ECDSA_WITH_AES_128_GCM_SHA256'', SCF_SSL_ECDHE_ECDSA_WITH_AES_128_GCM_SHA256),
     (''SCF_SSL_ECDHE_ECDSA_WITH_AES_256_GCM_SHA384'', SCF_SSL_ECDHE_ECDSA_WITH_AES_256_GCM_SHA384),
     (''SCF_SSL_ECDHE_RSA_WITH_AES_128_GCM_SHA256'', SCF_SSL_ECDHE_RSA_WITH_AES_128_GCM_SHA256),
     (''SCF_SSL_ECDHE_RSA_WITH_AES_256_GCM_SHA384'', SCF_SSL_ECDHE_RSA_WITH_AES_256_GCM_SHA384),
     (''SCF_SSL_ECDHE_RSA_WITH_CHACHA20_POLY1305_SHA256'', SCF_SSL_ECDHE_RSA_WITH_CHACHA20_POLY1305_SHA256),
     (''SCF_SSL_ECDHE_ECDSA_WITH_CHACHA20_POLY1305_SHA256'', SCF_SSL_ECDHE_ECDSA_WITH_CHACHA20_POLY1305_SHA256),
     (''SCF_SSL_AES_128_GCM_SHA256'', SCF_SSL_AES_128_GCM_SHA256),
     (''SCF_SSL_AES_256_GCM_SHA384'', SCF_SSL_AES_256_GCM_SHA384),
     (''SCF_SSL_CHACHA20_POLY1305_SHA256'', SCF_SSL_CHACHA20_POLY1305_SHA256),
     (''SCF_SSL_AES_128_CCM_SHA256'', SCF_SSL_AES_128_CCM_SHA256)]"

definition tlsVersionMap :: "(string \<times> u32) list" where
  "tlsVersionMap = [(''SSL_VERSION_TLS12'', SCF_SSL_VERSION_TLS12), (''SSL_VERSION_TLS13'', SCF_SSL_VERSION_TLS13)]"

definition tlsCertTypeMap :: "(string \<times> SCF_CERT_TYPE) list" where
  "tlsCertTypeMap = [(''CA'', SCF_CERT_TYPE_CA), (''EE'', SCF_CERT_TYPE_EE), (''CRL'', SCF_CERT_TYPE_CRL),
     (''EE_CHAIN'', SCF_CERT_TYPE_EE_CHAIN)]"

record Cert =
  cert_certType :: string
  cert_storeBuf :: string

record TlsVersion =
  tv_minVersion :: u32
  tv_maxVersion :: u32
  tv_forbidVersion :: "u32 list"

record KeyAuth =
  ka_storeBuf :: string
  ka_isCipher :: bool

record PrivKey =
  pk_storeBuf :: string
  pk_keyAuth :: KeyAuth

record Config =
  cfg_tlsVersion :: TlsVersion
  cfg_tlsCipherSuites :: "u16 list"
  cfg_certs :: "Cert list"
  cfg_privKey :: PrivKey

definition Config_init :: Config where
  "Config_init = \<lparr> cfg_tlsVersion = \<lparr> tv_minVersion = 0, tv_maxVersion = 0, tv_forbidVersion = [] \<rparr>, cfg_tlsCipherSuites = [],
     cfg_certs = [], cfg_privKey = \<lparr> pk_storeBuf = [], pk_keyAuth = \<lparr> ka_storeBuf = [], ka_isCipher = True \<rparr> \<rparr> \<rparr>"

section \<open>Reading and validation\<close>

text \<open>\<^verbatim>\<open>parse\<close> is the rapidjson parser; a file that cannot be opened or parsed gives the null document.\<close>

definition SCF_ReadConfig :: "os_api \<Rightarrow> (string \<Rightarrow> json option) \<Rightarrow> string \<Rightarrow> json" where
  "SCF_ReadConfig os parse filePath =
     (case os_read_file os filePath of
        None \<Rightarrow> JNull
      | Some content \<Rightarrow> (case parse content of None \<Rightarrow> JNull | Some doc \<Rightarrow> doc))"

definition FillTlsVersion :: "json \<Rightarrow> TlsVersion \<Rightarrow> ret \<times> TlsVersion" where
  "FillTlsVersion tlsVersion out =
     (let minVersionStr = GetString (the (GetMember tlsVersion MIN_VERSION));
          maxVersionStr = GetString (the (GetMember tlsVersion MAX_VERSION)) in
      case map_of tlsVersionMap minVersionStr of
        None \<Rightarrow> (SCF_ERROR, out)
      | Some mn \<Rightarrow>
          let out1 = out\<lparr>tv_minVersion := mn\<rparr> in
          (case map_of tlsVersionMap maxVersionStr of
             None \<Rightarrow> (SCF_ERROR, out1)
           | Some mx \<Rightarrow> (SCF_SUCCESS, out1\<lparr>tv_maxVersion := mx\<rparr>)))"

fun FillTlsForbidVersion_loop :: "json list \<Rightarrow> TlsVersion \<Rightarrow> ret \<times> TlsVersion" where
  "FillTlsForbidVersion_loop [] out = (SCF_SUCCESS, out)"
| "FillTlsForbidVersion_loop (v # vs) out =
     (if \<not> IsString v then (SCF_ERROR, out)
      else case map_of tlsVersionMap (GetString v) of
             None \<Rightarrow> (SCF_ERROR, out)
           | Some f \<Rightarrow> FillTlsForbidVersion_loop vs (out\<lparr>tv_forbidVersion := tv_forbidVersion out @ [f]\<rparr>))"

definition FillTlsForbidVersion :: "json \<Rightarrow> TlsVersion \<Rightarrow> ret \<times> TlsVersion" where
  "FillTlsForbidVersion tlsVersion out = FillTlsForbidVersion_loop (GetArray (the (GetMember tlsVersion FORBID_VERSION))) out"

definition SCF_ParseTLSVersion :: "json \<Rightarrow> TlsVersion \<Rightarrow> (ret \<times> TlsVersion) option" where
  "SCF_ParseTLSVersion tlsVersion out =
     (if \<not> IsObject tlsVersion then None
      else if \<not> (GetMember tlsVersion MIN_VERSION \<noteq> None \<and> GetMember tlsVersion MAX_VERSION \<noteq> None \<and>
                  GetMember tlsVersion FORBID_VERSION \<noteq> None)
      then Some (SCF_ERROR, out)
      else if \<not> (IsString (the (GetMember tlsVersion MIN_VERSION)) \<and> IsString (the (GetMember tlsVersion MAX_VERSION)))
      then Some (SCF_ERROR, out)
      else
        let (r, out1) = FillTlsVersion tlsVersion out in
        if r \<noteq> SCF_SUCCESS then Some (SCF_ERROR, out1)
        else if \<not> IsArray (the (GetMember tlsVersion FORBID_VERSION)) \<or>
                length (GetArray (the (GetMember tlsVersion FORBID_VERSION))) > MAX_FORBIN_VERSION_LENGTH
        then Some (SCF_ERROR, out1)
        else
          let (r2, out2) = FillTlsForbidVersion tlsVersion out1 in
          if r2 \<noteq> SCF_SUCCESS then Some (SCF_ERROR, out2) else Some (SCF_SUCCESS, out2))"

fun FillTlsCipherSuites_loop :: "json list \<Rightarrow> u16 list \<Rightarrow> ret \<times> u16 list" where
  "FillTlsCipherSuites_loop [] out = (SCF_SUCCESS, out)"
| "FillTlsCipherSuites_loop (c # cs) out =
     (if \<not> IsString c then (SCF_ERROR, out)
      else case map_of cipherMap (GetString c) of
             None \<Rightarrow> (SCF_ERROR, out)
           | Some s \<Rightarrow> FillTlsCipherSuites_loop cs (out @ [s]))"

definition FillTlsCipherSuites :: "json \<Rightarrow> u16 list \<Rightarrow> ret \<times> u16 list" where
  "FillTlsCipherSuites tlsCiphersuites out = FillTlsCipherSuites_loop (GetArray tlsCiphersuites) out"

definition SCF_ParseTLSCiphersuites :: "json \<Rightarrow> u16 list \<Rightarrow> ret \<times> u16 list" where
  "SCF_ParseTLSCiphersuites tlsCiphersuites out =
     (if \<not> IsArray tlsCiphersuites \<or> length (GetArray tlsCiphersuites) > MAX_TLS_CIPHER_SUITES_LENGTH then (SCF_ERROR, out)
      else
        let (r, out1) = FillTlsCipherSuites tlsCiphersuites out in
        if r \<noteq> SCF_SUCCESS then (SCF_ERROR, out1)
        else if out1 = [] then (SCF_ERROR, out1)
        else (SCF_SUCCESS, out1))"

definition CheckCertType :: "string \<Rightarrow> ret" where
  "CheckCertType certType = (if map_of tlsCertTypeMap certType \<noteq> None then SCF_SUCCESS else SCF_ERROR)"

fun FillCerts_loop :: "os_api \<Rightarrow> json list \<Rightarrow> Cert list \<Rightarrow> ret \<times> Cert list" where
  "FillCerts_loop os [] out = (SCF_SUCCESS, out)"
| "FillCerts_loop os (certObj # rest) out =
     (if \<not> IsObject certObj \<or> GetMember certObj CERT = None then (SCF_ERROR, out)
      else
        let cert = the (GetMember certObj CERT) in
        if \<not> IsObject cert then (SCF_ERROR, out)
        else if \<not> (GetMember cert CERT_TYPE \<noteq> None \<and> GetMember cert STORE_BUF \<noteq> None \<and>
                    IsString (the (GetMember cert CERT_TYPE)) \<and> IsString (the (GetMember cert STORE_BUF)))
        then (SCF_ERROR, out)
        else
          let certType = GetString (the (GetMember cert CERT_TYPE));
              certStoreBuf = GetString (the (GetMember cert STORE_BUF)) in
          if CheckCertType certType \<noteq> SCF_SUCCESS \<or> \<not> SCF_CheckFilePathAndStat os certStoreBuf then (SCF_ERROR, out)
          else FillCerts_loop os rest (out @ [\<lparr> cert_certType = certType, cert_storeBuf = certStoreBuf \<rparr>]))"

definition FillCerts :: "os_api \<Rightarrow> json \<Rightarrow> Cert list \<Rightarrow> ret \<times> Cert list" where
  "FillCerts os certs out = FillCerts_loop os (GetArray certs) out"

definition SCF_ParseCertsJson :: "os_api \<Rightarrow> json \<Rightarrow> Cert list \<Rightarrow> ret \<times> Cert list" where
  "SCF_ParseCertsJson os certs out =
     (if \<not> IsArray certs then (SCF_ERROR, out)
      else
        let (r, out1) = FillCerts os certs out in
        if r \<noteq> SCF_SUCCESS then (SCF_ERROR, out1) else (SCF_SUCCESS, out1))"

definition SCF_ParseKeyAuthJson :: "json \<Rightarrow> KeyAuth \<Rightarrow> ret \<times> KeyAuth" where
  "SCF_ParseKeyAuthJson keyAuth out =
     (if \<not> IsObject keyAuth \<or> GetMember keyAuth STORE_BUF = None \<or> \<not> IsString (the (GetMember keyAuth STORE_BUF)) \<or>
         GetMember keyAuth IS_CIPHER = None \<or> \<not> IsBool (the (GetMember keyAuth IS_CIPHER))
      then (SCF_ERROR, out)
      else (SCF_SUCCESS,
            out\<lparr>ka_storeBuf := ka_storeBuf out @ GetString (the (GetMember keyAuth STORE_BUF)),
                ka_isCipher := GetBool (the (GetMember keyAuth IS_CIPHER))\<rparr>))"

definition SCF_ParsePrivKeyJson :: "os_api \<Rightarrow> json \<Rightarrow> PrivKey \<Rightarrow> ret \<times> PrivKey" where
  "SCF_ParsePrivKeyJson os privKey out =
     (if \<not> IsObject privKey then (SCF_ERROR, out)
      else if GetMember privKey STORE_BUF = None \<or> \<not> IsString (the (GetMember privKey STORE_BUF)) \<or>
              GetMember privKey KEY_AUTH = None \<or> \<not> IsObject (the (GetMember privKey KEY_AUTH))
      then (SCF_ERROR, out)
      else
        let privKeyStoreBuf = GetString (the (GetMember privKey STORE_BUF)) in
        if \<not> SCF_CheckFilePathAndStat os privKeyStoreBuf then (SCF_ERROR, out)
        else
          let out1 = out\<lparr>pk_storeBuf := GetString (the (GetMember privKey STORE_BUF))\<rparr>;
              (r, ka) = SCF_ParseKeyAuthJson (the (GetMember privKey KEY_AUTH)) (pk_keyAuth out1);
              out2 = out1\<lparr>pk_keyAuth := ka\<rparr> in
          if r \<noteq> SCF_SUCCESS then (SCF_ERROR, out2) else (SCF_SUCCESS, out2))"

definition ParseTLS :: "json \<Rightarrow> Config \<Rightarrow> (ret \<times> Config) option" where
  "ParseTLS configDoc cfg =
     (if \<not> IsObject configDoc then None
      else
        case (case GetMember configDoc TLS_VERSION of
                None \<Rightarrow> Some (SCF_SUCCESS, cfg)
              | Some v \<Rightarrow> map_option (\<lambda>(r, tv). (r, cfg\<lparr>cfg_tlsVersion := tv\<rparr>)) (SCF_ParseTLSVersion v (cfg_tlsVersion cfg))) of
          None \<Rightarrow> None
        | Some (r, cfg1) \<Rightarrow>
            if r \<noteq> SCF_SUCCESS then Some (SCF_ERROR, cfg1)
            else
              (case GetMember configDoc TLS_CIPHER_SUITES of
                 None \<Rightarrow> Some (SCF_SUCCESS, cfg1)
               | Some v \<Rightarrow>
                   let (r2, cs) = SCF_ParseTLSCiphersuites v (cfg_tlsCipherSuites cfg1);
                       cfg2 = cfg1\<lparr>cfg_tlsCipherSuites := cs\<rparr> in
                   if r2 \<noteq> SCF_SUCCESS then Some (SCF_ERROR, cfg2) else Some (SCF_SUCCESS, cfg2)))"

definition ParseCertAndKey :: "os_api \<Rightarrow> json \<Rightarrow> Config \<Rightarrow> (ret \<times> Config) option" where
  "ParseCertAndKey os configDoc cfg =
     (if \<not> IsObject configDoc then None
      else
        let (r, cfg1) =
              (case GetMember configDoc CERTS of
                 None \<Rightarrow> (SCF_SUCCESS, cfg)
               | Some v \<Rightarrow> let (r, cs) = SCF_ParseCertsJson os v (cfg_certs cfg) in (r, cfg\<lparr>cfg_certs := cs\<rparr>)) in
        if r \<noteq> SCF_SUCCESS then Some (SCF_ERROR, cfg1)
        else
          (case GetMember configDoc PRIVATE_KEY of
             None \<Rightarrow> Some (SCF_SUCCESS, cfg1)
           | Some v \<Rightarrow>
               let (r2, pk) = SCF_ParsePrivKeyJson os v (cfg_privKey cfg1);
                   cfg2 = cfg1\<lparr>cfg_privKey := pk\<rparr> in
               if r2 \<noteq> SCF_SUCCESS then Some (SCF_ERROR, cfg2) else Some (SCF_SUCCESS, cfg2)))"

definition SCF_ParseConfig :: "os_api \<Rightarrow> (string \<Rightarrow> json option) \<Rightarrow> string \<Rightarrow> Config \<Rightarrow> (ret \<times> Config) option" where
  "SCF_ParseConfig os parse filePath cfg =
     (let configDoc = SCF_ReadConfig os parse filePath in
      if configDoc = JNull then Some (SCF_ERROR, cfg)
      else case ParseTLS configDoc cfg of
        None \<Rightarrow> None
      | Some (r, cfg1) \<Rightarrow>
          if r \<noteq> SCF_SUCCESS then Some (SCF_ERROR, cfg1)
          else case ParseCertAndKey os configDoc cfg1 of
            None \<Rightarrow> None
          | Some (r2, cfg2) \<Rightarrow> if r2 \<noteq> SCF_SUCCESS then Some (SCF_ERROR, cfg2) else Some (SCF_SUCCESS, cfg2))"

section \<open>Applying a configuration\<close>

text \<open>The environment of the application: globals, file system, hooks and securec.  The operations also return the blocks of file contexts
  released on the way.\<close>

record 'o scf_env =
  se_globals :: "'o OpenSSLAdaptor scf_globals"
  se_os :: os_api
  se_crypto :: CryptoUtil
  se_mc :: memcpy_fn
  se_ms :: memset_fn

definition StringToCharPtr :: "memcpy_fn \<Rightarrow> (nat \<Rightarrow> string option) \<Rightarrow> string \<Rightarrow> string option" where
  "StringToCharPtr mc alloc str =
     (case alloc (length str + 1) of
        None \<Rightarrow> None
      | Some charPtr \<Rightarrow>
          let (e, b) = mc charPtr (length str + 1) str (length str) in
          if e \<noteq> 0 then None else Some (b[length str := NUL]))"

definition AddCertInner ::
  "'o scf_env \<Rightarrow> mem_env \<Rightarrow> SCFPolicyCtx option \<Rightarrow> SCFFileCtx option \<Rightarrow> string \<Rightarrow> Cert \<Rightarrow> 'o
     \<Rightarrow> (ret \<times> SCFFileCtx option \<times> string list \<times> 'o) option" where
  "AddCertInner se me ctx fileCtx storeBuf certObj st =
     (let (r, fc, freed) = SCF_FileCtxSetBuf (se_globals se) (se_os se) (se_mc se) (se_ms se) (me_buf me) fileCtx
            SCF_STORE_FILE_PATH (Some storeBuf) (length (cstr storeBuf)) SCF_STORE_FORMAT_PEM in
      if r \<noteq> SCF_SUCCESS then Some (SCF_ERROR, fc, freed, st)
      else case map_of tlsCertTypeMap (cert_certType certObj) of
        None \<Rightarrow> Some (SCF_ERROR, fc, freed, st)
      | Some t \<Rightarrow> map_option (\<lambda>(r, st1). (r, fc, freed, st1)) (SCF_AddCert (se_globals se) (se_os se) ctx fc t st))"

fun AddCert2PolicyCtx_loop ::
  "'o scf_env \<Rightarrow> (nat \<Rightarrow> mem_env) \<Rightarrow> nat \<Rightarrow> SCFPolicyCtx option \<Rightarrow> Cert list \<Rightarrow> string list \<Rightarrow> 'o
     \<Rightarrow> (ret \<times> string list \<times> 'o) option" where
  "AddCert2PolicyCtx_loop se mem i ctx [] rel st = Some (SCF_SUCCESS, rel, st)"
| "AddCert2PolicyCtx_loop se mem i ctx (certObj # rest) rel st =
     (case SCF_FileCtxNew (se_globals se) (me_oom (mem i)) (me_cleared (mem i)) of
        None \<Rightarrow> Some (SCF_ERROR, rel, st)
      | Some fileCtx \<Rightarrow>
          (case StringToCharPtr (se_mc se) (me_path (mem i)) (cert_storeBuf certObj) of
             None \<Rightarrow> Some (SCF_ERROR, rel @ snd (SCF_FileCtxFree (se_ms se) (Some (Some fileCtx))), st)
           | Some storeBuf \<Rightarrow>
               (case AddCertInner se (mem i) ctx (Some fileCtx) storeBuf certObj st of
                  None \<Rightarrow> None
                | Some (r, fc, freed, st1) \<Rightarrow>
                    let rel1 = rel @ freed @ snd (SCF_FileCtxFree (se_ms se) (Some fc)) in
                    if r \<noteq> SCF_SUCCESS then Some (SCF_ERROR, rel1, st1)
                    else AddCert2PolicyCtx_loop se mem (i + 1) ctx rest rel1 st1)))"

definition AddCert2PolicyCtx ::
  "'o scf_env \<Rightarrow> (nat \<Rightarrow> mem_env) \<Rightarrow> SCFPolicyCtx option \<Rightarrow> Cert list \<Rightarrow> 'o \<Rightarrow> (ret \<times> string list \<times> 'o) option" where
  "AddCert2PolicyCtx se mem ctx certsArray st =
     (if certsArray = [] then Some (SCF_SUCCESS, [], st) else AddCert2PolicyCtx_loop se mem 0 ctx certsArray [] st)"

definition CleanResource :: "memset_fn \<Rightarrow> SCFFileCtx option \<Rightarrow> string option \<Rightarrow> SCFFileCtx option \<times> string option \<times> string list" where
  "CleanResource ms fileCtx storeBuf =
     (let (fc, freed) = SCF_FileCtxFree ms (Some fileCtx) in (the fc, None, freed))"

text \<open>Result: the code, the file context and the path buffer, with the blocks released.\<close>

definition CreateAndInitializeFileCtx ::
  "'o scf_env \<Rightarrow> mem_env \<Rightarrow> PrivKey \<Rightarrow> ret \<times> SCFFileCtx option \<times> string option \<times> string list" where
  "CreateAndInitializeFileCtx se me privKey =
     (case SCF_FileCtxNew (se_globals se) (me_oom me) (me_cleared me) of
        None \<Rightarrow> (SCF_ERRNO_MEM_ALLOC, None, None, [])
      | Some fileCtx \<Rightarrow>
          (case StringToCharPtr (se_mc se) (me_path me) (pk_storeBuf privKey) of
             None \<Rightarrow> let (fc, freed) = SCF_FileCtxFree (se_ms se) (Some (Some fileCtx)) in (SCF_ERROR, the fc, None, freed)
           | Some storeBuf \<Rightarrow> (SCF_SUCCESS, Some fileCtx, Some storeBuf, [])))"

definition SetFileCtxPassword ::
  "'o scf_env \<Rightarrow> mem_env \<Rightarrow> SCFFileCtx option \<Rightarrow> KeyAuth \<Rightarrow> ret \<times> SCFFileCtx option \<times> KeyAuth \<times> string list" where
  "SetFileCtxPassword se me fileCtx keyAuth =
     (if ka_storeBuf keyAuth = [] then (SCF_ERROR, fileCtx, keyAuth, [])
      else if \<not> ka_isCipher keyAuth then (SCF_ERROR, fileCtx, keyAuth, [])
      else
        let (r, fc, freed) = SCF_FileCtxSetPwd (se_globals se) (se_crypto se) (se_mc se) (se_ms se) (me_pwd me) fileCtx
              (Some (ka_storeBuf keyAuth)) (length (ka_storeBuf keyAuth)) (ka_isCipher keyAuth) in
        if r \<noteq> SCF_SUCCESS
        then (r, fc, keyAuth\<lparr>ka_storeBuf := zero_buf (length (ka_storeBuf keyAuth))\<rparr>, freed)
        else (SCF_SUCCESS, fc, keyAuth, freed))"

definition SetKeyAndPwd ::
  "'o scf_env \<Rightarrow> mem_env \<Rightarrow> SCFPolicyCtx option \<Rightarrow> SCFFileCtx option \<Rightarrow> string \<Rightarrow> KeyAuth \<Rightarrow> 'o
     \<Rightarrow> ret \<times> SCFFileCtx option \<times> KeyAuth \<times> string list \<times> 'o" where
  "SetKeyAndPwd se me ctx fileCtx storeBuf keyAuth st =
     (let (r, fc, freed) = SCF_FileCtxSetBuf (se_globals se) (se_os se) (se_mc se) (se_ms se) (me_buf me) fileCtx
            SCF_STORE_FILE_PATH (Some storeBuf) (length (cstr storeBuf)) SCF_STORE_FORMAT_PEM in
      if r \<noteq> SCF_SUCCESS then (r, fc, keyAuth, freed, st)
      else
        let (r2, fc2, ka, freed2) = SetFileCtxPassword se me fc keyAuth in
        if r2 \<noteq> SCF_SUCCESS then (r2, fc2, ka, freed @ freed2, st)
        else
          let (r3, st1) = SCF_SetKey (se_globals se) ctx fc2 st in (r3, fc2, ka, freed @ freed2, st1))"

definition SetPrivKeyAndPwd4Ctx ::
  "'o scf_env \<Rightarrow> mem_env \<Rightarrow> SCFPolicyCtx option \<Rightarrow> PrivKey \<Rightarrow> 'o \<Rightarrow> ret \<times> PrivKey \<times> string list \<times> 'o" where
  "SetPrivKeyAndPwd4Ctx se me ctx privKey st =
     (if pk_storeBuf privKey = [] then
        (if ka_storeBuf (pk_keyAuth privKey) = [] then (SCF_SUCCESS, privKey, [], st) else (SCF_ERROR, privKey, [], st))
      else
        let (r, fileCtx, storeBuf, freed) = CreateAndInitializeFileCtx se me privKey in
        if r \<noteq> SCF_SUCCESS
        then (r, privKey, freed @ snd (snd (CleanResource (se_ms se) fileCtx storeBuf)), st)
        else
          let (r2, fc, ka, freed2, st1) = SetKeyAndPwd se me ctx fileCtx (the storeBuf) (pk_keyAuth privKey) st;
              rel = freed @ freed2 @ snd (snd (CleanResource (se_ms se) fc storeBuf)) in
          if r2 \<noteq> SCF_SUCCESS then (r2, privKey\<lparr>pk_keyAuth := ka\<rparr>, rel, st1)
          else (SCF_SUCCESS, privKey\<lparr>pk_keyAuth := ka\<lparr>ka_storeBuf := zero_buf (length (ka_storeBuf ka))\<rparr>\<rparr>, rel, st1))"

text \<open>\<^verbatim>\<open>alloc\<close> is the allocation of the suite string.\<close>

definition SetCipherSuites4PolicyCtx ::
  "'o scf_env \<Rightarrow> (nat \<Rightarrow> string option) \<Rightarrow> SCFPolicyCtx option \<Rightarrow> u16 list \<Rightarrow> 'o \<Rightarrow> ret \<times> 'o" where
  "SetCipherSuites4PolicyCtx se alloc ctx tlsCipherSuites st =
     (if tlsCipherSuites = [] then (SCF_SUCCESS, st)
      else
        let (r, st1) = SCF_SetCipherSuites (se_globals se) (se_mc se) alloc ctx (Some tlsCipherSuites)
              (of_nat (length tlsCipherSuites)) st in
        (if r \<noteq> SCF_SUCCESS then SCF_ERROR else SCF_SUCCESS, st1))"

text \<open>The data pointer of an empty vector may be null; \<^verbatim>\<open>SCF_SetProtocolVersion\<close> gets the vector and its size.\<close>

definition SetProtocolVersion4PolicyCtx ::
  "'o scf_env \<Rightarrow> SCFPolicyCtx option \<Rightarrow> TlsVersion \<Rightarrow> 'o \<Rightarrow> ret \<times> 'o" where
  "SetProtocolVersion4PolicyCtx se ctx tlsVersion st =
     (if tv_maxVersion tlsVersion = 0 \<or> tv_minVersion tlsVersion = 0 then (SCF_SUCCESS, st)
      else
        let (r, st1) = SCF_SetProtocolVersion (se_globals se) ctx (tv_minVersion tlsVersion) (tv_maxVersion tlsVersion)
              (if tv_forbidVersion tlsVersion = [] then None else Some (tv_forbidVersion tlsVersion))
              (of_nat (length (tv_forbidVersion tlsVersion))) st in
        (if r \<noteq> SCF_SUCCESS then SCF_ERROR else SCF_SUCCESS, st1))"

section \<open>The entry point\<close>

definition SetTLS :: "'o scf_env \<Rightarrow> (nat \<Rightarrow> string option) \<Rightarrow> SCFPolicyCtx option \<Rightarrow> Config \<Rightarrow> 'o \<Rightarrow> ret \<times> 'o" where
  "SetTLS se alloc ctx cfg st =
     (let (r, st1) = SetProtocolVersion4PolicyCtx se ctx (cfg_tlsVersion cfg) st in
      if r \<noteq> SCF_SUCCESS then (SCF_ERROR, st1)
      else
        let (r2, st2) = SetCipherSuites4PolicyCtx se alloc ctx (cfg_tlsCipherSuites cfg) st1 in
        if r2 \<noteq> SCF_SUCCESS then (SCF_ERROR, st2) else (SCF_SUCCESS, st2))"

definition SetCertAndKey ::
  "'o scf_env \<Rightarrow> (nat \<Rightarrow> mem_env) \<Rightarrow> mem_env \<Rightarrow> SCFPolicyCtx option \<Rightarrow> Config \<Rightarrow> 'o \<Rightarrow> (ret \<times> Config \<times> string list \<times> 'o) option" where
  "SetCertAndKey se mem me ctx cfg st =
     (case AddCert2PolicyCtx se mem ctx (cfg_certs cfg) st of
        None \<Rightarrow> None
      | Some (r, rel, st1) \<Rightarrow>
          if r \<noteq> SCF_SUCCESS then Some (SCF_ERROR, cfg, rel, st1)
          else
            let (r2, pk, rel2, st2) = SetPrivKeyAndPwd4Ctx se me ctx (cfg_privKey cfg) st1;
                cfg1 = cfg\<lparr>cfg_privKey := pk\<rparr> in
            Some (if r2 \<noteq> SCF_SUCCESS then SCF_ERROR else SCF_SUCCESS, cfg1, rel @ rel2, st2))"

text \<open>The second component is the storage of the vector, which \<^verbatim>\<open>clear\<close> does not give back.\<close>

definition CleanConfig :: "Config \<Rightarrow> Config \<times> string" where
  "CleanConfig cfg =
     (let ka = pk_keyAuth (cfg_privKey cfg) in
      if ka_storeBuf ka \<noteq> []
      then (cfg\<lparr>cfg_privKey := (cfg_privKey cfg)\<lparr>pk_keyAuth := ka\<lparr>ka_storeBuf := []\<rparr>\<rparr>\<rparr>, zero_buf (length (ka_storeBuf ka)))
      else (cfg, []))"

text \<open>The result has the code, the storage of the key password when the configuration goes out of scope,
  the blocks released by file contexts and the state of the library.\<close>

definition SCF_SetConfigFile ::
  "'o scf_env \<Rightarrow> (string \<Rightarrow> json option) \<Rightarrow> (nat \<Rightarrow> string option) \<Rightarrow> (nat \<Rightarrow> mem_env) \<Rightarrow> mem_env
     \<Rightarrow> SCFPolicyCtx option \<Rightarrow> string option \<Rightarrow> 'o \<Rightarrow> (ret \<times> string \<times> string list \<times> 'o) option" where
  "SCF_SetConfigFile se parse alloc mem me ctx config st =
     (if ctx = None \<or> config = None then Some (SCF_ERRNO_NULL_INPUT, [], [], st)
      else if length (cstr (the config)) = 0 then Some (SCF_ERRNO_INVALID_PARAM, [], [], st)
      else
        let filepath = cstr (the config) in
        if \<not> SCF_CheckFilePathAndStat (se_os se) filepath then Some (SCF_ERROR, [], [], st)
        else case SCF_ParseConfig (se_os se) parse filepath Config_init of
          None \<Rightarrow> None
        | Some (r, cfg) \<Rightarrow>
            if r \<noteq> SCF_SUCCESS then Some (SCF_ERROR, snd (CleanConfig cfg), [], st)
            else
              let (r2, st1) = SetTLS se alloc ctx cfg st in
              if r2 \<noteq> SCF_SUCCESS then Some (SCF_ERROR, snd (CleanConfig cfg), [], st1)
              else case SetCertAndKey se mem me ctx cfg st1 of
                None \<Rightarrow> None
              | Some (r3, cfg1, rel, st2) \<Rightarrow>
                  if r3 \<noteq> SCF_SUCCESS then Some (SCF_ERROR, snd (CleanConfig cfg1), rel, st2)
                  else Some (SCF_SUCCESS, ka_storeBuf (pk_keyAuth (cfg_privKey cfg1)), rel, st2))"

end
