(* ===== verification/File_Ctx_Correct.thy ===== *)
theory File_Ctx_Correct
  imports File_Ctx Ossl_Sim
begin

text \<open>
  File contexts keep their blocks terminated and release them only after wiping them.
\<close>

definition all_zero :: "string \<Rightarrow> bool" where
  "all_zero s \<longleftrightarrow> s = zero_buf (length s)"

text \<open>What the code relies on of \<^verbatim>\<open>memcpy_s\<close>, \<^verbatim>\<open>memset_s\<close> and \<^verbatim>\<open>new\<close>.\<close>

definition securec_ok :: "memcpy_fn \<Rightarrow> memset_fn \<Rightarrow> (nat \<Rightarrow> string option) \<Rightarrow> bool" where
  "securec_ok mc ms alloc \<longleftrightarrow> memcpy_s_ok mc \<and> memset_s_ok ms \<and>
     (\<forall>d m s n. m \<le> length d \<and> n \<le> length s \<longrightarrow> length (snd (mc d m s n)) = length d) \<and>
     (\<forall>d s n. fst (mc d 0 s n) \<noteq> 0) \<and> (\<forall>n b. alloc n = Some b \<longrightarrow> length b = n)"

text \<open>A decryption hook reports a failure without leaving plain text behind, and its results are
  shorter than the limit of the securec functions.\<close>

definition hook_ok :: "CryptoUtil \<Rightarrow> bool" where
  "hook_ok cu \<longleftrightarrow> (\<forall>x n. let (ok, out) = Decrypt cu x n [] in length out < 0x7fffffff \<and> (\<not> ok \<longrightarrow> all_zero out))"

lemma securec_ref_ok: "securec_ok memcpy_s_ref memset_s_ref (\<lambda>n. Some (zero_buf n))"
  by (auto simp: securec_ok_def memcpy_s_ref_ok memset_s_ok_def memset_s_ref_def memcpy_s_ref_def)

lemma all_zero_zero_buf [simp]: "all_zero (zero_buf n)"
  by (simp add: all_zero_def)

lemma zero_buf_Suc: "zero_buf (Suc n) = zero_buf n @ [NUL]"
  by (simp add: zero_buf_def replicate_append_same)

lemma wiped_block:
  assumes "memset_s_ok ms" "block_ok (Some s) n" "n \<le> 0x7fffffff"
  shows "all_zero (snd (ms s n n))"
proof -
  from assms(2) have n: "0 < n" "length s = n + 1" "s ! n = NUL" by (simp_all add: block_ok_def)
  then have "ms s n n = (0, zero_buf n @ drop n s)" using assms(1,3) by (simp add: memset_s_ok_def)
  moreover have "drop n s = [NUL]" using n by (simp add: Cons_nth_drop_Suc [symmetric])
  ultimately show ?thesis by (simp add: all_zero_def zero_buf_Suc)
qed

lemma filled_block:
  assumes "memcpy_s_ok mc" "length b = n + 1" "0 < n" "n \<le> 0x7fffffff" "n \<le> length s"
  shows "mc b n s n = (0, take n s @ drop n b) \<and> (take n s @ drop n b)[n := NUL] = take n s @ [NUL]"
proof -
  have "drop (Suc n) b = []" using assms(2) by simp
  then show ?thesis
    using memcpy_s_okD [OF assms(1,3), of b n s] copy_and_terminate [of "take n s" b] assms by simp
qed

lemma block_ok_filled: "n \<le> length s \<Longrightarrow> 0 < n \<Longrightarrow> block_ok (Some (take n s @ [NUL])) n"
  by (simp add: block_ok_def nth_append)

section \<open>Setting the buffer\<close>

definition set_buf_ok :: "os_api \<Rightarrow> SCF_STORE_TYPE \<Rightarrow> string \<Rightarrow> nat \<Rightarrow> SCF_STORE_FORMAT \<Rightarrow> bool" where
  "set_buf_ok os t buf n f \<longleftrightarrow> 0 < n \<and> f = SCF_STORE_FORMAT_PEM \<and>
     (t = SCF_STORE_FILE_PATH \<and> n < PATH_MAX \<and> SCF_CheckFilePathAndStat os (take n buf) \<or>
      t = SCF_STORE_BUFFER \<and> n < BUF_MAX_LEN)"

lemma limits: "0 < PATH_MAX" "0 < BUF_MAX_LEN" "PATH_MAX \<le> 0x7fffffff" "BUF_MAX_LEN \<le> 0x7fffffff"
  by (simp_all add: PATH_MAX_def BUF_MAX_LEN_def MAX_FILE_SIZE_def)

lemma CheckFileCtxBufInput_iff:
  "CheckFileCtxBufInput os (Some c) t (Some buf) n f = SCF_SUCCESS \<longleftrightarrow> set_buf_ok os t buf n f"
  using limits(1,2)
  by (cases t) (auto simp: CheckFileCtxBufInput_def set_buf_ok_def errno SCF_SUCCESS_def)

lemma SetBuf_success:
  assumes "g_scfInitialized g" "securec_ok mc ms alloc" "n \<le> length buf" "alloc (n + 1) = Some b" "set_buf_ok os t buf n f"
  shows "SCF_FileCtxSetBuf g os mc ms alloc (Some c) t (Some buf) n f =
    (SCF_SUCCESS, Some (c\<lparr>fc_storeType := t, fc_buf := Some (take n buf @ [NUL]), fc_bufLen := n, fc_format := f\<rparr>),
     if fc_buf c \<noteq> None \<and> fc_bufLen c \<noteq> 0 then [snd (ms (the (fc_buf c)) (fc_bufLen c) (fc_bufLen c))] else [])"
proof -
  have n: "0 < n" "n \<le> 0x7fffffff" and t: "t = SCF_STORE_BUFFER \<or> t = SCF_STORE_FILE_PATH" and f: "f = SCF_STORE_FORMAT_PEM"
    using assms(5) limits by (auto simp: set_buf_ok_def)
  have "mc b n buf n = (0, take n buf @ drop n b)" "(take n buf @ drop n b)[n := NUL] = take n buf @ [NUL]"
    using filled_block [of mc b n buf] assms n by (simp_all add: securec_ok_def)
  moreover have "CheckFileCtxBufInput os (Some c) t (Some buf) n f = SCF_SUCCESS"
    using assms(5) CheckFileCtxBufInput_iff by blast
  ultimately show ?thesis
    using assms(1,4) n t f by (auto simp: SCF_FileCtxSetBuf_def)
qed

lemma SetBuf_refused:
  assumes "\<not> (g_scfInitialized g \<and> alloc (n + 1) \<noteq> None \<and> set_buf_ok os t buf n f)"
  shows "\<exists>r. r \<noteq> SCF_SUCCESS \<and> SCF_FileCtxSetBuf g os mc ms alloc (Some c) t (Some buf) n f = (r, Some c, [])"
proof (cases "0 < n \<and> (t = SCF_STORE_BUFFER \<or> t = SCF_STORE_FILE_PATH) \<and> f = SCF_STORE_FORMAT_PEM \<and> g_scfInitialized g")
  case True
  show ?thesis
  proof (cases "set_buf_ok os t buf n f")
    case False
    then have "CheckFileCtxBufInput os (Some c) t (Some buf) n f \<noteq> SCF_SUCCESS" using CheckFileCtxBufInput_iff by blast
    then show ?thesis using True by (auto simp: SCF_FileCtxSetBuf_def)
  next
    case ok: True
    then have "CheckFileCtxBufInput os (Some c) t (Some buf) n f = SCF_SUCCESS" using CheckFileCtxBufInput_iff by blast
    moreover have "alloc (n + 1) = None" using assms True ok by blast
    ultimately show ?thesis using True by (auto simp: SCF_FileCtxSetBuf_def errno SCF_SUCCESS_def)
  qed
next
  case False
  then show ?thesis
    by (cases "g_scfInitialized g") (auto simp: SCF_FileCtxSetBuf_def errno SCF_SUCCESS_def)
qed

text \<open>Setting the content of a file context succeeds exactly when the library is initialised, memory is
  available, the format is PEM and the content is an acceptable path or a buffer below the size limit;
  then the context holds the bytes with a terminator behind them, and otherwise it is untouched and no
  memory is released.\<close>

theorem SCF_FileCtxSetBuf_exact:
  assumes "securec_ok mc ms alloc" "n \<le> length buf"
    and "SCF_FileCtxSetBuf g os mc ms alloc (Some c) t (Some buf) n f = (r, c', freed)"
  shows "(r = SCF_SUCCESS \<longleftrightarrow> g_scfInitialized g \<and> alloc (n + 1) \<noteq> None \<and> set_buf_ok os t buf n f) \<and>
    (r = SCF_SUCCESS \<longrightarrow>
       c' = Some (c\<lparr>fc_storeType := t, fc_buf := Some (take n buf @ [NUL]), fc_bufLen := n, fc_format := f\<rparr>)) \<and>
    (r \<noteq> SCF_SUCCESS \<longrightarrow> c' = Some c \<and> freed = [])"
proof (cases "g_scfInitialized g \<and> alloc (n + 1) \<noteq> None \<and> set_buf_ok os t buf n f")
  case True
  then obtain b where b: "alloc (n + 1) = Some b" by blast
  from True SetBuf_success [OF _ assms(1,2) b, of g os t f c] assms(3) show ?thesis by force
next
  case False
  with SetBuf_refused [of g alloc n os t buf f mc ms c] assms(3) show ?thesis by fastforce
qed

section \<open>Setting the password\<close>

text \<open>The plain text of a password argument and whether it is available.\<close>

definition pwd_plain :: "CryptoUtil \<Rightarrow> string \<Rightarrow> nat \<Rightarrow> bool \<Rightarrow> bool \<times> string" where
  "pwd_plain cu pw n isCipher = (if isCipher then Decrypt cu pw n [] else (True, take n pw))"

lemma SetPwd_cases:
  assumes "securec_ok mc ms alloc" "hook_ok cu" "n \<le> length pw" "n < 0x7fffffff"
    and "SCF_FileCtxSetPwd g cu mc ms alloc (Some c) (Some pw) n isCipher = (r, c', freed)"
  shows "(c' = Some c \<and> (\<forall>b \<in> set freed. all_zero b)) \<or>
    (\<exists>plain. pwd_plain cu pw n isCipher = (True, plain) \<and> 0 < length plain \<and> length plain < 0x7fffffff \<and> r = SCF_SUCCESS \<and>
       c' = Some (c\<lparr>fc_passwd := Some (plain @ [NUL]), fc_passwdLen := length plain\<rparr>) \<and>
       freed = zero_buf (length plain) #
         (if fc_passwd c \<noteq> None \<and> fc_passwdLen c \<noteq> 0 then [snd (ms (the (fc_passwd c)) (fc_passwdLen c) (fc_passwdLen c))] else []))"
proof (cases "g_scfInitialized g \<and> n \<noteq> 0")
  case False
  then show ?thesis using assms(5) by (cases "g_scfInitialized g") (auto simp: SCF_FileCtxSetPwd_def)
next
  case True
  obtain ok plain where pl: "pwd_plain cu pw n isCipher = (ok, plain)" by (metis prod.exhaust)
  have len: "length plain < 0x7fffffff" "\<not> ok \<longrightarrow> all_zero plain"
    using assms(2,3,4) pl by (auto simp: pwd_plain_def hook_ok_def Let_def split: if_splits prod.splits)
  note run = assms(5) [unfolded SCF_FileCtxSetPwd_def pwd_plain_def [symmetric] pl]
  show ?thesis
  proof (cases "alloc (length plain + 1)")
    case None
    then show ?thesis using run True pl len by (auto simp: Let_def split: if_splits)
  next
    case (Some b)
    then have b: "length b = length plain + 1" using assms(1) by (simp add: securec_ok_def)
    obtain e np where m: "mc b (length plain) plain (length plain) = (e, np)" by (metis prod.exhaust)
    have np: "length np = length plain + 1" using assms(1) b m unfolding securec_ok_def by (metis le_add1 order_refl snd_conv)
    have w: "all_zero (snd (ms np (length plain + 1) (length plain + 1)))"
      using assms(1) np len(1) by (simp add: securec_ok_def memset_s_ok_def)
    show ?thesis
    proof (cases "e = 0 \<and> plain \<noteq> []")
      case e: True
      then have "np[length plain := NUL] = plain @ [NUL]"
        using filled_block [of mc b "length plain" plain] assms(1) b len(1) m by (simp add: securec_ok_def)
      with e show ?thesis using run True m Some pl len w by (auto simp: Let_def split: if_splits)
    next
      case False
      moreover have "plain = [] \<longrightarrow> e \<noteq> 0" using m assms(1) unfolding securec_ok_def by (metis fst_conv list.size(3))
      ultimately have "e \<noteq> 0" by blast
      with run True m Some pl len w show ?thesis by (auto simp: Let_def split: if_splits)
    qed
  qed
qed

section \<open>All sequences of operations\<close>

text \<open>The contexts a caller can have, with the blocks released on the way: a new context, changed by any
  calls of the two setters with arguments whose lengths are true.\<close>

inductive fc_reach for g os cu mc ms alloc where
  new: "SCF_FileCtxNew g False True = Some c \<Longrightarrow> fc_reach g os cu mc ms alloc c []"
| set_buf: "fc_reach g os cu mc ms alloc c rel \<Longrightarrow> n \<le> length buf \<Longrightarrow>
    SCF_FileCtxSetBuf g os mc ms alloc (Some c) t (Some buf) n f = (r, Some c', freed) \<Longrightarrow>
    fc_reach g os cu mc ms alloc c' (rel @ freed)"
| set_pwd: "fc_reach g os cu mc ms alloc c rel \<Longrightarrow> n \<le> length pw \<Longrightarrow> n < 0x7fffffff \<Longrightarrow>
    SCF_FileCtxSetPwd g cu mc ms alloc (Some c) (Some pw) n isCipher = (r, Some c', freed) \<Longrightarrow>
    fc_reach g os cu mc ms alloc c' (rel @ freed)"

definition sizes_ok :: "SCFFileCtx \<Rightarrow> bool" where
  "sizes_ok c \<longleftrightarrow> file_ctx_ok c \<and> fc_bufLen c < 0x7fffffff \<and> fc_passwdLen c < 0x7fffffff"

lemma old_block_wiped:
  assumes "memset_s_ok ms" "block_ok b n" "n < 0x7fffffff"
  shows "\<forall>x \<in> set (if b \<noteq> None \<and> n \<noteq> 0 then [snd (ms (the b) n n)] else []). all_zero x"
  using assms wiped_block by (cases b) auto

lemma SetBuf_keeps:
  assumes "securec_ok mc ms alloc" "n \<le> length buf" "sizes_ok c"
    and "SCF_FileCtxSetBuf g os mc ms alloc (Some c) t (Some buf) n f = (r, Some c', freed)"
  shows "sizes_ok c' \<and> (\<forall>b \<in> set freed. all_zero b)"
proof (cases "g_scfInitialized g \<and> alloc (n + 1) \<noteq> None \<and> set_buf_ok os t buf n f")
  case True
  then obtain b where b: "alloc (n + 1) = Some b" by blast
  have ok: "0 < n" "n < 0x7fffffff" "t \<in> {SCF_STORE_FILE_PATH, SCF_STORE_BUFFER}" "f = SCF_STORE_FORMAT_PEM"
    using True limits by (auto simp: set_buf_ok_def)
  have "c' = c\<lparr>fc_storeType := t, fc_buf := Some (take n buf @ [NUL]), fc_bufLen := n, fc_format := f\<rparr>"
    and fr: "freed = (if fc_buf c \<noteq> None \<and> fc_bufLen c \<noteq> 0 then [snd (ms (the (fc_buf c)) (fc_bufLen c) (fc_bufLen c))] else [])"
    using SetBuf_success [OF _ assms(1,2) b, of g os t f c] True assms(4) by simp_all
  moreover have "\<forall>x \<in> set freed. all_zero x"
    unfolding fr by (rule old_block_wiped) (use assms(1,3) in \<open>simp_all add: securec_ok_def sizes_ok_def file_ctx_ok_def\<close>)
  ultimately show ?thesis using assms(2,3) ok block_ok_filled [OF assms(2)] by (simp add: sizes_ok_def file_ctx_ok_def)
next
  case False
  with SetBuf_refused [of g alloc n os t buf f mc ms c] assms(3,4) show ?thesis by fastforce
qed

lemma SetPwd_keeps:
  assumes "securec_ok mc ms alloc" "hook_ok cu" "n \<le> length pw" "n < 0x7fffffff" "sizes_ok c"
    and "SCF_FileCtxSetPwd g cu mc ms alloc (Some c) (Some pw) n isCipher = (r, Some c', freed)"
  shows "sizes_ok c' \<and> (\<forall>b \<in> set freed. all_zero b)"
  using SetPwd_cases [OF assms(1-4,6)]
proof (elim disjE exE conjE)
  fix plain
  assume p: "0 < length plain" "length plain < 0x7fffffff"
    and c': "Some c' = Some (c\<lparr>fc_passwd := Some (plain @ [NUL]), fc_passwdLen := length plain\<rparr>)"
    and fr: "freed = zero_buf (length plain) #
      (if fc_passwd c \<noteq> None \<and> fc_passwdLen c \<noteq> 0 then [snd (ms (the (fc_passwd c)) (fc_passwdLen c) (fc_passwdLen c))] else [])"
  have "\<forall>x \<in> set (if fc_passwd c \<noteq> None \<and> fc_passwdLen c \<noteq> 0 then [snd (ms (the (fc_passwd c)) (fc_passwdLen c) (fc_passwdLen c))] else []).
      all_zero x"
    by (rule old_block_wiped) (use assms(1,5) in \<open>simp_all add: securec_ok_def sizes_ok_def file_ctx_ok_def\<close>)
  then show ?thesis using p c' fr assms(5) by (simp add: sizes_ok_def file_ctx_ok_def block_ok_def)
qed (use assms(5) in simp)

lemma fc_reach_ok:
  assumes "fc_reach g os cu mc ms alloc c rel" "securec_ok mc ms alloc" "hook_ok cu"
  shows "sizes_ok c \<and> (\<forall>b \<in> set rel. all_zero b)"
  using assms(1)
proof induction
  case (new c)
  then show ?case
    by (auto simp: SCF_FileCtxNew_def sizes_ok_def file_ctx_ok_def block_ok_def split: if_splits)
next
  case (set_buf c rel n buf t f r c' freed)
  then have "sizes_ok c" by simp
  from SetBuf_keeps [OF assms(2) set_buf(2) this set_buf(3)] set_buf.IH show ?case by auto
next
  case (set_pwd c rel n pw isCipher r c' freed)
  then have "sizes_ok c" by simp
  from SetPwd_keeps [OF assms(2,3) set_pwd(2,3) this set_pwd(4)] set_pwd.IH show ?case by auto
qed

lemma Free_wiped:
  assumes "sizes_ok c" "memset_s_ok ms"
  shows "\<forall>b \<in> set (snd (SCF_FileCtxFree ms (Some (Some c)))). all_zero b"
proof -
  have "block_ok (fc_buf c) (fc_bufLen c)" "fc_bufLen c < 0x7fffffff"
    "block_ok (fc_passwd c) (fc_passwdLen c)" "fc_passwdLen c < 0x7fffffff"
    using assms(1) by (simp_all add: sizes_ok_def file_ctx_ok_def)
  from old_block_wiped [OF assms(2) this(1,2)] old_block_wiped [OF assms(2) this(3,4)] show ?thesis
    by (auto simp: SCF_FileCtxFree_def)
qed



end
