(* ===== verification/Parse_Config_Correct.thy ===== *)
theory Parse_Config_Correct
  imports Parse_Config File_Ctx_Correct
begin

text \<open>
  What the configuration parser accepts, when it violates the contract of the JSON library, and that
  applying a configuration leaves no password behind.
\<close>

section \<open>Valid configurations and their documents\<close>

definition version_ok :: "u32 \<Rightarrow> bool" where
  "version_ok v \<longleftrightarrow> v \<in> {SCF_SSL_VERSION_TLS12, SCF_SSL_VERSION_TLS13}"

definition path_ok :: "os_api \<Rightarrow> string \<Rightarrow> bool" where
  "path_ok os p \<longleftrightarrow> NUL \<notin> set p \<and> SCF_CheckFilePathAndStat os p"

definition tls_version_valid :: "TlsVersion \<Rightarrow> bool" where
  "tls_version_valid tv \<longleftrightarrow> tv = cfg_tlsVersion Config_init \<or>
     version_ok (tv_minVersion tv) \<and> version_ok (tv_maxVersion tv) \<and> length (tv_forbidVersion tv) \<le> 5 \<and>
     list_all version_ok (tv_forbidVersion tv)"

definition suites_valid :: "u16 list \<Rightarrow> bool" where
  "suites_valid cs \<longleftrightarrow> length cs \<le> 20 \<and> set cs \<subseteq> snd ` set cipherMap"

definition cert_valid :: "os_api \<Rightarrow> Cert \<Rightarrow> bool" where
  "cert_valid os c \<longleftrightarrow> cert_certType c \<in> fst ` set tlsCertTypeMap \<and> path_ok os (cert_storeBuf c)"

definition priv_key_valid :: "os_api \<Rightarrow> PrivKey \<Rightarrow> bool" where
  "priv_key_valid os pk \<longleftrightarrow> pk = cfg_privKey Config_init \<or> path_ok os (pk_storeBuf pk) \<and> NUL \<notin> set (ka_storeBuf (pk_keyAuth pk))"

definition config_valid :: "os_api \<Rightarrow> Config \<Rightarrow> bool" where
  "config_valid os cfg \<longleftrightarrow> tls_version_valid (cfg_tlsVersion cfg) \<and> suites_valid (cfg_tlsCipherSuites cfg) \<and>
     list_all (cert_valid os) (cfg_certs cfg) \<and> priv_key_valid os (cfg_privKey cfg)"

definition version_json :: "u32 \<Rightarrow> json" where
  "version_json v = JString (if v = SCF_SSL_VERSION_TLS12 then ''SSL_VERSION_TLS12'' else ''SSL_VERSION_TLS13'')"

definition suite_json :: "u16 \<Rightarrow> json" where
  "suite_json s = JString (the (map_of (map prod.swap cipherMap) s))"

definition cert_json :: "Cert \<Rightarrow> json" where
  "cert_json c = JObject [(CERT, JObject [(CERT_TYPE, JString (cert_certType c)), (STORE_BUF, JString (cert_storeBuf c))])]"

definition key_json :: "PrivKey \<Rightarrow> json" where
  "key_json pk = JObject [(STORE_BUF, JString (pk_storeBuf pk)),
     (KEY_AUTH, JObject [(STORE_BUF, JString (ka_storeBuf (pk_keyAuth pk))), (IS_CIPHER, JBool (ka_isCipher (pk_keyAuth pk)))])]"

definition tls_json :: "TlsVersion \<Rightarrow> json" where
  "tls_json tv = JObject [(MIN_VERSION, version_json (tv_minVersion tv)), (MAX_VERSION, version_json (tv_maxVersion tv)),
     (FORBID_VERSION, JArray (map version_json (tv_forbidVersion tv)))]"

definition config_json :: "Config \<Rightarrow> json" where
  "config_json cfg = JObject
     ((if cfg_tlsVersion cfg = cfg_tlsVersion Config_init then [] else [(TLS_VERSION, tls_json (cfg_tlsVersion cfg))]) @
      (if cfg_tlsCipherSuites cfg = [] then [] else [(TLS_CIPHER_SUITES, JArray (map suite_json (cfg_tlsCipherSuites cfg)))]) @
      [(CERTS, JArray (map cert_json (cfg_certs cfg)))] @
      (if cfg_privKey cfg = cfg_privKey Config_init then [] else [(PRIVATE_KEY, key_json (cfg_privKey cfg))]))"

section \<open>Printing and parsing the members\<close>

lemma version_print: "version_ok v \<Longrightarrow> IsString (version_json v) \<and> map_of tlsVersionMap (GetString (version_json v)) = Some v"
  by (auto simp: version_ok_def version_json_def tlsVersionMap_def cstr_def NUL_def scf_const)

lemma version_known: "map_of tlsVersionMap s = Some v \<Longrightarrow> version_ok v"
  by (auto simp: tlsVersionMap_def version_ok_def split: if_splits)

lemma suite_print:
  assumes "s \<in> snd ` set cipherMap"
  shows "IsString (suite_json s) \<and> map_of cipherMap (GetString (suite_json s)) = Some s"
  using assms by (auto simp: cipherMap_def suite_json_def scf_const cstr_def NUL_def)

lemma suite_known: "map_of cipherMap n = Some s \<Longrightarrow> s \<in> snd ` set cipherMap"
  by (metis map_of_SomeD image_eqI snd_conv)

lemma forbid_loop_print:
  "list_all version_ok vs \<Longrightarrow>
   FillTlsForbidVersion_loop (map version_json vs) tv = (SCF_SUCCESS, tv\<lparr>tv_forbidVersion := tv_forbidVersion tv @ vs\<rparr>)"
  by (induction vs arbitrary: tv) (auto simp: version_print)

lemma forbid_loop_sound:
  "FillTlsForbidVersion_loop js tv = (SCF_SUCCESS, tv') \<Longrightarrow>
   \<exists>vs. tv' = tv\<lparr>tv_forbidVersion := tv_forbidVersion tv @ vs\<rparr> \<and> list_all version_ok vs \<and> length vs = length js"
proof (induction js arbitrary: tv)
  case (Cons j js)
  then obtain f where f: "map_of tlsVersionMap (GetString j) = Some f"
    "FillTlsForbidVersion_loop js (tv\<lparr>tv_forbidVersion := tv_forbidVersion tv @ [f]\<rparr>) = (SCF_SUCCESS, tv')"
    by (auto simp: SCF_SUCCESS_def SCF_ERROR_def split: if_splits option.splits)
  from Cons.IH [OF f(2)] obtain vs where
    "tv' = tv\<lparr>tv_forbidVersion := tv_forbidVersion tv @ f # vs\<rparr>" "list_all version_ok vs" "length vs = length js"
    by auto
  then show ?case using version_known [OF f(1)] by (intro exI [of _ "f # vs"]) simp
qed simp

lemma suites_loop_print:
  "set cs \<subseteq> snd ` set cipherMap \<Longrightarrow> FillTlsCipherSuites_loop (map suite_json cs) out = (SCF_SUCCESS, out @ cs)"
  by (induction cs arbitrary: out) (use suite_print in auto)

lemma suites_loop_sound:
  "FillTlsCipherSuites_loop js out = (SCF_SUCCESS, out') \<Longrightarrow>
   \<exists>cs. out' = out @ cs \<and> set cs \<subseteq> snd ` set cipherMap \<and> length cs = length js"
proof (induction js arbitrary: out)
  case (Cons j js)
  then obtain s where s: "map_of cipherMap (GetString j) = Some s" "FillTlsCipherSuites_loop js (out @ [s]) = (SCF_SUCCESS, out')"
    by (auto simp: SCF_SUCCESS_def SCF_ERROR_def split: if_splits option.splits)
  from Cons.IH [OF s(2)] obtain cs where "out' = out @ s # cs" "set cs \<subseteq> snd ` set cipherMap" "length cs = length js"
    by auto
  then show ?case using suite_known [OF s(1)] by (intro exI [of _ "s # cs"]) simp
qed simp

lemma CheckCertType_iff: "CheckCertType t = SCF_SUCCESS \<longleftrightarrow> t \<in> fst ` set tlsCertTypeMap"
  by (auto simp: CheckCertType_def SCF_SUCCESS_def SCF_ERROR_def tlsCertTypeMap_def split: if_splits)

lemma cert_type_no_NUL: "t \<in> fst ` set tlsCertTypeMap \<Longrightarrow> cstr t = t"
  by (auto simp: tlsCertTypeMap_def cstr_def NUL_def)

lemmas member_names = CERT_def CERT_TYPE_def STORE_BUF_def KEY_AUTH_def IS_CIPHER_def MIN_VERSION_def MAX_VERSION_def
  FORBID_VERSION_def TLS_VERSION_def TLS_CIPHER_SUITES_def CERTS_def PRIVATE_KEY_def

lemma certs_loop_print:
  "list_all (cert_valid os) cs \<Longrightarrow> FillCerts_loop os (map cert_json cs) out = (SCF_SUCCESS, out @ cs)"
proof (induction cs arbitrary: out)
  case (Cons c cs)
  then show ?case
    by (auto simp: cert_json_def member_names cert_valid_def path_ok_def CheckCertType_iff cert_type_no_NUL cstr_id)
qed simp

lemma certs_loop_sound:
  "FillCerts_loop os js out = (SCF_SUCCESS, out') \<Longrightarrow> \<exists>cs. out' = out @ cs \<and> list_all (cert_valid os) cs"
proof (induction js arbitrary: out)
  case (Cons j js)
  define c where "c = the (GetMember j CERT)"
  define t where "t = GetString (the (GetMember c CERT_TYPE))"
  define p where "p = GetString (the (GetMember c STORE_BUF))"
  have step: "CheckCertType t = SCF_SUCCESS" "SCF_CheckFilePathAndStat os p"
      "FillCerts_loop os js (out @ [\<lparr> cert_certType = t, cert_storeBuf = p \<rparr>]) = (SCF_SUCCESS, out')"
    using Cons.prems by (auto simp: c_def t_def p_def Let_def SCF_SUCCESS_def SCF_ERROR_def split: if_splits)
  moreover have "NUL \<notin> set p" by (cases "the (GetMember c STORE_BUF)") (simp_all add: p_def)
  ultimately have "cert_valid os \<lparr> cert_certType = t, cert_storeBuf = p \<rparr>"
    by (simp add: cert_valid_def path_ok_def CheckCertType_iff)
  with Cons.IH [OF step(3)] show ?case by auto
qed simp

lemma GetString_no_NUL: "NUL \<notin> set (GetString j)"
  by (cases j) simp_all

lemma SCF_ParseTLSVersion_print:
  assumes "version_ok (tv_minVersion tv)" "version_ok (tv_maxVersion tv)" "length (tv_forbidVersion tv) \<le> 5"
    "list_all version_ok (tv_forbidVersion tv)"
  shows "SCF_ParseTLSVersion (tls_json tv) (cfg_tlsVersion Config_init) = Some (SCF_SUCCESS, tv)"
  using version_print [OF assms(1)] version_print [OF assms(2)] assms(3) forbid_loop_print [OF assms(4)]
  by (simp add: SCF_ParseTLSVersion_def tls_json_def member_names FillTlsVersion_def FillTlsForbidVersion_def
      MAX_FORBIN_VERSION_LENGTH_def Config_init_def)

lemma SCF_ParseTLSVersion_sound:
  assumes "SCF_ParseTLSVersion v (cfg_tlsVersion Config_init) = Some (SCF_SUCCESS, tv)"
  shows "tls_version_valid tv"
proof -
  let ?fs = "GetArray (the (GetMember v FORBID_VERSION))"
  obtain tv1 where fill: "FillTlsVersion v (cfg_tlsVersion Config_init) = (SCF_SUCCESS, tv1)"
    and forbid: "FillTlsForbidVersion_loop ?fs tv1 = (SCF_SUCCESS, tv)" and len: "length ?fs \<le> 5"
    using assms by (auto simp: SCF_ParseTLSVersion_def FillTlsForbidVersion_def Let_def MAX_FORBIN_VERSION_LENGTH_def
        SCF_SUCCESS_def SCF_ERROR_def split: if_splits prod.splits)
  from fill have "version_ok (tv_minVersion tv1)" "version_ok (tv_maxVersion tv1)" "tv_forbidVersion tv1 = []"
    by (auto simp: FillTlsVersion_def Let_def Config_init_def SCF_SUCCESS_def SCF_ERROR_def dest!: version_known split: option.splits)
  with forbid_loop_sound [OF forbid] len show ?thesis by (auto simp: tls_version_valid_def)
qed

lemma SCF_ParseTLSCiphersuites_print:
  assumes "suites_valid cs" "cs \<noteq> []"
  shows "SCF_ParseTLSCiphersuites (JArray (map suite_json cs)) [] = (SCF_SUCCESS, cs)"
  using assms by (simp add: SCF_ParseTLSCiphersuites_def FillTlsCipherSuites_def suites_valid_def suites_loop_print
      MAX_TLS_CIPHER_SUITES_LENGTH_def)

lemma SCF_ParseTLSCiphersuites_sound:
  assumes "SCF_ParseTLSCiphersuites v [] = (SCF_SUCCESS, cs)"
  shows "suites_valid cs"
proof -
  have "FillTlsCipherSuites_loop (GetArray v) [] = (SCF_SUCCESS, cs)" "length (GetArray v) \<le> 20"
    using assms by (auto simp: SCF_ParseTLSCiphersuites_def FillTlsCipherSuites_def MAX_TLS_CIPHER_SUITES_LENGTH_def
        SCF_SUCCESS_def SCF_ERROR_def split: if_splits prod.splits)
  with suites_loop_sound [OF this(1)] show ?thesis by (auto simp: suites_valid_def)
qed

lemma SCF_ParsePrivKeyJson_print:
  assumes "path_ok os (pk_storeBuf pk)" "NUL \<notin> set (ka_storeBuf (pk_keyAuth pk))"
  shows "SCF_ParsePrivKeyJson os (key_json pk) (cfg_privKey Config_init) = (SCF_SUCCESS, pk)"
  using assms
  by (simp add: SCF_ParsePrivKeyJson_def SCF_ParseKeyAuthJson_def key_json_def member_names path_ok_def cstr_id Config_init_def)

lemma SCF_ParsePrivKeyJson_sound:
  assumes "SCF_ParsePrivKeyJson os v (cfg_privKey Config_init) = (SCF_SUCCESS, pk)"
  shows "priv_key_valid os pk"
  using assms GetString_no_NUL
  by (auto simp: SCF_ParsePrivKeyJson_def SCF_ParseKeyAuthJson_def priv_key_valid_def path_ok_def Let_def Config_init_def
      SCF_SUCCESS_def SCF_ERROR_def split: if_splits)

section \<open>The whole document\<close>

lemma config_json_members:
  "GetMember (config_json cfg) TLS_VERSION =
     (if cfg_tlsVersion cfg = cfg_tlsVersion Config_init then None else Some (tls_json (cfg_tlsVersion cfg)))"
  "GetMember (config_json cfg) TLS_CIPHER_SUITES =
     (if cfg_tlsCipherSuites cfg = [] then None else Some (JArray (map suite_json (cfg_tlsCipherSuites cfg))))"
  "GetMember (config_json cfg) CERTS = Some (JArray (map cert_json (cfg_certs cfg)))"
  "GetMember (config_json cfg) PRIVATE_KEY =
     (if cfg_privKey cfg = cfg_privKey Config_init then None else Some (key_json (cfg_privKey cfg)))"
  by (simp_all add: config_json_def member_names)

lemma ParseTLS_print:
  assumes "config_valid os cfg"
  shows "ParseTLS (config_json cfg) Config_init =
    Some (SCF_SUCCESS, Config_init\<lparr>cfg_tlsVersion := cfg_tlsVersion cfg, cfg_tlsCipherSuites := cfg_tlsCipherSuites cfg\<rparr>)"
proof -
  have "cfg_tlsVersion cfg \<noteq> cfg_tlsVersion Config_init \<Longrightarrow>
      SCF_ParseTLSVersion (tls_json (cfg_tlsVersion cfg)) (cfg_tlsVersion Config_init) = Some (SCF_SUCCESS, cfg_tlsVersion cfg)"
    using assms SCF_ParseTLSVersion_print by (simp add: config_valid_def tls_version_valid_def)
  moreover have "cfg_tlsCipherSuites cfg \<noteq> [] \<Longrightarrow>
      SCF_ParseTLSCiphersuites (JArray (map suite_json (cfg_tlsCipherSuites cfg))) [] = (SCF_SUCCESS, cfg_tlsCipherSuites cfg)"
    using assms SCF_ParseTLSCiphersuites_print by (simp add: config_valid_def)
  moreover have "IsObject (config_json cfg)" "cfg_tlsCipherSuites Config_init = []"
    by (simp_all add: config_json_def Config_init_def)
  ultimately show ?thesis
    by (auto simp: ParseTLS_def config_json_members Config_init_def)
qed

lemma ParseCertAndKey_print:
  assumes "config_valid os cfg" "cfg_certs cfg0 = []" "cfg_privKey cfg0 = cfg_privKey Config_init"
  shows "ParseCertAndKey os (config_json cfg) cfg0 =
    Some (SCF_SUCCESS, cfg0\<lparr>cfg_certs := cfg_certs cfg, cfg_privKey := cfg_privKey cfg\<rparr>)"
proof -
  have "SCF_ParseCertsJson os (JArray (map cert_json (cfg_certs cfg))) [] = (SCF_SUCCESS, cfg_certs cfg)"
    using assms(1) certs_loop_print [of os "cfg_certs cfg" "[]"]
    by (simp add: config_valid_def SCF_ParseCertsJson_def FillCerts_def)
  moreover have "cfg_privKey cfg \<noteq> cfg_privKey Config_init \<Longrightarrow>
      SCF_ParsePrivKeyJson os (key_json (cfg_privKey cfg)) (cfg_privKey Config_init) = (SCF_SUCCESS, cfg_privKey cfg)"
    using assms(1) SCF_ParsePrivKeyJson_print by (simp add: config_valid_def priv_key_valid_def)
  moreover have "IsObject (config_json cfg)" by (simp add: config_json_def)
  ultimately show ?thesis
    using assms(2,3) by (auto simp: ParseCertAndKey_def config_json_members)
qed

lemma ParseTLS_sound:
  assumes "ParseTLS doc Config_init = Some (SCF_SUCCESS, cfg)"
  shows "tls_version_valid (cfg_tlsVersion cfg) \<and> suites_valid (cfg_tlsCipherSuites cfg) \<and>
    cfg_certs cfg = [] \<and> cfg_privKey cfg = cfg_privKey Config_init"
proof -
  have init: "tls_version_valid (cfg_tlsVersion Config_init)" "suites_valid []" "cfg_tlsCipherSuites Config_init = []" "cfg_certs Config_init = []"
    by (simp_all add: tls_version_valid_def suites_valid_def Config_init_def)
  show ?thesis using assms init SCF_ParseTLSVersion_sound SCF_ParseTLSCiphersuites_sound
    by (auto simp: ParseTLS_def Let_def SCF_SUCCESS_def SCF_ERROR_def split: if_splits option.splits prod.splits)
qed

lemma ParseCertAndKey_sound:
  assumes "ParseCertAndKey os doc cfg = Some (SCF_SUCCESS, cfg')" "cfg_certs cfg = []" "cfg_privKey cfg = cfg_privKey Config_init"
  shows "list_all (cert_valid os) (cfg_certs cfg') \<and> priv_key_valid os (cfg_privKey cfg') \<and>
    cfg_tlsVersion cfg' = cfg_tlsVersion cfg \<and> cfg_tlsCipherSuites cfg' = cfg_tlsCipherSuites cfg"
proof -
  have certs: "list_all (cert_valid os) cs" if "SCF_ParseCertsJson os v [] = (SCF_SUCCESS, cs)" for v cs
    using that certs_loop_sound [of os "GetArray v" "[]"]
    by (auto simp: SCF_ParseCertsJson_def FillCerts_def SCF_SUCCESS_def SCF_ERROR_def split: if_splits prod.splits)
  have "priv_key_valid os (cfg_privKey Config_init)" by (simp add: priv_key_valid_def)
  then show ?thesis using assms certs SCF_ParsePrivKeyJson_sound
    by (auto simp: ParseCertAndKey_def Let_def SCF_SUCCESS_def SCF_ERROR_def split: if_splits option.splits prod.splits)
qed





section \<open>Secrets\<close>

lemma SetBuf_shape:
  "\<exists>r c' freed. SCF_FileCtxSetBuf g os mc ms alloc (Some c) t b n f = (r, Some c', freed)"
  by (auto simp: SCF_FileCtxSetBuf_def Let_def split: option.splits prod.splits)

lemma SetPwd_shape:
  "\<exists>r c' freed. SCF_FileCtxSetPwd g cu mc ms alloc (Some c) b n f = (r, Some c', freed)"
  by (auto simp: SCF_FileCtxSetPwd_def Let_def split: option.splits prod.splits)

lemma new_sizes_ok: "SCF_FileCtxNew g oom cleared = Some c \<Longrightarrow> sizes_ok c"
  by (auto simp: SCF_FileCtxNew_def sizes_ok_def file_ctx_ok_def block_ok_def split: if_splits)

lemma new_free: "SCF_FileCtxNew g oom cleared = Some c \<Longrightarrow> SCF_FileCtxFree ms (Some (Some c)) = (Some None, [])"
  by (auto simp: SCF_FileCtxNew_def SCF_FileCtxFree_def split: if_splits)

definition mem_ok :: "'o scf_env \<Rightarrow> mem_env \<Rightarrow> bool" where
  "mem_ok se me \<longleftrightarrow> securec_ok (se_mc se) (se_ms se) (me_buf me) \<and> securec_ok (se_mc se) (se_ms se) (me_pwd me)"

lemma mem_okD:
  assumes "mem_ok se me"
  shows "memset_s_ok (se_ms se)" "securec_ok (se_mc se) (se_ms se) (me_buf me)" "securec_ok (se_mc se) (se_ms se) (me_pwd me)"
  using assms by (simp_all add: mem_ok_def securec_ok_def)

lemma AddCertInner_wipes:
  assumes "mem_ok se me" "sizes_ok c" "AddCertInner se me ctx (Some c) storeBuf cert st = Some (r, fc, freed, st')"
  shows "\<exists>c'. fc = Some c' \<and> sizes_ok c' \<and> (\<forall>b \<in> set freed. all_zero b)"
proof -
  obtain r1 c1 f1 where set: "SCF_FileCtxSetBuf (se_globals se) (se_os se) (se_mc se) (se_ms se) (me_buf me) (Some c)
      SCF_STORE_FILE_PATH (Some storeBuf) (length (cstr storeBuf)) SCF_STORE_FORMAT_PEM = (r1, Some c1, f1)"
    using SetBuf_shape by blast
  have "sizes_ok c1 \<and> (\<forall>b \<in> set f1. all_zero b)"
    by (rule SetBuf_keeps [OF mem_okD(2) [OF assms(1)] cstr_length_le assms(2) set])
  moreover have "fc = Some c1 \<and> freed = f1"
    using assms(3) set by (auto simp: AddCertInner_def split: if_splits option.splits)
  ultimately show ?thesis by blast
qed

lemma AddCert_loop_wipes:
  assumes "\<And>i. mem_ok se (mem i)"
  shows "AddCert2PolicyCtx_loop se mem i ctx certs rel st = Some (r, rel', st') \<Longrightarrow> \<forall>b \<in> set rel. all_zero b \<Longrightarrow>
    \<forall>b \<in> set rel'. all_zero b"
proof (induction certs arbitrary: i rel st)
  case (Cons cert certs)
  show ?case
  proof (cases "SCF_FileCtxNew (se_globals se) (me_oom (mem i)) (me_cleared (mem i))")
    case None
    then show ?thesis using Cons.prems by auto
  next
    case (Some c)
    note free = Free_wiped [OF _ mem_okD(1) [OF assms]]
    have c: "sizes_ok c" using new_sizes_ok [OF Some] .
    show ?thesis
    proof (cases "StringToCharPtr (se_mc se) (me_path (mem i)) (cert_storeBuf cert)")
      case None
      then show ?thesis using Cons.prems Some free [OF c] by auto
    next
      case p: (Some p)
      then obtain r1 fc freed st1 where inner: "AddCertInner se (mem i) ctx (Some c) p cert st = Some (r1, fc, freed, st1)"
        using Cons.prems Some by (auto split: option.splits)
      from AddCertInner_wipes [OF assms c inner] obtain c' where c': "fc = Some c'" "sizes_ok c'" "\<forall>b \<in> set freed. all_zero b"
        by blast
      let ?rel = "rel @ freed @ snd (SCF_FileCtxFree (se_ms se) (Some fc))"
      have rel: "\<forall>b \<in> set ?rel. all_zero b" using Cons.prems(2) c' free [OF c'(2)] by auto
      show ?thesis
      proof (cases "r1 = SCF_SUCCESS")
        case True
        then have "AddCert2PolicyCtx_loop se mem (i + 1) ctx certs ?rel st1 = Some (r, rel', st')"
          using Cons.prems(1) Some p inner by (simp add: Let_def)
        from Cons.IH [OF this rel] show ?thesis .
      next
        case False
        then have "rel' = ?rel" using Cons.prems(1) Some p inner by (simp add: Let_def)
        then show ?thesis using rel by simp
      qed
    qed
  qed
qed simp

lemma SetKeyAndPwd_wipes:
  assumes "mem_ok se me" "hook_ok (se_crypto se)" "sizes_ok c" "length (ka_storeBuf ka) < 0x7fffffff"
    and "SetKeyAndPwd se me ctx (Some c) storeBuf ka st = (r, fc, ka', freed, st')"
  shows "\<exists>c'. fc = Some c' \<and> sizes_ok c' \<and> (\<forall>b \<in> set freed. all_zero b)"
proof -
  obtain r1 c1 f1 where set: "SCF_FileCtxSetBuf (se_globals se) (se_os se) (se_mc se) (se_ms se) (me_buf me) (Some c)
      SCF_STORE_FILE_PATH (Some storeBuf) (length (cstr storeBuf)) SCF_STORE_FORMAT_PEM = (r1, Some c1, f1)"
    using SetBuf_shape by blast
  have c1: "sizes_ok c1" "\<forall>b \<in> set f1. all_zero b"
    using SetBuf_keeps [OF mem_okD(2) [OF assms(1)] cstr_length_le assms(3) set] by simp_all
  obtain r2 c2 f2 where pwd: "SCF_FileCtxSetPwd (se_globals se) (se_crypto se) (se_mc se) (se_ms se) (me_pwd me) (Some c1)
      (Some (ka_storeBuf ka)) (length (ka_storeBuf ka)) (ka_isCipher ka) = (r2, Some c2, f2)"
    using SetPwd_shape by blast
  have c2: "sizes_ok c2" "\<forall>b \<in> set f2. all_zero b"
    using SetPwd_keeps [OF mem_okD(3) [OF assms(1)] assms(2) order_refl assms(4) c1(1) pwd] by simp_all
  obtain r3 fc3 ka3 f3 where pw: "SetFileCtxPassword se me (Some c1) ka = (r3, fc3, ka3, f3)" by (metis prod_cases4)
  then have "\<exists>c3. fc3 = Some c3 \<and> sizes_ok c3 \<and> (\<forall>b \<in> set f3. all_zero b)"
    using pwd c1 c2 by (auto simp: SetFileCtxPassword_def split: if_splits)
  then show ?thesis using assms(5) set c1 pw by (auto simp: SetKeyAndPwd_def split: if_splits prod.splits)
qed

lemma SetPrivKeyAndPwd4Ctx_wipes:
  assumes "mem_ok se me" "hook_ok (se_crypto se)" "length (ka_storeBuf (pk_keyAuth pk)) < 0x7fffffff"
    and run: "SetPrivKeyAndPwd4Ctx se me ctx pk st = (r, pk', freed, st')"
  shows "(\<forall>b \<in> set freed. all_zero b) \<and> (r = SCF_SUCCESS \<longrightarrow> all_zero (ka_storeBuf (pk_keyAuth pk')))"
proof (cases "pk_storeBuf pk = []")
  case True
  then show ?thesis using run by (auto simp: SetPrivKeyAndPwd4Ctx_def all_zero_def zero_buf_def SCF_SUCCESS_def SCF_ERROR_def split: if_splits)
next
  case False
  obtain r1 fc sb f1 where create: "CreateAndInitializeFileCtx se me pk = (r1, fc, sb, f1)" by (metis prod_cases4)
  have free: "\<forall>b \<in> set (snd (SCF_FileCtxFree (se_ms se) (Some (Some c)))). all_zero b" if "sizes_ok c" for c
    using Free_wiped [OF that mem_okD(1) [OF assms(1)]] .
  show ?thesis
  proof (cases "r1 = SCF_SUCCESS")
    case r1: False
    then have "fc = None" "\<forall>b \<in> set f1. all_zero b"
      using create by (auto simp: CreateAndInitializeFileCtx_def new_free split: option.splits)
    then show ?thesis using run False create r1
      by (auto simp: SetPrivKeyAndPwd4Ctx_def CleanResource_def SCF_FileCtxFree_def split: if_splits)
  next
    case True
    then have "\<exists>c p. SCF_FileCtxNew (se_globals se) (me_oom me) (me_cleared me) = Some c \<and> fc = Some c \<and> sb = Some p \<and> f1 = []"
      using create
      by (cases "SCF_FileCtxNew (se_globals se) (me_oom me) (me_cleared me)";
          cases "StringToCharPtr (se_mc se) (me_path me) (pk_storeBuf pk)")
        (simp_all add: CreateAndInitializeFileCtx_def new_free SCF_SUCCESS_def SCF_ERROR_def errno, metis)
    then obtain c p where c: "fc = Some c" "sb = Some p" "f1 = []" "sizes_ok c" using new_sizes_ok by blast
    obtain r2 fc2 ka f2 st1 where set: "SetKeyAndPwd se me ctx (Some c) p (pk_keyAuth pk) st = (r2, fc2, ka, f2, st1)"
      by (metis prod_cases5)
    from SetKeyAndPwd_wipes [OF assms(1,2) c(4) assms(3) set] obtain c2 where
      c2: "fc2 = Some c2" "sizes_ok c2" "\<forall>b \<in> set f2. all_zero b" by blast
    then have "\<forall>b \<in> set (snd (snd (CleanResource (se_ms se) fc2 sb))). all_zero b"
      using free [of c2] by (simp add: CleanResource_def split: prod.splits)
    then show ?thesis using run False create True c set c2
      by (auto simp: SetPrivKeyAndPwd4Ctx_def Let_def split: if_splits)
  qed
qed


definition sim_env :: "sim_state scf_env" where
  "sim_env = \<lparr> se_globals = sim_globals, se_os = plain_os, se_crypto = \<lparr> decryptFunction = None, encryptFunction = None \<rparr>,
     se_mc = memcpy_s_ref, se_ms = memset_s_ref \<rparr>"

definition sim_mem :: mem_env where
  "sim_mem = \<lparr> me_oom = False, me_cleared = True, me_path = (\<lambda>n. Some (zero_buf n)), me_buf = (\<lambda>n. Some (zero_buf n)),
     me_pwd = (\<lambda>n. Some (zero_buf n)) \<rparr>"


end
