(* ===== verification/Transport.thy ===== *)
theory Transport
  imports Utils
begin

text \<open>
  Transports: the interface \<^verbatim>\<open>ITransport\<close> of \<^verbatim>\<open>include/scf_transport.h\<close> with its two implementations,
  \<^verbatim>\<open>transport/socket_transport.cpp\<close> and the stub \<^verbatim>\<open>transport/urma_transport.cpp\<close>.  The socket calls of the
  operating system are the record \<^verbatim>\<open>sock_api\<close> over a state of the system; \<^verbatim>\<open>errno\<close> is read from that state
  where the code reads it.  Logging is left out.
\<close>

datatype TransportResult = TR_SUCCESS | TR_ERROR | TR_WOULD_BLOCK | TR_CONNECTION_CLOSED | TR_TIMEOUT

datatype TransportAddressType = TA_IPv4 | TA_IPv6 | TA_DOMAIN | TA_URMA | TA_CUSTOM

datatype TransportProtocol = TP_TCP | TP_UDP | TP_URMA | TP_CUSTOM

record TransportAddress =
  ta_type :: TransportAddressType
  ta_host :: string
  ta_port :: u16

definition TransportAddress_init :: TransportAddress where
  "TransportAddress_init = \<lparr> ta_type = TA_IPv4, ta_host = [], ta_port = 0 \<rparr>"

definition TransportAddress_IPv4 :: "string \<Rightarrow> u16 \<Rightarrow> TransportAddress" where
  "TransportAddress_IPv4 host port = \<lparr> ta_type = TA_IPv4, ta_host = host, ta_port = port \<rparr>"

record TransportConfig =
  tc_nonBlocking :: bool
  tc_sendTimeoutMs :: int
  tc_recvTimeoutMs :: int
  tc_connectTimeoutMs :: int
  tc_sendBufferSize :: nat
  tc_recvBufferSize :: nat
  tc_tcpNoDelay :: bool

definition TransportConfig_init :: TransportConfig where
  "TransportConfig_init = \<lparr> tc_nonBlocking = True, tc_sendTimeoutMs = 0, tc_recvTimeoutMs = 0, tc_connectTimeoutMs = 5000,
     tc_sendBufferSize = 0, tc_recvBufferSize = 0, tc_tcpNoDelay = True \<rparr>"

section \<open>The socket interface\<close>

text \<open>An address is its family with the port and the raw address; a socket option is its name with its value
  (a \<^verbatim>\<open>timeval\<close> as seconds and microseconds).\<close>

datatype sockaddr = Sin u16 string | Sin6 u16 string | Sock_other string

datatype sockopt = TCP_NODELAY int | SO_SNDTIMEO int int | SO_RCVTIMEO int int | SO_SNDBUF int | SO_RCVBUF int | SO_REUSEADDR int

datatype sock_family = AF_INET | AF_INET6

record 'w sock_api =
  sk_socket :: "sock_family \<Rightarrow> 'w \<Rightarrow> int \<times> 'w"
  sk_connect :: "int \<Rightarrow> sockaddr \<Rightarrow> 'w \<Rightarrow> int \<times> 'w"
  sk_bind :: "int \<Rightarrow> sockaddr \<Rightarrow> 'w \<Rightarrow> int \<times> 'w"
  sk_listen :: "int \<Rightarrow> int \<Rightarrow> 'w \<Rightarrow> int \<times> 'w"
  sk_accept :: "int \<Rightarrow> 'w \<Rightarrow> int \<times> sockaddr \<times> 'w"
  sk_send :: "int \<Rightarrow> string \<Rightarrow> nat \<Rightarrow> 'w \<Rightarrow> int \<times> 'w"
  sk_recv :: "int \<Rightarrow> nat \<Rightarrow> 'w \<Rightarrow> int \<times> string \<times> 'w"
  sk_close :: "int \<Rightarrow> 'w \<Rightarrow> 'w"
  sk_getfl :: "int \<Rightarrow> 'w \<Rightarrow> int \<times> 'w"
  sk_setfl :: "int \<Rightarrow> int \<Rightarrow> 'w \<Rightarrow> int \<times> 'w"
  sk_setsockopt :: "int \<Rightarrow> sockopt \<Rightarrow> 'w \<Rightarrow> int \<times> 'w"
  sk_errno :: "'w \<Rightarrow> int"
  sk_pton4 :: "string \<Rightarrow> string option"
  sk_pton6 :: "string \<Rightarrow> string option"
  sk_ntop :: "string \<Rightarrow> string"
  sk_getaddrinfo :: "string \<Rightarrow> string \<Rightarrow> 'w \<Rightarrow> int \<times> (sockaddr \<times> nat) option \<times> 'w"
  sk_copy_addr :: "sockaddr \<Rightarrow> nat \<Rightarrow> bool"

definition EAGAIN :: int where [scf_const]: "EAGAIN = 11"
definition EPIPE :: int where [scf_const]: "EPIPE = 32"
definition ECONNRESET :: int where [scf_const]: "ECONNRESET = 104"
definition ETIMEDOUT :: int where [scf_const]: "ETIMEDOUT = 110"
definition EINPROGRESS :: int where [scf_const]: "EINPROGRESS = 115"
definition O_NONBLOCK :: int where [scf_const]: "O_NONBLOCK = 2048"
definition sizeof_sockaddr_storage :: nat where [scf_const]: "sizeof_sockaddr_storage = 128"

text \<open>\<^verbatim>\<open>std::to_string\<close> of a port.\<close>

fun to_string :: "nat \<Rightarrow> string" where
  "to_string n = (if n < 10 then [char_of (n + 48)] else to_string (n div 10) @ [char_of (n mod 10 + 48)])"

declare to_string.simps [simp del]

section \<open>SocketTransport\<close>

record SocketTransport =
  st_fd :: int
  st_connected :: bool
  st_bound :: bool
  st_localAddr :: TransportAddress
  st_remoteAddr :: TransportAddress
  st_config :: TransportConfig
  st_protocol :: TransportProtocol

definition SocketTransport_new :: SocketTransport where
  "SocketTransport_new = \<lparr> st_fd = -1, st_connected = False, st_bound = False, st_localAddr = TransportAddress_init,
     st_remoteAddr = TransportAddress_init, st_config = TransportConfig_init, st_protocol = TP_TCP \<rparr>"

definition SocketTransport_of_fd :: "int \<Rightarrow> SocketTransport" where
  "SocketTransport_of_fd fd = \<lparr> st_fd = fd, st_connected = (fd \<ge> 0), st_bound = False, st_localAddr = TransportAddress_init,
     st_remoteAddr = TransportAddress_init, st_config = TransportConfig_init, st_protocol = TP_TCP \<rparr>"

definition socket_Close :: "'w sock_api \<Rightarrow> SocketTransport \<Rightarrow> 'w \<Rightarrow> SocketTransport \<times> 'w" where
  "socket_Close api t w =
     (let (t1, w1) = (if st_fd t \<ge> 0 then (t\<lparr>st_fd := -1\<rparr>, sk_close api (st_fd t) w) else (t, w)) in
      (t1\<lparr>st_connected := False, st_bound := False\<rparr>, w1))"

definition SetNonBlocking :: "'w sock_api \<Rightarrow> int \<Rightarrow> 'w \<Rightarrow> TransportResult \<times> 'w" where
  "SetNonBlocking api fd w =
     (let (flags, w1) = sk_getfl api fd w in
      if flags < 0 then (TR_ERROR, w1)
      else
        let (rc, w2) = sk_setfl api fd (flags OR O_NONBLOCK) w1 in
        if rc < 0 then (TR_ERROR, w2) else (TR_SUCCESS, w2))"

text \<open>The results of \<^verbatim>\<open>setsockopt\<close> are not looked at.\<close>

definition SetSocketOptions :: "'w sock_api \<Rightarrow> int \<Rightarrow> TransportConfig \<Rightarrow> 'w \<Rightarrow> TransportResult \<times> 'w" where
  "SetSocketOptions api fd config w =
     (let w1 = (if tc_tcpNoDelay config then snd (sk_setsockopt api fd (TCP_NODELAY 1) w) else w);
          w2 = (if tc_sendTimeoutMs config > 0
                then snd (sk_setsockopt api fd (SO_SNDTIMEO (tc_sendTimeoutMs config div 1000) (tc_sendTimeoutMs config mod 1000 * 1000)) w1)
                else w1);
          w3 = (if tc_recvTimeoutMs config > 0
                then snd (sk_setsockopt api fd (SO_RCVTIMEO (tc_recvTimeoutMs config div 1000) (tc_recvTimeoutMs config mod 1000 * 1000)) w2)
                else w2);
          w4 = (if tc_sendBufferSize config > 0
                then snd (sk_setsockopt api fd (SO_SNDBUF (signed_take_bit 31 (int (tc_sendBufferSize config)))) w3) else w3);
          w5 = (if tc_recvBufferSize config > 0
                then snd (sk_setsockopt api fd (SO_RCVBUF (signed_take_bit 31 (int (tc_recvBufferSize config)))) w4) else w4) in
      (TR_SUCCESS, w5))"

definition ResolveAddress :: "'w sock_api \<Rightarrow> TransportAddress \<Rightarrow> 'w \<Rightarrow> TransportResult \<times> sockaddr option \<times> 'w" where
  "ResolveAddress api addr w =
     (case ta_type addr of
        TA_URMA \<Rightarrow> (TR_ERROR, None, w)
      | TA_CUSTOM \<Rightarrow> (TR_ERROR, None, w)
      | TA_IPv6 \<Rightarrow>
          (case sk_pton6 api (cstr (ta_host addr)) of
             None \<Rightarrow> (TR_ERROR, None, w)
           | Some a \<Rightarrow> (TR_SUCCESS, Some (Sin6 (ta_port addr) a), w))
      | _ \<Rightarrow>
          (case sk_pton4 api (cstr (ta_host addr)) of
             Some a \<Rightarrow> (TR_SUCCESS, Some (Sin (ta_port addr) a), w)
           | None \<Rightarrow>
               let (gai, result, w1) = sk_getaddrinfo api (cstr (ta_host addr)) (to_string (unat (ta_port addr))) w in
               if gai \<noteq> 0 \<or> result = None then (TR_ERROR, None, w1)
               else
                 let (sa, len) = the result in
                 if len > sizeof_sockaddr_storage then (TR_ERROR, None, w1)
                 else if \<not> sk_copy_addr api sa len then (TR_ERROR, None, w1)
                 else (TR_SUCCESS, Some sa, w1)))"

definition MapSocketError :: "int \<Rightarrow> TransportResult" where
  "MapSocketError err =
     (if err = EAGAIN then TR_WOULD_BLOCK
      else if err = ECONNRESET \<or> err = EPIPE then TR_CONNECTION_CLOSED
      else if err = ETIMEDOUT then TR_TIMEOUT
      else TR_ERROR)"

definition addr_family :: "TransportAddress \<Rightarrow> sock_family" where
  "addr_family addr = (if ta_type addr = TA_IPv6 then AF_INET6 else AF_INET)"

definition socket_Connect ::
  "'w sock_api \<Rightarrow> SocketTransport \<Rightarrow> TransportAddress \<Rightarrow> TransportConfig \<Rightarrow> 'w \<Rightarrow> TransportResult \<times> SocketTransport \<times> 'w" where
  "socket_Connect api t addr config w =
     (let t0 = t\<lparr>st_config := config\<rparr>;
          (ret, sockAddr, w1) = ResolveAddress api addr w in
      if ret \<noteq> TR_SUCCESS then (ret, t0, w1)
      else
        let (fd, w2) = sk_socket api (addr_family addr) w1;
            t1 = t0\<lparr>st_fd := fd\<rparr> in
        if fd < 0 then (TR_ERROR, t1, w2)
        else
          let (ret2, w3) = SetSocketOptions api fd config w2 in
          if ret2 \<noteq> TR_SUCCESS then let (t2, w4) = socket_Close api t1 w3 in (ret2, t2, w4)
          else
            let (ret3, w4) = SetNonBlocking api fd w3 in
            if ret3 \<noteq> TR_SUCCESS then let (t2, w5) = socket_Close api t1 w4 in (ret3, t2, w5)
            else
              let (rc, w5) = sk_connect api fd (the sockAddr) w4 in
              if rc < 0 \<and> sk_errno api w5 \<noteq> EINPROGRESS
              then let (t2, w6) = socket_Close api t1 w5 in (MapSocketError (sk_errno api w6), t2, w6)
              else (TR_SUCCESS, t1\<lparr>st_connected := True, st_remoteAddr := addr\<rparr>, w5))"

definition socket_Bind ::
  "'w sock_api \<Rightarrow> SocketTransport \<Rightarrow> TransportAddress \<Rightarrow> int \<Rightarrow> 'w \<Rightarrow> TransportResult \<times> SocketTransport \<times> 'w" where
  "socket_Bind api t addr backlog w =
     (let (ret, sockAddr, w1) = ResolveAddress api addr w in
      if ret \<noteq> TR_SUCCESS then (ret, t, w1)
      else
        let (fd, w2) = sk_socket api (addr_family addr) w1;
            t1 = t\<lparr>st_fd := fd\<rparr> in
        if fd < 0 then (TR_ERROR, t1, w2)
        else
          let w3 = snd (sk_setsockopt api fd (SO_REUSEADDR 1) w2);
              (rb, w4) = sk_bind api fd (the sockAddr) w3 in
          if rb < 0 then let (t2, w5) = socket_Close api t1 w4 in (TR_ERROR, t2, w5)
          else
            let (rl, w5) = sk_listen api fd backlog w4 in
            if rl < 0 then let (t2, w6) = socket_Close api t1 w5 in (TR_ERROR, t2, w6)
            else
              let (ret2, w6) = SetNonBlocking api fd w5 in
              if ret2 \<noteq> TR_SUCCESS then let (t2, w7) = socket_Close api t1 w6 in (ret2, t2, w7)
              else (TR_SUCCESS, t1\<lparr>st_bound := True, st_localAddr := addr\<rparr>, w6))"

text \<open>\<^verbatim>\<open>oom\<close>: the allocation of the new transport fails.\<close>

definition socket_Accept :: "'w sock_api \<Rightarrow> bool \<Rightarrow> SocketTransport \<Rightarrow> 'w \<Rightarrow> SocketTransport option \<times> 'w" where
  "socket_Accept api oom t w =
     (if \<not> st_bound t \<or> st_fd t < 0 then (None, w)
      else
        let (clientFd, clientAddr, w1) = sk_accept api (st_fd t) w in
        if clientFd < 0 then (None, w1)
        else
          let (ret, w2) = SetNonBlocking api clientFd w1 in
          if ret \<noteq> TR_SUCCESS then (None, sk_close api clientFd w2)
          else if oom then (None, sk_close api clientFd w2)
          else
            let c = (SocketTransport_of_fd clientFd)\<lparr>st_config := st_config t\<rparr> in
            case clientAddr of
              Sin p a \<Rightarrow> (Some (c\<lparr>st_remoteAddr := TransportAddress_IPv4 (sk_ntop api a) p\<rparr>), w2)
            | Sin6 p a \<Rightarrow> (Some (c\<lparr>st_remoteAddr := (TransportAddress_IPv4 (sk_ntop api a) p)\<lparr>ta_type := TA_IPv6\<rparr>\<rparr>), w2)
            | Sock_other _ \<Rightarrow> (Some c, w2))"

text \<open>The output pointer of \<^verbatim>\<open>Send\<close> and \<^verbatim>\<open>Recv\<close> is written only behind the first check.\<close>

definition socket_Send :: "'w sock_api \<Rightarrow> SocketTransport \<Rightarrow> string \<Rightarrow> nat \<Rightarrow> nat \<Rightarrow> 'w \<Rightarrow> TransportResult \<times> nat \<times> 'w" where
  "socket_Send api t data len sentLen w =
     (if st_fd t < 0 \<or> \<not> st_connected t then (TR_ERROR, sentLen, w)
      else
        let (n, w1) = sk_send api (st_fd t) data len w in
        if n > 0 then (TR_SUCCESS, nat n, w1)
        else if n = 0 then (TR_CONNECTION_CLOSED, 0, w1)
        else if sk_errno api w1 = EAGAIN then (TR_WOULD_BLOCK, 0, w1)
        else (TR_ERROR, 0, w1))"

definition socket_Recv :: "'w sock_api \<Rightarrow> SocketTransport \<Rightarrow> nat \<Rightarrow> nat \<Rightarrow> 'w \<Rightarrow> TransportResult \<times> string \<times> nat \<times> 'w" where
  "socket_Recv api t len recvLen w =
     (if st_fd t < 0 \<or> \<not> st_connected t then (TR_ERROR, [], recvLen, w)
      else
        let (n, data, w1) = sk_recv api (st_fd t) len w in
        if n > 0 then (TR_SUCCESS, data, nat n, w1)
        else if n = 0 then (TR_CONNECTION_CLOSED, data, 0, w1)
        else if sk_errno api w1 = EAGAIN then (TR_WOULD_BLOCK, data, 0, w1)
        else (TR_ERROR, data, 0, w1))"

definition socket_GetNativeHandle :: "SocketTransport \<Rightarrow> int" where
  "socket_GetNativeHandle t = st_fd t"

definition socket_IsConnected :: "SocketTransport \<Rightarrow> bool" where
  "socket_IsConnected t \<longleftrightarrow> st_connected t \<and> st_fd t \<ge> 0"

definition socket_SetConfig :: "'w sock_api \<Rightarrow> SocketTransport \<Rightarrow> TransportConfig \<Rightarrow> 'w \<Rightarrow> TransportResult \<times> SocketTransport \<times> 'w" where
  "socket_SetConfig api t config w =
     (let t1 = t\<lparr>st_config := config\<rparr> in
      if st_fd t1 \<ge> 0 then let (r, w1) = SetSocketOptions api (st_fd t1) config w in (r, t1, w1) else (TR_SUCCESS, t1, w))"

definition socket_Clone :: "bool \<Rightarrow> SocketTransport \<Rightarrow> SocketTransport option" where
  "socket_Clone oom t =
     (if oom then None
      else Some (SocketTransport_new\<lparr>st_fd := st_fd t, st_connected := st_connected t, st_bound := st_bound t,
        st_localAddr := st_localAddr t, st_remoteAddr := st_remoteAddr t, st_config := st_config t, st_protocol := st_protocol t\<rparr>))"

section \<open>UrmaTransport\<close>

record UrmaTransport =
  ut_connected :: bool
  ut_localAddr :: TransportAddress
  ut_remoteAddr :: TransportAddress
  ut_config :: TransportConfig

definition UrmaTransport_new :: UrmaTransport where
  "UrmaTransport_new = \<lparr> ut_connected = False, ut_localAddr = TransportAddress_init, ut_remoteAddr = TransportAddress_init,
     ut_config = TransportConfig_init \<rparr>"

definition urma_Connect :: "UrmaTransport \<Rightarrow> TransportAddress \<Rightarrow> TransportConfig \<Rightarrow> TransportResult \<times> UrmaTransport" where
  "urma_Connect t addr config = (TR_ERROR, t\<lparr>ut_config := config, ut_connected := False\<rparr>)"

definition urma_Bind :: "UrmaTransport \<Rightarrow> TransportAddress \<Rightarrow> int \<Rightarrow> TransportResult \<times> UrmaTransport" where
  "urma_Bind t addr backlog = (TR_ERROR, t)"

definition urma_Accept :: "UrmaTransport \<Rightarrow> UrmaTransport option" where
  "urma_Accept t = None"

definition urma_Send :: "UrmaTransport \<Rightarrow> string \<Rightarrow> nat \<Rightarrow> nat option \<Rightarrow> TransportResult \<times> nat option" where
  "urma_Send t data len sentLen = (if sentLen = None then (TR_ERROR, None) else (TR_ERROR, Some 0))"

definition urma_Recv :: "UrmaTransport \<Rightarrow> nat \<Rightarrow> nat option \<Rightarrow> TransportResult \<times> nat option" where
  "urma_Recv t len recvLen = (if recvLen = None then (TR_ERROR, None) else (TR_ERROR, Some 0))"

definition urma_Close :: "UrmaTransport \<Rightarrow> UrmaTransport" where
  "urma_Close t = t\<lparr>ut_connected := False\<rparr>"

definition urma_GetNativeHandle :: "UrmaTransport \<Rightarrow> int" where
  "urma_GetNativeHandle t = -1"

definition urma_IsConnected :: "UrmaTransport \<Rightarrow> bool" where
  "urma_IsConnected t = ut_connected t"

definition urma_SetConfig :: "UrmaTransport \<Rightarrow> TransportConfig \<Rightarrow> TransportResult \<times> UrmaTransport" where
  "urma_SetConfig t config = (TR_SUCCESS, t\<lparr>ut_config := config\<rparr>)"

definition urma_Clone :: "bool \<Rightarrow> UrmaTransport \<Rightarrow> UrmaTransport option" where
  "urma_Clone oom t =
     (if oom then None
      else Some (UrmaTransport_new\<lparr>ut_connected := ut_connected t, ut_localAddr := ut_localAddr t, ut_remoteAddr := ut_remoteAddr t,
        ut_config := ut_config t\<rparr>))"

end
