(* ===== verification/Transport_Correct.thy ===== *)
theory Transport_Correct
  imports Transport
begin

text \<open>
  The contract of a transport, its two implementations, and the ownership of file descriptors by the
  socket transport.
\<close>

section \<open>The interface\<close>

text \<open>What the users of \<^verbatim>\<open>ITransport\<close> rely on: a closed transport has no handle and no connection, and closing
  it again has no effect on it or on the system.\<close>

locale transport =
  fixes close_tr :: "'t \<Rightarrow> 'w \<Rightarrow> 't \<times> 'w"
    and handle :: "'t \<Rightarrow> int"
    and connected :: "'t \<Rightarrow> bool"
  assumes close_handle: "handle (fst (close_tr t w)) < 0"
    and close_disconnects: "\<not> connected (fst (close_tr t w))"
    and close_closed: "close_tr (fst (close_tr t w)) w' = (fst (close_tr t w), w')"
begin

lemma close_twice: "close_tr (fst (close_tr t w)) (snd (close_tr t w)) = close_tr t w"
  by (simp add: close_closed)

text \<open>Any number of further calls of \<^verbatim>\<open>Close\<close>, as the destructors make them, leaves everything as it is.\<close>

lemma close_repeated: "((\<lambda>(t, w). close_tr t w) ^^ Suc n) (t, w) = close_tr t w"
proof (induction n)
  case (Suc n)
  have "((\<lambda>(t, w). close_tr t w) ^^ Suc (Suc n)) (t, w) = (case ((\<lambda>(t, w). close_tr t w) ^^ Suc n) (t, w) of (t, w) \<Rightarrow> close_tr t w)"
    by simp
  also have "\<dots> = close_tr t w" unfolding Suc using close_twice [of t w] by (simp add: case_prod_beta)
  finally show ?case .
qed simp

end

interpretation socket_tr: transport "socket_Close api" socket_GetNativeHandle socket_IsConnected for api :: "'w sock_api"
  by unfold_locales (simp_all add: socket_Close_def socket_GetNativeHandle_def socket_IsConnected_def)

interpretation urma_tr: transport "\<lambda>t w. (urma_Close t, w)" urma_GetNativeHandle urma_IsConnected
  by unfold_locales (simp_all add: urma_Close_def urma_GetNativeHandle_def urma_IsConnected_def)

section \<open>Descriptors\<close>

text \<open>Documented behaviour of the calls on the set of open descriptors of the process: \<^verbatim>\<open>socket\<close> and \<^verbatim>\<open>accept\<close>
  return a new descriptor or a negative number, \<^verbatim>\<open>close\<close> releases one, and no other call opens or closes any.\<close>

definition fd_laws :: "'w sock_api \<Rightarrow> ('w \<Rightarrow> int set) \<Rightarrow> bool" where
  "fd_laws api open_fds \<longleftrightarrow>
     (\<forall>f w fd w'. sk_socket api f w = (fd, w') \<longrightarrow>
        (if fd < 0 then open_fds w' = open_fds w else fd \<notin> open_fds w \<and> open_fds w' = insert fd (open_fds w))) \<and>
     (\<forall>l w fd a w'. sk_accept api l w = (fd, a, w') \<longrightarrow>
        (if fd < 0 then open_fds w' = open_fds w else fd \<notin> open_fds w \<and> open_fds w' = insert fd (open_fds w))) \<and>
     (\<forall>fd w. open_fds (sk_close api fd w) = open_fds w - {fd}) \<and>
     (\<forall>fd a w. open_fds (snd (sk_connect api fd a w)) = open_fds w) \<and>
     (\<forall>fd a w. open_fds (snd (sk_bind api fd a w)) = open_fds w) \<and>
     (\<forall>fd n w. open_fds (snd (sk_listen api fd n w)) = open_fds w) \<and>
     (\<forall>fd w. open_fds (snd (sk_getfl api fd w)) = open_fds w) \<and>
     (\<forall>fd n w. open_fds (snd (sk_setfl api fd n w)) = open_fds w) \<and>
     (\<forall>fd s w. open_fds (snd (sk_setsockopt api fd s w)) = open_fds w) \<and>
     (\<forall>h p w. open_fds (snd (snd (sk_getaddrinfo api h p w))) = open_fds w)"

lemma fd_lawsD:
  assumes "fd_laws api open_fds"
  shows "open_fds (sk_close api fd w) = open_fds w - {fd}"
    and "open_fds (snd (sk_connect api fd a w)) = open_fds w"
    and "open_fds (snd (sk_bind api fd a w)) = open_fds w"
    and "open_fds (snd (sk_listen api fd n w)) = open_fds w"
    and "open_fds (snd (sk_getfl api fd w)) = open_fds w"
    and "open_fds (snd (sk_setfl api fd n w)) = open_fds w"
    and "open_fds (snd (sk_setsockopt api fd s w)) = open_fds w"
    and "open_fds (snd (snd (sk_getaddrinfo api h p w))) = open_fds w"
  using assms by (simp_all add: fd_laws_def)

lemma socket_law:
  assumes "fd_laws api open_fds" "sk_socket api f w = (fd, w')"
  shows "if fd < 0 then open_fds w' = open_fds w else fd \<notin> open_fds w \<and> open_fds w' = insert fd (open_fds w)"
  using assms by (simp add: fd_laws_def)

lemma accept_law:
  assumes "fd_laws api open_fds" "sk_accept api l w = (fd, a, w')"
  shows "if fd < 0 then open_fds w' = open_fds w else fd \<notin> open_fds w \<and> open_fds w' = insert fd (open_fds w)"
  using assms by (simp add: fd_laws_def)

lemma SetNonBlocking_fds: "fd_laws api open_fds \<Longrightarrow> open_fds (snd (SetNonBlocking api fd w)) = open_fds w"
  using fd_lawsD(5,6) [of api open_fds]
  by (simp add: SetNonBlocking_def Let_def case_prod_beta)

lemma SetSocketOptions_fds: "fd_laws api open_fds \<Longrightarrow> open_fds (snd (SetSocketOptions api fd c w)) = open_fds w"
  using fd_lawsD(7) [of api open_fds] by (simp add: SetSocketOptions_def Let_def)

lemma SetSocketOptions_ok: "fst (SetSocketOptions api fd c w) = TR_SUCCESS"
  by (simp add: SetSocketOptions_def Let_def)

lemma ResolveAddress_fds: "fd_laws api open_fds \<Longrightarrow> open_fds (snd (snd (ResolveAddress api a w))) = open_fds w"
  using fd_lawsD(8) [of api open_fds]
  by (cases "ta_type a") (simp_all add: ResolveAddress_def Let_def case_prod_beta split: option.split)

lemma socket_Close_new:
  assumes "st_fd t = fd" "fd \<ge> 0" "fd_laws api open_fds" "open_fds w = insert fd F" "fd \<notin> F"
  shows "st_fd (fst (socket_Close api t w)) = -1 \<and> open_fds (snd (socket_Close api t w)) = F"
  using assms fd_lawsD(1) [OF assms(3)] by (simp add: socket_Close_def)

text \<open>The outcome of an operation that tries to open a descriptor for a transport without one.\<close>

definition fd_outcome :: "int set \<Rightarrow> bool \<Rightarrow> int \<Rightarrow> int set \<Rightarrow> bool" where
  "fd_outcome before ok fd after \<longleftrightarrow>
     (if ok then fd \<ge> 0 \<and> fd \<notin> before \<and> after = insert fd before else fd < 0 \<and> after = before)"

text \<open>What \<^verbatim>\<open>Connect\<close> and \<^verbatim>\<open>Bind\<close> do when there is no socket.\<close>

lemma no_socket_outcome:
  assumes "fd_laws api open_fds" "ResolveAddress api addr w = (r1, sa, w1)" "sk_socket api f w1 = (fd, w2)"
  shows "r1 \<noteq> TR_SUCCESS \<Longrightarrow> x < 0 \<Longrightarrow> fd_outcome (open_fds w) (r1 = TR_SUCCESS) x (open_fds w1)"
    and "fd < 0 \<Longrightarrow> fd_outcome (open_fds w) False fd (open_fds w2)"
    and "fd \<ge> 0 \<Longrightarrow> fd \<notin> open_fds w \<and> open_fds w2 = insert fd (open_fds w)"
  using ResolveAddress_fds [OF assms(1), of addr w] assms(2) socket_law [OF assms(1,3)]
  by (simp_all add: fd_outcome_def split: if_splits)

lemma socket_Connect_fds:
  assumes laws: "fd_laws api open_fds" and "st_fd t < 0"
    and "\<And>e. MapSocketError e \<noteq> TR_SUCCESS"
  shows "case socket_Connect api t addr config w of (r, t', w') \<Rightarrow>
    fd_outcome (open_fds w) (r = TR_SUCCESS) (st_fd t') (open_fds w')"
proof -
  obtain r1 sa w1 where res: "ResolveAddress api addr w = (r1, sa, w1)" by (metis prod_cases3)
  obtain fd w2 where sock: "sk_socket api (addr_family addr) w1 = (fd, w2)" by (metis prod.exhaust)
  obtain r2 w3 where opts: "SetSocketOptions api fd config w2 = (r2, w3)" by (metis prod.exhaust)
  obtain r3 w4 where nb: "SetNonBlocking api fd w3 = (r3, w4)" by (metis prod.exhaust)
  obtain rc w5 where conn: "sk_connect api fd (the sa) w4 = (rc, w5)" by (metis prod.exhaust)
  have w3: "open_fds w3 = open_fds w2" using SetSocketOptions_fds [OF laws, of fd config w2] opts by simp
  have w4: "open_fds w4 = open_fds w3" using SetNonBlocking_fds [OF laws, of fd w3] nb by simp
  have w5: "open_fds w5 = open_fds w4" using fd_lawsD(2) [OF laws, of fd "the sa" w4] conn by simp
  have r2: "r2 = TR_SUCCESS" using SetSocketOptions_ok [of api fd config w2] opts by simp
  note start = no_socket_outcome [OF laws res sock]
  consider "r1 \<noteq> TR_SUCCESS" | "r1 = TR_SUCCESS" "fd < 0" | "r1 = TR_SUCCESS" "fd \<ge> 0" by linarith
  then show ?thesis
  proof cases
    case 1
    then have "socket_Connect api t addr config w = (r1, t\<lparr>st_config := config\<rparr>, w1)" by (simp add: socket_Connect_def res)
    then show ?thesis using start(1) [OF 1] assms(2) by simp
  next
    case 2
    then have "socket_Connect api t addr config w = (TR_ERROR, t\<lparr>st_config := config, st_fd := fd\<rparr>, w2)" by (simp add: socket_Connect_def res sock)
    then show ?thesis using start(2) 2 by simp
  next
    case True: 3
    then have new: "fd \<notin> open_fds w" "open_fds w2 = insert fd (open_fds w)" using start(3) by simp_all
    let ?t1 = "t\<lparr>st_config := config, st_fd := fd\<rparr>"
    have close4: "st_fd (fst (socket_Close api ?t1 w4)) = -1 \<and> open_fds (snd (socket_Close api ?t1 w4)) = open_fds w"
      by (rule socket_Close_new [OF _ _ laws]) (use True new w3 w4 in simp_all)
    have close5: "st_fd (fst (socket_Close api ?t1 w5)) = -1 \<and> open_fds (snd (socket_Close api ?t1 w5)) = open_fds w"
      by (rule socket_Close_new [OF _ _ laws]) (use True new w3 w4 w5 in simp_all)
    obtain t4 v4 where c4: "socket_Close api ?t1 w4 = (t4, v4)" by (metis prod.exhaust)
    obtain t5 v5 where c5: "socket_Close api ?t1 w5 = (t5, v5)" by (metis prod.exhaust)
    consider "r3 \<noteq> TR_SUCCESS" | "r3 = TR_SUCCESS" "rc < 0 \<and> sk_errno api w5 \<noteq> EINPROGRESS"
      | "r3 = TR_SUCCESS" "\<not> (rc < 0 \<and> sk_errno api w5 \<noteq> EINPROGRESS)" by blast
    then show ?thesis
    proof cases
      case 1
      then have "socket_Connect api t addr config w = (r3, t4, v4)"
        using True r2 by (simp add: socket_Connect_def Let_def res sock opts nb c4)
      then show ?thesis using 1 close4 c4 by (simp add: fd_outcome_def)
    next
      case 2
      then have "socket_Connect api t addr config w = (MapSocketError (sk_errno api v5), t5, v5)"
        using True r2 by (simp add: socket_Connect_def Let_def res sock opts nb conn c5)
      then show ?thesis using close5 c5 assms(3) by (simp add: fd_outcome_def)
    next
      case 3
      then have "socket_Connect api t addr config w = (TR_SUCCESS, ?t1\<lparr>st_connected := True, st_remoteAddr := addr\<rparr>, w5)"
        using True r2 by (auto simp: socket_Connect_def Let_def res sock opts nb conn)
      then show ?thesis using True new w3 w4 w5 by (simp add: fd_outcome_def)
    qed
  qed
qed

lemma socket_Bind_fds:
  assumes laws: "fd_laws api open_fds" and "st_fd t < 0"
  shows "case socket_Bind api t addr backlog w of (r, t', w') \<Rightarrow>
    fd_outcome (open_fds w) (r = TR_SUCCESS) (st_fd t') (open_fds w')"
proof -
  obtain r1 sa w1 where res: "ResolveAddress api addr w = (r1, sa, w1)" by (metis prod_cases3)
  obtain fd w2 where sock: "sk_socket api (addr_family addr) w1 = (fd, w2)" by (metis prod.exhaust)
  define w3 where "w3 = snd (sk_setsockopt api fd (SO_REUSEADDR 1) w2)"
  obtain rb w4 where bnd: "sk_bind api fd (the sa) w3 = (rb, w4)" by (metis prod.exhaust)
  obtain rl w5 where lst: "sk_listen api fd backlog w4 = (rl, w5)" by (metis prod.exhaust)
  obtain r2 w6 where nb: "SetNonBlocking api fd w5 = (r2, w6)" by (metis prod.exhaust)
  have w3: "open_fds w3 = open_fds w2" using fd_lawsD(7) [OF laws] by (simp add: w3_def)
  have w4: "open_fds w4 = open_fds w3" using fd_lawsD(3) [OF laws, of fd "the sa" w3] bnd by simp
  have w5: "open_fds w5 = open_fds w4" using fd_lawsD(4) [OF laws, of fd backlog w4] lst by simp
  have w6: "open_fds w6 = open_fds w5" using SetNonBlocking_fds [OF laws, of fd w5] nb by simp
  note start = no_socket_outcome [OF laws res sock]
  consider "r1 \<noteq> TR_SUCCESS" | "r1 = TR_SUCCESS" "fd < 0" | "r1 = TR_SUCCESS" "fd \<ge> 0" by linarith
  then show ?thesis
  proof cases
    case 1
    then have "socket_Bind api t addr backlog w = (r1, t, w1)" by (simp add: socket_Bind_def res)
    then show ?thesis using start(1) [OF 1] assms(2) by simp
  next
    case 2
    then have "socket_Bind api t addr backlog w = (TR_ERROR, t\<lparr>st_fd := fd\<rparr>, w2)" by (simp add: socket_Bind_def res sock)
    then show ?thesis using start(2) 2 by simp
  next
    case True: 3
    then have new: "fd \<notin> open_fds w" "open_fds w2 = insert fd (open_fds w)" using start(3) by simp_all
    have close: "st_fd (fst (socket_Close api (t\<lparr>st_fd := fd\<rparr>) v)) = -1 \<and> open_fds (snd (socket_Close api (t\<lparr>st_fd := fd\<rparr>) v)) = open_fds w"
      if "open_fds v = open_fds w2" for v
      by (rule socket_Close_new [OF _ _ laws]) (use True new that in simp_all)
    obtain t4 v4 where c4: "socket_Close api (t\<lparr>st_fd := fd\<rparr>) w4 = (t4, v4)" by (metis prod.exhaust)
    obtain t5 v5 where c5: "socket_Close api (t\<lparr>st_fd := fd\<rparr>) w5 = (t5, v5)" by (metis prod.exhaust)
    obtain t6 v6 where c6: "socket_Close api (t\<lparr>st_fd := fd\<rparr>) w6 = (t6, v6)" by (metis prod.exhaust)
    note run = socket_Bind_def Let_def res sock w3_def [symmetric] bnd lst nb c4 c5 c6
    consider "rb < 0" | "rb \<ge> 0" "rl < 0" | "rb \<ge> 0" "rl \<ge> 0" "r2 \<noteq> TR_SUCCESS" | "rb \<ge> 0" "rl \<ge> 0" "r2 = TR_SUCCESS" by linarith
    then show ?thesis
    proof cases
      case 1
      then have "socket_Bind api t addr backlog w = (TR_ERROR, t4, v4)" using True by (simp add: run)
      then show ?thesis using close [of w4] c4 w3 w4 by (simp add: fd_outcome_def)
    next
      case 2
      then have "socket_Bind api t addr backlog w = (TR_ERROR, t5, v5)" using True by (simp add: run)
      then show ?thesis using close [of w5] c5 w3 w4 w5 by (simp add: fd_outcome_def)
    next
      case 3
      then have "socket_Bind api t addr backlog w = (r2, t6, v6)" using True by (simp add: run)
      then show ?thesis using 3 close [of w6] c6 w3 w4 w5 w6 by (simp add: fd_outcome_def)
    next
      case 4
      then have "socket_Bind api t addr backlog w = (TR_SUCCESS, t\<lparr>st_fd := fd, st_bound := True, st_localAddr := addr\<rparr>, w6)"
        using True by (simp add: run)
      then show ?thesis using True new w3 w4 w5 w6 by (simp add: fd_outcome_def)
    qed
  qed
qed

lemma socket_Accept_fds:
  assumes laws: "fd_laws api open_fds"
  shows "case socket_Accept api oom t w of (c, w') \<Rightarrow>
    fd_outcome (open_fds w) (c \<noteq> None) (case c of None \<Rightarrow> -1 | Some t' \<Rightarrow> st_fd t') (open_fds w')"
proof (cases "st_bound t \<and> st_fd t \<ge> 0")
  case False
  then show ?thesis by (auto simp: socket_Accept_def fd_outcome_def)
next
  case True
  obtain fd a w1 where acc: "sk_accept api (st_fd t) w = (fd, a, w1)" by (metis prod_cases3)
  obtain r w2 where nb: "SetNonBlocking api fd w1 = (r, w2)" by (metis prod.exhaust)
  have w2: "open_fds w2 = open_fds w1" using SetNonBlocking_fds [OF laws, of fd w1] nb by simp
  show ?thesis using True accept_law [OF laws acc] w2 fd_lawsD(1) [OF laws]
    by (auto simp: socket_Accept_def acc nb fd_outcome_def Let_def SocketTransport_of_fd_def split: sockaddr.splits)
qed

lemma MapSocketError_not_success: "MapSocketError e \<noteq> TR_SUCCESS"
  by (simp add: MapSocketError_def)


text \<open>A small system for concrete runs: the state is the set of open descriptors with the last error.\<close>

definition sim_sock :: "(int set \<times> int) sock_api" where
  "sim_sock = \<lparr> sk_socket = (\<lambda>f (F, e). (let fd = (if 3 \<in> F then 4 else 3) in if fd \<in> F then (-1, (F, e)) else (fd, (insert fd F, e)))),
     sk_connect = (\<lambda>fd a (F, e). (-1, (F, 111))), sk_bind = (\<lambda>fd a w. (0, w)), sk_listen = (\<lambda>fd n w. (0, w)),
     sk_accept = (\<lambda>fd (F, e). (if 5 \<in> F then -1 else 5, Sin 80 ''p'', (if 5 \<in> F then F else insert 5 F, e))),
     sk_send = (\<lambda>fd d n w. (int n, w)), sk_recv = (\<lambda>fd n w. (0, [], w)),
     sk_close = (\<lambda>fd (F, e). (F - {fd}, e)), sk_getfl = (\<lambda>fd w. (0, w)), sk_setfl = (\<lambda>fd n w. (0, w)),
     sk_setsockopt = (\<lambda>fd s w. (0, w)), sk_errno = snd, sk_pton4 = Some, sk_pton6 = Some, sk_ntop = id,
     sk_getaddrinfo = (\<lambda>h p w. (1, None, w)), sk_copy_addr = (\<lambda>a n. True) \<rparr>"


end
