(* ===== verification/Connection.thy ===== *)
theory Connection
  imports Scf_Obj Key_Update File_Ctx Transport
begin

text \<open>
  The high-level connection: \<^verbatim>\<open>connection/scf_connection_impl.cpp\<close> with the types of
  \<^verbatim>\<open>include/scf_connection.h\<close>.  A connection owns a policy context and a policy object on the heap of
  \<^verbatim>\<open>Scf_Obj\<close>, a transport and possibly a crypto engine.  Transports and engines are objects behind virtual
  interfaces (the application can plug in its own): their methods are the records \<^verbatim>\<open>itransport\<close> and
  \<^verbatim>\<open>iengine\<close>.  An operation has the result \<^verbatim>\<open>None\<close> when it does not return properly: it accesses a released
  object, or a certificate source never ends.  Logging is left out.
\<close>

section \<open>Security levels\<close>

datatype SCF_SECURITY_LEVEL =
  SCF_SECURITY_112BIT | SCF_SECURITY_128BIT | SCF_SECURITY_192BIT | SCF_SECURITY_256BIT
| SCF_SECURITY_128BIT_PQ | SCF_SECURITY_256BIT_PQ | SCF_SECURITY_OTHER u32

datatype SCF_CERT_VERIFY_POLICY =
  SCF_CERT_VERIFY_NONE | SCF_CERT_VERIFY_OPTIONAL | SCF_CERT_VERIFY_REQUIRED | SCF_CERT_VERIFY_STRICT | SCF_CERT_VERIFY_OTHER u32

datatype SCF_CONNECTION_STATE =
  SCF_CONN_INIT | SCF_CONN_CONNECTING | SCF_CONN_CONNECTED | SCF_CONN_CLOSING | SCF_CONN_CLOSED | SCF_CONN_ERROR

record SecurityLevelMapping =
  sl_securityStrengthBits :: u32
  sl_postQuantumResistant :: bool
  sl_nistLevelLabel :: string
  sl_protocolVersionMin :: u32
  sl_protocolVersionMax :: u32
  sl_tls13CipherSuites :: "u16 list"
  sl_keyExchangeGroups :: "string list"
  sl_policyMode :: SCF_POLICY_MODE

definition SCF_NAMED_GROUP_X25519_KYBER512 :: string where "SCF_NAMED_GROUP_X25519_KYBER512 = ''x25519_kyber512''"
definition SCF_NAMED_GROUP_P256_KYBER512 :: string where "SCF_NAMED_GROUP_P256_KYBER512 = ''p256_kyber512''"
definition SCF_NAMED_GROUP_P521_KYBER1024 :: string where "SCF_NAMED_GROUP_P521_KYBER1024 = ''p521_kyber1024''"
definition SCF_NAMED_GROUP_P521_MLKEM1024 :: string where "SCF_NAMED_GROUP_P521_MLKEM1024 = ''p521_mlkem1024''"

definition Make112bitMapping :: SecurityLevelMapping where
  "Make112bitMapping = \<lparr> sl_securityStrengthBits = 112, sl_postQuantumResistant = False, sl_nistLevelLabel = ''NIST-SP800-57-112bit'',
     sl_protocolVersionMin = SCF_SSL_VERSION_TLS12, sl_protocolVersionMax = SCF_SSL_VERSION_TLS13,
     sl_tls13CipherSuites = map ucast [SCF_SSL_AES_128_GCM_SHA256, SCF_SSL_AES_256_GCM_SHA384],
     sl_keyExchangeGroups = [''X25519'', ''P-256''], sl_policyMode = SCF_POLICY_MIDDLE \<rparr>"

definition Make128bitMapping :: SecurityLevelMapping where
  "Make128bitMapping = \<lparr> sl_securityStrengthBits = 128, sl_postQuantumResistant = False, sl_nistLevelLabel = ''NIST-SP800-57-128bit'',
     sl_protocolVersionMin = SCF_SSL_VERSION_TLS13, sl_protocolVersionMax = SCF_SSL_VERSION_TLS13,
     sl_tls13CipherSuites = map ucast [SCF_SSL_AES_128_GCM_SHA256, SCF_SSL_AES_256_GCM_SHA384, SCF_SSL_CHACHA20_POLY1305_SHA256],
     sl_keyExchangeGroups = [''X25519'', ''P-256''], sl_policyMode = SCF_POLICY_HIGH \<rparr>"

definition Make192bitMapping :: SecurityLevelMapping where
  "Make192bitMapping = \<lparr> sl_securityStrengthBits = 192, sl_postQuantumResistant = False, sl_nistLevelLabel = ''NIST-SP800-57-192bit'',
     sl_protocolVersionMin = SCF_SSL_VERSION_TLS13, sl_protocolVersionMax = SCF_SSL_VERSION_TLS13,
     sl_tls13CipherSuites = map ucast [SCF_SSL_AES_256_GCM_SHA384, SCF_SSL_AES_128_GCM_SHA256],
     sl_keyExchangeGroups = [''P-384'', ''X25519''], sl_policyMode = SCF_POLICY_HIGH \<rparr>"

definition Make256bitMapping :: SecurityLevelMapping where
  "Make256bitMapping = \<lparr> sl_securityStrengthBits = 256, sl_postQuantumResistant = False, sl_nistLevelLabel = ''NIST-SP800-57-256bit'',
     sl_protocolVersionMin = SCF_SSL_VERSION_TLS13, sl_protocolVersionMax = SCF_SSL_VERSION_TLS13,
     sl_tls13CipherSuites = map ucast [SCF_SSL_AES_256_GCM_SHA384, SCF_SSL_AES_128_GCM_SHA256],
     sl_keyExchangeGroups = [''P-521'', ''P-384'', ''X25519''], sl_policyMode = SCF_POLICY_HIGH \<rparr>"

definition Make128bitPQMapping :: SecurityLevelMapping where
  "Make128bitPQMapping = \<lparr> sl_securityStrengthBits = 128, sl_postQuantumResistant = True, sl_nistLevelLabel = ''NIST-SP800-57-128bit-PQ'',
     sl_protocolVersionMin = SCF_SSL_VERSION_TLS13, sl_protocolVersionMax = SCF_SSL_VERSION_TLS13,
     sl_tls13CipherSuites = map ucast [SCF_SSL_AES_128_GCM_SHA256, SCF_SSL_AES_256_GCM_SHA384],
     sl_keyExchangeGroups = [SCF_NAMED_GROUP_X25519_KYBER512, SCF_NAMED_GROUP_P256_KYBER512, ''x25519_kyber768'', ''X25519'', ''P-256''],
     sl_policyMode = SCF_POLICY_HIGH \<rparr>"

definition Make256bitPQMapping :: SecurityLevelMapping where
  "Make256bitPQMapping = \<lparr> sl_securityStrengthBits = 256, sl_postQuantumResistant = True, sl_nistLevelLabel = ''NIST-SP800-57-256bit-PQ'',
     sl_protocolVersionMin = SCF_SSL_VERSION_TLS13, sl_protocolVersionMax = SCF_SSL_VERSION_TLS13,
     sl_tls13CipherSuites = map ucast [SCF_SSL_AES_256_GCM_SHA384],
     sl_keyExchangeGroups = [SCF_NAMED_GROUP_P521_KYBER1024, SCF_NAMED_GROUP_P521_MLKEM1024, ''p384_kyber768'', ''P-521'', ''P-384''],
     sl_policyMode = SCF_POLICY_HIGH \<rparr>"

fun GetSecurityLevelMapping :: "SCF_SECURITY_LEVEL \<Rightarrow> SecurityLevelMapping" where
  "GetSecurityLevelMapping SCF_SECURITY_112BIT = Make112bitMapping"
| "GetSecurityLevelMapping SCF_SECURITY_192BIT = Make192bitMapping"
| "GetSecurityLevelMapping SCF_SECURITY_256BIT = Make256bitMapping"
| "GetSecurityLevelMapping SCF_SECURITY_128BIT_PQ = Make128bitPQMapping"
| "GetSecurityLevelMapping SCF_SECURITY_256BIT_PQ = Make256bitPQMapping"
| "GetSecurityLevelMapping _ = Make128bitMapping"

fun MapCertVerifyPolicy :: "SCF_CERT_VERIFY_POLICY \<Rightarrow> u32" where
  "MapCertVerifyPolicy SCF_CERT_VERIFY_NONE = SCF_VERIFY_MODE_NONE"
| "MapCertVerifyPolicy SCF_CERT_VERIFY_OPTIONAL = SCF_VERIFY_DEFAULT"
| "MapCertVerifyPolicy SCF_CERT_VERIFY_REQUIRED = SCF_VERIFY_DEFAULT OR SCF_VERIFY_PEER OR SCF_VERIFY_FAIL_IF_NO_PEER_CERT"
| "MapCertVerifyPolicy SCF_CERT_VERIFY_STRICT = SCF_VERIFY_DEFAULT OR SCF_VERIFY_PEER OR SCF_VERIFY_FAIL_IF_NO_PEER_CERT"
| "MapCertVerifyPolicy _ = SCF_VERIFY_DEFAULT"

section \<open>The connection and its environment\<close>

text \<open>\<^verbatim>\<open>transportFactory\<close> and \<^verbatim>\<open>cryptoEngineFactory\<close> select the methods in \<^verbatim>\<open>conn_io\<close>.  The timeouts and the session
  resumption flag are read nowhere except the connect timeout.\<close>

record SCFConnectionConfig =
  cc_securityLevel :: SCF_SECURITY_LEVEL
  cc_role :: SCF_ROLE
  cc_caCertPath :: string
  cc_certPath :: string
  cc_keyPath :: string
  cc_keyPassword :: string
  cc_crlPath :: string
  cc_certVerifyPolicy :: SCF_CERT_VERIFY_POLICY
  cc_pskIdentity :: string
  cc_pskKey :: string
  cc_usePSK :: bool
  cc_appVerifyCb :: ptr
  cc_appVerifyArg :: ptr
  cc_connectTimeoutMs :: u32
  cc_handshakeTimeoutMs :: u32
  cc_enableSessionResumption :: bool
  cc_enableKeyAutoUpdate :: bool

definition SCFConnectionConfig_init :: SCFConnectionConfig where
  "SCFConnectionConfig_init = \<lparr> cc_securityLevel = SCF_SECURITY_128BIT, cc_role = SCF_ROLE_CLIENT, cc_caCertPath = [], cc_certPath = [],
     cc_keyPath = [], cc_keyPassword = [], cc_crlPath = [], cc_certVerifyPolicy = SCF_CERT_VERIFY_REQUIRED, cc_pskIdentity = [],
     cc_pskKey = [], cc_usePSK = False, cc_appVerifyCb = None, cc_appVerifyArg = None, cc_connectTimeoutMs = 5000,
     cc_handshakeTimeoutMs = 10000, cc_enableSessionResumption = True, cc_enableKeyAutoUpdate = True \<rparr>"

record 't SCFConnectionImpl =
  m_config :: SCFConnectionConfig
  m_state :: SCF_CONNECTION_STATE
  m_policyCtx :: ptr
  m_policyObj :: ptr
  m_transport :: "'t option"
  m_cryptoEngine :: ptr
  m_ownsCryptoEngine :: bool
  m_keyExchangeGroups :: "string list"
  m_postQuantumResistant :: bool
  m_isServer :: bool
  m_handshakeDone :: bool
  m_userData :: ptr
  m_negotiatedVersion :: string
  m_negotiatedCipherSuite :: u16

record ('t, 'w) itransport =
  it_Create :: "'w \<Rightarrow> 't option \<times> 'w"
  it_SetConfig :: "'t \<Rightarrow> TransportConfig \<Rightarrow> 'w \<Rightarrow> TransportResult \<times> 't \<times> 'w"
  it_Connect :: "'t \<Rightarrow> TransportAddress \<Rightarrow> TransportConfig \<Rightarrow> 'w \<Rightarrow> TransportResult \<times> 't \<times> 'w"
  it_Bind :: "'t \<Rightarrow> TransportAddress \<Rightarrow> int \<Rightarrow> 'w \<Rightarrow> TransportResult \<times> 't \<times> 'w"
  it_Accept :: "'t \<Rightarrow> 'w \<Rightarrow> 't option \<times> 'w"
  it_Close :: "'t \<Rightarrow> 'w \<Rightarrow> 't \<times> 'w"
  it_GetNativeHandle :: "'t \<Rightarrow> int"

text \<open>Engines are addresses; \<^verbatim>\<open>ie_Provider\<close> is the provider context the adaptor asks for.\<close>

record 'w iengine =
  ie_Create :: "'w \<Rightarrow> ptr \<times> 'w"
  ie_Initialize :: "addr \<Rightarrow> 'w \<Rightarrow> bool \<times> 'w"
  ie_Finalize :: "addr \<Rightarrow> 'w \<Rightarrow> 'w"
  ie_Provider :: "addr \<Rightarrow> 'w \<Rightarrow> ptr"

record ('t, 'w) conn_io =
  ci_transport :: "('t, 'w) itransport"
  ci_engine :: "'w iengine"
  ci_os :: os_api
  ci_crypto :: CryptoUtil
  ci_mc :: memcpy_fn
  ci_ms :: memset_fn

text \<open>The process: the globals with the adaptor (whose engine pointer the connections set), the heap, the
  state of the TLS library, the state behind transports and engines, and the engines that are alive.\<close>

record ('o, 'w) conn_world =
  cw_globals :: "'o OpenSSLAdaptor scf_globals"
  cw_heap :: scf_heap
  cw_lib :: 'o
  cw_sys :: 'w
  cw_engines :: "addr set"

text \<open>What the allocations of one call return, and the clock.\<close>

record conn_alloc =
  ca_ctx :: ptr
  ca_obj :: ptr
  ca_pskObj :: ptr
  ca_suites :: "nat \<Rightarrow> string option"
  ca_file :: "nat \<Rightarrow> mem_env"
  ca_now :: "int \<times> u64"

definition SCFConnectionImpl_new :: "SCFConnectionConfig \<Rightarrow> 't SCFConnectionImpl" where
  "SCFConnectionImpl_new config = \<lparr> m_config = config, m_state = SCF_CONN_INIT, m_policyCtx = None, m_policyObj = None,
     m_transport = None, m_cryptoEngine = None, m_ownsCryptoEngine = False, m_keyExchangeGroups = [], m_postQuantumResistant = False,
     m_isServer = (cc_role config = SCF_ROLE_SERVER), m_handshakeDone = False, m_userData = None, m_negotiatedVersion = [],
     m_negotiatedCipherSuite = 0 \<rparr>"

section \<open>Accesses through pointers\<close>

text \<open>A call on a context or an object: the pointer is followed (\<^verbatim>\<open>None\<close>: the target has been released), and the
  updated structures are stored back.\<close>

definition ctx_op ::
  "ptr \<Rightarrow> (SCFPolicyCtx option \<Rightarrow> 'o \<Rightarrow> 'r \<times> SCFPolicyCtx option \<times> 'o) \<Rightarrow> ('o, 'w) conn_world \<Rightarrow> ('r \<times> ('o, 'w) conn_world) option" where
  "ctx_op p f w =
     (case p of
        None \<Rightarrow> let (r, c, st) = f None (cw_lib w) in Some (r, w\<lparr>cw_lib := st\<rparr>)
      | Some a \<Rightarrow>
          (case hp_ctx (cw_heap w) a of
             None \<Rightarrow> None
           | Some c \<Rightarrow>
               let (r, c1, st) = f (Some c) (cw_lib w) in
               Some (r, w\<lparr>cw_heap := (cw_heap w)\<lparr>hp_ctx := (hp_ctx (cw_heap w))(a := c1)\<rparr>, cw_lib := st\<rparr>)))"

definition obj_op ::
  "ptr \<Rightarrow> (SCFPolicyObj option \<Rightarrow> SCFPolicyCtx option \<Rightarrow> 'o \<Rightarrow> 'r \<times> SCFPolicyObj option \<times> SCFPolicyCtx option \<times> 'o)
     \<Rightarrow> ('o, 'w) conn_world \<Rightarrow> ('r \<times> ('o, 'w) conn_world) option" where
  "obj_op p f w =
     (case p of
        None \<Rightarrow> let (r, b, c, st) = f None None (cw_lib w) in Some (r, w\<lparr>cw_lib := st\<rparr>)
      | Some o1 \<Rightarrow>
          (case hp_obj (cw_heap w) o1 of
             None \<Rightarrow> None
           | Some b \<Rightarrow>
               (case obj_policyCtx b of
                  None \<Rightarrow>
                    let (r, b1, c1, st) = f (Some b) None (cw_lib w) in
                    Some (r, w\<lparr>cw_heap := (cw_heap w)\<lparr>hp_obj := (hp_obj (cw_heap w))(o1 := b1)\<rparr>, cw_lib := st\<rparr>)
                | Some a \<Rightarrow>
                    (case hp_ctx (cw_heap w) a of
                       None \<Rightarrow> None
                     | Some c \<Rightarrow>
                         let (r, b1, c1, st) = f (Some b) (Some c) (cw_lib w) in
                         Some (r, w\<lparr>cw_heap := (cw_heap w)\<lparr>hp_ctx := (hp_ctx (cw_heap w))(a := c1), hp_obj := (hp_obj (cw_heap w))(o1 := b1)\<rparr>,
                                    cw_lib := st\<rparr>)))))"

definition adaptor_SetCryptoEngine :: "ptr option \<Rightarrow> ('o, 'w) conn_world \<Rightarrow> ('o, 'w) conn_world" where
  "adaptor_SetCryptoEngine e w =
     w\<lparr>cw_globals := (cw_globals w)\<lparr>g_adaptor := map_option (\<lambda>ad. ad\<lparr>ad_cryptoEngine := e\<rparr>) (g_adaptor (cw_globals w))\<rparr>\<rparr>"

section \<open>Setting up\<close>

text \<open>The first part of \<^verbatim>\<open>SetupPolicyContext\<close>; a code is an early return.\<close>

definition SetupCryptoEngine ::
  "('t, 'w) conn_io \<Rightarrow> 't SCFConnectionImpl \<Rightarrow> ('o, 'w) conn_world \<Rightarrow> ret option \<times> 't SCFConnectionImpl \<times> ('o, 'w) conn_world" where
  "SetupCryptoEngine io conn w =
     (case m_cryptoEngine conn of
        Some e \<Rightarrow> (None, conn, adaptor_SetCryptoEngine (Some (ie_Provider (ci_engine io) e (cw_sys w))) w)
      | None \<Rightarrow>
          let (p, s1) = ie_Create (ci_engine io) (cw_sys w) in
          (case p of
             None \<Rightarrow> (None, conn, w\<lparr>cw_sys := s1\<rparr>)
           | Some e \<Rightarrow>
               let (ok, s2) = ie_Initialize (ci_engine io) e s1 in
               if \<not> ok then (None, conn, w\<lparr>cw_sys := ie_Finalize (ci_engine io) e s2\<rparr>)
               else
                 let conn1 = conn\<lparr>m_cryptoEngine := Some e, m_ownsCryptoEngine := True\<rparr>;
                     w1 = w\<lparr>cw_sys := s2, cw_engines := insert e (cw_engines w)\<rparr> in
                 case CHECK_SCF_ADAPTOR_RET (cw_globals w) of
                   Some r \<Rightarrow> (Some r, conn1, w1)
                 | None \<Rightarrow> (None, conn1, adaptor_SetCryptoEngine (Some (ie_Provider (ci_engine io) e s2)) w1)))"

definition SetupCipherSuites ::
  "('t, 'w) conn_io \<Rightarrow> conn_alloc \<Rightarrow> 't SCFConnectionImpl \<Rightarrow> ('o, 'w) conn_world \<Rightarrow> (ret \<times> ('o, 'w) conn_world) option" where
  "SetupCipherSuites io al conn w =
     (let suites = sl_tls13CipherSuites (GetSecurityLevelMapping (cc_securityLevel (m_config conn))) in
      if suites \<noteq> [] then
        ctx_op (m_policyCtx conn)
          (\<lambda>c st. let (r, st1) = SCF_SetCipherSuites (cw_globals w) (ci_mc io) (ca_suites al) c (Some suites) (of_nat (length suites)) st in
                  (r, c, st1)) w
      else Some (SCF_SUCCESS, w))"

text \<open>One of the blocks of \<^verbatim>\<open>SetupCertificates\<close>: a file context for the path, whose terminator is part of the
  bytes passed, used and released.  \<^verbatim>\<open>pwd\<close> is the password of a key (\<^verbatim>\<open>None\<close> for a certificate).\<close>

definition LoadFile ::
  "('t, 'w) conn_io \<Rightarrow> mem_env \<Rightarrow> string \<Rightarrow> string option \<Rightarrow>
     (SCFFileCtx option \<Rightarrow> ('o, 'w) conn_world \<Rightarrow> (ret \<times> ('o, 'w) conn_world) option) \<Rightarrow> ('o, 'w) conn_world
     \<Rightarrow> (ret \<times> ('o, 'w) conn_world) option" where
  "LoadFile io me path pwd use w =
     (case SCF_FileCtxNew (cw_globals w) (me_oom me) (me_cleared me) of
        None \<Rightarrow> Some (SCF_ERRNO_MEM_ALLOC, w)
      | Some fc \<Rightarrow>
          let (r, fc1, _) = SCF_FileCtxSetBuf (cw_globals w) (ci_os io) (ci_mc io) (ci_ms io) (me_buf me) (Some fc) SCF_STORE_FILE_PATH
                (Some (path @ [NUL])) (length path + 1) SCF_STORE_FORMAT_PEM;
              (r2, fc2) = (if r = SCF_SUCCESS \<and> pwd \<noteq> None \<and> pwd \<noteq> Some []
                 then let (r', fc', _) = SCF_FileCtxSetPwd (cw_globals w) (ci_crypto io) (ci_mc io) (ci_ms io) (me_pwd me) fc1
                            pwd (length (the pwd)) False in (r', fc')
                 else (r, fc1)) in
          if r2 = SCF_SUCCESS then use fc2 w else Some (r2, w))"

definition add_cert ::
  "('t, 'w) conn_io \<Rightarrow> 't SCFConnectionImpl \<Rightarrow> SCF_CERT_TYPE \<Rightarrow> SCFFileCtx option \<Rightarrow> ('o, 'w) conn_world
     \<Rightarrow> (ret \<times> ('o, 'w) conn_world) option" where
  "add_cert io conn type fc w =
     (case m_policyCtx conn of
        None \<Rightarrow> Some (SCF_ERRNO_NULL_INPUT, w)
      | Some a \<Rightarrow>
          (case hp_ctx (cw_heap w) a of
             None \<Rightarrow> None
           | Some c \<Rightarrow>
               (case SCF_AddCert (cw_globals w) (ci_os io) (Some c) fc type (cw_lib w) of
                  None \<Rightarrow> None
                | Some (r, st) \<Rightarrow> Some (r, w\<lparr>cw_lib := st\<rparr>))))"

definition set_key ::
  "'t SCFConnectionImpl \<Rightarrow> SCFFileCtx option \<Rightarrow> ('o, 'w) conn_world \<Rightarrow> (ret \<times> ('o, 'w) conn_world) option" where
  "set_key conn fc w =
     ctx_op (m_policyCtx conn) (\<lambda>c st. let (r, st1) = SCF_SetKey (cw_globals w) c fc st in (r, c, st1)) w"

definition SetupCertificates ::
  "('t, 'w) conn_io \<Rightarrow> conn_alloc \<Rightarrow> 't SCFConnectionImpl \<Rightarrow> ('o, 'w) conn_world \<Rightarrow> (ret \<times> ('o, 'w) conn_world) option" where
  "SetupCertificates io al conn w =
     (let cfg = m_config conn;
          ca = (if cc_caCertPath cfg \<noteq> []
                then LoadFile io (ca_file al 0) (cc_caCertPath cfg) None (add_cert io conn SCF_CERT_TYPE_CA) w else Some (SCF_SUCCESS, w)) in
      case ca of
        None \<Rightarrow> None
      | Some (r, w1) \<Rightarrow>
          if r \<noteq> SCF_SUCCESS then Some (r, w1)
          else
            case (if cc_certPath cfg \<noteq> [] \<and> cc_keyPath cfg \<noteq> [] then
                    (case LoadFile io (ca_file al 1) (cc_certPath cfg) None (add_cert io conn SCF_CERT_TYPE_EE) w1 of
                       None \<Rightarrow> None
                     | Some (r2, w2) \<Rightarrow>
                         if r2 \<noteq> SCF_SUCCESS then Some (r2, w2)
                         else LoadFile io (ca_file al 2) (cc_keyPath cfg) (Some (cc_keyPassword cfg)) (set_key conn) w2)
                  else Some (SCF_SUCCESS, w1)) of
              None \<Rightarrow> None
            | Some (r2, w2) \<Rightarrow>
                if r2 \<noteq> SCF_SUCCESS then Some (r2, w2)
                else if cc_crlPath cfg \<noteq> []
                then LoadFile io (ca_file al 3) (cc_crlPath cfg) None (add_cert io conn SCF_CERT_TYPE_CRL) w2
                else Some (SCF_SUCCESS, w2))"

text \<open>The object created for the lookup of the suite is passed on directly; nobody keeps its pointer.\<close>

definition SetupPSK ::
  "('t, 'w) conn_io \<Rightarrow> conn_alloc \<Rightarrow> 't SCFConnectionImpl \<Rightarrow> ('o, 'w) conn_world \<Rightarrow> (ret \<times> ('o, 'w) conn_world) option" where
  "SetupPSK io al conn w =
     (let g = cw_globals w; cfg = m_config conn;
          (sess, st1) = SCF_SessionNew g (cw_lib w) in
      if sess = None then Some (SCF_ERRNO_MEM_ALLOC, w\<lparr>cw_lib := st1\<rparr>)
      else
        let (r, st2) = SCF_SessionSetMasterKey g (ci_crypto io) sess (if cc_pskKey cfg = [] then None else Some (cc_pskKey cfg))
              (length (cc_pskKey cfg)) False st1 in
        if r \<noteq> SCF_SUCCESS then Some (r, w\<lparr>cw_lib := snd (SCF_SessionFree g (Some sess) st2)\<rparr>)
        else
          let (r2, st3) = SCF_SessionSetProtocolVersion g sess (Some SCF_SSL_VERSION_TLS13_STR) st2 in
          if r2 \<noteq> SCF_SUCCESS then Some (r2, w\<lparr>cw_lib := snd (SCF_SessionFree g (Some sess) st3)\<rparr>)
          else
            case sl_tls13CipherSuites (GetSecurityLevelMapping (cc_securityLevel cfg)) of
              [] \<Rightarrow> Some (SCF_SUCCESS, w\<lparr>cw_lib := snd (SCF_SessionFree g (Some sess) st3)\<rparr>)
            | suite # _ \<Rightarrow>
                let cipherId = [char_of (unat (drop_bit 8 suite)), char_of (unat (suite AND 0xFF))] in
                (case SCF_CreatePolicyObj g (m_policyCtx conn) (ca_now al) (ca_pskObj al) (cw_heap w) of
                   None \<Rightarrow> None
                 | Some (p, h1) \<Rightarrow>
                     let obj = Option.bind p (hp_obj h1);
                         cipherSuite = SCF_CipherFind g obj (Some cipherId) st3;
                         st4 = (if cipherSuite \<noteq> None then snd (SCF_SessionSetCipher g sess cipherSuite st3) else st3) in
                     Some (SCF_SUCCESS, w\<lparr>cw_heap := h1, cw_lib := snd (SCF_SessionFree g (Some sess) st4)\<rparr>)))"

text \<open>Steps 5 to 7 of \<^verbatim>\<open>SetupPolicyContext\<close>: credentials, verification callback, automatic key update (whose failure
  is only logged).\<close>

definition SetupCredentials ::
  "('t, 'w) conn_io \<Rightarrow> conn_alloc \<Rightarrow> 't SCFConnectionImpl \<Rightarrow> ('o, 'w) conn_world \<Rightarrow> (ret \<times> ('o, 'w) conn_world) option" where
  "SetupCredentials io al conn w =
     (let cfg = m_config conn; g = cw_globals w in
      case (if cc_usePSK cfg then SetupPSK io al conn w else SetupCertificates io al conn w) of
        None \<Rightarrow> None
      | Some (r, w1) \<Rightarrow>
          if r \<noteq> SCF_SUCCESS then Some (r, w1)
          else
            case (if cc_appVerifyCb cfg \<noteq> None
                  then ctx_op (m_policyCtx conn)
                         (\<lambda>c st. let (r, st1) = SCF_SetAppVerifyCallback g c (cc_appVerifyCb cfg) (cc_appVerifyArg cfg) st in (r, c, st1)) w1
                  else Some (SCF_SUCCESS, w1)) of
              None \<Rightarrow> None
            | Some (r2, w2) \<Rightarrow>
                if r2 \<noteq> SCF_SUCCESS then Some (r2, w2)
                else if cc_enableKeyAutoUpdate cfg
                then map_option (\<lambda>(_, w3). (SCF_SUCCESS, w3))
                       (ctx_op (m_policyCtx conn) (\<lambda>c st. let (r, c1) = SCF_SetKeyAutoUpdateParam g c True 300 1073741824 in (r, c1, st)) w2)
                else Some (SCF_SUCCESS, w2))"

text \<open>Steps 2 to 4: policy, key exchange groups (whose failure is only logged), versions and suites.\<close>

definition SetupPolicy ::
  "('t, 'w) conn_io \<Rightarrow> conn_alloc \<Rightarrow> 't SCFConnectionImpl \<Rightarrow> ('o, 'w) conn_world \<Rightarrow> (ret \<times> ('o, 'w) conn_world) option" where
  "SetupPolicy io al conn w =
     (let cfg = m_config conn; g = cw_globals w; mapping = GetSecurityLevelMapping (cc_securityLevel cfg);
          verifyMode = MapCertVerifyPolicy (cc_certVerifyPolicy cfg) in
      case ctx_op (m_policyCtx conn) (\<lambda>c st. SCF_SetPolicy g c (cc_role cfg) verifyMode (sl_policyMode mapping) st) w of
        None \<Rightarrow> None
      | Some (r, w1) \<Rightarrow>
          if r \<noteq> SCF_SUCCESS then Some (r, w1)
          else
            case (case g_adaptor g of
                    None \<Rightarrow> Some w1
                  | Some ad \<Rightarrow>
                      if m_keyExchangeGroups conn \<noteq> []
                      then map_option snd (ctx_op (m_policyCtx conn)
                             (\<lambda>c st. let (r, st1) = SetKeyExchangeGroups (ad_ssl ad) c (m_keyExchangeGroups conn) st in (r, c, st1)) w1)
                      else Some w1) of
              None \<Rightarrow> None
            | Some w2 \<Rightarrow>
                (case ctx_op (m_policyCtx conn)
                        (\<lambda>c st. let (r, st1) = SCF_SetProtocolVersion g c (sl_protocolVersionMin mapping) (sl_protocolVersionMax mapping) None 0 st
                                in (r, c, st1)) w2 of
                   None \<Rightarrow> None
                 | Some (r3, w3) \<Rightarrow> if r3 \<noteq> SCF_SUCCESS then Some (r3, w3) else SetupCipherSuites io al conn w3))"

definition SetupPolicyContext ::
  "('t, 'w) conn_io \<Rightarrow> conn_alloc \<Rightarrow> 't SCFConnectionImpl \<Rightarrow> ('o, 'w) conn_world
     \<Rightarrow> (ret \<times> 't SCFConnectionImpl \<times> ('o, 'w) conn_world) option" where
  "SetupPolicyContext io al conn w =
     (let (early, conn1, w1) = SetupCryptoEngine io conn w in
      case early of Some r \<Rightarrow> Some (r, conn1, w1) | None \<Rightarrow>
      case SCF_CreatePolicyCtx (cw_globals w1) (ca_ctx al = None) of
        None \<Rightarrow> Some (SCF_ERRNO_MEM_ALLOC, conn1\<lparr>m_policyCtx := None\<rparr>, w1)
      | Some c \<Rightarrow>
          let mapping = GetSecurityLevelMapping (cc_securityLevel (m_config conn1));
              conn2 = conn1\<lparr>m_policyCtx := ca_ctx al, m_postQuantumResistant := sl_postQuantumResistant mapping,
                           m_keyExchangeGroups := sl_keyExchangeGroups mapping\<rparr>;
              w2 = w1\<lparr>cw_heap := (cw_heap w1)\<lparr>hp_ctx := (hp_ctx (cw_heap w1))(the (ca_ctx al) \<mapsto> c)\<rparr>\<rparr> in
          (case SetupPolicy io al conn2 w2 of
             None \<Rightarrow> None
           | Some (r, w3) \<Rightarrow>
               if r \<noteq> SCF_SUCCESS then Some (r, conn2, w3)
               else map_option (\<lambda>(r, w4). (r, conn2, w4)) (SetupCredentials io al conn2 w3)))"

definition SetupTransportClient ::
  "('t, 'w) conn_io \<Rightarrow> string \<Rightarrow> u16 \<Rightarrow> 't SCFConnectionImpl \<Rightarrow> ('o, 'w) conn_world \<Rightarrow> ret \<times> 't SCFConnectionImpl \<times> ('o, 'w) conn_world" where
  "SetupTransportClient io host port conn w =
     (let tr = ci_transport io; (t, s1) = it_Create tr (cw_sys w) in
      case t of
        None \<Rightarrow> (SCF_ERRNO_MEM_ALLOC, conn\<lparr>m_transport := None\<rparr>, w\<lparr>cw_sys := s1\<rparr>)
      | Some t0 \<Rightarrow>
          let tCfg = TransportConfig_init\<lparr>tc_nonBlocking := True, tc_connectTimeoutMs := sint (cc_connectTimeoutMs (m_config conn))\<rparr>;
              (_, t1, s2) = it_SetConfig tr t0 tCfg s1;
              (tRet, t2, s3) = it_Connect tr t1 (TransportAddress_IPv4 host port) tCfg s2 in
          if tRet \<noteq> TR_SUCCESS then (SCF_ERRNO_SECURE_TRANSPORT, conn\<lparr>m_transport := Some t2\<rparr>, w\<lparr>cw_sys := s3\<rparr>)
          else (SCF_SUCCESS, conn\<lparr>m_transport := Some t2, m_state := SCF_CONN_CONNECTING\<rparr>, w\<lparr>cw_sys := s3\<rparr>))"

definition SetupTransportServer ::
  "('t, 'w) conn_io \<Rightarrow> string \<Rightarrow> u16 \<Rightarrow> 't SCFConnectionImpl \<Rightarrow> ('o, 'w) conn_world \<Rightarrow> ret \<times> 't SCFConnectionImpl \<times> ('o, 'w) conn_world" where
  "SetupTransportServer io host port conn w =
     (let tr = ci_transport io; (t, s1) = it_Create tr (cw_sys w) in
      case t of
        None \<Rightarrow> (SCF_ERRNO_MEM_ALLOC, conn\<lparr>m_transport := None\<rparr>, w\<lparr>cw_sys := s1\<rparr>)
      | Some t0 \<Rightarrow>
          let tCfg = TransportConfig_init\<lparr>tc_nonBlocking := True\<rparr>;
              (_, t1, s2) = it_SetConfig tr t0 tCfg s1;
              bindHost = (if host = [] then ''0.0.0.0'' else host);
              (tRet, t2, s3) = it_Bind tr t1 (TransportAddress_IPv4 bindHost port) 128 s2 in
          if tRet \<noteq> TR_SUCCESS then (SCF_ERRNO_SECURE_TRANSPORT, conn\<lparr>m_transport := Some t2\<rparr>, w\<lparr>cw_sys := s3\<rparr>)
          else (SCF_SUCCESS, conn\<lparr>m_transport := Some t2, m_state := SCF_CONN_INIT\<rparr>, w\<lparr>cw_sys := s3\<rparr>))"

text \<open>Both callers have set the transport.\<close>

definition CreatePolicyObj ::
  "('t, 'w) conn_io \<Rightarrow> conn_alloc \<Rightarrow> 't SCFConnectionImpl \<Rightarrow> ('o, 'w) conn_world
     \<Rightarrow> (ret \<times> 't SCFConnectionImpl \<times> ('o, 'w) conn_world) option" where
  "CreatePolicyObj io al conn w =
     (case SCF_CreatePolicyObj (cw_globals w) (m_policyCtx conn) (ca_now al) (ca_obj al) (cw_heap w) of
        None \<Rightarrow> None
      | Some (p, h1) \<Rightarrow>
          let conn1 = conn\<lparr>m_policyObj := p\<rparr>; w1 = w\<lparr>cw_heap := h1\<rparr> in
          if p = None then Some (SCF_ERRNO_MEM_ALLOC, conn1, w1)
          else
            (case m_transport conn1 of
               None \<Rightarrow> None
             | Some t \<Rightarrow>
                 let fd = it_GetNativeHandle (ci_transport io) t in
                 if fd \<ge> 0 then
                   map_option (\<lambda>(r, w2). (r, conn1, w2))
                     (obj_op p (\<lambda>b c st. let (r, b1, st1) = SCF_SetFd (cw_globals w1) (the p) b c fd st in (r, b1, c, st1)) w1)
                 else Some (SCF_SUCCESS, conn1, w1)))"

section \<open>The public operations\<close>

definition HandshakeStep ::
  "'t SCFConnectionImpl \<Rightarrow> ('o, 'w) conn_world \<Rightarrow> (ret \<times> 't SCFConnectionImpl \<times> ('o, 'w) conn_world) option" where
  "HandshakeStep conn w =
     (if m_policyObj conn = None then Some (SCF_ERRNO_NULL_INPUT, conn, w)
      else
        case obj_op (m_policyObj conn)
               (\<lambda>b c st. if m_isServer conn then SCF_Accept (cw_globals w) b c st else SCF_Connect (cw_globals w) b c st) w of
          None \<Rightarrow> None
        | Some (r, w1) \<Rightarrow>
            if r = SCF_SUCCESS then
              (let ver = SCF_GetProtocolVersion (cw_globals w1) (hp_obj (cw_heap w1) (the (m_policyObj conn))) (cw_lib w1);
                   conn1 = conn\<lparr>m_handshakeDone := True, m_state := SCF_CONN_CONNECTED\<rparr> in
               Some (r, if ver \<noteq> None then conn1\<lparr>m_negotiatedVersion := cstr (the ver)\<rparr> else conn1, w1))
            else if r = SCF_SSL_ERR_WANT_READ \<or> r = SCF_SSL_ERR_WANT_WRITE
            then Some (r, conn\<lparr>m_state := SCF_CONN_CONNECTING\<rparr>, w1)
            else Some (r, conn\<lparr>m_state := SCF_CONN_ERROR\<rparr>, w1))"

definition conn_Close ::
  "('t, 'w) conn_io \<Rightarrow> 't SCFConnectionImpl \<Rightarrow> ('o, 'w) conn_world \<Rightarrow> (ret \<times> 't SCFConnectionImpl \<times> ('o, 'w) conn_world) option" where
  "conn_Close io conn w =
     (if m_state conn = SCF_CONN_CLOSED \<or> m_state conn = SCF_CONN_CLOSING then Some (SCF_SUCCESS, conn, w)
      else
        let conn1 = conn\<lparr>m_state := SCF_CONN_CLOSING\<rparr> in
        case (if m_policyObj conn1 \<noteq> None
              then obj_op (m_policyObj conn1) (\<lambda>b c st. let (r, st1) = SCF_Close (cw_globals w) b st in (r, b, c, st1)) w
              else Some (SCF_SUCCESS, w)) of
          None \<Rightarrow> None
        | Some (r, w1) \<Rightarrow>
            let (conn2, w2) =
                  (case m_transport conn1 of
                     None \<Rightarrow> (conn1, w1)
                   | Some t \<Rightarrow> let (t1, s1) = it_Close (ci_transport io) t (cw_sys w1) in (conn1\<lparr>m_transport := Some t1\<rparr>, w1\<lparr>cw_sys := s1\<rparr>)) in
            Some (r, conn2\<lparr>m_state := SCF_CONN_CLOSED, m_handshakeDone := False\<rparr>, w2))"

text \<open>Deleting a transport runs its destructor, which closes it again.\<close>

definition Cleanup ::
  "('t, 'w) conn_io \<Rightarrow> 't SCFConnectionImpl \<Rightarrow> ('o, 'w) conn_world \<Rightarrow> ('t SCFConnectionImpl \<times> ('o, 'w) conn_world) option" where
  "Cleanup io conn w =
     (case (if m_state conn = SCF_CONN_CONNECTED \<or> m_state conn = SCF_CONN_CONNECTING
            then map_option snd (conn_Close io conn w) else Some (conn, w)) of
        None \<Rightarrow> None
      | Some (conn1, w1) \<Rightarrow>
          case (if m_policyObj conn1 \<noteq> None
                then SCF_FreePolicyObj (cw_globals w1) (Some (m_policyObj conn1)) (cw_heap w1) (cw_lib w1)
                else Some (None, cw_heap w1, cw_lib w1)) of
            None \<Rightarrow> None
          | Some (_, h2, st2) \<Rightarrow>
              case (if m_policyCtx conn1 \<noteq> None
                    then SCF_FreePolicyCtx (cw_globals w1) (Some (m_policyCtx conn1)) h2 st2
                    else Some (None, h2, st2)) of
                None \<Rightarrow> None
              | Some (_, h3, st3) \<Rightarrow>
                  let tr = ci_transport io; en = ci_engine io;
                      s4 = (case m_transport conn1 of
                              None \<Rightarrow> cw_sys w1
                            | Some t \<Rightarrow> let (t1, s1) = it_Close tr t (cw_sys w1) in snd (it_Close tr t1 s1));
                      w4 = w1\<lparr>cw_heap := h3, cw_lib := st3, cw_sys := s4\<rparr>;
                      conn4 = conn1\<lparr>m_policyObj := None, m_policyCtx := None, m_transport := None\<rparr>;
                      (conn5, w5) =
                        (case m_cryptoEngine conn4 of
                           None \<Rightarrow> (conn4, w4)
                         | Some e \<Rightarrow>
                             if m_ownsCryptoEngine conn4
                             then (conn4\<lparr>m_cryptoEngine := None, m_ownsCryptoEngine := False\<rparr>,
                                   let w' = adaptor_SetCryptoEngine None w4 in
                                   w'\<lparr>cw_sys := ie_Finalize en e (ie_Finalize en e (cw_sys w')), cw_engines := cw_engines w' - {e}\<rparr>)
                             else (conn4, w4)) in
                  Some (conn5\<lparr>m_state := SCF_CONN_CLOSED\<rparr>, w5))"

definition conn_Connect ::
  "('t, 'w) conn_io \<Rightarrow> conn_alloc \<Rightarrow> string \<Rightarrow> u16 \<Rightarrow> 't SCFConnectionImpl \<Rightarrow> ('o, 'w) conn_world
     \<Rightarrow> (ret \<times> 't SCFConnectionImpl \<times> ('o, 'w) conn_world) option" where
  "conn_Connect io al host port conn w =
     (case SetupPolicyContext io al conn w of
        None \<Rightarrow> None
      | Some (r, conn1, w1) \<Rightarrow>
          if r \<noteq> SCF_SUCCESS then Some (r, conn1\<lparr>m_state := SCF_CONN_ERROR\<rparr>, w1)
          else
            let (r2, conn2, w2) = SetupTransportClient io host port conn1 w1 in
            if r2 \<noteq> SCF_SUCCESS
            then map_option (\<lambda>(conn3, w3). (r2, conn3, w3)) (Cleanup io (conn2\<lparr>m_state := SCF_CONN_ERROR\<rparr>) w2)
            else
              (case CreatePolicyObj io al conn2 w2 of
                 None \<Rightarrow> None
               | Some (r3, conn3, w3) \<Rightarrow>
                   if r3 \<noteq> SCF_SUCCESS
                   then map_option (\<lambda>(conn4, w4). (r3, conn4, w4)) (Cleanup io (conn3\<lparr>m_state := SCF_CONN_ERROR\<rparr>) w3)
                   else HandshakeStep conn3 w3))"

definition conn_Listen ::
  "('t, 'w) conn_io \<Rightarrow> conn_alloc \<Rightarrow> string \<Rightarrow> u16 \<Rightarrow> 't SCFConnectionImpl \<Rightarrow> ('o, 'w) conn_world
     \<Rightarrow> (ret \<times> 't SCFConnectionImpl \<times> ('o, 'w) conn_world) option" where
  "conn_Listen io al host port conn w =
     (case SetupPolicyContext io al conn w of
        None \<Rightarrow> None
      | Some (r, conn1, w1) \<Rightarrow>
          if r \<noteq> SCF_SUCCESS then Some (r, conn1\<lparr>m_state := SCF_CONN_ERROR\<rparr>, w1)
          else
            let (r2, conn2, w2) = SetupTransportServer io host port conn1 w1 in
            if r2 \<noteq> SCF_SUCCESS then Some (r2, conn2\<lparr>m_state := SCF_CONN_ERROR\<rparr>, w2) else Some (SCF_SUCCESS, conn2, w2))"

text \<open>\<^verbatim>\<open>oom\<close>: the allocation of the new connection fails.  The result is the new connection, if any.\<close>

definition conn_Accept ::
  "('t, 'w) conn_io \<Rightarrow> conn_alloc \<Rightarrow> bool \<Rightarrow> 't SCFConnectionImpl \<Rightarrow> ('o, 'w) conn_world
     \<Rightarrow> ('t SCFConnectionImpl option \<times> ('o, 'w) conn_world) option" where
  "conn_Accept io al oom conn w =
     (case m_transport conn of
        None \<Rightarrow> Some (None, w)
      | Some t \<Rightarrow>
          if \<not> m_isServer conn then Some (None, w)
          else
            let tr = ci_transport io; (ct, s1) = it_Accept tr t (cw_sys w); w1 = w\<lparr>cw_sys := s1\<rparr> in
            (case ct of
               None \<Rightarrow> Some (None, w1)
             | Some clientTransport \<Rightarrow>
                 if oom then
                   (let (t1, s2) = it_Close tr clientTransport s1 in Some (None, w1\<lparr>cw_sys := snd (it_Close tr t1 s2)\<rparr>))
                 else
                   let n0 = (SCFConnectionImpl_new (m_config conn))\<lparr>m_transport := Some clientTransport, m_isServer := True\<rparr>;
                       (n1, w2) =
                         (case m_cryptoEngine conn of
                            None \<Rightarrow> (n0, w1)
                          | Some e \<Rightarrow> (n0\<lparr>m_cryptoEngine := Some e, m_ownsCryptoEngine := False\<rparr>,
                                      adaptor_SetCryptoEngine (Some (ie_Provider (ci_engine io) e (cw_sys w1))) w1)) in
                   (case SetupPolicyContext io al n1 w2 of
                      None \<Rightarrow> None
                    | Some (r, n2, w3) \<Rightarrow>
                        if r \<noteq> SCF_SUCCESS then map_option (\<lambda>(_, w'). (None, w')) (Cleanup io n2 w3)
                        else
                          (case CreatePolicyObj io al n2 w3 of
                             None \<Rightarrow> None
                           | Some (r2, n3, w4) \<Rightarrow>
                               if r2 \<noteq> SCF_SUCCESS then map_option (\<lambda>(_, w'). (None, w')) (Cleanup io n3 w4)
                               else
                                 (case HandshakeStep n3 w4 of
                                    None \<Rightarrow> None
                                  | Some (r3, n4, w5) \<Rightarrow>
                                      if r3 = SCF_SSL_ERR_WANT_READ \<or> r3 = SCF_SSL_ERR_WANT_WRITE
                                      then Some (Some (n4\<lparr>m_state := SCF_CONN_CONNECTING\<rparr>), w5)
                                      else if r3 \<noteq> SCF_SUCCESS then map_option (\<lambda>(_, w'). (None, w')) (Cleanup io n4 w5)
                                      else Some (Some (n4\<lparr>m_state := SCF_CONN_CONNECTED, m_handshakeDone := True\<rparr>), w5))))))"

definition conn_Read ::
  "'t SCFConnectionImpl \<Rightarrow> string option \<Rightarrow> u32 \<Rightarrow> u32 option \<Rightarrow> ('o, 'w) conn_world
     \<Rightarrow> ((ret \<times> string \<times> u32 option) \<times> ('o, 'w) conn_world) option" where
  "conn_Read conn data len readLen w =
     (if m_state conn \<noteq> SCF_CONN_CONNECTED \<or> m_policyObj conn = None then Some ((SCF_ERRNO_INVALID_PARAM, [], readLen), w)
      else obj_op (m_policyObj conn)
             (\<lambda>b c st. let (r, d, n, st1) = SCF_Read (cw_globals w) b data len readLen st in ((r, d, n), b, c, st1)) w)"

definition conn_Write ::
  "'t SCFConnectionImpl \<Rightarrow> string option \<Rightarrow> u32 \<Rightarrow> u32 option \<Rightarrow> int \<times> u64 \<Rightarrow> ('o, 'w) conn_world
     \<Rightarrow> ((ret \<times> u32 option) \<times> ('o, 'w) conn_world) option" where
  "conn_Write conn data len writeLen now w =
     (if m_state conn \<noteq> SCF_CONN_CONNECTED \<or> m_policyObj conn = None then Some ((SCF_ERRNO_INVALID_PARAM, writeLen), w)
      else obj_op (m_policyObj conn)
             (\<lambda>b c st. let (r, b1, n, st1) = SCF_Write (cw_globals w) b c data len writeLen now st in ((r, n), b1, c, st1)) w)"

definition IsConnected :: "'t SCFConnectionImpl \<Rightarrow> bool" where
  "IsConnected conn \<longleftrightarrow> m_state conn = SCF_CONN_CONNECTED \<and> m_handshakeDone conn"

definition GetTLSVersion :: "'t SCFConnectionImpl \<Rightarrow> ('o, 'w) conn_world \<Rightarrow> string option option" where
  "GetTLSVersion conn w =
     (if m_handshakeDone conn \<and> m_negotiatedVersion conn \<noteq> [] then Some (Some (m_negotiatedVersion conn))
      else case m_policyObj conn of
        None \<Rightarrow> Some (Some [])
      | Some o1 \<Rightarrow>
          (case hp_obj (cw_heap w) o1 of
             None \<Rightarrow> None
           | Some b \<Rightarrow> Some (SCF_GetProtocolVersion (cw_globals w) (Some b) (cw_lib w))))"

definition GetCipherSuite :: "'t SCFConnectionImpl \<Rightarrow> u16" where
  "GetCipherSuite conn = m_negotiatedCipherSuite conn"

definition GetPeerCertificate :: "'t SCFConnectionImpl \<Rightarrow> ('o, 'w) conn_world \<Rightarrow> ptr option" where
  "GetPeerCertificate conn w =
     (case m_policyObj conn of
        None \<Rightarrow> Some None
      | Some o1 \<Rightarrow> (case hp_obj (cw_heap w) o1 of None \<Rightarrow> None | Some b \<Rightarrow> Some (SCF_GetPeerCert (cw_globals w) (Some b) (cw_lib w))))"

definition FreePeerCertificate :: "ptr \<Rightarrow> ('o, 'w) conn_world \<Rightarrow> ('o, 'w) conn_world" where
  "FreePeerCertificate cert w = w\<lparr>cw_lib := snd (SCF_FreeCert (cw_globals w) (Some cert) (cw_lib w))\<rparr>"

definition conn_GetNativeHandle :: "('t, 'w) conn_io \<Rightarrow> 't SCFConnectionImpl \<Rightarrow> int" where
  "conn_GetNativeHandle io conn = (case m_transport conn of None \<Rightarrow> -1 | Some t \<Rightarrow> it_GetNativeHandle (ci_transport io) t)"

definition TriggerKeyUpdate ::
  "'t SCFConnectionImpl \<Rightarrow> int \<times> u64 \<Rightarrow> ('o, 'w) conn_world \<Rightarrow> (ret \<times> ('o, 'w) conn_world) option" where
  "TriggerKeyUpdate conn now w =
     (if m_policyObj conn = None then Some (SCF_ERRNO_NULL_INPUT, w)
      else obj_op (m_policyObj conn)
             (\<lambda>b c st. let (r, b1, st1) = SCF_ObjKeyUpdate (cw_globals w) b now st in (r, b1, c, st1)) w)"

definition conn_SetUserData ::
  "ptr \<Rightarrow> 't SCFConnectionImpl \<Rightarrow> ('o, 'w) conn_world \<Rightarrow> ('t SCFConnectionImpl \<times> ('o, 'w) conn_world) option" where
  "conn_SetUserData userData conn w =
     (let conn1 = conn\<lparr>m_userData := userData\<rparr> in
      if m_policyObj conn1 \<noteq> None
      then map_option (\<lambda>(_, w1). (conn1, w1))
             (obj_op (m_policyObj conn1) (\<lambda>b c st. let (r, b1) = SCF_SetUserData (cw_globals w) b userData in (r, b1, c, st)) w)
      else Some (conn1, w))"

section \<open>Factories\<close>

definition SCF_NewClientConnection :: "bool \<Rightarrow> SCF_SECURITY_LEVEL \<Rightarrow> string \<Rightarrow> 't SCFConnectionImpl option" where
  "SCF_NewClientConnection oom securityLevel caCertPath =
     (let cfg = SCFConnectionConfig_init\<lparr>cc_securityLevel := securityLevel, cc_role := SCF_ROLE_CLIENT\<rparr>;
          cfg1 = (if caCertPath \<noteq> [] then cfg\<lparr>cc_caCertPath := caCertPath, cc_certVerifyPolicy := SCF_CERT_VERIFY_REQUIRED\<rparr>
                  else cfg\<lparr>cc_certVerifyPolicy := SCF_CERT_VERIFY_NONE\<rparr>) in
      if oom then None else Some (SCFConnectionImpl_new cfg1))"

definition SCF_NewServerConnection ::
  "bool \<Rightarrow> SCF_SECURITY_LEVEL \<Rightarrow> string \<Rightarrow> string \<Rightarrow> string \<Rightarrow> 't SCFConnectionImpl option" where
  "SCF_NewServerConnection oom securityLevel certPath keyPath caCertPath =
     (let cfg = SCFConnectionConfig_init\<lparr>cc_securityLevel := securityLevel, cc_role := SCF_ROLE_SERVER, cc_certPath := certPath,
            cc_keyPath := keyPath\<rparr>;
          cfg1 = (if caCertPath \<noteq> [] then cfg\<lparr>cc_caCertPath := caCertPath, cc_certVerifyPolicy := SCF_CERT_VERIFY_REQUIRED\<rparr>
                  else cfg\<lparr>cc_certVerifyPolicy := SCF_CERT_VERIFY_NONE\<rparr>) in
      if oom then None else Some (SCFConnectionImpl_new cfg1))"

definition SCF_NewPSKConnection ::
  "bool \<Rightarrow> SCF_SECURITY_LEVEL \<Rightarrow> SCF_ROLE \<Rightarrow> string \<Rightarrow> string \<Rightarrow> nat \<Rightarrow> 't SCFConnectionImpl option" where
  "SCF_NewPSKConnection oom securityLevel role pskIdentity pskKey pskKeyLen =
     (if oom then None
      else Some (SCFConnectionImpl_new (SCFConnectionConfig_init\<lparr>cc_securityLevel := securityLevel, cc_role := role, cc_usePSK := True,
        cc_pskIdentity := pskIdentity, cc_pskKey := take pskKeyLen pskKey, cc_certVerifyPolicy := SCF_CERT_VERIFY_NONE\<rparr>)))"

text \<open>The registries; a factory is its address with its key.\<close>

record conn_registry =
  g_transportFactories :: "TransportProtocol \<rightharpoonup> addr"
  g_cryptoEngineFactories :: "string \<rightharpoonup> addr"

definition SCF_RegisterTransportFactory :: "(addr \<times> TransportProtocol) option \<Rightarrow> conn_registry \<Rightarrow> bool \<times> conn_registry" where
  "SCF_RegisterTransportFactory factory reg =
     (case factory of
        None \<Rightarrow> (False, reg)
      | Some (f, protocol) \<Rightarrow> (True, reg\<lparr>g_transportFactories := (g_transportFactories reg)(protocol \<mapsto> f)\<rparr>))"

definition SCF_UnregisterTransportFactory :: "TransportProtocol \<Rightarrow> conn_registry \<Rightarrow> conn_registry" where
  "SCF_UnregisterTransportFactory protocol reg = reg\<lparr>g_transportFactories := (g_transportFactories reg)(protocol := None)\<rparr>"

definition SCF_RegisterCryptoEngineFactory :: "(addr \<times> string) option \<Rightarrow> conn_registry \<Rightarrow> bool \<times> conn_registry" where
  "SCF_RegisterCryptoEngineFactory factory reg =
     (case factory of
        None \<Rightarrow> (False, reg)
      | Some (f, name) \<Rightarrow> (True, reg\<lparr>g_cryptoEngineFactories := (g_cryptoEngineFactories reg)(name \<mapsto> f)\<rparr>))"

definition SCF_UnregisterCryptoEngineFactory :: "string \<Rightarrow> conn_registry \<Rightarrow> conn_registry" where
  "SCF_UnregisterCryptoEngineFactory name reg = reg\<lparr>g_cryptoEngineFactories := (g_cryptoEngineFactories reg)(name := None)\<rparr>"

end
