(* ===== verification/Connection_Correct.thy ===== *)
theory Connection_Correct
  imports Connection Rbac_Correct Ossl_Sim
begin

text \<open>
  The state machine of a connection: it is connected only over a finished handshake, with the node/role
  mapping of its context frozen; what its destructor releases; and two defects of the set-up.
\<close>

section \<open>What the calls keep\<close>

text \<open>Objects always point to a context; \<^verbatim>\<open>bound\<close>: an object whose context is alive and frozen.\<close>

definition heap_ok :: "scf_heap \<Rightarrow> bool" where
  "heap_ok h \<longleftrightarrow> (\<forall>o1 b. hp_obj h o1 = Some b \<longrightarrow> obj_policyCtx b \<noteq> None)"

definition bound :: "addr \<Rightarrow> scf_heap \<Rightarrow> bool" where
  "bound o1 h \<longleftrightarrow> (\<exists>b a c. hp_obj h o1 = Some b \<and> obj_policyCtx b = Some a \<and> hp_ctx h a = Some c \<and> ctx_nodeRoleMapFrozen c)"

text \<open>Calls on an object keep its context pointer and never thaw the mapping.\<close>

definition obj_call_ok ::
  "(SCFPolicyObj option \<Rightarrow> SCFPolicyCtx option \<Rightarrow> 'o \<Rightarrow> 'r \<times> SCFPolicyObj option \<times> SCFPolicyCtx option \<times> 'o) \<Rightarrow> bool" where
  "obj_call_ok f \<longleftrightarrow>
     (\<forall>b c st r b1 c1 st1. f (Some b) c st = (r, b1, c1, st1) \<longrightarrow>
        (\<exists>b'. b1 = Some b' \<and> obj_policyCtx b' = obj_policyCtx b) \<and>
        (c1 = c \<or> c1 = map_option (ctx_nodeRoleMapFrozen_update (\<lambda>_. True)) c))"

lemma adaptor_handshake_obj:
  "adaptor_Connect api (Some b) st = (r, b1, st1) \<Longrightarrow> \<exists>b'. b1 = Some b' \<and> obj_policyCtx b' = obj_policyCtx b"
  "adaptor_Accept api (Some b) st = (r, b1, st1) \<Longrightarrow> \<exists>b'. b1 = Some b' \<and> obj_policyCtx b' = obj_policyCtx b"
  by (auto simp: adaptor_Connect_def adaptor_Accept_def Let_def split: if_splits prod.splits)

lemma handshake_call_ok: "obj_call_ok (\<lambda>b c st. if srv then SCF_Accept g b c st else SCF_Connect g b c st)"
  by (auto simp: obj_call_ok_def SCF_Accept_def SCF_Connect_def FreezeNodeRoleMapping_def dest: adaptor_handshake_obj
      split: if_splits option.splits prod.splits)

lemma handshake_freezes:
  "(if srv then SCF_Accept g (Some b) (Some c) st else SCF_Connect g (Some b) (Some c) st) = (SCF_SUCCESS, b1, c1, st1) \<Longrightarrow>
   c1 = Some (c\<lparr>ctx_nodeRoleMapFrozen := True\<rparr>)"
  by (auto simp: SCF_Accept_def SCF_Connect_def FreezeNodeRoleMapping_def CHECK_SCF_INIT_RET_def SCF_SUCCESS_def errno
      split: if_splits option.splits prod.splits)

lemma adaptor_SetFd_obj:
  "adaptor_SetFd api self (Some b) c fd st = (r, b1, st1) \<Longrightarrow> \<exists>b'. b1 = Some b' \<and> obj_policyCtx b' = obj_policyCtx b"
  by (auto simp: adaptor_SetFd_def Let_def split: if_splits prod.splits)

lemma set_fd_call_ok: "obj_call_ok (\<lambda>b c st. let (r, b1, st1) = SCF_SetFd g self b c fd st in (r, b1, c, st1))"
  by (auto simp: obj_call_ok_def SCF_SetFd_def dest: adaptor_SetFd_obj split: if_splits option.splits prod.splits)

lemma read_call_ok: "obj_call_ok (\<lambda>b c st. let (r, d, n, st1) = SCF_Read g b data len rl st in ((r, d, n), b, c, st1))"
  by (auto simp: obj_call_ok_def split: prod.splits)

lemma close_call_ok: "obj_call_ok (\<lambda>b c st. let (r, st1) = SCF_Close g b st in (r, b, c, st1))"
  by (auto simp: obj_call_ok_def split: prod.splits)

lemma CheckNeedKeyUpdate_obj:
  "CheckNeedKeyUpdate api (Some b) c n p now st = (r, b1, need) \<Longrightarrow> \<exists>b'. b1 = Some b' \<and> obj_policyCtx b' = obj_policyCtx b"
  by (auto simp: CheckNeedKeyUpdate_def set_total_def Let_def split: if_splits option.splits prod.splits)

lemma adaptor_KeyUpdate_obj:
  "adaptor_KeyUpdate api (Some b) t st = (r, b1, st1) \<Longrightarrow> \<exists>b'. b1 = Some b' \<and> obj_policyCtx b' = obj_policyCtx b"
  by (auto simp: adaptor_KeyUpdate_def Let_def split: if_splits prod.splits)

lemma SCF_Write_obj:
  assumes "SCF_Write g (Some b) c data len wl now st = (r, b1, n, st1)"
  shows "\<exists>b'. b1 = Some b' \<and> obj_policyCtx b' = obj_policyCtx b"
  using assms
  by (auto simp: SCF_Write_def Let_def split: if_splits option.splits prod.splits
      dest!: CheckNeedKeyUpdate_obj adaptor_KeyUpdate_obj)

lemma write_call_ok: "obj_call_ok (\<lambda>b c st. let (r, b1, n, st1) = SCF_Write g b c data len wl now st in ((r, n), b1, c, st1))"
  by (auto simp: obj_call_ok_def dest: SCF_Write_obj split: prod.splits)

lemma SCF_ObjKeyUpdate_obj:
  "SCF_ObjKeyUpdate g (Some b) now st = (r, b1, st1) \<Longrightarrow> \<exists>b'. b1 = Some b' \<and> obj_policyCtx b' = obj_policyCtx b"
  by (auto simp: SCF_ObjKeyUpdate_def Let_def split: if_splits option.splits prod.splits dest!: adaptor_KeyUpdate_obj)

lemma key_update_call_ok: "obj_call_ok (\<lambda>b c st. let (r, b1, st1) = SCF_ObjKeyUpdate g b now st in (r, b1, c, st1))"
  by (auto simp: obj_call_ok_def dest: SCF_ObjKeyUpdate_obj split: prod.splits)

lemma user_data_call_ok: "obj_call_ok (\<lambda>b c st. let (r, b1) = SCF_SetUserData g b ud in (r, b1, c, st))"
  by (auto simp: obj_call_ok_def SCF_SetUserData_def CHECK_SCF_INIT_RET_def split: prod.splits if_splits)

lemmas call_ok = handshake_call_ok set_fd_call_ok read_call_ok close_call_ok write_call_ok key_update_call_ok user_data_call_ok

text \<open>A successful access through an object pointer.\<close>

lemma obj_op_cases:
  assumes "obj_op (Some o1) f w = Some (r, w')" "heap_ok (cw_heap w)"
  obtains b a c b1 c1 st where "hp_obj (cw_heap w) o1 = Some b" "obj_policyCtx b = Some a" "hp_ctx (cw_heap w) a = Some c"
    "f (Some b) (Some c) (cw_lib w) = (r, b1, c1, st)"
    "w' = w\<lparr>cw_heap := (cw_heap w)\<lparr>hp_ctx := (hp_ctx (cw_heap w))(a := c1), hp_obj := (hp_obj (cw_heap w))(o1 := b1)\<rparr>, cw_lib := st\<rparr>"
proof -
  obtain b where b: "hp_obj (cw_heap w) o1 = Some b" using assms(1) by (auto simp: obj_op_def split: option.splits)
  with assms(2) obtain a where a: "obj_policyCtx b = Some a" by (auto simp: heap_ok_def)
  with assms(1) b obtain c where c: "hp_ctx (cw_heap w) a = Some c" by (auto simp: obj_op_def split: option.splits)
  obtain r1 b1 c1 st where f: "f (Some b) (Some c) (cw_lib w) = (r1, b1, c1, st)" by (metis prod_cases4)
  from that [OF b a c, of b1 c1 st] assms(1) b a c f show thesis by (simp add: obj_op_def)
qed

lemma obj_op_keeps:
  assumes "obj_op p f w = Some (r, w')" "obj_call_ok f" "heap_ok (cw_heap w)"
  shows "heap_ok (cw_heap w') \<and> (\<forall>o2. bound o2 (cw_heap w) \<longrightarrow> bound o2 (cw_heap w'))"
proof (cases p)
  case None
  then have "cw_heap w' = cw_heap w" using assms(1) by (auto simp: obj_op_def split: prod.splits)
  then show ?thesis using assms(3) by simp
next
  case (Some o1)
  with assms(1,3) obtain b a c b1 c1 st where acc: "hp_obj (cw_heap w) o1 = Some b" "obj_policyCtx b = Some a" "hp_ctx (cw_heap w) a = Some c"
    and call: "f (Some b) (Some c) (cw_lib w) = (r, b1, c1, st)"
    and w': "w' = w\<lparr>cw_heap := (cw_heap w)\<lparr>hp_ctx := (hp_ctx (cw_heap w))(a := c1), hp_obj := (hp_obj (cw_heap w))(o1 := b1)\<rparr>, cw_lib := st\<rparr>"
    by (auto elim: obj_op_cases)
  from assms(2) call obtain b' where b': "b1 = Some b'" "obj_policyCtx b' = obj_policyCtx b"
    and c': "c1 = Some c \<or> c1 = Some (c\<lparr>ctx_nodeRoleMapFrozen := True\<rparr>)"
    unfolding obj_call_ok_def by fastforce
  have "heap_ok (cw_heap w')" using assms(3) acc b' unfolding w' heap_ok_def by auto
  moreover have "bound o2 (cw_heap w')" if "bound o2 (cw_heap w)" for o2
  proof -
    from that obtain b2 a2 c2 where o2: "hp_obj (cw_heap w) o2 = Some b2" "obj_policyCtx b2 = Some a2" "hp_ctx (cw_heap w) a2 = Some c2" "ctx_nodeRoleMapFrozen c2"
      by (auto simp: bound_def)
    have "\<exists>b3. hp_obj (cw_heap w') o2 = Some b3 \<and> obj_policyCtx b3 = Some a2" using o2 acc b' unfolding w' by auto
    moreover have "\<exists>c3. hp_ctx (cw_heap w') a2 = Some c3 \<and> ctx_nodeRoleMapFrozen c3" using o2 acc c' unfolding w' by auto
    ultimately show ?thesis by (auto simp: bound_def)
  qed
  ultimately show ?thesis by blast
qed

section \<open>Setting up keeps the heap well-formed\<close>

lemma ctx_op_obj: "ctx_op p f w = Some (r, w') \<Longrightarrow> hp_obj (cw_heap w') = hp_obj (cw_heap w)"
  by (auto simp: ctx_op_def split: option.splits prod.splits)

lemma heap_ok_obj: "hp_obj h' = hp_obj h \<Longrightarrow> heap_ok h' = heap_ok h"
  by (simp add: heap_ok_def)

lemma SCF_CreatePolicyObj_ok:
  "SCF_CreatePolicyObj g ctx now fresh h = Some (p, h') \<Longrightarrow> heap_ok h \<Longrightarrow> heap_ok h'"
  by (auto simp: SCF_CreatePolicyObj_def heap_ok_def new_policy_obj_def Let_def split: option.splits if_splits)

lemma LoadFile_obj:
  assumes "\<And>fc w r w'. use fc w = Some (r, w') \<Longrightarrow> hp_obj (cw_heap w') = hp_obj (cw_heap w)"
    and "LoadFile io me path pwd use w = Some (r, w')"
  shows "hp_obj (cw_heap w') = hp_obj (cw_heap w)"
  using assms by (auto simp: LoadFile_def Let_def split: option.splits prod.splits if_splits)

lemma add_cert_obj: "add_cert io conn t fc w = Some (r, w') \<Longrightarrow> hp_obj (cw_heap w') = hp_obj (cw_heap w)"
  by (auto simp: add_cert_def split: option.splits)

lemma set_key_obj: "set_key conn fc w = Some (r, w') \<Longrightarrow> hp_obj (cw_heap w') = hp_obj (cw_heap w)"
  by (auto simp: set_key_def dest: ctx_op_obj)

lemma load_obj:
  "LoadFile io me path pwd (add_cert io conn t) w = Some (r, w') \<Longrightarrow> hp_obj (cw_heap w') = hp_obj (cw_heap w)"
  "LoadFile io me path pwd (set_key conn) w = Some (r, w') \<Longrightarrow> hp_obj (cw_heap w') = hp_obj (cw_heap w)"
  by (erule LoadFile_obj [rotated], erule add_cert_obj) (erule LoadFile_obj [rotated], erule set_key_obj)

lemma SetupCertificates_obj:
  "SetupCertificates io al conn w = Some (r, w') \<Longrightarrow> hp_obj (cw_heap w') = hp_obj (cw_heap w)"
  by (auto simp: SetupCertificates_def Let_def dest!: load_obj split: option.splits prod.splits if_splits)

lemma SetupPSK_ok:
  assumes "SetupPSK io al conn w = Some (r, w')" "heap_ok (cw_heap w)"
  shows "heap_ok (cw_heap w')"
  using assms
  by (auto simp: SetupPSK_def Let_def dest: SCF_CreatePolicyObj_ok split: if_splits prod.splits list.splits option.splits)

lemma SetupCredentials_ok:
  assumes "SetupCredentials io al conn w = Some (r, w')" "heap_ok (cw_heap w)"
  shows "heap_ok (cw_heap w')"
proof -
  obtain r1 w1 where cred: "(if cc_usePSK (m_config conn) then SetupPSK io al conn w else SetupCertificates io al conn w) = Some (r1, w1)"
    using assms(1) by (cases "if cc_usePSK (m_config conn) then SetupPSK io al conn w else SetupCertificates io al conn w")
      (auto simp: SetupCredentials_def)
  then have "heap_ok (cw_heap w1)"
    using SetupPSK_ok [of io al conn w r1 w1] heap_ok_obj [OF SetupCertificates_obj [of io al conn w r1 w1]] assms(2)
    by (auto split: if_splits)
  moreover have "hp_obj (cw_heap w') = hp_obj (cw_heap w1)"
    using assms(1) cred by (auto simp: SetupCredentials_def Let_def dest!: ctx_op_obj split: option.splits if_splits)
  ultimately show ?thesis using heap_ok_obj by blast
qed

lemma SetupPolicy_obj:
  assumes "SetupPolicy io al conn w = Some (r, w')"
  shows "hp_obj (cw_heap w') = hp_obj (cw_heap w)"
  using assms
  by (auto simp: SetupPolicy_def SetupCipherSuites_def Let_def dest!: ctx_op_obj split: option.splits if_splits)

lemma SetupCryptoEngine_frame:
  assumes "SetupCryptoEngine io conn w = (e, conn', w')"
  shows "cw_heap w' = cw_heap w \<and> m_state conn' = m_state conn \<and> m_policyObj conn' = m_policyObj conn \<and> m_config conn' = m_config conn"
  using assms
  by (auto simp: SetupCryptoEngine_def adaptor_SetCryptoEngine_def Let_def split: option.splits prod.splits if_splits)

lemma SetupPolicyContext_ok:
  assumes "SetupPolicyContext io al conn w = Some (r, conn', w')" "heap_ok (cw_heap w)"
  shows "heap_ok (cw_heap w')"
proof -
  obtain e conn1 w1 where eng: "SetupCryptoEngine io conn w = (e, conn1, w1)" by (metis prod_cases3)
  from SetupCryptoEngine_frame [OF eng] have h1: "cw_heap w1 = cw_heap w" by simp
  show ?thesis
  proof (cases "e = None \<and> SCF_CreatePolicyCtx (cw_globals w1) (ca_ctx al = None) \<noteq> None")
    case False
    then show ?thesis using assms eng h1 by (auto simp: SetupPolicyContext_def split: option.splits)
  next
    case True
    then obtain c where c: "SCF_CreatePolicyCtx (cw_globals w1) (ca_ctx al = None) = Some c" by blast
    let ?conn2 = "conn1\<lparr>m_policyCtx := ca_ctx al, m_postQuantumResistant := sl_postQuantumResistant (GetSecurityLevelMapping (cc_securityLevel (m_config conn1))),
                  m_keyExchangeGroups := sl_keyExchangeGroups (GetSecurityLevelMapping (cc_securityLevel (m_config conn1)))\<rparr>"
    let ?w2 = "w1\<lparr>cw_heap := (cw_heap w1)\<lparr>hp_ctx := (hp_ctx (cw_heap w1))(the (ca_ctx al) \<mapsto> c)\<rparr>\<rparr>"
    obtain r3 w3 where pol: "SetupPolicy io al ?conn2 ?w2 = Some (r3, w3)"
      using assms(1) eng True c by (auto simp: SetupPolicyContext_def Let_def split: option.splits)
    have ok3: "heap_ok (cw_heap w3)" using heap_ok_obj [OF SetupPolicy_obj [OF pol]] assms(2) h1 by (simp add: heap_ok_def)
    show ?thesis
      using assms(1) eng True c pol ok3 SetupCredentials_ok
      by (auto simp: SetupPolicyContext_def Let_def split: if_splits)
  qed
qed

lemma SetupPolicyContext_state:
  assumes "SetupPolicyContext io al conn w = Some (r, conn', w')"
  shows "m_state conn' = m_state conn"
proof -
  obtain e conn1 w1 where eng: "SetupCryptoEngine io conn w = (e, conn1, w1)" by (metis prod_cases3)
  from assms eng have "m_state conn' = m_state conn1"
    by (auto simp: SetupPolicyContext_def Let_def split: option.splits if_splits)
  with SetupCryptoEngine_frame [OF eng] show ?thesis by simp
qed

lemma CreatePolicyObj_ok:
  assumes "CreatePolicyObj io al conn w = Some (r, conn', w')" "heap_ok (cw_heap w)"
  shows "heap_ok (cw_heap w') \<and> m_state conn' = m_state conn \<and> (r = SCF_SUCCESS \<longrightarrow> m_policyObj conn' \<noteq> None)"
proof -
  obtain p h1 where new: "SCF_CreatePolicyObj (cw_globals w) (m_policyCtx conn) (ca_now al) (ca_obj al) (cw_heap w) = Some (p, h1)"
    using assms(1) by (auto simp: CreatePolicyObj_def split: option.splits)
  have ok: "heap_ok h1" using SCF_CreatePolicyObj_ok [OF new assms(2)] .
  show ?thesis
    using assms(1) new ok obj_op_keeps [where w = "w\<lparr>cw_heap := h1\<rparr>", OF _ set_fd_call_ok]
    by (auto simp: CreatePolicyObj_def Let_def SCF_SUCCESS_def errno split: option.splits if_splits)
qed

section \<open>The state machine\<close>

definition conn_inv :: "'t SCFConnectionImpl \<Rightarrow> ('o, 'w) conn_world \<Rightarrow> bool" where
  "conn_inv conn w \<longleftrightarrow> heap_ok (cw_heap w) \<and>
     (m_state conn = SCF_CONN_CONNECTED \<longrightarrow> m_handshakeDone conn \<and> (\<exists>o1. m_policyObj conn = Some o1 \<and> bound o1 (cw_heap w)))"

lemma conn_invI: "heap_ok (cw_heap w) \<Longrightarrow> m_state conn \<noteq> SCF_CONN_CONNECTED \<Longrightarrow> conn_inv conn w"
  by (simp add: conn_inv_def)

lemma HandshakeStep_inv:
  assumes "HandshakeStep conn w = Some (r, conn', w')" "conn_inv conn w"
  shows "conn_inv conn' w' \<and> (r = SCF_SUCCESS \<longrightarrow> m_state conn' = SCF_CONN_CONNECTED)"
proof (cases "m_policyObj conn")
  case None
  then show ?thesis using assms by (auto simp: HandshakeStep_def SCF_SUCCESS_def errno)
next
  case (Some o1)
  let ?f = "\<lambda>b c st. if m_isServer conn then SCF_Accept (cw_globals w) b c st else SCF_Connect (cw_globals w) b c st"
  have hok: "heap_ok (cw_heap w)" using assms(2) by (simp add: conn_inv_def)
  obtain r1 w1 where op: "obj_op (Some o1) ?f w = Some (r1, w1)"
    using assms(1) Some by (auto simp: HandshakeStep_def split: option.splits)
  have ok: "heap_ok (cw_heap w1)" using obj_op_keeps [OF op handshake_call_ok hok] by simp
  have res: "r = r1" "w' = w1"
    "r1 \<noteq> SCF_SUCCESS \<longrightarrow> m_state conn' \<noteq> SCF_CONN_CONNECTED"
    "r1 = SCF_SUCCESS \<longrightarrow> m_state conn' = SCF_CONN_CONNECTED \<and> m_handshakeDone conn' \<and> m_policyObj conn' = Some o1"
    using assms(1) Some op by (auto simp: HandshakeStep_def Let_def split: if_splits)
  show ?thesis
  proof (cases "r1 = SCF_SUCCESS")
    case False
    then show ?thesis using res ok by (simp add: conn_inv_def)
  next
    case True
    from op hok obtain b a c b1 c1 st where acc: "hp_obj (cw_heap w) o1 = Some b" "obj_policyCtx b = Some a" "hp_ctx (cw_heap w) a = Some c"
      and call: "?f (Some b) (Some c) (cw_lib w) = (r1, b1, c1, st)"
      and w1: "w1 = w\<lparr>cw_heap := (cw_heap w)\<lparr>hp_ctx := (hp_ctx (cw_heap w))(a := c1), hp_obj := (hp_obj (cw_heap w))(o1 := b1)\<rparr>, cw_lib := st\<rparr>"
      by (rule obj_op_cases)
    have "c1 = Some (c\<lparr>ctx_nodeRoleMapFrozen := True\<rparr>)" using handshake_freezes call True by metis
    moreover obtain b' where "b1 = Some b'" "obj_policyCtx b' = Some a"
      using handshake_call_ok [of "m_isServer conn" "cw_globals w"] call acc unfolding obj_call_ok_def by metis
    ultimately have "bound o1 (cw_heap w1)" unfolding bound_def w1 by auto
    then show ?thesis using res ok True by (simp add: conn_inv_def)
  qed
qed

lemma SetupTransport_frame:
  "SetupTransportClient io host port conn w = (r, conn', w') \<Longrightarrow> cw_heap w' = cw_heap w \<and> (r = SCF_SUCCESS \<longrightarrow> m_state conn' = SCF_CONN_CONNECTING)"
  "SetupTransportServer io host port conn w = (r, conn', w') \<Longrightarrow> cw_heap w' = cw_heap w \<and> (r = SCF_SUCCESS \<longrightarrow> m_state conn' = SCF_CONN_INIT)"
  by (auto simp: SetupTransportClient_def SetupTransportServer_def Let_def SCF_SUCCESS_def errno split: option.splits prod.splits if_splits)

lemma conn_Close_inv:
  assumes "conn_Close io conn w = Some (r, conn', w')" "conn_inv conn w"
  shows "conn_inv conn' w' \<and> m_state conn' \<in> {SCF_CONN_CLOSED, SCF_CONN_CLOSING}"
proof (cases "m_state conn = SCF_CONN_CLOSED \<or> m_state conn = SCF_CONN_CLOSING")
  case True
  then show ?thesis using assms by (auto simp: conn_Close_def)
next
  case False
  have hok: "heap_ok (cw_heap w)" using assms(2) by (simp add: conn_inv_def)
  let ?close = "if m_policyObj conn \<noteq> None
              then obj_op (m_policyObj conn) (\<lambda>b c st. let (r, st1) = SCF_Close (cw_globals w) b st in (r, b, c, st1)) w
              else Some (SCF_SUCCESS, w)"
  obtain r1 w1 where op: "?close = Some (r1, w1)"
    using assms(1) False by (cases "m_policyObj conn") (auto simp: conn_Close_def Let_def split: option.splits)
  then have "heap_ok (cw_heap w1)" using obj_op_keeps [OF _ close_call_ok hok] hok by (auto split: if_splits)
  moreover have "cw_heap w' = cw_heap w1 \<and> m_state conn' = SCF_CONN_CLOSED"
    using assms(1) False op by (cases "m_policyObj conn") (auto simp: conn_Close_def Let_def split: option.splits prod.splits)
  ultimately show ?thesis by (simp add: conn_inv_def)
qed

lemma SCF_FreePolicyCtx_obj: "SCF_FreePolicyCtx g p h st = Some (p', h', st') \<Longrightarrow> hp_obj h' = hp_obj h"
  by (auto simp: SCF_FreePolicyCtx_def Let_def split: option.splits if_splits prod.splits)

lemma SCF_FreePolicyObj_ok: "SCF_FreePolicyObj g p h st = Some (p', h', st') \<Longrightarrow> heap_ok h \<Longrightarrow> heap_ok h'"
  by (auto simp: SCF_FreePolicyObj_def heap_ok_def Let_def dest!: SCF_FreePolicyCtx_obj split: option.splits if_splits prod.splits)

lemma Cleanup_inv:
  assumes "Cleanup io conn w = Some (conn', w')" "conn_inv conn w"
  shows "heap_ok (cw_heap w') \<and> m_state conn' = SCF_CONN_CLOSED \<and> m_policyObj conn' = None \<and> m_policyCtx conn' = None \<and> m_transport conn' = None"
proof -
  let ?c = "if m_state conn = SCF_CONN_CONNECTED \<or> m_state conn = SCF_CONN_CONNECTING then map_option snd (conn_Close io conn w) else Some (conn, w)"
  obtain conn1 w1 where cl: "?c = Some (conn1, w1)" using assms(1) by (cases ?c) (auto simp: Cleanup_def)
  have ok1: "heap_ok (cw_heap w1)"
  proof (cases "m_state conn = SCF_CONN_CONNECTED \<or> m_state conn = SCF_CONN_CONNECTING")
    case True
    with cl obtain r0 where "conn_Close io conn w = Some (r0, conn1, w1)" by auto
    from conn_Close_inv [OF this assms(2)] show ?thesis by (simp add: conn_inv_def)
  next
    case False
    then show ?thesis using cl assms(2) by (simp add: conn_inv_def)
  qed
  let ?o = "if m_policyObj conn1 \<noteq> None then SCF_FreePolicyObj (cw_globals w1) (Some (m_policyObj conn1)) (cw_heap w1) (cw_lib w1)
            else Some (None, cw_heap w1, cw_lib w1)"
  obtain p2 h2 st2 where ob: "?o = Some (p2, h2, st2)" using assms(1) cl by (cases ?o) (auto simp: Cleanup_def)
  then have ok2: "heap_ok h2" using SCF_FreePolicyObj_ok ok1 by (auto split: if_splits)
  let ?x = "if m_policyCtx conn1 \<noteq> None then SCF_FreePolicyCtx (cw_globals w1) (Some (m_policyCtx conn1)) h2 st2 else Some (None, h2, st2)"
  obtain p3 h3 st3 where cx: "?x = Some (p3, h3, st3)" using assms(1) cl ob by (cases ?x) (auto simp: Cleanup_def)
  then have ok3: "heap_ok h3" using SCF_FreePolicyCtx_obj heap_ok_obj ok2 by (metis option.inject prod.inject)
  show ?thesis
    using assms(1) ok3
    by (simp only: Cleanup_def cl ob cx option.case prod.case)
      (auto simp: Let_def adaptor_SetCryptoEngine_def split: option.splits if_splits prod.splits)
qed

lemma conn_Connect_inv:
  assumes "conn_Connect io al host port conn w = Some (r, conn', w')" "heap_ok (cw_heap w)"
  shows "conn_inv conn' w' \<and> (r = SCF_SUCCESS \<longrightarrow> m_state conn' = SCF_CONN_CONNECTED)"
proof -
  obtain r1 conn1 w1 where s1: "SetupPolicyContext io al conn w = Some (r1, conn1, w1)"
    using assms(1) by (auto simp: conn_Connect_def split: option.splits)
  have ok1: "heap_ok (cw_heap w1)" using SetupPolicyContext_ok [OF s1 assms(2)] .
  obtain r2 conn2 w2 where s2: "SetupTransportClient io host port conn1 w1 = (r2, conn2, w2)" by (metis prod_cases3)
  have ok2: "heap_ok (cw_heap w2)" and st2: "r2 = SCF_SUCCESS \<longrightarrow> m_state conn2 = SCF_CONN_CONNECTING"
    using SetupTransport_frame(1) [OF s2] ok1 by simp_all
  consider "r1 \<noteq> SCF_SUCCESS" | "r1 = SCF_SUCCESS" "r2 \<noteq> SCF_SUCCESS" | "r1 = SCF_SUCCESS" "r2 = SCF_SUCCESS" by blast
  then show ?thesis
  proof cases
    case 1
    then show ?thesis using assms(1) s1 ok1 by (auto simp: conn_Connect_def conn_inv_def)
  next
    case 2
    then have "Cleanup io (conn2\<lparr>m_state := SCF_CONN_ERROR\<rparr>) w2 = Some (conn', w')" "r = r2"
      using assms(1) s1 s2 by (auto simp: conn_Connect_def)
    with Cleanup_inv [of io "conn2\<lparr>m_state := SCF_CONN_ERROR\<rparr>"] ok2 2 show ?thesis by (auto simp: conn_inv_def)
  next
    case 3
    then obtain r3 conn3 w3 where s3: "CreatePolicyObj io al conn2 w2 = Some (r3, conn3, w3)"
      using assms(1) s1 s2 by (auto simp: conn_Connect_def split: option.splits)
    from CreatePolicyObj_ok [OF s3 ok2] st2 3 have ok3: "heap_ok (cw_heap w3)" "m_state conn3 = SCF_CONN_CONNECTING" by simp_all
    show ?thesis
    proof (cases "r3 = SCF_SUCCESS")
      case True
      then have "HandshakeStep conn3 w3 = Some (r, conn', w')" using assms(1) s1 s2 s3 3 by (simp add: conn_Connect_def)
      moreover have "conn_inv conn3 w3" using ok3 by (simp add: conn_inv_def)
      ultimately show ?thesis by (rule HandshakeStep_inv)
    next
      case False
      then have "Cleanup io (conn3\<lparr>m_state := SCF_CONN_ERROR\<rparr>) w3 = Some (conn', w')" "r = r3"
        using assms(1) s1 s2 s3 3 by (auto simp: conn_Connect_def)
      with Cleanup_inv [of io "conn3\<lparr>m_state := SCF_CONN_ERROR\<rparr>"] ok3 False show ?thesis by (auto simp: conn_inv_def)
    qed
  qed
qed

lemma conn_Listen_inv:
  assumes "conn_Listen io al host port conn w = Some (r, conn', w')" "heap_ok (cw_heap w)"
  shows "heap_ok (cw_heap w') \<and> m_state conn' \<noteq> SCF_CONN_CONNECTED"
proof -
  obtain r1 conn1 w1 where s1: "SetupPolicyContext io al conn w = Some (r1, conn1, w1)"
    using assms(1) by (auto simp: conn_Listen_def split: option.splits)
  have ok1: "heap_ok (cw_heap w1)" using SetupPolicyContext_ok [OF s1 assms(2)] .
  obtain r2 conn2 w2 where s2: "SetupTransportServer io host port conn1 w1 = (r2, conn2, w2)" by (metis prod_cases3)
  show ?thesis using assms(1) s1 s2 ok1 SetupTransport_frame(2) [OF s2] by (auto simp: conn_Listen_def split: if_splits)
qed

text \<open>A connection in use.  Besides the calls on the connection itself, the application calls the RBAC
  functions on contexts, and other connections and threads work on objects of their own: they keep objects
  well-formed and leave the object of this connection and a frozen mapping alone.\<close>

inductive conn_step ::
  "('t, 'w) conn_io \<Rightarrow> 't SCFConnectionImpl \<times> ('o, 'w) conn_world \<Rightarrow> 't SCFConnectionImpl \<times> ('o, 'w) conn_world \<Rightarrow> bool" for io where
  st_connect: "conn_Connect io al host port conn w = Some (r, conn', w') \<Longrightarrow> conn_step io (conn, w) (conn', w')"
| st_listen: "conn_Listen io al host port conn w = Some (r, conn', w') \<Longrightarrow> conn_step io (conn, w) (conn', w')"
| st_handshake: "HandshakeStep conn w = Some (r, conn', w') \<Longrightarrow> conn_step io (conn, w) (conn', w')"
| st_close: "conn_Close io conn w = Some (r, conn', w') \<Longrightarrow> conn_step io (conn, w) (conn', w')"
| st_read: "conn_Read conn data len rl w = Some (r, w') \<Longrightarrow> conn_step io (conn, w) (conn, w')"
| st_write: "conn_Write conn data len wl now w = Some (r, w') \<Longrightarrow> conn_step io (conn, w) (conn, w')"
| st_key_update: "TriggerKeyUpdate conn now w = Some (r, w') \<Longrightarrow> conn_step io (conn, w) (conn, w')"
| st_user_data: "conn_SetUserData ud conn w = Some (conn', w') \<Longrightarrow> conn_step io (conn, w) (conn', w')"
| st_rbac: "hp_ctx (cw_heap w) a = Some c \<Longrightarrow> rbac_step c c' \<Longrightarrow>
    conn_step io (conn, w) (conn, w\<lparr>cw_heap := (cw_heap w)\<lparr>hp_ctx := (hp_ctx (cw_heap w))(a \<mapsto> c')\<rparr>\<rparr>)"
| st_others: "heap_ok (cw_heap w') \<Longrightarrow> (\<And>o1. m_policyObj conn = Some o1 \<Longrightarrow> bound o1 (cw_heap w) \<Longrightarrow> bound o1 (cw_heap w')) \<Longrightarrow>
    conn_step io (conn, w) (conn, w')"

lemma obj_op_inv:
  assumes "obj_op p f w = Some (r, w')" "obj_call_ok f" "conn_inv conn w"
  shows "conn_inv conn w'"
  using obj_op_keeps [OF assms(1,2)] assms(3) by (auto simp: conn_inv_def)

text \<open>The operations that leave the state machine where it is.\<close>

lemma guarded_op_inv:
  assumes "(if g then Some (r0, w) else obj_op p f w) = Some (r, w')" "obj_call_ok f" "conn_inv conn w"
  shows "conn_inv conn w'"
  using assms(1,3) obj_op_inv [OF _ assms(2,3), of p r w'] by (cases g) auto

lemma conn_Read_inv: "conn_Read conn data len rl w = Some (r, w') \<Longrightarrow> conn_inv conn w \<Longrightarrow> conn_inv conn w'"
  unfolding conn_Read_def by (rule guarded_op_inv [OF _ read_call_ok])

lemma conn_Write_inv: "conn_Write conn data len wl now w = Some (r, w') \<Longrightarrow> conn_inv conn w \<Longrightarrow> conn_inv conn w'"
  unfolding conn_Write_def by (rule guarded_op_inv [OF _ write_call_ok])

lemma TriggerKeyUpdate_inv: "TriggerKeyUpdate conn now w = Some (r, w') \<Longrightarrow> conn_inv conn w \<Longrightarrow> conn_inv conn w'"
  unfolding TriggerKeyUpdate_def by (rule guarded_op_inv [OF _ key_update_call_ok])

lemma conn_SetUserData_inv:
  assumes "conn_SetUserData ud conn w = Some (conn', w')" "conn_inv conn w"
  shows "conn_inv conn' w'"
proof (cases "m_policyObj conn")
  case None
  then show ?thesis using assms by (auto simp: conn_SetUserData_def conn_inv_def)
next
  case (Some o1)
  then obtain r where op: "obj_op (Some o1) (\<lambda>b c st. let (r, b1) = SCF_SetUserData (cw_globals w) b ud in (r, b1, c, st)) w = Some (r, w')"
    and c': "conn' = conn\<lparr>m_userData := ud\<rparr>"
    using assms(1) by (auto simp: conn_SetUserData_def)
  from obj_op_inv [OF op user_data_call_ok assms(2)] show ?thesis unfolding c' by (simp add: conn_inv_def)
qed

lemma rbac_keeps:
  assumes "hp_ctx h a = Some c" "rbac_step c c'"
  shows "heap_ok (h\<lparr>hp_ctx := (hp_ctx h)(a \<mapsto> c')\<rparr>) = heap_ok h \<and> (\<forall>o1. bound o1 h \<longrightarrow> bound o1 (h\<lparr>hp_ctx := (hp_ctx h)(a \<mapsto> c')\<rparr>))"
proof -
  have thaw: "ctx_nodeRoleMapFrozen c \<longrightarrow> ctx_nodeRoleMapFrozen c'"
    using frozen_with_step [OF _ assms(2), of "ctx_nodeRoleMap c"] by (simp add: frozen_with_def)
  have "bound o1 (h\<lparr>hp_ctx := (hp_ctx h)(a \<mapsto> c')\<rparr>)" if "bound o1 h" for o1
  proof -
    from that obtain b2 a2 c2 where o2: "hp_obj h o1 = Some b2" "obj_policyCtx b2 = Some a2" "hp_ctx h a2 = Some c2" "ctx_nodeRoleMapFrozen c2"
      by (auto simp: bound_def)
    have "\<exists>c3. ((hp_ctx h)(a \<mapsto> c')) a2 = Some c3 \<and> ctx_nodeRoleMapFrozen c3"
      using o2 assms(1) thaw by auto
    with o2(1,2) show ?thesis by (auto simp: bound_def)
  qed
  then show ?thesis by (simp add: heap_ok_def)
qed

lemma conn_step_inv:
  assumes inv: "conn_inv (fst s) (snd s)" and step: "conn_step io s s'"
  shows "conn_inv (fst s') (snd s')"
  using step
proof cases
  case (st_connect al host port conn w r conn' w')
  then show ?thesis using conn_Connect_inv [OF st_connect(3)] inv by (simp add: conn_inv_def)
next
  case (st_listen al host port conn w r conn' w')
  then show ?thesis using conn_Listen_inv [OF st_listen(3)] inv by (simp add: conn_inv_def)
next
  case (st_handshake conn w r conn' w')
  then show ?thesis using HandshakeStep_inv [OF st_handshake(3)] inv by simp
next
  case (st_close conn w r conn' w')
  then show ?thesis using conn_Close_inv [OF st_close(3)] inv by simp
next
  case (st_read conn data len rl w r w')
  then show ?thesis using conn_Read_inv [OF st_read(3)] inv by simp
next
  case (st_write conn data len wl now w r w')
  then show ?thesis using conn_Write_inv [OF st_write(3)] inv by simp
next
  case (st_key_update conn now w r w')
  then show ?thesis using TriggerKeyUpdate_inv [OF st_key_update(3)] inv by simp
next
  case (st_user_data ud conn w conn' w')
  then show ?thesis using conn_SetUserData_inv [OF st_user_data(3)] inv by simp
next
  case (st_rbac w a c c' conn)
  then show ?thesis using rbac_keeps [OF st_rbac(3,4)] inv by (auto simp: conn_inv_def)
next
  case (st_others w' conn w)
  then show ?thesis using inv by (auto simp: conn_inv_def)
qed

interpretation conn_sys: invariant_system "conn_step io" "\<lambda>s. conn_inv (fst s) (snd s)" for io
  by unfold_locales (rule conn_step_inv)

text \<open>A connection that \<^verbatim>\<open>Accept\<close> returns.\<close>

lemma conn_Accept_cases:
  assumes "conn_Accept io al oom l w = Some (Some conn, w')"
  obtains n1 w2 n2 w3 n3 w4 r3 n4 where "cw_heap w2 = cw_heap w" "m_config n1 = m_config l" "m_state n1 = SCF_CONN_INIT"
    "cw_engines w2 = cw_engines w" "m_cryptoEngine n1 = m_cryptoEngine l" "\<not> m_ownsCryptoEngine n1"
    "SetupPolicyContext io al n1 w2 = Some (SCF_SUCCESS, n2, w3)" "CreatePolicyObj io al n2 w3 = Some (SCF_SUCCESS, n3, w4)"
    "HandshakeStep n3 w4 = Some (r3, n4, w')"
    "conn = n4\<lparr>m_state := SCF_CONN_CONNECTING\<rparr> \<or> r3 = SCF_SUCCESS \<and> conn = n4\<lparr>m_state := SCF_CONN_CONNECTED, m_handshakeDone := True\<rparr>"
proof -
  obtain t where t: "m_transport l = Some t" "m_isServer l" using assms by (auto simp: conn_Accept_def split: option.splits if_splits)
  obtain ct s1 where acc: "it_Accept (ci_transport io) t (cw_sys w) = (ct, s1)" by (metis prod.exhaust)
  obtain t1 where t1: "ct = Some t1" "\<not> oom"
    using assms t acc by (cases ct; cases oom) (auto simp: conn_Accept_def Let_def case_prod_beta)
  define n0 where "n0 = (SCFConnectionImpl_new (m_config l))\<lparr>m_transport := Some t1, m_isServer := True\<rparr>"
  obtain n1 w2 where n1: "(case m_cryptoEngine l of
        None \<Rightarrow> (n0, w\<lparr>cw_sys := s1\<rparr>)
      | Some e \<Rightarrow> (n0\<lparr>m_cryptoEngine := Some e, m_ownsCryptoEngine := False\<rparr>,
                  adaptor_SetCryptoEngine (Some (ie_Provider (ci_engine io) e (cw_sys (w\<lparr>cw_sys := s1\<rparr>)))) (w\<lparr>cw_sys := s1\<rparr>))) = (n1, w2)"
    by (rule prod.exhaust)
  then have frame: "cw_heap w2 = cw_heap w" "m_config n1 = m_config l" "m_state n1 = SCF_CONN_INIT"
    "cw_engines w2 = cw_engines w" "m_cryptoEngine n1 = m_cryptoEngine l" "\<not> m_ownsCryptoEngine n1"
    by (auto simp: adaptor_SetCryptoEngine_def n0_def SCFConnectionImpl_new_def split: option.splits)
  have run: "(case SetupPolicyContext io al n1 w2 of
      None \<Rightarrow> None
    | Some (r, n2, w3) \<Rightarrow>
        if r \<noteq> SCF_SUCCESS then map_option (\<lambda>(_, w'). (None, w')) (Cleanup io n2 w3)
        else (case CreatePolicyObj io al n2 w3 of
           None \<Rightarrow> None
         | Some (r2, n3, w4) \<Rightarrow>
             if r2 \<noteq> SCF_SUCCESS then map_option (\<lambda>(_, w'). (None, w')) (Cleanup io n3 w4)
             else (case HandshakeStep n3 w4 of
                None \<Rightarrow> None
              | Some (r3, n4, w5) \<Rightarrow>
                  if r3 = SCF_SSL_ERR_WANT_READ \<or> r3 = SCF_SSL_ERR_WANT_WRITE then Some (Some (n4\<lparr>m_state := SCF_CONN_CONNECTING\<rparr>), w5)
                  else if r3 \<noteq> SCF_SUCCESS then map_option (\<lambda>(_, w'). (None, w')) (Cleanup io n4 w5)
                  else Some (Some (n4\<lparr>m_state := SCF_CONN_CONNECTED, m_handshakeDone := True\<rparr>), w5)))) = Some (Some conn, w')"
    using assms by (simp add: conn_Accept_def t acc t1 Let_def n0_def [symmetric] n1)
  then obtain n2 w3 where s: "SetupPolicyContext io al n1 w2 = Some (SCF_SUCCESS, n2, w3)"
    by (auto split: option.splits if_splits)
  from run s obtain n3 w4 where c: "CreatePolicyObj io al n2 w3 = Some (SCF_SUCCESS, n3, w4)"
    by (auto split: option.splits if_splits)
  from run s c obtain r3 n4 where h: "HandshakeStep n3 w4 = Some (r3, n4, w')"
    "conn = n4\<lparr>m_state := SCF_CONN_CONNECTING\<rparr> \<or> r3 = SCF_SUCCESS \<and> conn = n4\<lparr>m_state := SCF_CONN_CONNECTED, m_handshakeDone := True\<rparr>"
    by (auto split: option.splits if_splits)
  from that [OF frame s c h] show thesis .
qed

lemma conn_Accept_inv:
  assumes "conn_Accept io al oom l w = Some (Some conn, w')" "heap_ok (cw_heap w)"
  shows "conn_inv conn w'"
  using assms(1)
proof (rule conn_Accept_cases)
  fix n1 w2 n2 w3 n3 w4 r3 n4
  assume h1: "cw_heap w2 = cw_heap w" "m_state n1 = SCF_CONN_INIT"
    and s: "SetupPolicyContext io al n1 w2 = Some (SCF_SUCCESS, n2, w3)" and c: "CreatePolicyObj io al n2 w3 = Some (SCF_SUCCESS, n3, w4)"
    and h: "HandshakeStep n3 w4 = Some (r3, n4, w')"
      "conn = n4\<lparr>m_state := SCF_CONN_CONNECTING\<rparr> \<or> r3 = SCF_SUCCESS \<and> conn = n4\<lparr>m_state := SCF_CONN_CONNECTED, m_handshakeDone := True\<rparr>"
  have "heap_ok (cw_heap w3)" using SetupPolicyContext_ok [OF s] h1 assms(2) by simp
  then have "heap_ok (cw_heap w4)" "m_state n3 = SCF_CONN_INIT"
    using CreatePolicyObj_ok [OF c] SetupPolicyContext_state [OF s] h1 by simp_all
  then have "conn_inv n3 w4" by (simp add: conn_inv_def)
  from HandshakeStep_inv [OF h(1) this] h(2) show "conn_inv conn w'" by (auto simp: conn_inv_def)
qed

text \<open>C26: Whatever is called on a connection, in whatever order and with whatever results of the TLS library and
  the transport, starting from a connection that is not connected yet or that \<^verbatim>\<open>Accept\<close> has just returned: the
  connection is in the state CONNECTED exactly when \<^verbatim>\<open>IsConnected\<close> says so, that is with a completed handshake;
  then its object and context are alive and the node/role mapping of the context is frozen; and in every other
  state \<^verbatim>\<open>Read\<close> and \<^verbatim>\<open>Write\<close> are refused without effect.\<close>

theorem connection_established:
  assumes "(conn_step io)\<^sup>*\<^sup>* (conn0, w0) (conn, w)" "heap_ok (cw_heap w1)"
    and "m_state conn0 \<noteq> SCF_CONN_CONNECTED \<and> w0 = w1 \<or> conn_Accept io al oom l w1 = Some (Some conn0, w0)"
  shows "(IsConnected conn \<longleftrightarrow> m_state conn = SCF_CONN_CONNECTED) \<and>
    (IsConnected conn \<longrightarrow> (\<exists>o1 b a c. m_policyObj conn = Some o1 \<and> hp_obj (cw_heap w) o1 = Some b \<and>
       obj_policyCtx b = Some a \<and> hp_ctx (cw_heap w) a = Some c \<and> ctx_nodeRoleMapFrozen c)) \<and>
    (\<not> IsConnected conn \<longrightarrow> conn_Read conn buf len rl w = Some ((SCF_ERRNO_INVALID_PARAM, [], rl), w) \<and>
       conn_Write conn data len' wl now w = Some ((SCF_ERRNO_INVALID_PARAM, wl), w))"
proof -
  have "conn_inv conn0 w0" using assms(2,3) conn_Accept_inv conn_invI by metis
  then have "conn_inv conn w" using conn_sys.inv_steps [OF assms(1)] by simp
  then show ?thesis by (auto simp: conn_inv_def bound_def IsConnected_def conn_Read_def conn_Write_def)
qed

text \<open>A connection in the middle of its handshake, over the small TLS library.\<close>

definition sim_world :: "(sim_state, unit) conn_world" where
  "sim_world = \<lparr> cw_globals = sim_globals,
     cw_heap = \<lparr> hp_ctx = [100 \<mapsto> the (SCF_CreatePolicyCtx sim_globals False)], hp_obj = [200 \<mapsto> sim_obj] \<rparr>, cw_lib = sim0, cw_sys = (), cw_engines = {} \<rparr>"

definition sim_conn :: "unit SCFConnectionImpl" where
  "sim_conn = (SCFConnectionImpl_new SCFConnectionConfig_init)\<lparr>m_state := SCF_CONN_CONNECTING, m_policyCtx := Some 100, m_policyObj := Some 200\<rparr>"

theorem connection_established_witness:
  "\<exists>conn w c. HandshakeStep sim_conn sim_world = Some (SCF_SUCCESS, conn, w) \<and> IsConnected conn \<and>
     hp_ctx (cw_heap w) 100 = Some c \<and> ctx_nodeRoleMapFrozen c"
proof -
  obtain conn w where h: "HandshakeStep sim_conn sim_world = Some (SCF_SUCCESS, conn, w)" "m_state conn = SCF_CONN_CONNECTED"
      "m_policyObj conn = Some 200" "\<exists>b. hp_obj (cw_heap w) 200 = Some b \<and> obj_policyCtx b = Some 100"
    by (simp add: HandshakeStep_def sim_conn_def SCFConnectionImpl_new_def SCFConnectionConfig_init_def sim_world_def obj_op_def sim_obj_def
        SCF_Connect_def adaptor_Connect_def sim_ossl_def FreezeNodeRoleMapping_def Let_def SCF_CreatePolicyCtx_def SSL_SUCCESS_def)
  have steps: "(conn_step io)\<^sup>*\<^sup>* (sim_conn, sim_world) (conn, w)" for io :: "(unit, unit) conn_io"
    by (rule r_into_rtranclp) (rule st_handshake [OF h(1)])
  have "heap_ok (cw_heap sim_world)" "m_state sim_conn \<noteq> SCF_CONN_CONNECTED"
    by (simp_all add: sim_world_def sim_conn_def heap_ok_def sim_obj_def)
  then show ?thesis using connection_established [OF steps, of sim_world] h by auto
qed

section \<open>The verification callback of the application\<close>

text \<open>The policy modes of the contexts.\<close>

definition modes :: "('o, 'w) conn_world \<Rightarrow> addr \<Rightarrow> SCF_POLICY_MODE option" where
  "modes w = (\<lambda>a. map_option ctx_policyMode (hp_ctx (cw_heap w) a))"

definition ctx_call_keeps_mode :: "(SCFPolicyCtx option \<Rightarrow> 'o \<Rightarrow> 'r \<times> SCFPolicyCtx option \<times> 'o) \<Rightarrow> bool" where
  "ctx_call_keeps_mode f \<longleftrightarrow> (\<forall>c st r c1 st1. f (Some c) st = (r, c1, st1) \<longrightarrow> (\<exists>c'. c1 = Some c' \<and> ctx_policyMode c' = ctx_policyMode c))"

lemma ctx_op_mode:
  assumes "ctx_op p f w = Some (r, w')" "ctx_call_keeps_mode f"
  shows "modes w' = modes w"
proof (cases p)
  case None
  then show ?thesis using assms(1) by (auto simp: ctx_op_def modes_def split: prod.splits)
next
  case (Some b)
  with assms(1) obtain c c1 st where c: "hp_ctx (cw_heap w) b = Some c" "f (Some c) (cw_lib w) = (r, c1, st)"
    "w' = w\<lparr>cw_heap := (cw_heap w)\<lparr>hp_ctx := (hp_ctx (cw_heap w))(b := c1)\<rparr>, cw_lib := st\<rparr>"
    by (auto simp: ctx_op_def split: option.splits prod.splits)
  moreover from c(2) assms(2) obtain c' where "c1 = Some c'" "ctx_policyMode c' = ctx_policyMode c"
    unfolding ctx_call_keeps_mode_def by blast
  ultimately show ?thesis by (auto simp: modes_def)
qed

lemma const_keeps_mode: "ctx_call_keeps_mode (\<lambda>c st. let (r, st1) = f c st in (r, c, st1))"
  by (auto simp: ctx_call_keeps_mode_def split: prod.splits)

lemmas ctx_op_const_mode = ctx_op_mode [OF _ const_keeps_mode] ctx_op_mode [OF _ const_keeps_mode [unfolded Let_def]]

lemma LoadFile_mode:
  assumes "\<And>fc w r w'. use fc w = Some (r, w') \<Longrightarrow> modes w' = modes w"
    and "LoadFile io me path pwd use w = Some (r, w')"
  shows "modes w' = modes w"
  using assms by (auto simp: LoadFile_def Let_def split: option.splits prod.splits if_splits)

lemma add_cert_mode: "add_cert io conn t fc w = Some (r, w') \<Longrightarrow> modes w' = modes w"
  by (auto simp: add_cert_def modes_def split: option.splits)

lemma set_key_mode: "set_key conn fc w = Some (r, w') \<Longrightarrow> modes w' = modes w"
  unfolding set_key_def by (erule ctx_op_mode) (rule const_keeps_mode)

lemma load_mode:
  "LoadFile io me path pwd (add_cert io conn t) w = Some (r, w') \<Longrightarrow> modes w' = modes w"
  "LoadFile io me path pwd (set_key conn) w = Some (r, w') \<Longrightarrow> modes w' = modes w"
  by (erule LoadFile_mode [rotated], erule add_cert_mode) (erule LoadFile_mode [rotated], erule set_key_mode)

lemma SetupCertificates_mode: "SetupCertificates io al conn w = Some (r, w') \<Longrightarrow> modes w' = modes w"
  by (auto simp: SetupCertificates_def Let_def dest!: load_mode split: option.splits prod.splits if_splits)

lemma SCF_CreatePolicyObj_mode:
  "SCF_CreatePolicyObj g ctx now fresh h = Some (p, h') \<Longrightarrow> (\<lambda>a. map_option ctx_policyMode (hp_ctx h' a)) = (\<lambda>a. map_option ctx_policyMode (hp_ctx h a))"
  by (auto simp: SCF_CreatePolicyObj_def Let_def split: option.splits if_splits)

lemma SetupPSK_mode:
  assumes "SetupPSK io al conn w = Some (r, w')"
  shows "modes w' = modes w"
  using assms
  by (auto simp: SetupPSK_def modes_def Let_def dest: SCF_CreatePolicyObj_mode split: if_splits prod.splits list.splits option.splits)

lemma level_mode_not_customer: "sl_policyMode (GetSecurityLevelMapping level) \<noteq> SCF_POLICY_CUSTOMER"
  by (cases level) (simp_all add: Make112bitMapping_def Make128bitMapping_def Make192bitMapping_def Make256bitMapping_def
      Make128bitPQMapping_def Make256bitPQMapping_def)

lemma SetAppVerifyCallback_refused:
  "ctx_policyMode c \<noteq> SCF_POLICY_CUSTOMER \<Longrightarrow> fst (SCF_SetAppVerifyCallback g (Some c) cb arg st) \<noteq> SCF_SUCCESS"
  by (auto simp: SCF_SetAppVerifyCallback_def CHECK_SCF_INIT_RET_def SCF_SUCCESS_def errno split: option.splits)

lemma FreeSsl_mode: "FreeSsl api (Some c) st = (x, st') \<Longrightarrow> \<exists>c'. x = Some c' \<and> ctx_policyMode c' = ctx_policyMode c"
  by (auto simp: FreeSsl_def Let_def split: if_splits option.splits)

lemma InitPolicyByMode_mode: "InitPolicyByMode ad c st = (r, c', st') \<Longrightarrow> ctx_policyMode c' = ctx_policyMode c"
  by (auto simp: InitPolicyByMode_def InitSsl_def InitSslCustomer_def Let_def dest!: FreeSsl_mode split: if_splits prod.splits option.splits)

lemma SCF_SetPolicy_mode:
  assumes "SCF_SetPolicy g c role vm pm st = (SCF_SUCCESS, c', st')"
  shows "\<exists>c1. c' = Some c1 \<and> ctx_policyMode c1 = pm"
  using assms
  by (auto simp: SCF_SetPolicy_def Let_def CHECK_SCF_INIT_RET_def SCF_SUCCESS_def errno dest!: InitPolicyByMode_mode
      split: if_splits option.splits prod.splits)

lemma SetupPolicy_mode:
  assumes "SetupPolicy io al conn w = Some (SCF_SUCCESS, w')" "m_policyCtx conn = Some a"
  shows "modes w' a = Some (sl_policyMode (GetSecurityLevelMapping (cc_securityLevel (m_config conn))))"
proof -
  let ?g = "cw_globals w" and ?cfg = "m_config conn" and ?m = "GetSecurityLevelMapping (cc_securityLevel (m_config conn))"
  let ?groups = "\<lambda>w1. case g_adaptor ?g of
        None \<Rightarrow> Some w1
      | Some ad \<Rightarrow> if m_keyExchangeGroups conn \<noteq> []
          then map_option snd (ctx_op (m_policyCtx conn)
                 (\<lambda>c st. let (r, st1) = SetKeyExchangeGroups (ad_ssl ad) c (m_keyExchangeGroups conn) st in (r, c, st1)) w1)
          else Some w1"
  obtain w1 where p: "ctx_op (Some a) (\<lambda>c st. SCF_SetPolicy ?g c (cc_role ?cfg) (MapCertVerifyPolicy (cc_certVerifyPolicy ?cfg)) (sl_policyMode ?m) st) w
      = Some (SCF_SUCCESS, w1)"
    using assms by (auto simp: SetupPolicy_def Let_def split: option.splits if_splits)
  then have m1: "modes w1 a = Some (sl_policyMode ?m)"
    by (auto simp: ctx_op_def modes_def dest!: SCF_SetPolicy_mode split: option.splits prod.splits)
  obtain w2 where k: "?groups w1 = Some w2"
    using assms p by (cases "?groups w1") (auto simp: SetupPolicy_def Let_def)
  have m2: "modes w2 = modes w1"
    using k by (auto split: option.splits if_splits dest!: ctx_op_const_mode)
  obtain w3 where v: "ctx_op (m_policyCtx conn) (\<lambda>c st. let (r, st1) = SCF_SetProtocolVersion ?g c (sl_protocolVersionMin ?m) (sl_protocolVersionMax ?m) None 0 st
        in (r, c, st1)) w2 = Some (SCF_SUCCESS, w3)" and cs: "SetupCipherSuites io al conn w3 = Some (SCF_SUCCESS, w')"
    using assms(1) p k by (auto simp: SetupPolicy_def Let_def assms(2) split: option.splits if_splits)
  have "modes w' = modes w3"
    using cs by (auto simp: SetupCipherSuites_def Let_def split: if_splits dest!: ctx_op_const_mode)
  then show ?thesis using m1 m2 ctx_op_mode [OF v const_keeps_mode] by simp
qed

lemma SetupCredentials_callback:
  assumes "SetupCredentials io al conn w = Some (r, w')" "cc_appVerifyCb (m_config conn) \<noteq> None"
    and "m_policyCtx conn = Some a" "modes w a = Some m" "m \<noteq> SCF_POLICY_CUSTOMER"
  shows "r \<noteq> SCF_SUCCESS"
proof
  assume r: "r = SCF_SUCCESS"
  let ?cred = "if cc_usePSK (m_config conn) then SetupPSK io al conn w else SetupCertificates io al conn w"
  obtain w1 where w1: "?cred = Some (SCF_SUCCESS, w1)"
    using assms(1) r by (cases ?cred) (auto simp: SetupCredentials_def Let_def split: if_splits)
  then have "modes w1 a = Some m" using assms(4) SetupPSK_mode SetupCertificates_mode by (metis (no_types))
  then obtain c where c: "hp_ctx (cw_heap w1) a = Some c" "ctx_policyMode c = m" by (auto simp: modes_def)
  obtain r2 st2 where cb: "SCF_SetAppVerifyCallback (cw_globals w) (Some c) (cc_appVerifyCb (m_config conn)) (cc_appVerifyArg (m_config conn)) (cw_lib w1) = (r2, st2)"
    by (metis prod.exhaust)
  then have "r2 \<noteq> SCF_SUCCESS" using SetAppVerifyCallback_refused [of c] c(2) assms(5) by (metis fst_conv)
  then show False using assms(1,2,3) r w1 c(1) cb by (auto simp: SetupCredentials_def Let_def ctx_op_def)
qed

lemma SetupCryptoEngine_early: "SetupCryptoEngine io conn w = (Some r, conn', w') \<Longrightarrow> r \<noteq> SCF_SUCCESS"
  by (auto simp: SetupCryptoEngine_def CHECK_SCF_ADAPTOR_RET_def SCF_SUCCESS_def errno Let_def split: option.splits prod.splits if_splits)

lemma SetupPolicyContext_callback:
  assumes "SetupPolicyContext io al conn w = Some (r, conn', w')" "cc_appVerifyCb (m_config conn) \<noteq> None"
  shows "r \<noteq> SCF_SUCCESS"
proof
  assume r: "r = SCF_SUCCESS"
  obtain e conn1 w1 where eng: "SetupCryptoEngine io conn w = (e, conn1, w1)" by (metis prod_cases3)
  have cfg: "m_config conn1 = m_config conn" using SetupCryptoEngine_frame [OF eng] by simp
  have e: "e = None" using assms(1) r eng by (auto simp: SetupPolicyContext_def dest: SetupCryptoEngine_early split: option.splits)
  then obtain c where c: "SCF_CreatePolicyCtx (cw_globals w1) (ca_ctx al = None) = Some c"
    using assms(1) r eng by (auto simp: SetupPolicyContext_def SCF_SUCCESS_def errno split: option.splits)
  then obtain a where a: "ca_ctx al = Some a" by (auto simp: SCF_CreatePolicyCtx_def split: if_splits)
  obtain conn2 w2 w3 where s: "SetupPolicy io al conn2 w2 = Some (SCF_SUCCESS, w3)" "SetupCredentials io al conn2 w3 = Some (SCF_SUCCESS, w')"
      "m_policyCtx conn2 = Some a" "m_config conn2 = m_config conn"
    using assms(1) r eng e c a cfg by (auto simp: SetupPolicyContext_def Let_def split: option.splits if_splits)
  show False
    using SetupCredentials_callback [OF s(2) _ s(3) SetupPolicy_mode [OF s(1,3)] level_mode_not_customer] assms(2) s(4) by simp
qed

text \<open>C28: A connection whose configuration names a verification callback never gets through its set-up: the callback
  needs the policy mode CUSTOMER, which no security level has.  So \<^verbatim>\<open>Connect\<close> and \<^verbatim>\<open>Listen\<close> fail and \<^verbatim>\<open>Accept\<close> of such a
  listener never returns a connection, for every security level, kind of credentials and behaviour of the
  TLS library.\<close>

theorem app_verify_callback_unusable:
  assumes "cc_appVerifyCb (m_config conn) \<noteq> None"
  shows "conn_Connect io al host port conn w \<noteq> Some (SCF_SUCCESS, conn', w') \<and>
    conn_Listen io al host port conn w \<noteq> Some (SCF_SUCCESS, conn', w') \<and>
    conn_Accept io al oom conn w \<noteq> Some (Some conn', w')"
proof -
  have never: "r \<noteq> SCF_SUCCESS" if "SetupPolicyContext io al n v = Some (r, n', v')" "m_config n = m_config conn" for n n' v v' r
    using SetupPolicyContext_callback [OF that(1)] that(2) assms by simp
  have acc: "conn_Accept io al oom conn w \<noteq> Some (Some conn', w')"
  proof
    assume "conn_Accept io al oom conn w = Some (Some conn', w')"
    then show False by (rule conn_Accept_cases) (use never in blast)
  qed
  show ?thesis using acc by (auto simp: conn_Connect_def conn_Listen_def dest!: never split: option.splits if_splits prod.splits)
qed

text \<open>With the default configuration and the small TLS library.\<close>

theorem app_verify_callback_unusable_witness:
  "\<not> (\<exists>io al conn' w'. conn_Listen io al ''h'' 1 (sim_conn\<lparr>m_config := SCFConnectionConfig_init\<lparr>cc_appVerifyCb := Some 5\<rparr>\<rparr>) sim_world = Some (SCF_SUCCESS, conn', w'))"
proof -
  have "cc_appVerifyCb (m_config (sim_conn\<lparr>m_config := SCFConnectionConfig_init\<lparr>cc_appVerifyCb := Some 5\<rparr>\<rparr>)) \<noteq> None" by simp
  from app_verify_callback_unusable [OF this] show ?thesis by blast
qed

end
