(* ===== verification/Ref_Count.thy ===== *)
theory Ref_Count
  imports Scf_Obj_Correct
begin

text \<open>
  The reference counter of a context under concurrency.  The counter is a \<^verbatim>\<open>std::atomic<uint32_t>\<close>; every
  atomic access of \<^verbatim>\<open>SCF_FreePolicyCtx\<close> (\<^verbatim>\<open>scf/policy/policy.cpp\<close>) and of \<^verbatim>\<open>SCF_CreatePolicyObj\<close>
  (\<^verbatim>\<open>scf/connection/obj.cpp\<close>) is one step here, and the steps of any number of threads interleave.
  A thread is an owner of one reference: it keeps it, or it is somewhere inside \<^verbatim>\<open>SCF_FreePolicyCtx\<close>.
\<close>

section \<open>Threads\<close>

record rc_shared =
  rc_refCnt :: u32
  rc_alive :: bool
  rc_freed :: nat

datatype rc_pc = Holding | Loading | Looping u32 | Leaving u32 | Returned

text \<open>One step of the release: the load, one round of the compare-and-exchange loop (\<^verbatim>\<open>spurious\<close>: the weak exchange
  fails although the values agree), and what follows the loop.  \<^verbatim>\<open>None\<close>: the step accesses the context after its
  release.  A thread that holds its reference or has returned does nothing.\<close>

fun FreePolicyCtx_step :: "bool \<Rightarrow> rc_pc \<Rightarrow> rc_shared \<Rightarrow> (rc_pc \<times> rc_shared) option" where
  "FreePolicyCtx_step spurious Loading sh = (if rc_alive sh then Some (Looping (rc_refCnt sh), sh) else None)"
| "FreePolicyCtx_step spurious (Looping expected) sh =
     (if expected = 0 then Some (Returned, sh)
      else if \<not> rc_alive sh then None
      else if \<not> spurious \<and> rc_refCnt sh = expected then Some (Leaving expected, sh\<lparr>rc_refCnt := expected - 1\<rparr>)
      else Some (Looping (rc_refCnt sh), sh))"
| "FreePolicyCtx_step spurious (Leaving expected) sh =
     (if expected > 1 then Some (Returned, sh)
      else if rc_alive sh then Some (Returned, sh\<lparr>rc_alive := False, rc_freed := rc_freed sh + 1\<rparr>)
      else None)"
| "FreePolicyCtx_step spurious pc sh = Some (pc, sh)"

text \<open>An owner can give its reference back, or create an object, which becomes a further owner.  The counter is not
  checked by the code, so the number of owners is bounded here by what 32 bits can count.\<close>

inductive rc_step :: "rc_shared \<times> rc_pc list \<Rightarrow> rc_shared \<times> rc_pc list \<Rightarrow> bool" where
  rc_call: "i < length ths \<Longrightarrow> ths ! i = Holding \<Longrightarrow> rc_step (sh, ths) (sh, ths[i := Loading])"
| rc_run: "i < length ths \<Longrightarrow> FreePolicyCtx_step spurious (ths ! i) sh = Some (pc, sh') \<Longrightarrow> rc_step (sh, ths) (sh', ths[i := pc])"
| rc_create: "Holding \<in> set ths \<Longrightarrow> unat (rc_refCnt sh) + 1 < 2 ^ 32 \<Longrightarrow>
    rc_step (sh, ths) (sh\<lparr>rc_refCnt := rc_refCnt sh + 1\<rparr>, ths @ [Holding])"

definition rc_init :: "rc_shared \<times> rc_pc list" where
  "rc_init = (\<lparr> rc_refCnt = 1, rc_alive = True, rc_freed = 0 \<rparr>, [Holding])"

section \<open>The invariant\<close>

fun owns :: "rc_pc \<Rightarrow> bool" where
  "owns Holding = True"
| "owns Loading = True"
| "owns (Looping e) = True"
| "owns pc = False"

fun frees :: "rc_pc \<Rightarrow> bool" where
  "frees (Leaving e) = (\<not> e > 1)"
| "frees pc = False"

abbreviation owners :: "rc_pc list \<Rightarrow> nat" where
  "owners ths \<equiv> length (filter owns ths)"

abbreviation freeing :: "rc_pc list \<Rightarrow> nat" where
  "freeing ths \<equiv> length (filter frees ths)"

text \<open>The counter counts the owners; while there is one, nobody is about to free the context; without an owner the
  context has been freed or exactly one thread is about to do it.  A zero is never read.\<close>

definition rc_inv :: "rc_shared \<times> rc_pc list \<Rightarrow> bool" where
  "rc_inv s \<longleftrightarrow> (case s of (sh, ths) \<Rightarrow>
     unat (rc_refCnt sh) = owners ths \<and>
     freeing ths + rc_freed sh = (if owners ths = 0 then 1 else 0) \<and>
     (rc_alive sh \<longleftrightarrow> rc_freed sh = 0) \<and> Looping 0 \<notin> set ths \<and> Leaving 0 \<notin> set ths)"

lemma filter_update:
  "i < length xs \<Longrightarrow>
   length (filter P (xs[i := y])) + (if P (xs ! i) then 1 else 0) = length (filter P xs) + (if P y then 1 else 0)"
proof (induction xs arbitrary: i)
  case (Cons x xs)
  then show ?case by (cases i) auto
qed simp

lemma filter_pos: "i < length xs \<Longrightarrow> P (xs ! i) \<Longrightarrow> 0 < length (filter P xs)"
  by (auto simp: filter_empty_conv)

lemma rc_invD:
  assumes "rc_inv (sh, ths)"
  shows "unat (rc_refCnt sh) = owners ths" "freeing ths + rc_freed sh = (if owners ths = 0 then 1 else 0)"
    "rc_alive sh \<longleftrightarrow> rc_freed sh = 0" "Looping 0 \<notin> set ths" "Leaving 0 \<notin> set ths"
  using assms by (simp_all add: rc_inv_def)

lemma owner_alive:
  assumes "rc_inv (sh, ths)" "i < length ths" "owns (ths ! i)"
  shows "rc_alive sh" "rc_freed sh = 0" "freeing ths = 0" "rc_refCnt sh \<noteq> 0"
proof -
  have pos: "owners ths > 0" using filter_pos assms(2,3) .
  then show "rc_freed sh = 0" "freeing ths = 0" using rc_invD(2) [OF assms(1)] by simp_all
  then show "rc_alive sh" using rc_invD(3) [OF assms(1)] by simp
  show "rc_refCnt sh \<noteq> 0" using pos rc_invD(1) [OF assms(1)] by (metis unat_0 less_irrefl)
qed

lemma freeing_alive:
  assumes "rc_inv (sh, ths)" "i < length ths" "frees (ths ! i)"
  shows "rc_alive sh" "rc_freed sh = 0" "freeing ths = 1" "owners ths = 0"
proof -
  have pos: "freeing ths > 0" using filter_pos assms(2,3) .
  then show none: "owners ths = 0" using rc_invD(2) [OF assms(1)] by (metis add_is_0 less_irrefl)
  then have "freeing ths + rc_freed sh = 1" using rc_invD(2) [OF assms(1)] by simp
  then show "rc_freed sh = 0" "freeing ths = 1" using pos by linarith+
  then show "rc_alive sh" using rc_invD(3) [OF assms(1)] by simp
qed

text \<open>No thread of a state with the invariant can touch released memory.\<close>

lemma FreePolicyCtx_step_safe:
  assumes "rc_inv (sh, ths)" "i < length ths"
  shows "FreePolicyCtx_step spurious (ths ! i) sh \<noteq> None"
  using owner_alive(1) [OF assms] freeing_alive(1) [OF assms] by (cases "ths ! i") auto

text \<open>What a step does to the two counts.\<close>

lemma rc_inv_update:
  assumes "rc_inv (sh, ths)" "i < length ths" "ths ! i = pc" "rc_refCnt sh' = rc_refCnt sh" "rc_freed sh' = rc_freed sh" "rc_alive sh' = rc_alive sh"
    and "owns pc' = owns pc" "frees pc' = frees pc" "pc' \<noteq> Looping 0" "pc' \<noteq> Leaving 0"
  shows "rc_inv (sh', ths[i := pc'])"
proof -
  have "owners (ths[i := pc']) = owners ths" "freeing (ths[i := pc']) = freeing ths"
    using filter_update [OF assms(2), of owns pc'] filter_update [OF assms(2), of frees pc'] assms(3,7,8) by (simp_all split: if_splits)
  then show ?thesis
    using assms(1,4,5,6,9,10) set_update_subset_insert [of ths i pc'] by (auto simp: rc_inv_def)
qed

lemma rc_inv_decrement:
  assumes "rc_inv (sh, ths)" "i < length ths" "ths ! i = Looping e" "e \<noteq> 0" "rc_refCnt sh = e"
  shows "rc_inv (sh\<lparr>rc_refCnt := e - 1\<rparr>, ths[i := Leaving e])"
proof -
  note inv = rc_invD [OF assms(1)] and own = owner_alive [OF assms(1,2)]
  have o: "owners (ths[i := Leaving e]) + 1 = owners ths" using filter_update [OF assms(2), of owns "Leaving e"] assms(3) by simp
  have f: "freeing (ths[i := Leaving e]) = (if frees (Leaving e) then 1 else 0)"
    using filter_update [OF assms(2), of frees "Leaving e"] assms(3) own by simp
  have e: "unat e = owners ths" using inv(1) assms(5) by simp
  have "unat (e - 1) = owners (ths[i := Leaving e])" using o e assms(4) by (simp add: unat_minus_one)
  moreover have "frees (Leaving e) \<longleftrightarrow> owners (ths[i := Leaving e]) = 0"
  proof -
    have "e > 1 \<longleftrightarrow> 1 < owners ths" using e by (simp add: word_less_nat_alt)
    with o show ?thesis by (simp del: length_0_conv) linarith
  qed
  ultimately show ?thesis
    using f own inv(3-5) assms(3,4) set_update_subset_insert [of ths i "Leaving e"] by (auto simp: rc_inv_def)
qed

lemma rc_inv_free:
  assumes "rc_inv (sh, ths)" "i < length ths" "ths ! i = Leaving e" "\<not> e > 1"
  shows "rc_inv (sh\<lparr>rc_alive := False, rc_freed := rc_freed sh + 1\<rparr>, ths[i := Returned])"
proof -
  note inv = rc_invD [OF assms(1)] and fr = freeing_alive [OF assms(1,2)]
  have "owners (ths[i := Returned]) = 0" "freeing (ths[i := Returned]) = 0"
    using filter_update [OF assms(2), of owns Returned] filter_update [OF assms(2), of frees Returned] assms(3,4) fr by simp_all
  then show ?thesis
    using inv(1,4,5) fr assms(3,4) set_update_subset_insert [of ths i Returned] by (auto simp: rc_inv_def)
qed

lemma rc_inv_run:
  assumes "rc_inv (sh, ths)" "i < length ths" "FreePolicyCtx_step spurious (ths ! i) sh = Some (pc, sh')"
  shows "rc_inv (sh', ths[i := pc])"
proof (cases "ths ! i")
  case Holding
  then show ?thesis using assms by (metis FreePolicyCtx_step.simps(4) list_update_id option.inject prod.inject)
next
  case Loading
  then show ?thesis using assms owner_alive [OF assms(1,2)] by (auto intro!: rc_inv_update [OF assms(1,2)] split: if_splits)
next
  case (Looping e)
  have e: "e \<noteq> 0" using rc_invD(4) [OF assms(1)] Looping assms(2) nth_mem by metis
  show ?thesis
  proof (cases "\<not> spurious \<and> rc_refCnt sh = e")
    case True
    then show ?thesis using rc_inv_decrement [OF assms(1,2) Looping e] assms(3) Looping e by (auto split: if_splits)
  next
    case False
    then show ?thesis using Looping e assms owner_alive [OF assms(1,2)] by (auto intro!: rc_inv_update [OF assms(1,2)] split: if_splits)
  qed
next
  case (Leaving e)
  show ?thesis
  proof (cases "e > 1")
    case True
    then show ?thesis using Leaving assms by (auto intro!: rc_inv_update [OF assms(1,2)])
  next
    case False
    then show ?thesis using rc_inv_free [OF assms(1,2) Leaving] Leaving assms(3) by (auto split: if_splits)
  qed
next
  case Returned
  then show ?thesis using assms by (metis FreePolicyCtx_step.simps(5) list_update_id option.inject prod.inject)
qed

lemma rc_step_inv: "rc_inv s \<Longrightarrow> rc_step s s' \<Longrightarrow> rc_inv s'"
proof (erule rc_step.cases)
  fix i ths sh
  assume "rc_inv s" "s = (sh, ths)" "s' = (sh, ths[i := Loading])" "i < length ths" "ths ! i = Holding"
  then show "rc_inv s'" using rc_inv_update [of sh ths i Holding sh Loading] by simp
next
  fix i ths spurious sh pc sh'
  assume "rc_inv s" "s = (sh, ths)" "s' = (sh', ths[i := pc])" "i < length ths" "FreePolicyCtx_step spurious (ths ! i) sh = Some (pc, sh')"
  then show "rc_inv s'" using rc_inv_run by blast
next
  fix ths sh
  assume inv: "rc_inv s" and s: "s = (sh, ths)" "s' = (sh\<lparr>rc_refCnt := rc_refCnt sh + 1\<rparr>, ths @ [Holding])"
    and h: "Holding \<in> set ths" and bound: "unat (rc_refCnt sh) + 1 < 2 ^ 32"
  obtain i where i: "i < length ths" "ths ! i = Holding" using h by (auto simp: in_set_conv_nth)
  have inv1: "rc_inv (sh, ths)" using inv s by simp
  note own = owner_alive [OF inv1 i(1)] and now = rc_invD [OF inv1]
  have "unat (rc_refCnt sh + 1) = owners ths + 1" using bound now(1) by (simp add: unat_word_ariths)
  then show "rc_inv s'" unfolding s(2) using own now(4,5) i(2) by (simp add: rc_inv_def)
qed

interpretation rc_sys: invariant_system rc_step rc_inv
  by unfold_locales (rule rc_step_inv)

lemma rc_init_inv: "rc_inv rc_init"
  by (simp add: rc_inv_def rc_init_def)

section \<open>Results\<close>

text \<open>A thread that runs alone and whose exchange does not fail spuriously.\<close>

fun solo_run :: "nat \<Rightarrow> rc_pc \<Rightarrow> rc_shared \<Rightarrow> (rc_pc \<times> rc_shared) option" where
  "solo_run 0 pc sh = Some (pc, sh)"
| "solo_run (Suc n) pc sh = (case FreePolicyCtx_step False pc sh of None \<Rightarrow> None | Some (pc', sh') \<Rightarrow> solo_run n pc' sh')"

text \<open>The run of an owner, from the load and from inside the loop.\<close>

definition released :: "rc_shared \<Rightarrow> rc_shared" where
  "released sh = (if rc_refCnt sh > 1 then sh\<lparr>rc_refCnt := rc_refCnt sh - 1\<rparr>
                  else \<lparr> rc_refCnt = 0, rc_alive = False, rc_freed = rc_freed sh + 1 \<rparr>)"

lemma word_pos_not_gt1: "(w :: u32) \<noteq> 0 \<Longrightarrow> \<not> w > 1 \<Longrightarrow> w = 1"
  by (simp add: word_less_nat_alt word_unat_eq_iff)

lemma solo_run_own:
  assumes "rc_alive sh" "rc_refCnt sh \<noteq> 0"
  shows "solo_run 2 (Looping (rc_refCnt sh)) sh = Some (Returned, released sh)"
  using assms word_pos_not_gt1 [of "rc_refCnt sh"] by (auto simp: released_def numeral_2_eq_2)

lemma solo_run_load:
  assumes "rc_alive sh" "rc_refCnt sh \<noteq> 0"
  shows "solo_run 3 Loading sh = Some (Returned, released sh)"
  using solo_run_own [OF assms] assms by (simp add: numeral_3_eq_3 numeral_2_eq_2)

lemma solo_run_loop:
  assumes "rc_alive sh" "rc_refCnt sh \<noteq> 0" "e \<noteq> 0"
  shows "\<exists>n \<le> 3. solo_run n (Looping e) sh = Some (Returned, released sh)"
proof (cases "rc_refCnt sh = e")
  case True
  then show ?thesis using solo_run_own [OF assms(1,2)] by (intro exI [of _ 2]) simp
next
  case False
  then have "solo_run 3 (Looping e) sh = solo_run 2 (Looping (rc_refCnt sh)) sh" using assms by (simp add: numeral_3_eq_3 numeral_2_eq_2)
  then show ?thesis using solo_run_own [OF assms(1,2)] by (intro exI [of _ 3]) simp
qed

text \<open>C17: The concurrent release of a context.  However the atomic accesses of any number of owners interleave, and however
  often the weak exchange fails spuriously: the counter always equals the number of owners, no thread ever
  accesses the context after its release, none finds the counter at zero, the context is freed at most once, and
  it has been freed exactly when every owner has given its reference back and the thread that took the last one
  has returned.\<close>

theorem release_interleaved:
  assumes "rc_step\<^sup>*\<^sup>* rc_init (sh, ths)"
  shows "unat (rc_refCnt sh) = length (filter owns ths) \<and>
    (\<forall>i spurious. i < length ths \<longrightarrow> FreePolicyCtx_step spurious (ths ! i) sh \<noteq> None \<and> ths ! i \<noteq> Looping 0) \<and>
    rc_freed sh \<le> 1 \<and> (rc_freed sh = 1 \<longleftrightarrow> filter owns ths = [] \<and> filter frees ths = []) \<and> (rc_alive sh \<longleftrightarrow> rc_freed sh = 0)"
proof -
  have inv: "rc_inv (sh, ths)" using rc_sys.inv_steps [OF assms rc_init_inv] .
  note now = rc_invD [OF inv]
  have "FreePolicyCtx_step spurious (ths ! i) sh \<noteq> None" "ths ! i \<noteq> Looping 0" if "i < length ths" for i spurious
    using FreePolicyCtx_step_safe [OF inv that] now(4) that nth_mem by metis+
  moreover have "rc_freed sh \<le> 1" "rc_freed sh = 1 \<longleftrightarrow> owners ths = 0 \<and> freeing ths = 0"
    using now(2) by (auto split: if_splits)
  ultimately show ?thesis using now(1,3) by simp
qed

theorem release_interleaved_witness:
  "rc_step\<^sup>*\<^sup>* rc_init (\<lparr> rc_refCnt = 1, rc_alive = True, rc_freed = 0 \<rparr>, [Leaving 2, Loading]) \<and>
   FreePolicyCtx_step False Loading \<lparr> rc_refCnt = 1, rc_alive = True, rc_freed = 0 \<rparr> \<noteq> None"
proof -
  let ?sh = "\<lambda>n. \<lparr> rc_refCnt = n, rc_alive = True, rc_freed = 0 \<rparr>"
  have "rc_step rc_init (?sh 2, [Holding, Holding])"
    using rc_create [of "[Holding]" "?sh 1"] by (simp add: rc_init_def)
  moreover have "rc_step (?sh 2, [Holding, Holding]) (?sh 2, [Loading, Holding])" using rc_call [of 0 "[Holding, Holding]"] by simp
  moreover have "rc_step (?sh 2, [Loading, Holding]) (?sh 2, [Looping 2, Holding])"
    using rc_run [of 0 "[Loading, Holding]" False "?sh 2"] by simp
  moreover have "rc_step (?sh 2, [Looping 2, Holding]) (?sh 2, [Looping 2, Loading])" using rc_call [of 1 "[Looping 2, Holding]"] by simp
  moreover have "rc_step (?sh 2, [Looping 2, Loading]) (?sh 1, [Leaving 2, Loading])"
    using rc_run [of 0 "[Looping 2, Loading]" False "?sh 2"] by simp
  ultimately have run: "rc_step\<^sup>*\<^sup>* rc_init (?sh 1, [Leaving 2, Loading])" by (meson converse_rtranclp_into_rtranclp rtranclp.rtrancl_refl)
  from release_interleaved [OF this] have "FreePolicyCtx_step False ([Leaving 2, Loading] ! 1) (?sh 1) \<noteq> None" by simp
  with run show ?thesis by simp
qed



text \<open>The sequential model of \<^verbatim>\<open>Scf_Obj\<close> is the run of a thread alone: what \<^verbatim>\<open>SCF_FreePolicyCtx\<close> does to a live context is
  what the three atomic steps do to its counter and its life.\<close>

definition shared_of :: "scf_heap \<Rightarrow> addr \<Rightarrow> u32 \<Rightarrow> nat \<Rightarrow> rc_shared" where
  "shared_of h a n f = (case hp_ctx h a of
     None \<Rightarrow> \<lparr> rc_refCnt = n, rc_alive = False, rc_freed = f \<rparr>
   | Some c \<Rightarrow> \<lparr> rc_refCnt = ctx_refCnt c, rc_alive = True, rc_freed = f \<rparr>)"

lemma FreePolicyCtx_is_solo_run:
  assumes "lib_on g" "hp_ctx h a = Some c" "ctx_refCnt c \<noteq> 0"
  shows "\<exists>p h' st'. SCF_FreePolicyCtx g (Some (Some a)) h st = Some (Some p, h', st') \<and>
    solo_run 3 Loading (shared_of h a n f) = Some (Returned, shared_of h' a 0 (f + (if hp_ctx h' a = None then 1 else 0)))"
proof -
  have pos: "unat (ctx_refCnt c) > 0" using assms(3) by (simp add: unat_gt_0)
  obtain p st' where run: "SCF_FreePolicyCtx g (Some (Some a)) h st = Some (Some p, release h a, st')"
    using FreePolicyCtx_live [OF assms(1,2) pos] by blast
  have "solo_run 3 Loading (shared_of h a n f) = Some (Returned, released (shared_of h a n f))"
    by (rule solo_run_load) (simp_all add: shared_of_def assms(2,3))
  moreover have "released (shared_of h a n f) = shared_of (release h a) a 0 (f + (if hp_ctx (release h a) a = None then 1 else 0))"
    using assms(2,3) pos word_pos_not_gt1 [of "ctx_refCnt c"]
    by (auto simp: released_def shared_of_def release_def word_less_nat_alt)
  ultimately show ?thesis using run by metis
qed

end
