(* ===== verification/Crypto_Engine.thy ===== *)
theory Crypto_Engine
  imports Adaptor_Cert Dl_Loader Transport
begin

text \<open>
  The crypto engines: the software engine \<^verbatim>\<open>crypto/default_crypto_engine.cpp\<close>, the provider engine
  \<^verbatim>\<open>crypto/kae_provider_engine.cpp\<close>, their types (\<^verbatim>\<open>include/scf_crypto_engine.h\<close>, \<^verbatim>\<open>crypto/kae_provider_engine.h\<close>)
  and the version-dependent wrappers of \<^verbatim>\<open>adaptor/openssl/lib_crypto_api.cpp\<close>.  The EVP functions of libcrypto
  are the record \<^verbatim>\<open>evp_api\<close>; a call returns its C result, the bytes it writes and the new state of the
  library.  An output buffer is passed as its old contents and returned as its new contents.  Logging is
  left out.
\<close>

section \<open>Types\<close>

datatype SymmetricAlgorithm = AES_128_GCM | AES_256_GCM | AES_128_CCM | CHACHA20_POLY1305 | SM4_GCM | SYM_CUSTOM

datatype AsymmetricAlgorithm = RSA | ECDSA_P256 | ECDSA_P384 | ECDSA_P521 | EDDSA_25519 | SM2 | ASYM_CUSTOM

datatype HashAlgorithm = SHA256 | SHA384 | SHA512 | SM3 | HASH_CUSTOM

datatype KeyExchangeAlgorithm = ECDHE | DHE | PSK | SM2_KEY_EXCHANGE | KEX_CUSTOM

record CryptoEngineCapability =
  cap_engineName :: string
  cap_engineVersion :: string
  cap_hardwareVendor :: string
  cap_symmetricAlgos :: "SymmetricAlgorithm list"
  cap_asymmetricAlgos :: "AsymmetricAlgorithm list"
  cap_hashAlgos :: "HashAlgorithm list"
  cap_keyExchangeAlgos :: "KeyExchangeAlgorithm list"
  cap_hardwareAccelerated :: bool
  cap_supportsAsyncOperation :: bool
  cap_supportsOffload :: bool
  cap_maxConcurrentOps :: u32

record CryptoEngineConfig =
  ec_configFilePath :: string
  ec_devicePath :: string
  ec_sessionPoolSize :: u32
  ec_enableAsyncMode :: bool
  ec_asyncQueueDepth :: u32

definition CryptoEngineConfig_init :: CryptoEngineConfig where
  "CryptoEngineConfig_init = \<lparr> ec_configFilePath = [], ec_devicePath = [], ec_sessionPoolSize = 16, ec_enableAsyncMode = False,
     ec_asyncQueueDepth = 64 \<rparr>"

record CryptoKeyHandle =
  kh_keyId :: u64
  kh_keyLabel :: string
  kh_engineContext :: ptr

definition NID_undef :: int where [scf_const]: "NID_undef = 0"
definition NID_X9_62_prime256v1 :: int where [scf_const]: "NID_X9_62_prime256v1 = 415"
definition NID_secp384r1 :: int where [scf_const]: "NID_secp384r1 = 715"
definition NID_secp521r1 :: int where [scf_const]: "NID_secp521r1 = 716"
definition EVP_PKEY_EC :: int where [scf_const]: "EVP_PKEY_EC = 408"
definition EVP_PKEY_HKDF :: int where [scf_const]: "EVP_PKEY_HKDF = 1036"
definition EVP_PKEY_HKDEF_MODE_EXTRACT_ONLY :: int where [scf_const]: "EVP_PKEY_HKDEF_MODE_EXTRACT_ONLY = 1"
definition EVP_PKEY_HKDEF_MODE_EXPAND_ONLY :: int where [scf_const]: "EVP_PKEY_HKDEF_MODE_EXPAND_ONLY = 2"
definition EVP_CTRL_AEAD_SET_IVLEN :: int where [scf_const]: "EVP_CTRL_AEAD_SET_IVLEN = 0x9"
definition EVP_CTRL_AEAD_GET_TAG :: int where [scf_const]: "EVP_CTRL_AEAD_GET_TAG = 0x10"
definition EVP_CTRL_AEAD_SET_TAG :: int where [scf_const]: "EVP_CTRL_AEAD_SET_TAG = 0x11"
definition EVP_PKEY_OP_PARAMGEN :: u32 where [scf_const]: "EVP_PKEY_OP_PARAMGEN = 2"
definition EVP_PKEY_OP_KEYGEN :: u32 where [scf_const]: "EVP_PKEY_OP_KEYGEN = 4"
definition EVP_PKEY_OP_DERIVE_1_1_1 :: u32 where [scf_const]: "EVP_PKEY_OP_DERIVE_1_1_1 = 1024"
definition EVP_PKEY_EC_PARAMGEN_CURVE_NID :: int where [scf_const]: "EVP_PKEY_EC_PARAMGEN_CURVE_NID = 0x1001"
definition EVP_PKEY_HKDF_MD :: int where [scf_const]: "EVP_PKEY_HKDF_MD = 0x1003"
definition EVP_PKEY_HKDF_SALT :: int where [scf_const]: "EVP_PKEY_HKDF_SALT = 0x1004"
definition EVP_PKEY_HKDF_KEY :: int where [scf_const]: "EVP_PKEY_HKDF_KEY = 0x1005"
definition EVP_PKEY_HKDF_INFO :: int where [scf_const]: "EVP_PKEY_HKDF_INFO = 0x1006"
definition EVP_PKEY_HKDF_MODE :: int where [scf_const]: "EVP_PKEY_HKDF_MODE = 0x1007"

section \<open>The EVP functions\<close>

text \<open>The pointer argument of \<^verbatim>\<open>EVP_PKEY_CTX_ctrl\<close>.\<close>

datatype pkey_arg = PNull | PMd ptr | PBytes "string option"

record 'e evp_api =
  ev_versionNum :: u64
  ev_version :: string
  ev_aes_128_gcm :: ptr
  ev_aes_256_gcm :: ptr
  ev_aes_128_ccm :: ptr
  ev_chacha20_poly1305 :: ptr
  ev_sha256 :: ptr
  ev_sha384 :: ptr
  ev_sha512 :: ptr
  ev_MD_get_size :: "addr \<Rightarrow> int"
  ev_CIPHER_CTX_new :: "'e \<Rightarrow> ptr \<times> 'e"
  ev_CIPHER_CTX_free :: "addr \<Rightarrow> 'e \<Rightarrow> 'e"
  ev_EncryptInit_ex :: "addr \<Rightarrow> ptr \<Rightarrow> string option \<Rightarrow> string option \<Rightarrow> 'e \<Rightarrow> int \<times> 'e"
  ev_EncryptUpdate :: "addr \<Rightarrow> bool \<Rightarrow> string option \<Rightarrow> int \<Rightarrow> 'e \<Rightarrow> int \<times> string \<times> int \<times> 'e"
  ev_EncryptFinal_ex :: "addr \<Rightarrow> 'e \<Rightarrow> int \<times> string \<times> int \<times> 'e"
  ev_DecryptInit_ex :: "addr \<Rightarrow> ptr \<Rightarrow> string option \<Rightarrow> string option \<Rightarrow> 'e \<Rightarrow> int \<times> 'e"
  ev_DecryptUpdate :: "addr \<Rightarrow> bool \<Rightarrow> string option \<Rightarrow> int \<Rightarrow> 'e \<Rightarrow> int \<times> string \<times> int \<times> 'e"
  ev_DecryptFinal_ex :: "addr \<Rightarrow> 'e \<Rightarrow> int \<times> string \<times> int \<times> 'e"
  ev_CIPHER_CTX_ctrl :: "addr \<Rightarrow> int \<Rightarrow> int \<Rightarrow> string option \<Rightarrow> 'e \<Rightarrow> int \<times> string \<times> 'e"
  ev_PKEY_new :: "'e \<Rightarrow> ptr \<times> 'e"
  ev_PKEY_free :: "addr \<Rightarrow> 'e \<Rightarrow> 'e"
  ev_PKEY_CTX_new :: "ptr \<Rightarrow> 'e \<Rightarrow> ptr \<times> 'e"
  ev_PKEY_CTX_new_id :: "int \<Rightarrow> 'e \<Rightarrow> ptr \<times> 'e"
  ev_PKEY_CTX_free :: "addr \<Rightarrow> 'e \<Rightarrow> 'e"
  ev_PKEY_CTX_ctrl :: "addr \<Rightarrow> int \<Rightarrow> u32 \<Rightarrow> int \<Rightarrow> int \<Rightarrow> pkey_arg \<Rightarrow> 'e \<Rightarrow> int \<times> 'e"
  ev_set_ec_paramgen_curve_nid :: "addr \<Rightarrow> int \<Rightarrow> 'e \<Rightarrow> int \<times> 'e"
  ev_set_hkdf_md :: "addr \<Rightarrow> ptr \<Rightarrow> 'e \<Rightarrow> int \<times> 'e"
  ev_set1_hkdf_salt :: "addr \<Rightarrow> string option \<Rightarrow> int \<Rightarrow> 'e \<Rightarrow> int \<times> 'e"
  ev_set1_hkdf_key :: "addr \<Rightarrow> string option \<Rightarrow> int \<Rightarrow> 'e \<Rightarrow> int \<times> 'e"
  ev_set_hkdf_mode :: "addr \<Rightarrow> int \<Rightarrow> 'e \<Rightarrow> int \<times> 'e"
  ev_add1_hkdf_info :: "addr \<Rightarrow> string option \<Rightarrow> int \<Rightarrow> 'e \<Rightarrow> int \<times> 'e"
  ev_keygen_init :: "addr \<Rightarrow> 'e \<Rightarrow> int \<times> 'e"
  ev_keygen :: "addr \<Rightarrow> ptr \<Rightarrow> 'e \<Rightarrow> int \<times> ptr \<times> 'e"
  ev_d2i_PUBKEY :: "string option \<Rightarrow> int \<Rightarrow> 'e \<Rightarrow> ptr \<times> 'e"
  ev_derive_init :: "addr \<Rightarrow> 'e \<Rightarrow> int \<times> 'e"
  ev_derive_set_peer :: "addr \<Rightarrow> addr \<Rightarrow> 'e \<Rightarrow> int \<times> 'e"
  ev_derive :: "addr \<Rightarrow> bool \<Rightarrow> nat \<Rightarrow> 'e \<Rightarrow> int \<times> string \<times> nat \<times> 'e"
  ev_MD_CTX_new :: "'e \<Rightarrow> ptr \<times> 'e"
  ev_MD_CTX_free :: "addr \<Rightarrow> 'e \<Rightarrow> 'e"
  ev_DigestInit_ex :: "addr \<Rightarrow> addr \<Rightarrow> 'e \<Rightarrow> int \<times> 'e"
  ev_DigestUpdate :: "addr \<Rightarrow> string option \<Rightarrow> nat \<Rightarrow> 'e \<Rightarrow> int \<times> 'e"
  ev_DigestFinal_ex :: "addr \<Rightarrow> 'e \<Rightarrow> int \<times> string \<times> u32 \<times> 'e"
  ev_HMAC :: "addr \<Rightarrow> string option \<Rightarrow> int \<Rightarrow> string option \<Rightarrow> nat \<Rightarrow> 'e \<Rightarrow> bool \<times> string \<times> u32 \<times> 'e"
  ev_RAND_bytes :: "int \<Rightarrow> 'e \<Rightarrow> int \<times> string \<times> 'e"

text \<open>Casts of \<^verbatim>\<open>size_t\<close> to \<^verbatim>\<open>int\<close>, to \<^verbatim>\<open>int64_t\<close> and back, and a write into a buffer.\<close>

definition int_cast :: "nat \<Rightarrow> int" where
  "int_cast n = signed_take_bit 31 (int n)"

definition long_cast :: "nat \<Rightarrow> int" where
  "long_cast n = signed_take_bit 63 (int n)"

definition size_cast :: "int \<Rightarrow> nat" where
  "size_cast i = nat (i mod 2 ^ 64)"

definition put :: "string \<Rightarrow> nat \<Rightarrow> string \<Rightarrow> string" where
  "put buf off bytes = take off buf @ bytes @ drop (off + length bytes) buf"

section \<open>Version-dependent wrappers\<close>

definition SetEcParamGenCurveNid :: "'e evp_api \<Rightarrow> addr \<Rightarrow> int \<Rightarrow> 'e \<Rightarrow> int \<times> 'e" where
  "SetEcParamGenCurveNid api ctx nid st =
     (if ev_versionNum api \<ge> SSL_VERSION_3_X then ev_set_ec_paramgen_curve_nid api ctx nid st
      else ev_PKEY_CTX_ctrl api ctx EVP_PKEY_EC (EVP_PKEY_OP_PARAMGEN OR EVP_PKEY_OP_KEYGEN) EVP_PKEY_EC_PARAMGEN_CURVE_NID nid PNull st)"

definition SetHkdfMd :: "'e evp_api \<Rightarrow> addr \<Rightarrow> ptr \<Rightarrow> 'e \<Rightarrow> int \<times> 'e" where
  "SetHkdfMd api ctx md st =
     (if ev_versionNum api \<ge> SSL_VERSION_3_X then ev_set_hkdf_md api ctx md st
      else ev_PKEY_CTX_ctrl api ctx (-1) EVP_PKEY_OP_DERIVE_1_1_1 EVP_PKEY_HKDF_MD 0 (PMd md) st)"

definition SetHkdfSalt :: "'e evp_api \<Rightarrow> addr \<Rightarrow> string option \<Rightarrow> int \<Rightarrow> 'e \<Rightarrow> int \<times> 'e" where
  "SetHkdfSalt api ctx salt saltLen st =
     (if ev_versionNum api \<ge> SSL_VERSION_3_X then ev_set1_hkdf_salt api ctx salt saltLen st
      else ev_PKEY_CTX_ctrl api ctx (-1) EVP_PKEY_OP_DERIVE_1_1_1 EVP_PKEY_HKDF_SALT saltLen (PBytes salt) st)"

definition SetHkdfKey :: "'e evp_api \<Rightarrow> addr \<Rightarrow> string option \<Rightarrow> int \<Rightarrow> 'e \<Rightarrow> int \<times> 'e" where
  "SetHkdfKey api ctx key keyLen st =
     (if ev_versionNum api \<ge> SSL_VERSION_3_X then ev_set1_hkdf_key api ctx key keyLen st
      else ev_PKEY_CTX_ctrl api ctx (-1) EVP_PKEY_OP_DERIVE_1_1_1 EVP_PKEY_HKDF_KEY keyLen (PBytes key) st)"

definition SetHkdfMode :: "'e evp_api \<Rightarrow> addr \<Rightarrow> int \<Rightarrow> 'e \<Rightarrow> int \<times> 'e" where
  "SetHkdfMode api ctx mode st =
     (if ev_versionNum api \<ge> SSL_VERSION_3_X then ev_set_hkdf_mode api ctx mode st
      else ev_PKEY_CTX_ctrl api ctx (-1) EVP_PKEY_OP_DERIVE_1_1_1 EVP_PKEY_HKDF_MODE mode PNull st)"

definition AddHkdfInfo :: "'e evp_api \<Rightarrow> addr \<Rightarrow> string option \<Rightarrow> int \<Rightarrow> 'e \<Rightarrow> int \<times> 'e" where
  "AddHkdfInfo api ctx info infoLen st =
     (if ev_versionNum api \<ge> SSL_VERSION_3_X then ev_add1_hkdf_info api ctx info infoLen st
      else ev_PKEY_CTX_ctrl api ctx (-1) EVP_PKEY_OP_DERIVE_1_1_1 EVP_PKEY_HKDF_INFO infoLen (PBytes info) st)"

section \<open>The software engine\<close>

fun MapSymmetricAlgo :: "'e evp_api \<Rightarrow> SymmetricAlgorithm \<Rightarrow> ptr" where
  "MapSymmetricAlgo api AES_128_GCM = ev_aes_128_gcm api"
| "MapSymmetricAlgo api AES_256_GCM = ev_aes_256_gcm api"
| "MapSymmetricAlgo api AES_128_CCM = ev_aes_128_ccm api"
| "MapSymmetricAlgo api CHACHA20_POLY1305 = ev_chacha20_poly1305 api"
| "MapSymmetricAlgo api _ = None"

fun MapHashAlgo :: "'e evp_api \<Rightarrow> HashAlgorithm \<Rightarrow> ptr" where
  "MapHashAlgo api SHA256 = ev_sha256 api"
| "MapHashAlgo api SHA384 = ev_sha384 api"
| "MapHashAlgo api SHA512 = ev_sha512 api"
| "MapHashAlgo api _ = None"

fun MapEcNid :: "AsymmetricAlgorithm \<Rightarrow> int" where
  "MapEcNid ECDSA_P256 = NID_X9_62_prime256v1"
| "MapEcNid ECDSA_P384 = NID_secp384r1"
| "MapEcNid ECDSA_P521 = NID_secp521r1"
| "MapEcNid _ = NID_undef"

record DefaultSoftwareCryptoEngine =
  de_initialized :: bool

definition DefaultSoftwareCryptoEngine_new :: DefaultSoftwareCryptoEngine where
  "DefaultSoftwareCryptoEngine_new = \<lparr> de_initialized = False \<rparr>"

definition default_Initialize :: "CryptoEngineConfig \<Rightarrow> DefaultSoftwareCryptoEngine \<Rightarrow> bool \<times> DefaultSoftwareCryptoEngine" where
  "default_Initialize config e = (True, e\<lparr>de_initialized := True\<rparr>)"

definition default_Finalize :: "DefaultSoftwareCryptoEngine \<Rightarrow> DefaultSoftwareCryptoEngine" where
  "default_Finalize e = e\<lparr>de_initialized := False\<rparr>"

definition default_GetCapability :: "'e evp_api \<Rightarrow> CryptoEngineCapability" where
  "default_GetCapability api = \<lparr> cap_engineName = ''OpenSSL Software Engine'', cap_engineVersion = ev_version api, cap_hardwareVendor = ''Software'',
     cap_symmetricAlgos = [AES_128_GCM, AES_256_GCM, AES_128_CCM, CHACHA20_POLY1305], cap_asymmetricAlgos = [ECDSA_P256, ECDSA_P384, ECDSA_P521],
     cap_hashAlgos = [SHA256, SHA384, SHA512], cap_keyExchangeAlgos = [ECDHE],
     cap_hardwareAccelerated = False, cap_supportsAsyncOperation = False, cap_supportsOffload = False, cap_maxConcurrentOps = 0 \<rparr>"

text \<open>What encryption and decryption have in common up to the additional data: the first initialisation, the length of
  the initialisation vector, key and vector, the additional data.  The result says whether to go on.\<close>

definition AEAD_start ::
  "('e evp_api \<Rightarrow> addr \<Rightarrow> ptr \<Rightarrow> string option \<Rightarrow> string option \<Rightarrow> 'e \<Rightarrow> int \<times> 'e)
   \<Rightarrow> ('e evp_api \<Rightarrow> addr \<Rightarrow> bool \<Rightarrow> string option \<Rightarrow> int \<Rightarrow> 'e \<Rightarrow> int \<times> string \<times> int \<times> 'e)
   \<Rightarrow> 'e evp_api \<Rightarrow> addr \<Rightarrow> addr \<Rightarrow> string option \<Rightarrow> string option \<Rightarrow> nat \<Rightarrow> string option \<Rightarrow> nat \<Rightarrow> 'e \<Rightarrow> bool \<times> 'e" where
  "AEAD_start init update api ctx cipher key iv ivLen aad aadLen st =
     (let (r1, st1) = init api ctx (Some cipher) None None st in
      if r1 \<noteq> SSL_SUCCESS then (False, st1)
      else let (r2, _, st2) = ev_CIPHER_CTX_ctrl api ctx EVP_CTRL_AEAD_SET_IVLEN (int_cast ivLen) None st1 in
      if r2 \<noteq> SSL_SUCCESS then (False, st2)
      else let (r3, st3) = init api ctx None key iv st2 in
      if r3 \<noteq> SSL_SUCCESS then (False, st3)
      else if aad \<noteq> None \<and> aadLen > 0 then
        (let (r4, _, _, st4) = update api ctx False aad (int_cast aadLen) st3 in (r4 = SSL_SUCCESS, st4))
      else (True, st3))"

definition EncryptAEAD_text ::
  "'e evp_api \<Rightarrow> addr \<Rightarrow> string option \<Rightarrow> nat \<Rightarrow> string \<Rightarrow> nat \<Rightarrow> string \<Rightarrow> nat \<Rightarrow> 'e \<Rightarrow> bool \<times> string \<times> nat \<times> string \<times> 'e" where
  "EncryptAEAD_text api ctx plaintext plaintextLen ciphertext ciphertextLen tag tagLen st =
     (if plaintextLen > INT32_MAX then (False, ciphertext, ciphertextLen, tag, st)
      else
        let (r1, out1, outLen1, st1) = ev_EncryptUpdate api ctx True plaintext (int_cast plaintextLen) st;
            ciphertext1 = put ciphertext 0 out1 in
        if r1 \<noteq> SSL_SUCCESS then (False, ciphertext1, ciphertextLen, tag, st1)
        else
          let (r2, out2, outLen2, st2) = ev_EncryptFinal_ex api ctx st1;
              ciphertext2 = put ciphertext1 (nat outLen1) out2 in
          if r2 \<noteq> SSL_SUCCESS then (False, ciphertext2, size_cast outLen1, tag, st2)
          else
            let ciphertextLen2 = (size_cast outLen1 + size_cast outLen2) mod 2 ^ 64;
                (r3, out3, st3) = ev_CIPHER_CTX_ctrl api ctx EVP_CTRL_AEAD_GET_TAG (int_cast tagLen) None st2 in
            (r3 = SSL_SUCCESS, ciphertext2, ciphertextLen2, put tag 0 out3, st3))"

definition EncryptAEAD ::
  "'e evp_api \<Rightarrow> SymmetricAlgorithm \<Rightarrow> string option \<Rightarrow> string option \<Rightarrow> nat \<Rightarrow> string option \<Rightarrow> nat \<Rightarrow> string option \<Rightarrow> nat
     \<Rightarrow> string \<Rightarrow> nat \<Rightarrow> string \<Rightarrow> nat \<Rightarrow> 'e \<Rightarrow> bool \<times> string \<times> nat \<times> string \<times> 'e" where
  "EncryptAEAD api algo key iv ivLen plaintext plaintextLen aad aadLen ciphertext ciphertextLen tag tagLen st =
     (case MapSymmetricAlgo api algo of
        None \<Rightarrow> (False, ciphertext, ciphertextLen, tag, st)
      | Some cipher \<Rightarrow>
          let (ctx, st1) = ev_CIPHER_CTX_new api st in
          (case ctx of
             None \<Rightarrow> (False, ciphertext, ciphertextLen, tag, st1)
           | Some c \<Rightarrow>
               let (go, st2) = AEAD_start ev_EncryptInit_ex ev_EncryptUpdate api c cipher key iv ivLen aad aadLen st1;
                   (ok, ciphertext1, ciphertextLen1, tag1, st3) =
                     (if go then EncryptAEAD_text api c plaintext plaintextLen ciphertext ciphertextLen tag tagLen st2
                      else (False, ciphertext, ciphertextLen, tag, st2)) in
               (ok, ciphertext1, ciphertextLen1, tag1, ev_CIPHER_CTX_free api c st3)))"

definition DecryptAEAD_text ::
  "'e evp_api \<Rightarrow> addr \<Rightarrow> string option \<Rightarrow> nat \<Rightarrow> string option \<Rightarrow> nat \<Rightarrow> string \<Rightarrow> nat \<Rightarrow> 'e \<Rightarrow> bool \<times> string \<times> nat \<times> 'e" where
  "DecryptAEAD_text api ctx ciphertext ciphertextLen tag tagLen plaintext plaintextLen st =
     (if ciphertextLen > INT32_MAX then (False, plaintext, plaintextLen, st)
      else
        let (r1, out1, outLen1, st1) = ev_DecryptUpdate api ctx True ciphertext (int_cast ciphertextLen) st;
            plaintext1 = put plaintext 0 out1 in
        if r1 \<noteq> SSL_SUCCESS then (False, plaintext1, plaintextLen, st1)
        else
          let (r2, _, st2) = ev_CIPHER_CTX_ctrl api ctx EVP_CTRL_AEAD_SET_TAG (int_cast tagLen) tag st1 in
          if r2 \<noteq> SSL_SUCCESS then (False, plaintext1, size_cast outLen1, st2)
          else
            let (r3, out3, outLen3, st3) = ev_DecryptFinal_ex api ctx st2;
                plaintext2 = put plaintext1 (nat outLen1) out3 in
            if r3 \<noteq> SSL_SUCCESS then (False, plaintext2, size_cast outLen1, st3)
            else (True, plaintext2, (size_cast outLen1 + size_cast outLen3) mod 2 ^ 64, st3))"

definition DecryptAEAD ::
  "'e evp_api \<Rightarrow> SymmetricAlgorithm \<Rightarrow> string option \<Rightarrow> string option \<Rightarrow> nat \<Rightarrow> string option \<Rightarrow> nat \<Rightarrow> string option \<Rightarrow> nat
     \<Rightarrow> string option \<Rightarrow> nat \<Rightarrow> string \<Rightarrow> nat \<Rightarrow> 'e \<Rightarrow> bool \<times> string \<times> nat \<times> 'e" where
  "DecryptAEAD api algo key iv ivLen ciphertext ciphertextLen aad aadLen tag tagLen plaintext plaintextLen st =
     (case MapSymmetricAlgo api algo of
        None \<Rightarrow> (False, plaintext, plaintextLen, st)
      | Some cipher \<Rightarrow>
          let (ctx, st1) = ev_CIPHER_CTX_new api st in
          (case ctx of
             None \<Rightarrow> (False, plaintext, plaintextLen, st1)
           | Some c \<Rightarrow>
               let (go, st2) = AEAD_start ev_DecryptInit_ex ev_DecryptUpdate api c cipher key iv ivLen aad aadLen st1;
                   (ok, plaintext1, plaintextLen1, st3) =
                     (if go then DecryptAEAD_text api c ciphertext ciphertextLen tag tagLen plaintext plaintextLen st2
                      else (False, plaintext, plaintextLen, st2)) in
               (ok, plaintext1, plaintextLen1, ev_CIPHER_CTX_free api c st3)))"

definition DeriveECDHSharedSecret ::
  "'e evp_api \<Rightarrow> ptr \<Rightarrow> addr \<Rightarrow> string \<Rightarrow> nat \<Rightarrow> 'e \<Rightarrow> bool \<times> string \<times> nat \<times> 'e" where
  "DeriveECDHSharedSecret api pkey peerKey sharedSecret sharedSecretLen st =
     (let (deriveCtx, st1) = ev_PKEY_CTX_new api pkey st in
      case deriveCtx of
        None \<Rightarrow> (False, sharedSecret, sharedSecretLen, st1)
      | Some d \<Rightarrow>
          let (r1, st2) = ev_derive_init api d st1;
              (ok, sec, len, st6) =
                (if r1 \<noteq> SSL_SUCCESS then (False, sharedSecret, sharedSecretLen, st2)
                 else let (r2, st3) = ev_derive_set_peer api d peerKey st2 in
                 if r2 \<noteq> SSL_SUCCESS then (False, sharedSecret, sharedSecretLen, st3)
                 else let (r3, _, secretLen, st4) = ev_derive api d False 0 st3 in
                 if r3 \<noteq> SSL_SUCCESS then (False, sharedSecret, sharedSecretLen, st4)
                 else let (r4, out, secretLen2, st5) = ev_derive api d True secretLen st4 in
                 if r4 \<noteq> SSL_SUCCESS then (False, put sharedSecret 0 out, sharedSecretLen, st5)
                 else (True, put sharedSecret 0 out, secretLen2, st5)) in
          (ok, sec, len, ev_PKEY_CTX_free api d st6))"

text \<open>The block of \<^verbatim>\<open>ECDHKeyAgreement\<close> between allocating the key and releasing: its result has the key, the
  generation context and the peer key that are released afterwards.\<close>

definition ECDH_block ::
  "'e evp_api \<Rightarrow> int \<Rightarrow> string option \<Rightarrow> nat \<Rightarrow> string \<Rightarrow> nat \<Rightarrow> ptr \<Rightarrow> 'e \<Rightarrow> (bool \<times> string \<times> nat) \<times> (ptr \<times> ptr \<times> ptr) \<times> 'e" where
  "ECDH_block api nid peerPublicKey peerPublicKeyLen sharedSecret sharedSecretLen pkey st =
     (let failed = (False, sharedSecret, sharedSecretLen);
          (pctx, st1) = ev_PKEY_CTX_new_id api EVP_PKEY_EC st in
      case pctx of
        None \<Rightarrow> (failed, (pkey, None, None), st1)
      | Some c \<Rightarrow>
          let (r1, st2) = ev_keygen_init api c st1 in
          if r1 \<noteq> SSL_SUCCESS then (failed, (pkey, pctx, None), st2)
          else let (r2, st3) = SetEcParamGenCurveNid api c nid st2 in
          if r2 \<noteq> SSL_SUCCESS then (failed, (pkey, pctx, None), st3)
          else let (r3, pkey1, st4) = ev_keygen api c pkey st3 in
          if r3 \<noteq> SSL_SUCCESS then (failed, (pkey1, pctx, None), st4)
          else let (peerKey, st5) = ev_d2i_PUBKEY api peerPublicKey (long_cast peerPublicKeyLen) st4 in
          (case peerKey of
             None \<Rightarrow> (failed, (pkey1, pctx, None), st5)
           | Some k \<Rightarrow>
               let (ok, sec, len, st6) = DeriveECDHSharedSecret api pkey1 k sharedSecret sharedSecretLen st5 in
               ((ok, sec, len), (pkey1, pctx, peerKey), st6)))"

definition ECDHKeyAgreement ::
  "'e evp_api \<Rightarrow> AsymmetricAlgorithm \<Rightarrow> string option \<Rightarrow> nat \<Rightarrow> string \<Rightarrow> nat \<Rightarrow> 'e \<Rightarrow> bool \<times> string \<times> nat \<times> 'e" where
  "ECDHKeyAgreement api algo peerPublicKey peerPublicKeyLen sharedSecret sharedSecretLen st =
     (let nid = MapEcNid algo in
      if nid = NID_undef then (False, sharedSecret, sharedSecretLen, st)
      else
        let (pkey, st1) = ev_PKEY_new api st;
            ((ok, sec, len), (pkey1, pctx, peerKey), st2) = ECDH_block api nid peerPublicKey peerPublicKeyLen sharedSecret sharedSecretLen pkey st1;
            st3 = (case pkey1 of None \<Rightarrow> st2 | Some k \<Rightarrow> ev_PKEY_free api k st2);
            st4 = (case pctx of None \<Rightarrow> st3 | Some c \<Rightarrow> ev_PKEY_CTX_free api c st3);
            st5 = (case peerKey of None \<Rightarrow> st4 | Some k \<Rightarrow> ev_PKEY_free api k st4) in
        (ok, sec, len, st5))"

definition default_Sign :: "AsymmetricAlgorithm \<Rightarrow> CryptoKeyHandle \<Rightarrow> string option \<Rightarrow> nat \<Rightarrow> bool" where
  "default_Sign algo key digest digestLen = False"

definition default_Verify :: "AsymmetricAlgorithm \<Rightarrow> CryptoKeyHandle \<Rightarrow> string option \<Rightarrow> nat \<Rightarrow> string option \<Rightarrow> nat \<Rightarrow> bool" where
  "default_Verify algo key digest digestLen signature sigLen = False"

definition default_Hash ::
  "'e evp_api \<Rightarrow> HashAlgorithm \<Rightarrow> string option \<Rightarrow> nat \<Rightarrow> string \<Rightarrow> nat \<Rightarrow> 'e \<Rightarrow> bool \<times> string \<times> nat \<times> 'e" where
  "default_Hash api algo data dataLen digest digestLen st =
     (case MapHashAlgo api algo of
        None \<Rightarrow> (False, digest, digestLen, st)
      | Some md \<Rightarrow>
          let (ctx, st1) = ev_MD_CTX_new api st in
          (case ctx of
             None \<Rightarrow> (False, digest, digestLen, st1)
           | Some c \<Rightarrow>
               let (r1, st2) = ev_DigestInit_ex api c md st1;
                   (ok, digest1, outLen, st5) =
                     (if r1 \<noteq> SSL_SUCCESS then (False, digest, 0, st2)
                      else let (r2, st3) = ev_DigestUpdate api c data dataLen st2 in
                      if r2 \<noteq> SSL_SUCCESS then (False, digest, 0, st3)
                      else let (r3, out, n, st4) = ev_DigestFinal_ex api c st3 in (r3 = SSL_SUCCESS, put digest 0 out, n, st4)) in
               (ok, digest1, unat outLen, ev_MD_CTX_free api c st5)))"

definition default_HMAC ::
  "'e evp_api \<Rightarrow> HashAlgorithm \<Rightarrow> string option \<Rightarrow> nat \<Rightarrow> string option \<Rightarrow> nat \<Rightarrow> string \<Rightarrow> nat \<Rightarrow> 'e \<Rightarrow> bool \<times> string \<times> nat \<times> 'e" where
  "default_HMAC api algo key keyLen data dataLen mac macLen st =
     (if keyLen > INT32_MAX then (False, mac, macLen, st)
      else
        (case MapHashAlgo api algo of
           None \<Rightarrow> (False, mac, macLen, st)
         | Some md \<Rightarrow>
             let (result, out, outLen, st1) = ev_HMAC api md key (int_cast keyLen) data dataLen st in
             if \<not> result then (False, put mac 0 out, macLen, st1) else (True, put mac 0 out, unat outLen, st1)))"

definition HKDFExtract ::
  "'e evp_api \<Rightarrow> HashAlgorithm \<Rightarrow> string option \<Rightarrow> nat \<Rightarrow> string option \<Rightarrow> nat \<Rightarrow> string \<Rightarrow> nat \<Rightarrow> 'e \<Rightarrow> bool \<times> string \<times> nat \<times> 'e" where
  "HKDFExtract api algo salt saltLen ikm ikmLen prk prkLen st =
     (case MapHashAlgo api algo of
        None \<Rightarrow> (False, prk, prkLen, st)
      | Some md \<Rightarrow>
          let (pctx, st1) = ev_PKEY_CTX_new_id api EVP_PKEY_HKDF st in
          (case pctx of
             None \<Rightarrow> (False, prk, prkLen, st1)
           | Some c \<Rightarrow>
               let (r1, st2) = ev_derive_init api c st1;
                   (ok, prk1, prkLen1, st8) =
                     (if r1 \<noteq> SSL_SUCCESS then (False, prk, prkLen, st2)
                      else let (r2, st3) = SetHkdfMd api c (Some md) st2 in
                      if r2 \<noteq> SSL_SUCCESS then (False, prk, prkLen, st3)
                      else let (r3, st4) = SetHkdfSalt api c salt (int_cast saltLen) st3 in
                      if r3 \<noteq> SSL_SUCCESS then (False, prk, prkLen, st4)
                      else let (r4, st5) = SetHkdfKey api c ikm (int_cast ikmLen) st4 in
                      if r4 \<noteq> SSL_SUCCESS then (False, prk, prkLen, st5)
                      else let (r5, st6) = SetHkdfMode api c EVP_PKEY_HKDEF_MODE_EXTRACT_ONLY st5 in
                      if r5 \<noteq> SSL_SUCCESS then (False, prk, prkLen, st6)
                      else let digestSize = ev_MD_get_size api md in
                      if digestSize \<le> 0 then (False, prk, prkLen, st6)
                      else let (r6, out, outLen, st7) = ev_derive api c True (nat digestSize) st6 in
                      if r6 \<noteq> SSL_SUCCESS then (False, put prk 0 out, prkLen, st7)
                      else (True, put prk 0 out, outLen, st7)) in
               (ok, prk1, prkLen1, ev_PKEY_CTX_free api c st8)))"

definition HKDFExpand ::
  "'e evp_api \<Rightarrow> HashAlgorithm \<Rightarrow> string option \<Rightarrow> nat \<Rightarrow> string option \<Rightarrow> nat \<Rightarrow> string \<Rightarrow> nat \<Rightarrow> 'e \<Rightarrow> bool \<times> string \<times> 'e" where
  "HKDFExpand api algo prk prkLen info infoLen okm okmLen st =
     (case MapHashAlgo api algo of
        None \<Rightarrow> (False, okm, st)
      | Some md \<Rightarrow>
          let (pctx, st1) = ev_PKEY_CTX_new_id api EVP_PKEY_HKDF st in
          (case pctx of
             None \<Rightarrow> (False, okm, st1)
           | Some c \<Rightarrow>
               let (r1, st2) = ev_derive_init api c st1;
                   (ok, okm1, st8) =
                     (if r1 \<noteq> SSL_SUCCESS then (False, okm, st2)
                      else let (r2, st3) = SetHkdfMd api c (Some md) st2 in
                      if r2 \<noteq> SSL_SUCCESS then (False, okm, st3)
                      else let (r3, st4) = SetHkdfKey api c prk (int_cast prkLen) st3 in
                      if r3 \<noteq> SSL_SUCCESS then (False, okm, st4)
                      else let (r4, st5) = AddHkdfInfo api c info (int_cast infoLen) st4 in
                      if r4 \<noteq> SSL_SUCCESS then (False, okm, st5)
                      else let (r5, st6) = SetHkdfMode api c EVP_PKEY_HKDEF_MODE_EXPAND_ONLY st5 in
                      if r5 \<noteq> SSL_SUCCESS then (False, okm, st6)
                      else let (r6, out, _, st7) = ev_derive api c True okmLen st6 in
                      (r6 = SSL_SUCCESS, put okm 0 out, st7)) in
               (ok, okm1, ev_PKEY_CTX_free api c st8)))"

definition RandomBytes :: "'e evp_api \<Rightarrow> string \<Rightarrow> nat \<Rightarrow> 'e \<Rightarrow> bool \<times> string \<times> 'e" where
  "RandomBytes api buffer len st =
     (if len > INT32_MAX then (False, buffer, st)
      else let (r, out, st1) = ev_RAND_bytes api (int_cast len) st in (r = SSL_SUCCESS, put buffer 0 out, st1))"

definition ImportKey :: "u64 \<Rightarrow> string option \<Rightarrow> nat \<Rightarrow> CryptoKeyHandle \<Rightarrow> bool \<times> CryptoKeyHandle" where
  "ImportKey keyId keyData keyDataLen handle =
     (True, handle\<lparr>kh_keyId := keyId, kh_keyLabel := ''imported_key_'' @ to_string (unat keyId), kh_engineContext := None\<rparr>)"

definition DestroyKey :: "CryptoKeyHandle \<Rightarrow> bool" where
  "DestroyKey handle = True"

definition default_GetProviderContext :: "DefaultSoftwareCryptoEngine \<Rightarrow> ptr" where
  "default_GetProviderContext e = None"

definition default_IsHardwareAccelerated :: "DefaultSoftwareCryptoEngine \<Rightarrow> bool" where
  "default_IsHardwareAccelerated e = False"

definition default_GetAcceleratedAlgorithms :: string where
  "default_GetAcceleratedAlgorithms = ''none (software only)''"

section \<open>The provider engine\<close>

record KAEProviderConfig =
  kc_kaeProviderName :: string
  kc_kaeConfigFile :: string
  kc_enableAsyncPolling :: bool
  kc_asyncPollTimeoutMs :: u32

definition KAEProviderConfig_init :: KAEProviderConfig where
  "KAEProviderConfig_init = \<lparr> kc_kaeProviderName = ''kae'', kc_kaeConfigFile = [], kc_enableAsyncPolling = False, kc_asyncPollTimeoutMs = 100 \<rparr>"

text \<open>The provider functions of libcrypto; \<^verbatim>\<open>OSSL_LIB_CTX_new\<close> is missing before version 3.\<close>

record 'p prov_api =
  pv_LIB_CTX_new :: "('p \<Rightarrow> ptr \<times> 'p) option"
  pv_LIB_CTX_free :: "addr \<Rightarrow> 'p \<Rightarrow> 'p"
  pv_PROVIDER_load :: "addr \<Rightarrow> string \<Rightarrow> 'p \<Rightarrow> ptr \<times> 'p"
  pv_PROVIDER_unload :: "addr \<Rightarrow> 'p \<Rightarrow> 'p"

record KAEProviderEngine =
  ke_kaeConfig :: KAEProviderConfig
  ke_initialized :: bool
  ke_kaeLoaded :: bool
  ke_libCtx :: ptr
  ke_defaultProv :: ptr
  ke_kaeProv :: ptr
  ke_fallbackEngine :: "DefaultSoftwareCryptoEngine option"

definition KAEProviderEngine_new :: "KAEProviderConfig \<Rightarrow> KAEProviderEngine" where
  "KAEProviderEngine_new kaeConfig = \<lparr> ke_kaeConfig = kaeConfig, ke_initialized = False, ke_kaeLoaded = False, ke_libCtx = None,
     ke_defaultProv = None, ke_kaeProv = None, ke_fallbackEngine = None \<rparr>"

definition LoadKAEProvider :: "'p prov_api \<Rightarrow> addr \<Rightarrow> KAEProviderEngine \<Rightarrow> 'p \<Rightarrow> bool \<times> KAEProviderEngine \<times> 'p" where
  "LoadKAEProvider api libCtx e st =
     (let (prov, st1) = pv_PROVIDER_load api libCtx (cstr (kc_kaeProviderName (ke_kaeConfig e))) st;
          e1 = e\<lparr>ke_kaeProv := prov\<rparr> in
      if prov = None then (False, e1\<lparr>ke_kaeLoaded := False\<rparr>, st1) else (True, e1\<lparr>ke_kaeLoaded := True\<rparr>, st1))"

definition kae_Initialize :: "'p prov_api \<Rightarrow> CryptoEngineConfig \<Rightarrow> KAEProviderEngine \<Rightarrow> 'p \<Rightarrow> bool \<times> KAEProviderEngine \<times> 'p" where
  "kae_Initialize api config e st =
     (if ke_initialized e then (True, e, st)
      else
        let k0 = ke_kaeConfig e;
            k1 = (if ec_configFilePath config \<noteq> [] then k0\<lparr>kc_kaeConfigFile := ec_configFilePath config\<rparr> else k0);
            k2 = (if ec_enableAsyncMode config
                  then k1\<lparr>kc_enableAsyncPolling := True, kc_asyncPollTimeoutMs := ec_asyncQueueDepth config\<rparr> else k1);
            e1 = e\<lparr>ke_kaeConfig := k2\<rparr> in
        (case pv_LIB_CTX_new api of
           None \<Rightarrow> (False, e1, st)
         | Some new \<Rightarrow>
             let (ctx, st1) = new st; e2 = e1\<lparr>ke_libCtx := ctx\<rparr> in
             (case ctx of
                None \<Rightarrow> (False, e2, st1)
              | Some c \<Rightarrow>
                  let (def, st2) = pv_PROVIDER_load api c ''default'' st1; e3 = e2\<lparr>ke_defaultProv := def\<rparr> in
                  if def = None then (False, e3\<lparr>ke_libCtx := None\<rparr>, pv_LIB_CTX_free api c st2)
                  else
                    let (kaeOk, e4, st3) = LoadKAEProvider api c e3 st2 in
                    (True, e4\<lparr>ke_initialized := True\<rparr>, st3))))"

definition ReleaseFallbackEngine :: "KAEProviderEngine \<Rightarrow> KAEProviderEngine" where
  "ReleaseFallbackEngine e = e\<lparr>ke_fallbackEngine := None\<rparr>"

definition kae_Finalize :: "'p prov_api \<Rightarrow> KAEProviderEngine \<Rightarrow> 'p \<Rightarrow> KAEProviderEngine \<times> 'p" where
  "kae_Finalize api e st =
     (if \<not> ke_initialized e then (e, st)
      else
        let st1 = (case ke_kaeProv e of None \<Rightarrow> st | Some p \<Rightarrow> pv_PROVIDER_unload api p st);
            st2 = (case ke_defaultProv e of None \<Rightarrow> st1 | Some p \<Rightarrow> pv_PROVIDER_unload api p st1);
            st3 = (case ke_libCtx e of None \<Rightarrow> st2 | Some c \<Rightarrow> pv_LIB_CTX_free api c st2);
            e1 = ReleaseFallbackEngine (e\<lparr>ke_kaeProv := None, ke_defaultProv := None, ke_libCtx := None\<rparr>) in
        (e1\<lparr>ke_initialized := False, ke_kaeLoaded := False\<rparr>, st3))"

definition kae_GetCapability :: "KAEProviderEngine \<Rightarrow> CryptoEngineCapability" where
  "kae_GetCapability e = \<lparr> cap_engineName = ''KAE Provider Engine (Kunpeng)'',
     cap_engineVersion = (if ke_kaeLoaded e then ''KAE Active'' else ''KAE Inactive (Software Fallback)''),
     cap_hardwareVendor = ''Huawei Kunpeng'',
     cap_symmetricAlgos = [AES_128_GCM, AES_256_GCM, AES_128_CCM, SM4_GCM], cap_asymmetricAlgos = [RSA, ECDSA_P256, ECDSA_P384, SM2],
     cap_hashAlgos = [SHA256, SHA384, SHA512, SM3], cap_keyExchangeAlgos = [ECDHE, DHE, SM2_KEY_EXCHANGE],
     cap_hardwareAccelerated = ke_kaeLoaded e, cap_supportsAsyncOperation = (kc_enableAsyncPolling (ke_kaeConfig e) \<and> ke_kaeLoaded e),
     cap_supportsOffload = ke_kaeLoaded e, cap_maxConcurrentOps = (if ke_kaeLoaded e then 1024 else 0) \<rparr>"

definition kae_GetProviderContext :: "KAEProviderEngine \<Rightarrow> ptr" where
  "kae_GetProviderContext e = ke_libCtx e"

definition kae_IsHardwareAccelerated :: "KAEProviderEngine \<Rightarrow> bool" where
  "kae_IsHardwareAccelerated e = ke_kaeLoaded e"

definition GetKAEVersion :: "KAEProviderEngine \<Rightarrow> string" where
  "GetKAEVersion e = (if \<not> ke_kaeLoaded e then ''KAE not loaded'' else ''KAE Provider (Kunpeng Hardware Accelerator)'')"

definition kae_GetAcceleratedAlgorithms :: "KAEProviderEngine \<Rightarrow> string" where
  "kae_GetAcceleratedAlgorithms e =
     (if ke_kaeLoaded e then ''AES-GCM, AES-CCM, SM3, SM4-GCM, DH, RSA, ECDH, SM2 (Kunpeng KAE)''
      else ''none (KAE not loaded, software fallback)'')"

text \<open>\<^verbatim>\<open>oom\<close>: the allocation of the fallback engine fails.\<close>

definition GetFallbackEngine :: "bool \<Rightarrow> KAEProviderEngine \<Rightarrow> DefaultSoftwareCryptoEngine option \<times> KAEProviderEngine" where
  "GetFallbackEngine oom e =
     (if ke_fallbackEngine e = None then
        if oom then (None, e)
        else let f = snd (default_Initialize CryptoEngineConfig_init DefaultSoftwareCryptoEngine_new) in (Some f, e\<lparr>ke_fallbackEngine := Some f\<rparr>)
      else (ke_fallbackEngine e, e))"

text \<open>A direct operation is delegated to the fallback engine; \<^verbatim>\<open>None\<close>: it is called through a null pointer.  The
  operations of the software engine do not depend on its state.\<close>

definition kae_delegate :: "bool \<Rightarrow> KAEProviderEngine \<Rightarrow> 'r \<Rightarrow> ('r \<times> KAEProviderEngine) option" where
  "kae_delegate oom e result = (case GetFallbackEngine oom e of (None, e1) \<Rightarrow> None | (Some f, e1) \<Rightarrow> Some (result, e1))"

definition kae_EncryptAEAD where
  "kae_EncryptAEAD oom e api algo key iv ivLen plaintext plaintextLen aad aadLen ciphertext ciphertextLen tag tagLen st =
     kae_delegate oom e (EncryptAEAD api algo key iv ivLen plaintext plaintextLen aad aadLen ciphertext ciphertextLen tag tagLen st)"

definition kae_DecryptAEAD where
  "kae_DecryptAEAD oom e api algo key iv ivLen ciphertext ciphertextLen aad aadLen tag tagLen plaintext plaintextLen st =
     kae_delegate oom e (DecryptAEAD api algo key iv ivLen ciphertext ciphertextLen aad aadLen tag tagLen plaintext plaintextLen st)"

definition kae_ECDHKeyAgreement where
  "kae_ECDHKeyAgreement oom e api algo peerPublicKey peerPublicKeyLen sharedSecret sharedSecretLen st =
     kae_delegate oom e (ECDHKeyAgreement api algo peerPublicKey peerPublicKeyLen sharedSecret sharedSecretLen st)"

definition kae_Sign where
  "kae_Sign oom e algo key digest digestLen = kae_delegate oom e (default_Sign algo key digest digestLen)"

definition kae_Verify where
  "kae_Verify oom e algo key digest digestLen signature sigLen = kae_delegate oom e (default_Verify algo key digest digestLen signature sigLen)"

definition kae_Hash where
  "kae_Hash oom e api algo data dataLen digest digestLen st = kae_delegate oom e (default_Hash api algo data dataLen digest digestLen st)"

definition kae_HMAC where
  "kae_HMAC oom e api algo key keyLen data dataLen mac macLen st =
     kae_delegate oom e (default_HMAC api algo key keyLen data dataLen mac macLen st)"

definition kae_HKDFExtract where
  "kae_HKDFExtract oom e api algo salt saltLen ikm ikmLen prk prkLen st =
     kae_delegate oom e (HKDFExtract api algo salt saltLen ikm ikmLen prk prkLen st)"

definition kae_HKDFExpand where
  "kae_HKDFExpand oom e api algo prk prkLen info infoLen okm okmLen st =
     kae_delegate oom e (HKDFExpand api algo prk prkLen info infoLen okm okmLen st)"

definition kae_RandomBytes where
  "kae_RandomBytes oom e api buffer len st = kae_delegate oom e (RandomBytes api buffer len st)"

definition kae_ImportKey where
  "kae_ImportKey oom e keyId keyData keyDataLen handle = kae_delegate oom e (ImportKey keyId keyData keyDataLen handle)"

definition kae_DestroyKey where
  "kae_DestroyKey oom e handle = kae_delegate oom e (DestroyKey handle)"

end
