(* ===== verification/Crypto_Engine_Correct.thy ===== *)
theory Crypto_Engine_Correct
  imports Crypto_Engine Adaptor_Policy Ossl_Sim "HOL-Library.Multiset"
begin

text \<open>
  The engines release what they allocate; authenticated encryption returns what the cipher defines and
  accepts only authentic texts; the life cycle of the provider engine.  The locale \<^verbatim>\<open>crypto_engine\<close> is the contract of
  \<^verbatim>\<open>ICryptoEngine\<close> that the adaptor relies on, interpreted for both engines.
\<close>

section \<open>The interface\<close>

text \<open>What the adaptor relies on: a finalised engine offers neither a provider context nor acceleration, and finalising an
  engine that is not initialised does nothing.  \<^verbatim>\<open>wf\<close> is the invariant of the implementation.\<close>

locale crypto_engine =
  fixes finalise :: "'e \<Rightarrow> 'w \<Rightarrow> 'e \<times> 'w"
    and initialised :: "'e \<Rightarrow> bool"
    and provider :: "'e \<Rightarrow> ptr"
    and accelerated :: "'e \<Rightarrow> bool"
    and wf :: "'e \<Rightarrow> bool"
  assumes finalise_wf: "wf e \<Longrightarrow> wf (fst (finalise e w))"
    and finalise_off: "\<not> initialised (fst (finalise e w))"
    and finalise_idle: "\<not> initialised e \<Longrightarrow> finalise e w = (e, w)"
    and idle: "wf e \<Longrightarrow> \<not> initialised e \<Longrightarrow> provider e = None \<and> \<not> accelerated e"
begin

text \<open>The destructor finalises again, without any effect.\<close>

lemma finalise_twice: "finalise (fst (finalise e w)) w' = (fst (finalise e w), w')"
  by (rule finalise_idle) (rule finalise_off)

text \<open>An adaptor whose engine has been finalised creates its TLS contexts the default way.\<close>

lemma finalised_engine_unused:
  assumes "wf e"
  shows "create_ssl_ctx (ad\<lparr>ad_cryptoEngine := Some (provider (fst (finalise e w)))\<rparr>) m st = SSL_CTX_new (ad_ssl ad) m st"
proof -
  have "provider (fst (finalise e w)) = None" using idle [OF finalise_wf finalise_off] assms by blast
  then show ?thesis by (simp add: create_ssl_ctx_def)
qed

end

interpretation default_engine: crypto_engine "\<lambda>e w. (default_Finalize e, w)" de_initialized default_GetProviderContext default_IsHardwareAccelerated "\<lambda>e. True"
  by unfold_locales (simp_all add: default_Finalize_def default_GetProviderContext_def default_IsHardwareAccelerated_def)

definition kae_wf :: "KAEProviderEngine \<Rightarrow> bool" where
  "kae_wf e \<longleftrightarrow> (ke_initialized e \<longleftrightarrow> ke_libCtx e \<noteq> None) \<and> (ke_initialized e \<longleftrightarrow> ke_defaultProv e \<noteq> None) \<and>
     (ke_kaeLoaded e \<longleftrightarrow> ke_kaeProv e \<noteq> None) \<and> (ke_kaeLoaded e \<longrightarrow> ke_initialized e)"

interpretation kae_engine: crypto_engine "kae_Finalize api" ke_initialized kae_GetProviderContext kae_IsHardwareAccelerated kae_wf for api
  by unfold_locales (auto simp: kae_Finalize_def ReleaseFallbackEngine_def kae_wf_def kae_GetProviderContext_def kae_IsHardwareAccelerated_def Let_def)

section \<open>Library objects\<close>

text \<open>The objects of libcrypto that are alive: what the documentation of the functions says about them.\<close>

definition alloc_ok :: "('e \<Rightarrow> addr set) \<Rightarrow> 'e \<Rightarrow> ptr \<times> 'e \<Rightarrow> bool" where
  "alloc_ok live st res \<longleftrightarrow>
     (case res of (None, st') \<Rightarrow> live st' = live st | (Some a, st') \<Rightarrow> a \<notin> live st \<and> live st' = insert a (live st))"

definition evp_alloc_laws :: "'e evp_api \<Rightarrow> ('e \<Rightarrow> addr set) \<Rightarrow> bool" where
  "evp_alloc_laws api live \<longleftrightarrow>
     (\<forall>st. alloc_ok live st (ev_CIPHER_CTX_new api st) \<and> alloc_ok live st (ev_PKEY_new api st) \<and> alloc_ok live st (ev_MD_CTX_new api st)) \<and>
     (\<forall>p st. alloc_ok live st (ev_PKEY_CTX_new api p st)) \<and> (\<forall>n st. alloc_ok live st (ev_PKEY_CTX_new_id api n st)) \<and>
     (\<forall>d n st. alloc_ok live st (ev_d2i_PUBKEY api d n st)) \<and>
     (\<forall>c k st. fst (snd (ev_keygen api c (Some k) st)) = Some k \<and> live (snd (snd (ev_keygen api c (Some k) st))) = live st) \<and>
     (\<forall>c st. alloc_ok live st (snd (ev_keygen api c None st))) \<and>
     (\<forall>a st. live (ev_CIPHER_CTX_free api a st) = live st - {a} \<and> live (ev_PKEY_free api a st) = live st - {a} \<and>
        live (ev_PKEY_CTX_free api a st) = live st - {a} \<and> live (ev_MD_CTX_free api a st) = live st - {a})"

definition evp_frame_laws :: "'e evp_api \<Rightarrow> ('e \<Rightarrow> addr set) \<Rightarrow> bool" where
  "evp_frame_laws api live \<longleftrightarrow>
     (\<forall>c k iv a st. live (snd (ev_EncryptInit_ex api a c k iv st)) = live st \<and> live (snd (ev_DecryptInit_ex api a c k iv st)) = live st) \<and>
     (\<forall>a b d n st. live (snd (snd (snd (ev_EncryptUpdate api a b d n st)))) = live st \<and> live (snd (snd (snd (ev_DecryptUpdate api a b d n st)))) = live st) \<and>
     (\<forall>a st. live (snd (snd (snd (ev_EncryptFinal_ex api a st)))) = live st \<and> live (snd (snd (snd (ev_DecryptFinal_ex api a st)))) = live st) \<and>
     (\<forall>a c n d st. live (snd (snd (ev_CIPHER_CTX_ctrl api a c n d st))) = live st) \<and>
     (\<forall>a k q c n p st. live (snd (ev_PKEY_CTX_ctrl api a k q c n p st)) = live st) \<and>
     (\<forall>a n st. live (snd (ev_set_ec_paramgen_curve_nid api a n st)) = live st \<and> live (snd (ev_set_hkdf_mode api a n st)) = live st) \<and>
     (\<forall>a md st. live (snd (ev_set_hkdf_md api a md st)) = live st) \<and>
     (\<forall>a d n st. live (snd (ev_set1_hkdf_salt api a d n st)) = live st \<and> live (snd (ev_set1_hkdf_key api a d n st)) = live st \<and>
        live (snd (ev_add1_hkdf_info api a d n st)) = live st) \<and>
     (\<forall>a st. live (snd (ev_keygen_init api a st)) = live st \<and> live (snd (ev_derive_init api a st)) = live st) \<and>
     (\<forall>a k st. live (snd (ev_derive_set_peer api a k st)) = live st) \<and>
     (\<forall>a b n st. live (snd (snd (snd (ev_derive api a b n st)))) = live st) \<and>
     (\<forall>a md st. live (snd (ev_DigestInit_ex api a md st)) = live st) \<and> (\<forall>a d n st. live (snd (ev_DigestUpdate api a d n st)) = live st) \<and>
     (\<forall>a st. live (snd (snd (snd (ev_DigestFinal_ex api a st)))) = live st) \<and>
     (\<forall>md k kl d n st. live (snd (snd (snd (ev_HMAC api md k kl d n st)))) = live st) \<and>
     (\<forall>n st. live (snd (snd (ev_RAND_bytes api n st))) = live st)"

lemma alloc_cases:
  assumes "alloc_ok live st (p, st1)"
  obtains (none) "p = None" "live st1 = live st" | (some) a where "p = Some a" "a \<notin> live st" "live st1 = insert a (live st)"
  using assms by (cases p) (auto simp: alloc_ok_def)

lemma wrapper_frame:
  assumes "evp_frame_laws api live"
  shows "live (snd (SetEcParamGenCurveNid api a n st)) = live st" "live (snd (SetHkdfMd api a md st)) = live st"
    "live (snd (SetHkdfSalt api a d n st)) = live st" "live (snd (SetHkdfKey api a d n st)) = live st"
    "live (snd (SetHkdfMode api a n st)) = live st" "live (snd (AddHkdfInfo api a d n st)) = live st"
  using assms
  by (simp_all add: evp_frame_laws_def SetEcParamGenCurveNid_def SetHkdfMd_def SetHkdfSalt_def SetHkdfKey_def SetHkdfMode_def AddHkdfInfo_def)

lemma frame_laws:
  assumes "evp_frame_laws api live"
  shows "live (snd (ev_EncryptInit_ex api a c k iv st)) = live st" "live (snd (ev_DecryptInit_ex api a c k iv st)) = live st"
    "live (snd (snd (snd (ev_EncryptUpdate api a b d n st)))) = live st" "live (snd (snd (snd (ev_DecryptUpdate api a b d n st)))) = live st"
    "live (snd (snd (snd (ev_EncryptFinal_ex api a st)))) = live st" "live (snd (snd (snd (ev_DecryptFinal_ex api a st)))) = live st"
    "live (snd (snd (ev_CIPHER_CTX_ctrl api a cmd n d st))) = live st"
    "live (snd (ev_keygen_init api a st)) = live st" "live (snd (ev_derive_init api a st)) = live st"
    "live (snd (ev_derive_set_peer api a k2 st)) = live st" "live (snd (snd (snd (ev_derive api a b m st)))) = live st"
    "live (snd (ev_DigestInit_ex api a md st)) = live st" "live (snd (ev_DigestUpdate api a d m st)) = live st"
    "live (snd (snd (snd (ev_DigestFinal_ex api a st)))) = live st" "live (snd (snd (snd (ev_HMAC api md k n d m st)))) = live st"
    "live (snd (snd (ev_RAND_bytes api n st))) = live st"
  using assms by (simp_all add: evp_frame_laws_def)

lemma AEAD_start_frame:
  assumes "evp_frame_laws api live"
  shows "live (snd (AEAD_start ev_EncryptInit_ex ev_EncryptUpdate api c cipher key iv ivLen aad aadLen st)) = live st"
    "live (snd (AEAD_start ev_DecryptInit_ex ev_DecryptUpdate api c cipher key iv ivLen aad aadLen st)) = live st"
  by (simp_all add: AEAD_start_def Let_def case_prod_beta frame_laws [OF assms])

lemma AEAD_text_frame:
  assumes "evp_frame_laws api live"
  shows "live (snd (snd (snd (snd (EncryptAEAD_text api c p pl ct cl t tlen st))))) = live st"
    "live (snd (snd (snd (DecryptAEAD_text api c ct' cl tg tlen p' pl st)))) = live st"
  by (simp_all add: EncryptAEAD_text_def DecryptAEAD_text_def Let_def case_prod_beta frame_laws [OF assms])

lemma put_back: "a \<notin> A \<Longrightarrow> insert a A - {a} = A"
  by simp

lemma EncryptAEAD_live:
  assumes "evp_alloc_laws api live" "evp_frame_laws api live"
  shows "live (snd (snd (snd (snd (EncryptAEAD api algo key iv ivLen p pl aad aadLen ct cl t tlen st))))) = live st"
proof -
  obtain ctx st1 where new: "ev_CIPHER_CTX_new api st = (ctx, st1)" by (metis prod.exhaust)
  have ok: "alloc_ok live st (ctx, st1)" using assms(1) new [symmetric] by (simp add: evp_alloc_laws_def)
  have free: "live (ev_CIPHER_CTX_free api a s) = live s - {a}" for a s using assms(1) by (simp add: evp_alloc_laws_def)
  show ?thesis
    by (cases rule: alloc_cases [OF ok])
      (auto simp: EncryptAEAD_def new Let_def case_prod_beta free AEAD_start_frame [OF assms(2)] AEAD_text_frame [OF assms(2)] split: option.split)
qed

lemma DecryptAEAD_live:
  assumes "evp_alloc_laws api live" "evp_frame_laws api live"
  shows "live (snd (snd (snd (DecryptAEAD api algo key iv ivLen ct cl aad aadLen t tlen p pl st)))) = live st"
proof -
  obtain ctx st1 where new: "ev_CIPHER_CTX_new api st = (ctx, st1)" by (metis prod.exhaust)
  have ok: "alloc_ok live st (ctx, st1)" using assms(1) new [symmetric] by (simp add: evp_alloc_laws_def)
  have free: "live (ev_CIPHER_CTX_free api a s) = live s - {a}" for a s using assms(1) by (simp add: evp_alloc_laws_def)
  show ?thesis
    by (cases rule: alloc_cases [OF ok])
      (auto simp: DecryptAEAD_def new Let_def case_prod_beta free AEAD_start_frame [OF assms(2)] AEAD_text_frame [OF assms(2)] split: option.split)
qed

lemma Hash_live:
  assumes "evp_alloc_laws api live" "evp_frame_laws api live"
  shows "live (snd (snd (snd (default_Hash api algo d dl dg dgl st)))) = live st"
proof -
  obtain ctx st1 where new: "ev_MD_CTX_new api st = (ctx, st1)" by (metis prod.exhaust)
  have ok: "alloc_ok live st (ctx, st1)" using assms(1) new [symmetric] by (simp add: evp_alloc_laws_def)
  have free: "live (ev_MD_CTX_free api a s) = live s - {a}" for a s using assms(1) by (simp add: evp_alloc_laws_def)
  show ?thesis
    by (cases rule: alloc_cases [OF ok])
      (auto simp: default_Hash_def new Let_def case_prod_beta free frame_laws [OF assms(2)] split: option.split)
qed

lemma HKDF_live:
  assumes "evp_alloc_laws api live" "evp_frame_laws api live"
  shows "live (snd (snd (snd (HKDFExtract api algo salt sl ikm il prk pl st)))) = live st"
    and "live (snd (snd (HKDFExpand api algo prk' pl' info il' okm ol st))) = live st"
proof -
  obtain ctx st1 where new: "ev_PKEY_CTX_new_id api EVP_PKEY_HKDF st = (ctx, st1)" by (metis prod.exhaust)
  have ok: "alloc_ok live st (ctx, st1)" using assms(1) new [symmetric] by (simp add: evp_alloc_laws_def)
  have free: "live (ev_PKEY_CTX_free api a s) = live s - {a}" for a s using assms(1) by (simp add: evp_alloc_laws_def)
  note run = new Let_def case_prod_beta free frame_laws [OF assms(2)] wrapper_frame [OF assms(2)]
  show "live (snd (snd (snd (HKDFExtract api algo salt sl ikm il prk pl st)))) = live st"
    by (cases rule: alloc_cases [OF ok]) (auto simp: HKDFExtract_def run split: option.split)
  show "live (snd (snd (HKDFExpand api algo prk' pl' info il' okm ol st))) = live st"
    by (cases rule: alloc_cases [OF ok]) (auto simp: HKDFExpand_def run split: option.split)
qed

lemma Derive_live:
  assumes "evp_alloc_laws api live" "evp_frame_laws api live"
  shows "live (snd (snd (snd (DeriveECDHSharedSecret api pkey peer sec len st)))) = live st"
proof -
  obtain ctx st1 where new: "ev_PKEY_CTX_new api pkey st = (ctx, st1)" by (metis prod.exhaust)
  have ok: "alloc_ok live st (ctx, st1)" using assms(1) new [symmetric] by (simp add: evp_alloc_laws_def)
  have free: "live (ev_PKEY_CTX_free api a s) = live s - {a}" for a s using assms(1) by (simp add: evp_alloc_laws_def)
  show ?thesis
    by (cases rule: alloc_cases [OF ok])
      (auto simp: DeriveECDHSharedSecret_def new Let_def case_prod_beta free frame_laws [OF assms(2)] split: option.split)
qed

text \<open>What the block of the key agreement holds when it ends: the generated key, its context, the key of the peer.\<close>

definition ptrs :: "ptr \<times> ptr \<times> ptr \<Rightarrow> addr set" where
  "ptrs = (\<lambda>(a, b, c). set_option a \<union> set_option b \<union> set_option c)"

lemma keygen_live:
  assumes "evp_alloc_laws api live" "ev_keygen api c pkey st = (r, pkey1, st')"
    and "live st = insert c (L \<union> set_option pkey)" "set_option pkey \<inter> insert c L = {}"
  shows "live st' = insert c (L \<union> set_option pkey1)" "set_option pkey1 \<inter> insert c L = {}"
proof -
  have "(case pkey of Some k \<Rightarrow> pkey1 = Some k \<and> live st' = live st | None \<Rightarrow> alloc_ok live st (pkey1, st'))"
    using assms(1,2) by (cases pkey) (auto simp: evp_alloc_laws_def dest: spec, (metis snd_conv fst_conv)+)
  then show "live st' = insert c (L \<union> set_option pkey1)" "set_option pkey1 \<inter> insert c L = {}"
    using assms(3,4) by (auto simp: alloc_ok_def split: option.splits)
qed

lemma ECDH_block_live:
  assumes "evp_alloc_laws api live" "evp_frame_laws api live" "ECDH_block api nid peer pl sec len pkey st = (res, ps, st')"
    and "live st = L \<union> set_option pkey" "set_option pkey \<inter> L = {}"
  shows "live st' = L \<union> ptrs ps \<and> ptrs ps \<inter> L = {}"
proof -
  obtain pctx st1 where new: "ev_PKEY_CTX_new_id api EVP_PKEY_EC st = (pctx, st1)" by (metis prod.exhaust)
  have ok1: "alloc_ok live st (pctx, st1)" using assms(1) new [symmetric] by (simp add: evp_alloc_laws_def)
  show ?thesis
  proof (cases rule: alloc_cases [OF ok1])
    case 1
    then show ?thesis using assms(3-5) by (auto simp: ECDH_block_def new ptrs_def)
  next
    case (2 c)
    obtain r1 st2 where k1: "ev_keygen_init api c st1 = (r1, st2)" by (metis prod.exhaust)
    obtain r2 st3 where k2: "SetEcParamGenCurveNid api c nid st2 = (r2, st3)" by (metis prod.exhaust)
    obtain r3 pkey1 st4 where k3: "ev_keygen api c pkey st3 = (r3, pkey1, st4)" by (metis prod_cases3)
    obtain peerKey st5 where k4: "ev_d2i_PUBKEY api peer (long_cast pl) st4 = (peerKey, st5)" by (metis prod.exhaust)
    have l2: "live st2 = insert c (live st)" using frame_laws(8) [OF assms(2), of c st1] k1 2 by simp
    have l3: "live st3 = insert c (live st)" using wrapper_frame(1) [OF assms(2), of c nid st2] k2 l2 by simp
    have "live st3 = insert c (L \<union> set_option pkey)" "set_option pkey \<inter> insert c L = {}" using l3 assms(4,5) 2 by auto
    note l4 = keygen_live(1) [OF assms(1) k3 this] and d4 = keygen_live(2) [OF assms(1) k3 this]
    have ok5: "alloc_ok live st4 (peerKey, st5)" using assms(1) k4 [symmetric] by (simp add: evp_alloc_laws_def)
    then have l5: "live st5 = insert c (L \<union> set_option pkey1 \<union> set_option peerKey)" "set_option peerKey \<inter> (insert c (L \<union> set_option pkey1)) = {}"
      using l4 by (auto simp: alloc_ok_def split: option.splits)
    have d6: "live (snd (snd (snd (DeriveECDHSharedSecret api pkey1 k sec len st5)))) = live st5" for k
      by (rule Derive_live [OF assms(1,2)])
    note run = ECDH_block_def new 2(1) k1 k2 k3 k4 Let_def prod.case option.case
    consider "r1 \<noteq> SSL_SUCCESS \<or> r2 \<noteq> SSL_SUCCESS" | "r1 = SSL_SUCCESS" "r2 = SSL_SUCCESS" "r3 \<noteq> SSL_SUCCESS \<or> peerKey = None"
      | k where "r1 = SSL_SUCCESS" "r2 = SSL_SUCCESS" "r3 = SSL_SUCCESS" "peerKey = Some k" by blast
    then have "ps = (pkey, Some c, None) \<and> live st' = live st3 \<or> ps = (pkey1, Some c, None) \<and> live st' = live st4 \<or>
        ps = (pkey1, Some c, peerKey) \<and> live st' = live st5"
    proof cases
      case 1
      then have "ps = (pkey, Some c, None) \<and> (st' = st2 \<or> st' = st3)" using assms(3) by (simp add: run split: if_splits)
      then show ?thesis using l2 l3 by auto
    next
      case 2
      then have "ps = (pkey1, Some c, None) \<and> (st' = st4 \<or> st' = st5 \<and> peerKey = None)" using assms(3) by (simp add: run split: if_splits)
      then show ?thesis using l4 l5 by auto
    next
      case (3 k)
      obtain ok s1 n1 st6 where d: "DeriveECDHSharedSecret api pkey1 k sec len st5 = (ok, s1, n1, st6)" by (metis prod_cases4)
      then have "ps = (pkey1, Some c, peerKey) \<and> st' = st6" using assms(3) 3 by (simp add: run)
      then show ?thesis using d6 [of k] d by simp
    qed
    then show ?thesis using l3 l4 d4 l5 assms(4,5) 2 by (elim disjE) (auto simp: ptrs_def)
  qed
qed

lemma ECDH_live:
  assumes "evp_alloc_laws api live" "evp_frame_laws api live"
  shows "live (snd (snd (snd (ECDHKeyAgreement api algo peer pl sec len st)))) = live st"
proof -
  obtain pkey st1 where new: "ev_PKEY_new api st = (pkey, st1)" by (metis prod.exhaust)
  obtain res pkey1 pctx peerKey st2 where blk: "ECDH_block api (MapEcNid algo) peer pl sec len pkey st1 = (res, (pkey1, pctx, peerKey), st2)"
    by (metis prod_cases3)
  have "alloc_ok live st (pkey, st1)" using assms(1) new [symmetric] by (simp add: evp_alloc_laws_def)
  then have "live st1 = live st \<union> set_option pkey" "set_option pkey \<inter> live st = {}" by (auto simp: alloc_ok_def split: option.splits)
  from ECDH_block_live [OF assms blk this] have l2: "live st2 = live st \<union> ptrs (pkey1, pctx, peerKey)" "ptrs (pkey1, pctx, peerKey) \<inter> live st = {}"
    by simp_all
  have free: "live (ev_PKEY_free api a s) = live s - {a}" "live (ev_PKEY_CTX_free api a s) = live s - {a}" for a s
    using assms(1) by (simp_all add: evp_alloc_laws_def)
  show ?thesis using l2 by (auto simp: ECDHKeyAgreement_def new blk Let_def free ptrs_def case_prod_beta split: option.split)
qed

text \<open>C31: The software engine leaks no object of libcrypto: whatever the library answers to whichever call, after every
  operation of the engine (encryption, decryption, key agreement, hash, HMAC, HKDF, random numbers) the objects
  alive in the library are exactly those that were alive before it.\<close>

theorem engine_releases_objects:
  assumes "evp_alloc_laws api live" "evp_frame_laws api live"
  shows "live (snd (snd (snd (snd (EncryptAEAD api algo key iv ivLen p pl aad aadLen ct cl t tlen st))))) = live st \<and>
    live (snd (snd (snd (DecryptAEAD api algo key iv ivLen c2 cl2 aad aadLen t2 tlen p2 pl2 st)))) = live st \<and>
    live (snd (snd (snd (ECDHKeyAgreement api curve peer peerLen sec secLen st)))) = live st \<and>
    live (snd (snd (snd (default_Hash api hash d dl dg dgl st)))) = live st \<and>
    live (snd (snd (snd (default_HMAC api hash key keyLen d dl mac macLen st)))) = live st \<and>
    live (snd (snd (snd (HKDFExtract api hash salt saltLen ikm ikmLen prk prkLen st)))) = live st \<and>
    live (snd (snd (HKDFExpand api hash prk2 prkLen2 info infoLen okm okmLen st))) = live st \<and>
    live (snd (snd (RandomBytes api buf bufLen st))) = live st"
proof (intro conjI)
  show "live (snd (snd (snd (default_HMAC api hash key keyLen d dl mac macLen st)))) = live st"
    using frame_laws(15) [OF assms(2)] by (simp add: default_HMAC_def Let_def case_prod_beta split: option.split)
  show "live (snd (snd (RandomBytes api buf bufLen st))) = live st"
    using frame_laws(16) [OF assms(2)] by (simp add: RandomBytes_def Let_def case_prod_beta)
qed (rule EncryptAEAD_live [OF assms] DecryptAEAD_live [OF assms] ECDH_live [OF assms] Hash_live [OF assms] HKDF_live [OF assms])+

section \<open>Authenticated encryption\<close>

text \<open>What a cipher context has been given so far and has returned.  \<^verbatim>\<open>seal\<close> is the cipher: from cipher, key, vector,
  additional data and text it computes the encrypted text and the tag.\<close>

record aead_session =
  as_cipher :: addr
  as_ivLen :: int
  as_key :: "string option"
  as_iv :: "string option"
  as_aad :: string
  as_in :: string
  as_out :: string
  as_tag :: string

type_synonym seal_fn = "addr \<Rightarrow> string \<Rightarrow> string \<Rightarrow> string \<Rightarrow> string \<Rightarrow> string \<times> string"

definition aead0 :: aead_session where
  "aead0 = \<lparr> as_cipher = 0, as_ivLen = 0, as_key = None, as_iv = None, as_aad = [], as_in = [], as_out = [], as_tag = [] \<rparr>"

definition seal_with :: "seal_fn \<Rightarrow> aead_session \<Rightarrow> string \<Rightarrow> string \<times> string" where
  "seal_with seal s text = seal (as_cipher s) (the (as_key s)) (take (nat (as_ivLen s)) (the (as_iv s))) (as_aad s) text"

text \<open>The documented behaviour of the two initialisation functions, the two update functions, the control operations
  and the two final functions, when they succeed.\<close>

definition init_law :: "('e \<Rightarrow> addr \<Rightarrow> aead_session option) \<Rightarrow> (addr \<Rightarrow> ptr \<Rightarrow> string option \<Rightarrow> string option \<Rightarrow> 'e \<Rightarrow> int \<times> 'e) \<Rightarrow> bool" where
  "init_law sess init \<longleftrightarrow> (\<forall>a s st st'. sess st a = Some s \<longrightarrow>
     (\<forall>c. init a (Some c) None None st = (1, st') \<longrightarrow> sess st' a = Some (s\<lparr>as_cipher := c\<rparr>)) \<and>
     (\<forall>k iv. init a None k iv st = (1, st') \<longrightarrow> sess st' a = Some (s\<lparr>as_key := k, as_iv := iv\<rparr>)))"

definition update_law :: "('e \<Rightarrow> addr \<Rightarrow> aead_session option) \<Rightarrow> (addr \<Rightarrow> bool \<Rightarrow> string option \<Rightarrow> int \<Rightarrow> 'e \<Rightarrow> int \<times> string \<times> int \<times> 'e) \<Rightarrow> bool" where
  "update_law sess update \<longleftrightarrow> (\<forall>a s st d n out l st'. sess st a = Some s \<longrightarrow>
     (update a False d n st = (1, out, l, st') \<longrightarrow> sess st' a = Some (s\<lparr>as_aad := as_aad s @ take (nat n) (the d)\<rparr>)) \<and>
     (update a True d n st = (1, out, l, st') \<longrightarrow> l = int (length out) \<and> l < 2 ^ 31 \<and>
        sess st' a = Some (s\<lparr>as_in := as_in s @ take (nat n) (the d), as_out := as_out s @ out\<rparr>)))"

definition ctrl_law :: "seal_fn \<Rightarrow> ('e \<Rightarrow> addr \<Rightarrow> aead_session option) \<Rightarrow> (addr \<Rightarrow> int \<Rightarrow> int \<Rightarrow> string option \<Rightarrow> 'e \<Rightarrow> int \<times> string \<times> 'e) \<Rightarrow> bool" where
  "ctrl_law seal sess ctrl \<longleftrightarrow> (\<forall>a s st n d out st'. sess st a = Some s \<longrightarrow>
     (ctrl a EVP_CTRL_AEAD_SET_IVLEN n d st = (1, out, st') \<longrightarrow> sess st' a = Some (s\<lparr>as_ivLen := n\<rparr>)) \<and>
     (ctrl a EVP_CTRL_AEAD_SET_TAG n d st = (1, out, st') \<longrightarrow> sess st' a = Some (s\<lparr>as_tag := take (nat n) (the d)\<rparr>)) \<and>
     (ctrl a EVP_CTRL_AEAD_GET_TAG n d st = (1, out, st') \<longrightarrow> out = take (nat n) (snd (seal_with seal s (as_in s)))))"

definition final_law :: "seal_fn \<Rightarrow> ('e \<Rightarrow> addr \<Rightarrow> aead_session option) \<Rightarrow> 'e evp_api \<Rightarrow> bool" where
  "final_law seal sess api \<longleftrightarrow> (\<forall>a s st out l st'. sess st a = Some s \<longrightarrow>
     (ev_EncryptFinal_ex api a st = (1, out, l, st') \<longrightarrow> l = int (length out) \<and> l < 2 ^ 31 \<and>
        sess st' a = Some (s\<lparr>as_out := as_out s @ out\<rparr>) \<and> as_out s @ out = fst (seal_with seal s (as_in s))) \<and>
     (ev_DecryptFinal_ex api a st = (1, out, l, st') \<longrightarrow> l = int (length out) \<and> l < 2 ^ 31 \<and>
        fst (seal_with seal s (as_out s @ out)) = as_in s \<and>
        as_tag s = take (length (as_tag s)) (snd (seal_with seal s (as_out s @ out)))))"

definition aead_laws :: "seal_fn \<Rightarrow> ('e \<Rightarrow> addr \<Rightarrow> aead_session option) \<Rightarrow> 'e evp_api \<Rightarrow> bool" where
  "aead_laws seal sess api \<longleftrightarrow>
     (\<forall>st a st'. ev_CIPHER_CTX_new api st = (Some a, st') \<longrightarrow> sess st' a = Some aead0) \<and>
     init_law sess (ev_EncryptInit_ex api) \<and> init_law sess (ev_DecryptInit_ex api) \<and>
     update_law sess (ev_EncryptUpdate api) \<and> update_law sess (ev_DecryptUpdate api) \<and>
     ctrl_law seal sess (ev_CIPHER_CTX_ctrl api) \<and> final_law seal sess api"

lemma aead_lawsD:
  assumes "aead_laws seal sess api"
  shows "ev_CIPHER_CTX_new api st = (Some a, st') \<Longrightarrow> sess st' a = Some aead0"
    "init_law sess (ev_EncryptInit_ex api)" "init_law sess (ev_DecryptInit_ex api)"
    "update_law sess (ev_EncryptUpdate api)" "update_law sess (ev_DecryptUpdate api)"
    "ctrl_law seal sess (ev_CIPHER_CTX_ctrl api)" "final_law seal sess api"
  using assms by (simp_all add: aead_laws_def)

lemma init_lawD:
  assumes "init_law sess init" "sess st a = Some s"
  shows "init a (Some c) None None st = (1, st') \<Longrightarrow> sess st' a = Some (s\<lparr>as_cipher := c\<rparr>)"
    "init a None k iv st = (1, st') \<Longrightarrow> sess st' a = Some (s\<lparr>as_key := k, as_iv := iv\<rparr>)"
  using assms unfolding init_law_def by blast+

lemma update_lawD:
  assumes "update_law sess update" "sess st a = Some s"
  shows "update a False d n st = (1, out, l, st') \<Longrightarrow> sess st' a = Some (s\<lparr>as_aad := as_aad s @ take (nat n) (the d)\<rparr>)"
    "update a True d n st = (1, out, l, st') \<Longrightarrow> l = int (length out) \<and> l < 2 ^ 31 \<and>
       sess st' a = Some (s\<lparr>as_in := as_in s @ take (nat n) (the d), as_out := as_out s @ out\<rparr>)"
  using assms unfolding update_law_def by blast+

lemma ctrl_lawD:
  assumes "ctrl_law seal sess ctrl" "sess st a = Some s"
  shows "ctrl a EVP_CTRL_AEAD_SET_IVLEN n d st = (1, out, st') \<Longrightarrow> sess st' a = Some (s\<lparr>as_ivLen := n\<rparr>)"
    "ctrl a EVP_CTRL_AEAD_SET_TAG n d st = (1, out, st') \<Longrightarrow> sess st' a = Some (s\<lparr>as_tag := take (nat n) (the d)\<rparr>)"
    "ctrl a EVP_CTRL_AEAD_GET_TAG n d st = (1, out, st') \<Longrightarrow> out = take (nat n) (snd (seal_with seal s (as_in s)))"
  using assms unfolding ctrl_law_def by blast+

lemma final_lawD:
  assumes "final_law seal sess api" "sess st a = Some s"
  shows "ev_EncryptFinal_ex api a st = (1, out, l, st') \<Longrightarrow> l = int (length out) \<and> l < 2 ^ 31 \<and>
      sess st' a = Some (s\<lparr>as_out := as_out s @ out\<rparr>) \<and> as_out s @ out = fst (seal_with seal s (as_in s))"
    "ev_DecryptFinal_ex api a st = (1, out, l, st') \<Longrightarrow> l = int (length out) \<and> l < 2 ^ 31 \<and>
      fst (seal_with seal s (as_out s @ out)) = as_in s \<and>
      as_tag s = take (length (as_tag s)) (snd (seal_with seal s (as_out s @ out)))"
  using assms unfolding final_law_def by blast+

text \<open>The additional data as the engine passes them on.\<close>

definition aad_bytes :: "string option \<Rightarrow> nat \<Rightarrow> string" where
  "aad_bytes aad aadLen = (case aad of None \<Rightarrow> [] | Some d \<Rightarrow> take aadLen d)"

lemma int_cast_small: "n \<le> INT32_MAX \<Longrightarrow> int_cast n = int n"
  by (simp add: int_cast_def scf_const signed_take_bit_int_eq_self)

lemma size_cast_length: "int (length xs) < 2 ^ 31 \<Longrightarrow> size_cast (int (length xs)) = length xs"
  by (simp add: size_cast_def)

lemma put_put: "take (length xs + length ys) (put (put buf 0 xs) (length xs) ys) = xs @ ys"
  by (simp add: put_def)

lemma AEAD_start_session:
  assumes "init_law sess (init api)" "update_law sess (update api)" "ctrl_law seal sess (ev_CIPHER_CTX_ctrl api)"
    and "sess st a = Some aead0" "ivLen \<le> INT32_MAX" "aadLen \<le> INT32_MAX"
    and "AEAD_start init update api a cipher key iv ivLen aad aadLen st = (True, st')"
  shows "sess st' a = Some (aead0\<lparr>as_cipher := cipher, as_ivLen := int ivLen, as_key := key, as_iv := iv, as_aad := aad_bytes aad aadLen\<rparr>)"
proof -
  obtain r1 st1 where i1: "init api a (Some cipher) None None st = (r1, st1)" by (metis prod.exhaust)
  obtain r2 o2 st2 where c2: "ev_CIPHER_CTX_ctrl api a EVP_CTRL_AEAD_SET_IVLEN (int_cast ivLen) None st1 = (r2, o2, st2)" by (metis prod_cases3)
  obtain r3 st3 where i3: "init api a None key iv st2 = (r3, st3)" by (metis prod.exhaust)
  obtain r4 o4 l4 st4 where u4: "update api a False aad (int_cast aadLen) st3 = (r4, o4, l4, st4)" by (metis prod_cases4)
  have r: "r1 = 1" "r2 = 1" "r3 = 1"
    using assms(7) by (simp_all add: AEAD_start_def i1 c2 i3 u4 Let_def SSL_SUCCESS_def split: if_splits)
  have rest: "(if aad \<noteq> None \<and> aadLen > 0 then (r4 = 1, st4) else (True, st3)) = (True, st')"
  proof -
    have "AEAD_start init update api a cipher key iv ivLen aad aadLen st = (if aad \<noteq> None \<and> aadLen > 0 then (r4 = 1, st4) else (True, st3))"
      by (simp add: AEAD_start_def i1 c2 i3 u4 r Let_def SSL_SUCCESS_def cong: if_cong del: not_None_eq)
    from trans [OF this [symmetric] assms(7)] show ?thesis .
  qed
  have s1: "sess st1 a = Some (aead0\<lparr>as_cipher := cipher\<rparr>)" using init_lawD(1) [OF assms(1,4)] i1 r(1) by blast
  have s2: "sess st2 a = Some (aead0\<lparr>as_cipher := cipher, as_ivLen := int ivLen\<rparr>)"
    using ctrl_lawD(1) [OF assms(3) s1] c2 r(2) int_cast_small [OF assms(5)] by metis
  have s3: "sess st3 a = Some (aead0\<lparr>as_cipher := cipher, as_ivLen := int ivLen, as_key := key, as_iv := iv\<rparr>)"
    using init_lawD(2) [OF assms(1) s2] i3 r(3) by blast
  show ?thesis
  proof (cases "aad \<noteq> None \<and> aadLen > 0")
    case True
    then have u: "update api a False aad (int aadLen) st3 = (1, o4, l4, st')"
      using rest u4 int_cast_small [OF assms(6)] by (auto split: if_splits)
    have "sess st' a = Some (aead0\<lparr>as_cipher := cipher, as_ivLen := int ivLen, as_key := key, as_iv := iv, as_aad := take (nat (int aadLen)) (the aad)\<rparr>)"
      using update_lawD(1) [OF assms(2) s3 u] by (simp add: aead0_def)
    then show ?thesis using True by (auto simp: aad_bytes_def)
  next
    case False
    then show ?thesis using rest s3 by (auto simp: aad_bytes_def aead0_def split: if_splits option.splits)
  qed
qed

lemma EncryptAEAD_text_exact:
  assumes laws: "aead_laws seal sess api" and s: "sess st a = Some s" "as_in s = []" "as_out s = []" "tlen \<le> INT32_MAX"
    and run: "EncryptAEAD_text api a p plen ct cl tag tlen st = (True, ct', n, tag', st')"
  shows "take n ct' = fst (seal_with seal s (take plen (the p))) \<and> n \<le> length ct' \<and>
    take (min tlen (length (snd (seal_with seal s (take plen (the p)))))) tag' = take tlen (snd (seal_with seal s (take plen (the p))))"
proof -
  have small: "plen \<le> INT32_MAX" using run by (auto simp: EncryptAEAD_text_def split: if_splits)
  obtain r1 o1 l1 st1 where u: "ev_EncryptUpdate api a True p (int_cast plen) st = (r1, o1, l1, st1)" by (metis prod_cases4)
  obtain r2 o2 l2 st2 where f: "ev_EncryptFinal_ex api a st1 = (r2, o2, l2, st2)" by (metis prod_cases4)
  obtain r3 o3 st3 where g: "ev_CIPHER_CTX_ctrl api a EVP_CTRL_AEAD_GET_TAG (int_cast tlen) None st2 = (r3, o3, st3)" by (metis prod_cases3)
  have r: "r1 = 1" "r2 = 1" "r3 = 1" and res: "ct' = put (put ct 0 o1) (nat l1) o2" "n = (size_cast l1 + size_cast l2) mod 2 ^ 64" "tag' = put tag 0 o3"
    using run small by (auto simp: EncryptAEAD_text_def u f g Let_def SSL_SUCCESS_def split: if_splits)
  let ?s1 = "s\<lparr>as_in := take plen (the p), as_out := o1\<rparr>"
  have s1: "l1 = int (length o1)" "l1 < 2 ^ 31" "sess st1 a = Some ?s1"
    using update_lawD(2) [OF aead_lawsD(4) [OF laws] s(1)] u r s(2,3) int_cast_small [OF small] by force+
  have s2: "l2 = int (length o2)" "l2 < 2 ^ 31" "sess st2 a = Some (?s1\<lparr>as_out := o1 @ o2\<rparr>)" "o1 @ o2 = fst (seal_with seal ?s1 (take plen (the p)))"
    using final_lawD(1) [OF aead_lawsD(7) [OF laws] s1(3)] f r by force+
  have s3: "o3 = take tlen (snd (seal_with seal (?s1\<lparr>as_out := o1 @ o2\<rparr>) (take plen (the p))))"
    using ctrl_lawD(3) [OF aead_lawsD(6) [OF laws] s2(3)] g r int_cast_small [OF s(4)] by force
  have same: "seal_with seal (?s1\<lparr>as_out := x\<rparr>) t = seal_with seal s t" "seal_with seal ?s1 t = seal_with seal s t" for x t
    by (simp_all add: seal_with_def)
  have "n = length o1 + length o2" using res(2) s1 s2 size_cast_length [of o1] size_cast_length [of o2] by simp
  moreover have "nat l1 = length o1" using s1 by simp
  ultimately have "take n ct' = fst (seal_with seal s (take plen (the p)))" "n \<le> length ct'" using res(1) s2(4) put_put
    by (simp_all add: same put_def)
  moreover have "take (length o3) tag' = o3" using res(3) by (simp add: put_def)
  ultimately show ?thesis using s3 by (simp add: seal_with_def min.commute)
qed

lemma DecryptAEAD_text_authentic:
  assumes laws: "aead_laws seal sess api" and s: "sess st a = Some s" "as_in s = []" "as_out s = []" "tlen \<le> INT32_MAX"
    and run: "DecryptAEAD_text api a ct clen tag tlen p pl st = (True, p', n, st')"
  shows "fst (seal_with seal s (take n p')) = take clen (the ct) \<and> n \<le> length p' \<and>
    take tlen (the tag) = take (length (take tlen (the tag))) (snd (seal_with seal s (take n p')))"
proof -
  have small: "clen \<le> INT32_MAX" using run by (auto simp: DecryptAEAD_text_def split: if_splits)
  obtain r1 o1 l1 st1 where u: "ev_DecryptUpdate api a True ct (int_cast clen) st = (r1, o1, l1, st1)" by (metis prod_cases4)
  obtain r2 o2 st2 where g: "ev_CIPHER_CTX_ctrl api a EVP_CTRL_AEAD_SET_TAG (int_cast tlen) tag st1 = (r2, o2, st2)" by (metis prod_cases3)
  obtain r3 o3 l3 st3 where f: "ev_DecryptFinal_ex api a st2 = (r3, o3, l3, st3)" by (metis prod_cases4)
  have r: "r1 = 1" "r2 = 1" "r3 = 1" and res: "p' = put (put p 0 o1) (nat l1) o3" "n = (size_cast l1 + size_cast l3) mod 2 ^ 64"
    using run small by (auto simp: DecryptAEAD_text_def u f g Let_def SSL_SUCCESS_def split: if_splits)
  let ?s1 = "s\<lparr>as_in := take clen (the ct), as_out := o1\<rparr>" and ?t = "take tlen (the tag)"
  have s1: "l1 = int (length o1)" "l1 < 2 ^ 31" "sess st1 a = Some ?s1"
    using update_lawD(2) [OF aead_lawsD(5) [OF laws] s(1)] u r s(2,3) int_cast_small [OF small] by force+
  have s2: "sess st2 a = Some (?s1\<lparr>as_tag := ?t\<rparr>)"
    using ctrl_lawD(2) [OF aead_lawsD(6) [OF laws] s1(3)] g r int_cast_small [OF s(4)] by force
  have s3: "l3 = int (length o3)" "l3 < 2 ^ 31" "fst (seal_with seal (?s1\<lparr>as_tag := ?t\<rparr>) (o1 @ o3)) = take clen (the ct)"
    "?t = take (length ?t) (snd (seal_with seal (?s1\<lparr>as_tag := ?t\<rparr>) (o1 @ o3)))"
    using final_lawD(2) [OF aead_lawsD(7) [OF laws] s2] f r by force+
  have same: "seal_with seal (?s1\<lparr>as_tag := x\<rparr>) t = seal_with seal s t" for x t by (simp add: seal_with_def)
  have "n = length o1 + length o3" using res(2) s1 s3 size_cast_length [of o1] size_cast_length [of o3] by simp
  moreover have "nat l1 = length o1" using s1 by simp
  ultimately have "take n p' = o1 @ o3" "n \<le> length p'" using res(1) put_put by (simp_all add: put_def)
  then show ?thesis using s3(3,4) by (simp only: same)
qed

text \<open>C32: Authenticated encryption.  Over a library that behaves as documented and for lengths that fit an int: when
  \<^verbatim>\<open>EncryptAEAD\<close> succeeds, the written bytes are the cipher text and the tag that the cipher of the algorithm assigns
  to key, vector, additional data and text; and when \<^verbatim>\<open>DecryptAEAD\<close> succeeds, the returned text is one that the cipher
  maps to the given cipher text and tag.  So decrypting what was encrypted, with the same parameters, can only
  return the original text, provided the cipher is injective.\<close>

theorem aead_sound:
  assumes "aead_laws seal sess api" "ivLen \<le> INT32_MAX" "aadLen \<le> INT32_MAX" "tlen \<le> INT32_MAX"
  shows "(EncryptAEAD api algo key iv ivLen p plen aad aadLen ct cl tag tlen st = (True, ct1, n1, tag1, st1) \<longrightarrow>
      (\<exists>cipher c t. MapSymmetricAlgo api algo = Some cipher \<and>
         seal cipher (the key) (take ivLen (the iv)) (aad_bytes aad aadLen) (take plen (the p)) = (c, t) \<and>
         take n1 ct1 = c \<and> take (min tlen (length t)) tag1 = take tlen t)) \<and>
    (DecryptAEAD api algo key iv ivLen c2 clen2 aad aadLen tag2 tlen p2 pl2 st2 = (True, p3, n3, st3) \<longrightarrow>
      (\<exists>cipher c t. MapSymmetricAlgo api algo = Some cipher \<and>
         seal cipher (the key) (take ivLen (the iv)) (aad_bytes aad aadLen) (take n3 p3) = (c, t) \<and>
         take clen2 (the c2) = c \<and> take tlen (the tag2) = take (length (take tlen (the tag2))) t))"
proof (intro conjI impI)
  assume run: "EncryptAEAD api algo key iv ivLen p plen aad aadLen ct cl tag tlen st = (True, ct1, n1, tag1, st1)"
  obtain cipher a s1 s2 where go: "MapSymmetricAlgo api algo = Some cipher" "ev_CIPHER_CTX_new api st = (Some a, s1)"
    "AEAD_start ev_EncryptInit_ex ev_EncryptUpdate api a cipher key iv ivLen aad aadLen s1 = (True, s2)"
    and body: "\<exists>s3. EncryptAEAD_text api a p plen ct cl tag tlen s2 = (True, ct1, n1, tag1, s3)"
    using run by (auto simp: EncryptAEAD_def Let_def split: option.splits prod.splits if_splits)
  note laws = aead_lawsD [OF assms(1)]
  from AEAD_start_session [OF laws(2,4,6) laws(1) [OF go(2)] assms(2,3) go(3)] body EncryptAEAD_text_exact [OF assms(1) _ _ _ assms(4)]
  have "take n1 ct1 = fst (seal cipher (the key) (take ivLen (the iv)) (aad_bytes aad aadLen) (take plen (the p))) \<and>
    take (min tlen (length (snd (seal cipher (the key) (take ivLen (the iv)) (aad_bytes aad aadLen) (take plen (the p)))))) tag1 =
    take tlen (snd (seal cipher (the key) (take ivLen (the iv)) (aad_bytes aad aadLen) (take plen (the p))))"
    by (fastforce simp: seal_with_def aead0_def)
  then show "\<exists>cipher c t. MapSymmetricAlgo api algo = Some cipher \<and>
         seal cipher (the key) (take ivLen (the iv)) (aad_bytes aad aadLen) (take plen (the p)) = (c, t) \<and>
         take n1 ct1 = c \<and> take (min tlen (length t)) tag1 = take tlen t"
    using go(1) by (metis prod.collapse)
next
  assume run: "DecryptAEAD api algo key iv ivLen c2 clen2 aad aadLen tag2 tlen p2 pl2 st2 = (True, p3, n3, st3)"
  obtain cipher a s1 s2 where go: "MapSymmetricAlgo api algo = Some cipher" "ev_CIPHER_CTX_new api st2 = (Some a, s1)"
    "AEAD_start ev_DecryptInit_ex ev_DecryptUpdate api a cipher key iv ivLen aad aadLen s1 = (True, s2)"
    and body: "\<exists>s3. DecryptAEAD_text api a c2 clen2 tag2 tlen p2 pl2 s2 = (True, p3, n3, s3)"
    using run by (auto simp: DecryptAEAD_def Let_def split: option.splits prod.splits if_splits)
  note laws = aead_lawsD [OF assms(1)]
  from AEAD_start_session [OF laws(3,5,6) laws(1) [OF go(2)] assms(2,3) go(3)] body DecryptAEAD_text_authentic [OF assms(1) _ _ _ assms(4)]
  have "fst (seal cipher (the key) (take ivLen (the iv)) (aad_bytes aad aadLen) (take n3 p3)) = take clen2 (the c2) \<and>
    take tlen (the tag2) = take (length (take tlen (the tag2))) (snd (seal cipher (the key) (take ivLen (the iv)) (aad_bytes aad aadLen) (take n3 p3)))"
    by (fastforce simp: seal_with_def aead0_def)
  then show "\<exists>cipher c t. MapSymmetricAlgo api algo = Some cipher \<and>
         seal cipher (the key) (take ivLen (the iv)) (aad_bytes aad aadLen) (take n3 p3) = (c, t) \<and>
         take clen2 (the c2) = c \<and> take tlen (the tag2) = take (length (take tlen (the tag2))) t"
    using go(1) by (metis prod.collapse)
qed

text \<open>A small library: the cipher leaves the text alone and has a constant tag; a context remembers what it was given.\<close>

type_synonym sim_evp_state = "nat \<times> (addr \<Rightarrow> aead_session option)"

definition sim_seal :: seal_fn where
  "sim_seal c k iv aad text = (text, ''T'')"

definition sim_new :: "sim_evp_state \<Rightarrow> ptr \<times> sim_evp_state" where
  "sim_new st = (if snd st (fst st) = None then (Some (fst st), fst st + 1, (snd st)(fst st \<mapsto> aead0)) else (None, st))"

definition sim_free :: "addr \<Rightarrow> sim_evp_state \<Rightarrow> sim_evp_state" where
  "sim_free a st = (fst st, (snd st)(a := None))"

definition sim_on :: "addr \<Rightarrow> (aead_session \<Rightarrow> aead_session option) \<Rightarrow> sim_evp_state \<Rightarrow> int \<times> sim_evp_state" where
  "sim_on a f st = (case Option.bind (snd st a) f of None \<Rightarrow> (0, st) | Some s \<Rightarrow> (1, fst st, (snd st)(a \<mapsto> s)))"

definition sim_init :: "addr \<Rightarrow> ptr \<Rightarrow> string option \<Rightarrow> string option \<Rightarrow> sim_evp_state \<Rightarrow> int \<times> sim_evp_state" where
  "sim_init a c k iv st = sim_on a (\<lambda>s. Some (case c of Some c \<Rightarrow> s\<lparr>as_cipher := c\<rparr> | None \<Rightarrow> s\<lparr>as_key := k, as_iv := iv\<rparr>)) st"

definition sim_update :: "addr \<Rightarrow> bool \<Rightarrow> string option \<Rightarrow> int \<Rightarrow> sim_evp_state \<Rightarrow> int \<times> string \<times> int \<times> sim_evp_state" where
  "sim_update a b d n st =
     (let out = take (nat n) (the d);
          (r, st1) = sim_on a (\<lambda>s. if int (length out) < 2 ^ 31
            then Some (if b then s\<lparr>as_in := as_in s @ out, as_out := as_out s @ out\<rparr> else s\<lparr>as_aad := as_aad s @ out\<rparr>) else None) st in
      (r, out, int (length out), st1))"

definition sim_final :: "bool \<Rightarrow> addr \<Rightarrow> sim_evp_state \<Rightarrow> int \<times> string \<times> int \<times> sim_evp_state" where
  "sim_final dec a st =
     (let (r, st1) = sim_on a (\<lambda>s. if as_out s = as_in s \<and> (dec \<longrightarrow> as_tag s = take (length (as_tag s)) ''T'') then Some s else None) st in
      (r, [], 0, st1))"

definition sim_cctrl :: "addr \<Rightarrow> int \<Rightarrow> int \<Rightarrow> string option \<Rightarrow> sim_evp_state \<Rightarrow> int \<times> string \<times> sim_evp_state" where
  "sim_cctrl a c n d st =
     (let (r, st1) = sim_on a (\<lambda>s. Some (if c = EVP_CTRL_AEAD_SET_IVLEN then s\<lparr>as_ivLen := n\<rparr>
          else if c = EVP_CTRL_AEAD_SET_TAG then s\<lparr>as_tag := take (nat n) (the d)\<rparr> else s)) st in
      (r, take (nat n) ''T'', st1))"

definition sim_evp :: "sim_evp_state evp_api" where
  "sim_evp = \<lparr> ev_versionNum = 0x30000000, ev_version = ''3'', ev_aes_128_gcm = Some 1, ev_aes_256_gcm = Some 2, ev_aes_128_ccm = Some 3,
     ev_chacha20_poly1305 = Some 4, ev_sha256 = Some 5, ev_sha384 = Some 6, ev_sha512 = Some 7, ev_MD_get_size = (\<lambda>md. 32),
     ev_CIPHER_CTX_new = sim_new, ev_CIPHER_CTX_free = sim_free, ev_EncryptInit_ex = sim_init, ev_EncryptUpdate = sim_update,
     ev_EncryptFinal_ex = sim_final False, ev_DecryptInit_ex = sim_init, ev_DecryptUpdate = sim_update, ev_DecryptFinal_ex = sim_final True,
     ev_CIPHER_CTX_ctrl = sim_cctrl, ev_PKEY_new = sim_new, ev_PKEY_free = sim_free, ev_PKEY_CTX_new = (\<lambda>p. sim_new),
     ev_PKEY_CTX_new_id = (\<lambda>n. sim_new), ev_PKEY_CTX_free = sim_free, ev_PKEY_CTX_ctrl = (\<lambda>a k q c n p st. (1, st)),
     ev_set_ec_paramgen_curve_nid = (\<lambda>a n st. (1, st)), ev_set_hkdf_md = (\<lambda>a md st. (1, st)), ev_set1_hkdf_salt = (\<lambda>a d n st. (1, st)),
     ev_set1_hkdf_key = (\<lambda>a d n st. (1, st)), ev_set_hkdf_mode = (\<lambda>a n st. (1, st)), ev_add1_hkdf_info = (\<lambda>a d n st. (1, st)),
     ev_keygen_init = (\<lambda>a st. (1, st)), ev_keygen = (\<lambda>a k st. case k of Some k \<Rightarrow> (1, Some k, st) | None \<Rightarrow> (1, sim_new st)),
     ev_d2i_PUBKEY = (\<lambda>d n. sim_new), ev_derive_init = (\<lambda>a st. (1, st)), ev_derive_set_peer = (\<lambda>a k st. (1, st)),
     ev_derive = (\<lambda>a b n st. (1, [], n, st)), ev_MD_CTX_new = sim_new, ev_MD_CTX_free = sim_free, ev_DigestInit_ex = (\<lambda>a md st. (1, st)),
     ev_DigestUpdate = (\<lambda>a d n st. (1, st)), ev_DigestFinal_ex = (\<lambda>a st. (1, [], 0, st)), ev_HMAC = (\<lambda>md k kl d n st. (True, [], 0, st)),
     ev_RAND_bytes = (\<lambda>n st. (1, [], st)) \<rparr>"

lemma sim_on_cases:
  "sim_on a f st = (1, st') \<Longrightarrow> snd st a = Some s \<Longrightarrow> \<exists>s'. f s = Some s' \<and> snd st' a = Some s'"
  by (auto simp: sim_on_def split: option.splits)

lemma sim_on_dom: "dom (snd (snd (sim_on a f st))) = dom (snd st)"
  by (auto simp: sim_on_def Option.bind_eq_Some_conv split: option.splits)

lemma sim_alloc_laws: "evp_alloc_laws sim_evp (\<lambda>st. dom (snd st))"
  by (auto simp: evp_alloc_laws_def sim_evp_def alloc_ok_def sim_new_def sim_free_def)

lemma sim_frame_laws: "evp_frame_laws sim_evp (\<lambda>st. dom (snd st))"
  by (simp add: evp_frame_laws_def sim_evp_def sim_init_def sim_update_def sim_final_def sim_cctrl_def sim_on_dom Let_def case_prod_beta)

lemma sim_aead_laws: "aead_laws sim_seal snd sim_evp"
proof -
  have "init_law snd sim_init"
    by (auto simp: init_law_def sim_init_def dest: sim_on_cases)
  moreover have "update_law snd sim_update"
    by (auto simp: update_law_def sim_update_def Let_def split: prod.splits if_splits dest!: sim_on_cases)
  moreover have "ctrl_law sim_seal snd sim_cctrl"
    by (auto simp: ctrl_law_def sim_cctrl_def seal_with_def sim_seal_def scf_const Let_def split: prod.splits dest!: sim_on_cases)
  moreover have "final_law sim_seal snd sim_evp"
    by (auto simp: final_law_def sim_evp_def sim_final_def seal_with_def sim_seal_def Let_def split: prod.splits if_splits dest!: sim_on_cases)
  ultimately show ?thesis by (auto simp: aead_laws_def sim_evp_def sim_new_def split: if_splits)
qed

theorem engine_releases_objects_witness:
  "dom (snd (snd (snd (snd (ECDHKeyAgreement sim_evp ECDSA_P256 (Some ''k'') 1 [] 0 (0, Map.empty)))))) = {}"
  using engine_releases_objects [OF sim_alloc_laws sim_frame_laws] by simp

theorem aead_sound_witness:
  "\<exists>ct tag st p st'. EncryptAEAD sim_evp AES_256_GCM (Some ''key'') (Some ''iv'') 2 (Some ''hello'') 5 (Some ''ad'') 2 [] 0 [] 1 (0, Map.empty) = (True, ct, 5, tag, st) \<and>
     DecryptAEAD sim_evp AES_256_GCM (Some ''key'') (Some ''iv'') 2 (Some ct) 5 (Some ''ad'') 2 (Some tag) 1 [] 0 st = (True, p, 5, st') \<and> take 5 p = ''hello''"
proof -
  define st0 :: sim_evp_state where "st0 = (0, Map.empty)"
  obtain ct tag st where e: "EncryptAEAD sim_evp AES_256_GCM (Some ''key'') (Some ''iv'') 2 (Some ''hello'') 5 (Some ''ad'') 2 [] 0 [] 1 st0 = (True, ct, 5, tag, st)"
    "ct = ''hello''" "tag = ''T''" "st = (1, Map.empty)"
    unfolding st0_def
    by (simp add: EncryptAEAD_def EncryptAEAD_text_def AEAD_start_def sim_evp_def sim_new_def sim_free_def sim_init_def sim_update_def sim_final_def
        sim_cctrl_def sim_on_def aead0_def int_cast_def size_cast_def put_def scf_const Let_def SSL_SUCCESS_def)
  obtain p st' where d: "DecryptAEAD sim_evp AES_256_GCM (Some ''key'') (Some ''iv'') 2 (Some ct) 5 (Some ''ad'') 2 (Some tag) 1 [] 0 st = (True, p, 5, st')"
    unfolding e
    by (simp add: DecryptAEAD_def DecryptAEAD_text_def AEAD_start_def sim_evp_def sim_new_def sim_free_def sim_init_def sim_update_def sim_final_def
        sim_cctrl_def sim_on_def aead0_def int_cast_def size_cast_def put_def scf_const Let_def SSL_SUCCESS_def)
  have "(2 :: nat) \<le> INT32_MAX" "(1 :: nat) \<le> INT32_MAX" by (simp_all add: scf_const)
  from aead_sound [OF sim_aead_laws this(1,1,2), THEN conjunct2, rule_format, OF d] have "take 5 p = take 5 ct"
    by (auto simp: sim_seal_def)
  then have "take 5 p = ''hello''" using e(2) by simp
  with e(1) d show ?thesis unfolding st0_def by blast
qed

section \<open>The life cycle of the provider engine\<close>

text \<open>The library contexts and provider references that are held; loading a provider twice gives two references.\<close>

definition prov_laws :: "'p prov_api \<Rightarrow> ('p \<Rightarrow> addr multiset) \<Rightarrow> bool" where
  "prov_laws api held \<longleftrightarrow>
     (\<forall>new st. pv_LIB_CTX_new api = Some new \<longrightarrow>
        held (snd (new st)) = (case fst (new st) of None \<Rightarrow> held st | Some a \<Rightarrow> add_mset a (held st))) \<and>
     (\<forall>c n st. held (snd (pv_PROVIDER_load api c n st)) =
        (case fst (pv_PROVIDER_load api c n st) of None \<Rightarrow> held st | Some a \<Rightarrow> add_mset a (held st))) \<and>
     (\<forall>a st. held (pv_LIB_CTX_free api a st) = held st - {#a#} \<and> held (pv_PROVIDER_unload api a st) = held st - {#a#})"

lemma prov_lawsD:
  assumes "prov_laws api held"
  shows "pv_LIB_CTX_new api = Some new \<Longrightarrow> new st = (p, st') \<Longrightarrow> held st' = (case p of None \<Rightarrow> held st | Some a \<Rightarrow> add_mset a (held st))"
    "pv_PROVIDER_load api c n st = (p, st') \<Longrightarrow> held st' = (case p of None \<Rightarrow> held st | Some a \<Rightarrow> add_mset a (held st))"
    "held (pv_LIB_CTX_free api a st) = held st - {#a#}" "held (pv_PROVIDER_unload api a st) = held st - {#a#}"
  using assms unfolding prov_laws_def by (metis fst_conv snd_conv)+

text \<open>The calls on the engine; what a delegated operation returns does not matter for the engine.\<close>

inductive kae_step :: "'p prov_api \<Rightarrow> KAEProviderEngine \<times> 'p \<Rightarrow> KAEProviderEngine \<times> 'p \<Rightarrow> bool" for api where
  ks_initialize: "kae_Initialize api config e st = (r, e', st') \<Longrightarrow> kae_step api (e, st) (e', st')"
| ks_finalize: "kae_Finalize api e st = (e', st') \<Longrightarrow> kae_step api (e, st) (e', st')"
| ks_operation: "kae_delegate oom e () = Some (r, e') \<Longrightarrow> kae_step api (e, st) (e', st)"

definition opt_mset :: "ptr \<Rightarrow> addr multiset" where
  "opt_mset p = (case p of None \<Rightarrow> {#} | Some a \<Rightarrow> {#a#})"

text \<open>\<^verbatim>\<open>others\<close>: what the rest of the process holds.\<close>

definition kae_inv :: "('p \<Rightarrow> addr multiset) \<Rightarrow> addr multiset \<Rightarrow> KAEProviderEngine \<times> 'p \<Rightarrow> bool" where
  "kae_inv held others s \<longleftrightarrow> (case s of (e, st) \<Rightarrow>
     held st = others + opt_mset (ke_libCtx e) + opt_mset (ke_defaultProv e) + opt_mset (ke_kaeProv e) \<and> kae_wf e)"

lemma kae_new_inv: "kae_inv held (held st) (KAEProviderEngine_new cfg, st)"
  by (simp add: kae_inv_def kae_wf_def KAEProviderEngine_new_def opt_mset_def)

lemma kae_Initialize_inv:
  assumes "prov_laws api held" "kae_inv held others (e, st)" "kae_Initialize api config e st = (r, e', st')"
  shows "kae_inv held others (e', st')"
proof (cases "ke_initialized e")
  case True
  then show ?thesis using assms(2,3) by (simp add: kae_Initialize_def)
next
  case False
  then have off: "ke_libCtx e = None" "ke_defaultProv e = None" "ke_kaeProv e = None" "\<not> ke_kaeLoaded e" "held st = others"
    using assms(2) by (auto simp: kae_inv_def kae_wf_def opt_mset_def)
  show ?thesis
  proof (cases "pv_LIB_CTX_new api")
    case None
    then show ?thesis using assms(3) False off by (auto simp: kae_Initialize_def kae_inv_def kae_wf_def opt_mset_def Let_def)
  next
    case (Some new)
    obtain c st1 where c: "new st = (c, st1)" by (metis prod.exhaust)
    note h1 = prov_lawsD(1) [OF assms(1) Some c]
    show ?thesis
    proof (cases c)
      case None
      then show ?thesis using assms(3) False off h1 by (auto simp: kae_Initialize_def Some c kae_inv_def kae_wf_def opt_mset_def Let_def)
    next
      case (Some a)
      obtain d st2 where d: "pv_PROVIDER_load api a ''default'' st1 = (d, st2)" by (metis prod.exhaust)
      note h2 = prov_lawsD(2) [OF assms(1) d]
      note run = kae_Initialize_def \<open>pv_LIB_CTX_new api = Some new\<close> c Some d Let_def
      show ?thesis
      proof (cases d)
        case None
        then show ?thesis using assms(3) False off h1 h2 Some prov_lawsD(3) [OF assms(1)] by (auto simp: run kae_inv_def kae_wf_def opt_mset_def)
      next
        case (Some b)
        show ?thesis
          using assms(3) False off h1 h2 Some \<open>c = Some a\<close> prov_lawsD(2) [OF assms(1)]
          by (auto simp: run LoadKAEProvider_def kae_inv_def kae_wf_def opt_mset_def split: prod.splits if_splits option.splits)
      qed
    qed
  qed
qed

lemma kae_Finalize_inv:
  assumes "prov_laws api held" "kae_inv held others (e, st)" "kae_Finalize api e st = (e', st')"
  shows "kae_inv held others (e', st') \<and> \<not> ke_initialized e' \<and> held st' = others"
proof (cases "ke_initialized e")
  case False
  then show ?thesis using assms(2,3) by (auto simp: kae_Finalize_def kae_inv_def kae_wf_def opt_mset_def)
next
  case True
  then show ?thesis
    using assms(2,3) prov_lawsD(3,4) [OF assms(1)]
    by (auto simp: kae_Finalize_def ReleaseFallbackEngine_def kae_inv_def kae_wf_def opt_mset_def Let_def split: option.splits)
qed

lemma kae_step_inv:
  assumes "kae_step api s s'" "prov_laws api held" "kae_inv held others s"
  shows "kae_inv held others s'"
  using assms(1)
proof cases
  case (ks_initialize config e st r e' st')
  then show ?thesis using kae_Initialize_inv [OF assms(2) _ ks_initialize(3)] assms(3) by simp
next
  case (ks_finalize e st e' st')
  then show ?thesis using kae_Finalize_inv [OF assms(2) _ ks_finalize(3)] assms(3) by simp
next
  case (ks_operation oom e r e' st)
  then show ?thesis using assms(3)
    by (auto simp: kae_delegate_def GetFallbackEngine_def kae_inv_def kae_wf_def Let_def split: if_splits option.splits)
qed

interpretation kae_sys: invariant_system "kae_step api" "\<lambda>s. prov_laws api held \<longrightarrow> kae_inv held others s" for api held others
  by unfold_locales (blast intro: kae_step_inv)

text \<open>C34: The provider engine holds exactly what its members name.  After any sequence of initialisations (failed or
  repeated ones included), finalisations and delegated operations: the engine offers a library context exactly
  when it is initialised, it reports hardware acceleration exactly when the provider is loaded, and its
  finalisation gives back every context and provider reference it took, each once, after which the adaptor
  creates its TLS contexts the default way.  Only the fallback engine of an engine that is not initialised survives
  the finalisation: the code returns before releasing it.\<close>

theorem kae_lifecycle:
  assumes "prov_laws api held" "(kae_step api)\<^sup>*\<^sup>* (KAEProviderEngine_new cfg, st0) (e, st)"
  shows "(ke_initialized e \<longleftrightarrow> kae_GetProviderContext e \<noteq> None) \<and>
    (kae_IsHardwareAccelerated e \<longleftrightarrow> ke_kaeProv e \<noteq> None) \<and> (kae_IsHardwareAccelerated e \<longrightarrow> ke_initialized e) \<and>
    held (snd (kae_Finalize api e st)) = held st0 \<and>
    create_ssl_ctx (ad\<lparr>ad_cryptoEngine := Some (kae_GetProviderContext (fst (kae_Finalize api e st)))\<rparr>) m lib = SSL_CTX_new (ad_ssl ad) m lib \<and>
    ke_fallbackEngine (fst (kae_Finalize api e st)) = (if ke_initialized e then None else ke_fallbackEngine e)"
proof -
  have inv: "kae_inv held (held st0) (e, st)"
    using kae_sys.inv_steps [OF assms(2), of held "held st0"] kae_new_inv [of held st0 cfg] assms(1) by blast
  then have wf: "kae_wf e" by (simp add: kae_inv_def)
  have "held (snd (kae_Finalize api e st)) = held st0"
    using kae_Finalize_inv [OF assms(1) inv] by (metis prod.collapse)
  moreover have "ke_fallbackEngine (fst (kae_Finalize api e st)) = (if ke_initialized e then None else ke_fallbackEngine e)"
    by (simp add: kae_Finalize_def ReleaseFallbackEngine_def Let_def)
  moreover have "create_ssl_ctx (ad\<lparr>ad_cryptoEngine := Some (kae_GetProviderContext (fst (kae_Finalize api e st)))\<rparr>) m lib = SSL_CTX_new (ad_ssl ad) m lib"
    by (rule kae_engine.finalised_engine_unused [OF wf])
  ultimately show ?thesis
    using wf unfolding kae_wf_def kae_GetProviderContext_def kae_IsHardwareAccelerated_def by blast
qed

text \<open>A system with the default provider only.\<close>

definition sim_prov :: "addr multiset prov_api" where
  "sim_prov = \<lparr> pv_LIB_CTX_new = Some (\<lambda>st. (Some 1, add_mset 1 st)), pv_LIB_CTX_free = (\<lambda>a st. st - {#a#}),
     pv_PROVIDER_load = (\<lambda>c n st. if n = ''default'' then (Some 2, add_mset 2 st) else (None, st)),
     pv_PROVIDER_unload = (\<lambda>a st. st - {#a#}) \<rparr>"

theorem kae_lifecycle_witness:
  "\<exists>e st. kae_Initialize sim_prov CryptoEngineConfig_init (KAEProviderEngine_new KAEProviderConfig_init) {#} = (True, e, st) \<and>
     kae_GetProviderContext e \<noteq> None \<and> \<not> kae_IsHardwareAccelerated e \<and> snd (kae_Finalize sim_prov e st) = {#} \<and>
     create_ssl_ctx ((sim_adaptor ''n1'')\<lparr>ad_cryptoEngine := Some (kae_GetProviderContext (fst (kae_Finalize sim_prov e st)))\<rparr>) (Some 2) sim0 =
       SSL_CTX_new sim_ossl (Some 2) sim0"
proof -
  have laws: "prov_laws sim_prov id" by (simp add: prov_laws_def sim_prov_def)
  obtain e st where run: "kae_Initialize sim_prov CryptoEngineConfig_init (KAEProviderEngine_new KAEProviderConfig_init) {#} = (True, e, st)"
    "ke_initialized e" "ke_kaeProv e = None"
    by (simp add: kae_Initialize_def LoadKAEProvider_def KAEProviderEngine_new_def sim_prov_def CryptoEngineConfig_init_def KAEProviderConfig_init_def
        cstr_def NUL_def Let_def)
  have "(kae_step sim_prov)\<^sup>*\<^sup>* (KAEProviderEngine_new KAEProviderConfig_init, {#}) (e, st)"
    by (rule r_into_rtranclp) (rule ks_initialize [OF run(1)])
  from kae_lifecycle [OF laws this, where ad = "sim_adaptor ''n1''" and m = "Some 2" and lib = sim0] run show ?thesis by auto
qed

end
