(* ===== verification/Security_Level.thy ===== *)
theory Security_Level
  imports Connection_Correct Scf_Policy_Correct
begin

text \<open>
  From the security level of a connection to the TLS context: what the set-up of
  \<^verbatim>\<open>connection/scf_connection_impl.cpp\<close> leaves in the library, through the policy functions and the adaptor.
\<close>

text \<open>A call that does not change the context only changes the library.\<close>

lemma ctx_op_const:
  assumes "ctx_op (Some a) (\<lambda>c st. let (r, st1) = f c st in (r, c, st1)) w = Some (r, w')"
  obtains c st where "hp_ctx (cw_heap w) a = Some c" "f (Some c) (cw_lib w) = (r, st)" "w' = w\<lparr>cw_lib := st\<rparr>"
  using assms by (auto simp: ctx_op_def fun_upd_idem split: option.splits prod.splits)

text \<open>Configuring the suites touches nothing else of the TLS context.\<close>

definition suites_law :: "'o ossl_api \<Rightarrow> bool" where
  "suites_law api \<longleftrightarrow> (\<forall>c s st. proto_range api (Some c) (snd (SSL_CTX_set_ciphersuites api (Some c) s st)) = proto_range api (Some c) st)"

lemma SCF_SetCipherSuites_range:
  assumes "suites_law (ad_ssl ad)" "g_adaptor g = Some ad" "ctx_sslConfig c = Some cfg"
    and "SCF_SetCipherSuites g mc alloc (Some c) (Some cs) n st = (r, st')"
  shows "proto_range (ad_ssl ad) (Some cfg) st' = proto_range (ad_ssl ad) (Some cfg) st"
proof -
  have "st' = st \<or> (\<exists>s. st' = snd (SSL_CTX_set_ciphersuites (ad_ssl ad) (Some cfg) s st))"
    using assms(2-4) by (auto simp: SCF_SetCipherSuites_def adaptor_SetCipherSuites_def Let_def split: if_splits option.splits prod.splits)
      (metis snd_conv)+
  then show ?thesis using assms(1) by (auto simp: suites_law_def)
qed

lemma SCF_SetProtocolVersion_range:
  assumes "ssl_ctx_laws (ad_ssl ad)" "g_adaptor g = Some ad" "ctx_sslConfig c = Some cfg"
    and "SCF_SetProtocolVersion g (Some c) mn mx None 0 st = (SCF_SUCCESS, st')"
  shows "proto_range (ad_ssl ad) (Some cfg) st' = (uint mn, uint mx)"
proof -
  have "adaptor_SetProtocolVersion (ad_ssl ad) (Some c) mn mx None 0 st = (SCF_SUCCESS, st')"
    using assms(2,4) by (auto simp: SCF_SetProtocolVersion_def CHECK_SCF_INIT_RET_def errno SCF_SUCCESS_def split: if_splits)
  then show ?thesis by (rule SetProtocolVersion_range [OF assms(1,3)])
qed

text \<open>The configuration that a successful \<^verbatim>\<open>SCF_SetPolicy\<close> with one of the two built-in policies leaves in the context.\<close>

lemma SetPolicy_config:
  assumes "SCF_SetPolicy g (Some c) role vm pm st = (SCF_SUCCESS, Some c', st')" "g_adaptor g = Some ad" "pm \<noteq> SCF_POLICY_CUSTOMER"
  shows "\<exists>cfg. c' = c\<lparr>ctx_role := role, ctx_verifyMode := vm, ctx_policyMode := pm, ctx_sslConfig := Some cfg\<rparr>"
proof -
  let ?c1 = "c\<lparr>ctx_role := role, ctx_verifyMode := vm, ctx_policyMode := pm\<rparr>"
  obtain st1 where ok: "policy_args_ok role vm pm" and i: "InitPolicyByMode ad ?c1 st = (SCF_SUCCESS, c', st1)"
    using SCF_SetPolicy_success [OF assms(1,2)] by blast
  have "pm = SCF_POLICY_HIGH \<or> pm = SCF_POLICY_MIDDLE"
    using ok assms(3) by (auto simp: policy_args_ok_def CheckPolicyMode_def errno SCF_SUCCESS_def split: if_splits)
  then obtain mn mx where "InitSsl ad ?c1 mn mx None 0 st = (SCF_SUCCESS, c', st1)" using i by (auto simp: InitPolicyByMode_def)
  from InitSsl_success [OF this] show ?thesis by blast
qed

text \<open>The steps of \<^verbatim>\<open>SetupPolicy\<close> that matter here.\<close>

lemma SetupPolicy_steps:
  assumes "SetupPolicy io al conn w = Some (SCF_SUCCESS, w')" "m_policyCtx conn = Some a" "g_adaptor (cw_globals w) = Some ad"
  obtains c c' st1 st2 st3 st4 where "hp_ctx (cw_heap w) a = Some c"
    "SCF_SetPolicy (cw_globals w) (Some c) (cc_role (m_config conn)) (MapCertVerifyPolicy (cc_certVerifyPolicy (m_config conn)))
       (sl_policyMode (GetSecurityLevelMapping (cc_securityLevel (m_config conn)))) (cw_lib w) = (SCF_SUCCESS, Some c', st1)"
    "SCF_SetProtocolVersion (cw_globals w) (Some c') (sl_protocolVersionMin (GetSecurityLevelMapping (cc_securityLevel (m_config conn))))
       (sl_protocolVersionMax (GetSecurityLevelMapping (cc_securityLevel (m_config conn)))) None 0 st2 = (SCF_SUCCESS, st3)"
    "st4 = st3 \<or> (\<exists>cs n r. SCF_SetCipherSuites (cw_globals w) (ci_mc io) (ca_suites al) (Some c') (Some cs) n st3 = (r, st4))"
    "cw_lib w' = st4" "hp_ctx (cw_heap w') a = Some c'"
proof -
  let ?g = "cw_globals w" and ?cfg = "m_config conn" and ?m = "GetSecurityLevelMapping (cc_securityLevel (m_config conn))"
  let ?groups = "\<lambda>w1. if m_keyExchangeGroups conn \<noteq> []
          then map_option snd (ctx_op (m_policyCtx conn)
                 (\<lambda>c st. let (r, st1) = SetKeyExchangeGroups (ad_ssl ad) c (m_keyExchangeGroups conn) st in (r, c, st1)) w1)
          else Some w1"
  obtain w1 where p: "ctx_op (Some a) (\<lambda>c st. SCF_SetPolicy ?g c (cc_role ?cfg) (MapCertVerifyPolicy (cc_certVerifyPolicy ?cfg)) (sl_policyMode ?m) st) w
      = Some (SCF_SUCCESS, w1)"
    using assms by (auto simp: SetupPolicy_def Let_def split: option.splits if_splits)
  then obtain c c1 st1 where c: "hp_ctx (cw_heap w) a = Some c"
    and sp1: "SCF_SetPolicy ?g (Some c) (cc_role ?cfg) (MapCertVerifyPolicy (cc_certVerifyPolicy ?cfg)) (sl_policyMode ?m) (cw_lib w) = (SCF_SUCCESS, c1, st1)"
    and e1: "w1 = w\<lparr>cw_heap := (cw_heap w)\<lparr>hp_ctx := (hp_ctx (cw_heap w))(a := c1)\<rparr>, cw_lib := st1\<rparr>"
    by (auto simp: ctx_op_def split: option.splits prod.splits)
  obtain c' where c': "c1 = Some c'" using SCF_SetPolicy_mode [OF sp1] by blast
  note sp = sp1 [unfolded c']
  have w1: "cw_globals w1 = ?g" "hp_ctx (cw_heap w1) a = Some c'" by (simp_all add: e1 c')
  obtain w2 where k: "?groups w1 = Some w2"
    using assms p by (cases "?groups w1") (auto simp: SetupPolicy_def Let_def)
  have w2: "cw_globals w2 = ?g" "hp_ctx (cw_heap w2) a = Some c'"
    using k w1 assms(2) by (auto split: if_splits elim!: ctx_op_const [unfolded Let_def])
  obtain w3 where v: "ctx_op (Some a) (\<lambda>c st. let (r, st1) = SCF_SetProtocolVersion ?g c (sl_protocolVersionMin ?m) (sl_protocolVersionMax ?m) None 0 st
        in (r, c, st1)) w2 = Some (SCF_SUCCESS, w3)" and cs: "SetupCipherSuites io al conn w3 = Some (SCF_SUCCESS, w')"
    using assms p k by (auto simp: SetupPolicy_def Let_def split: option.splits if_splits)
  from v obtain st3 where sv: "SCF_SetProtocolVersion ?g (Some c') (sl_protocolVersionMin ?m) (sl_protocolVersionMax ?m) None 0 (cw_lib w2) = (SCF_SUCCESS, st3)"
    and w3: "w3 = w2\<lparr>cw_lib := st3\<rparr>"
    by (rule ctx_op_const) (use w2 in auto)
  have "(cw_lib w' = st3 \<or> (\<exists>cs n r. SCF_SetCipherSuites ?g (ci_mc io) (ca_suites al) (Some c') (Some cs) n st3 = (r, cw_lib w'))) \<and>
      hp_ctx (cw_heap w') a = Some c'"
  proof (cases "sl_tls13CipherSuites ?m = []")
    case True
    then show ?thesis using cs w2 by (auto simp: SetupCipherSuites_def w3)
  next
    case False
    then have "ctx_op (Some a) (\<lambda>c st. let (r, st1) = SCF_SetCipherSuites ?g (ci_mc io) (ca_suites al) c (Some (sl_tls13CipherSuites ?m))
        (of_nat (length (sl_tls13CipherSuites ?m))) st in (r, c, st1)) w3 = Some (SCF_SUCCESS, w')"
      using cs w2 assms(2) by (simp add: SetupCipherSuites_def w3 Let_def)
    then show ?thesis by (rule ctx_op_const) (use w2 w3 in auto)
  qed
  note last = conjunct1 [OF this] conjunct2 [OF this]
  from that [OF c sp sv last(1) refl last(2)] show thesis .
qed

text \<open>The two ends of the version range of a level.\<close>

definition level_range :: "SCF_SECURITY_LEVEL \<Rightarrow> int \<times> int" where
  "level_range level = (if level = SCF_SECURITY_112BIT then TLS1_2_VERSION else TLS1_3_VERSION, TLS1_3_VERSION)"

lemma mapping_range:
  "(uint (sl_protocolVersionMin (GetSecurityLevelMapping level)), uint (sl_protocolVersionMax (GetSecurityLevelMapping level))) = level_range level"
  by (cases level) (simp_all add: level_range_def Make112bitMapping_def Make128bitMapping_def Make192bitMapping_def Make256bitMapping_def
      Make128bitPQMapping_def Make256bitPQMapping_def SCF_SSL_VERSION_TLS12_def SCF_SSL_VERSION_TLS13_def TLS1_2_VERSION_def TLS1_3_VERSION_def)


lemma sim_suites_law: "suites_law sim_ossl"
  by (simp add: suites_law_def sim_ossl_def proto_range_def SSL_CTX_get_min_proto_version_def SSL_CTX_get_max_proto_version_def)

text \<open>A connection of the 256-bit level over the small TLS library.\<close>

definition sim_setup_conn :: "unit SCFConnectionImpl" where
  "sim_setup_conn = (SCFConnectionImpl_new (SCFConnectionConfig_init\<lparr>cc_securityLevel := SCF_SECURITY_256BIT_PQ\<rparr>))\<lparr>m_policyCtx := Some 100\<rparr>"

definition sim_setup_io :: "(unit, unit) conn_io" where
  "sim_setup_io = \<lparr> ci_transport = undefined, ci_engine = undefined, ci_os = plain_os, ci_crypto = undefined, ci_mc = memcpy_s_ref, ci_ms = memset_s_ref \<rparr>"

definition sim_alloc :: conn_alloc where
  "sim_alloc = \<lparr> ca_ctx = Some 100, ca_obj = Some 200, ca_pskObj = None, ca_suites = (\<lambda>n. Some (zero_buf n)), ca_file = undefined, ca_now = (0, 0) \<rparr>"

lemma sim_SetPolicy:
  "\<exists>st. SCF_SetPolicy sim_globals (Some (the (SCF_CreatePolicyCtx sim_globals False))) SCF_ROLE_CLIENT 13 SCF_POLICY_HIGH sim0 =
     (SCF_SUCCESS, Some ((the (SCF_CreatePolicyCtx sim_globals False))\<lparr>ctx_role := SCF_ROLE_CLIENT, ctx_verifyMode := 13, ctx_policyMode := SCF_POLICY_HIGH,
        ctx_sslConfig := Some 10\<rparr>), st)"
  by (simp add: SCF_CreatePolicyCtx_def SCF_SetPolicy_def CheckRole_def CheckVerifyMode_def CheckPolicyMode_def SCF_VERIFY_DEFAULT_def
        InitPolicyByMode_def InitSsl_def CalGetSslMethod_def create_ssl_ctx_def sim_adaptor_def sim_ossl_def Let_def
        SSL_CTX_set_session_cache_mode_def SSL_CTX_get_session_cache_mode_def SSL_SESS_CACHE_OFF_def FreeSsl_def
        adaptor_SetProtocolVersion_def SSL_CTX_set_min_proto_version_def SSL_CTX_set_max_proto_version_def SSL_SUCCESS_def
        adaptor_SetVerifyMode_def SCF_VERIFY_PEER_def SCF_VERIFY_FAIL_IF_NO_PEER_CERT_def SCF_VERIFY_MODE_NONE_def sim0_def)


lemma sim_SetProtocolVersion:
  assumes "ctx_role c \<noteq> SCF_ROLE_NONE" "ctx_sslConfig c = Some 10"
  shows "\<exists>st1. SCF_SetProtocolVersion sim_globals (Some c) SCF_SSL_VERSION_TLS13 SCF_SSL_VERSION_TLS13 None 0 st = (SCF_SUCCESS, st1)"
  using assms
  by (simp add: SCF_SetProtocolVersion_def adaptor_SetProtocolVersion_def sim_ossl_def SSL_CTX_set_min_proto_version_def
      SSL_CTX_set_max_proto_version_def SSL_SUCCESS_def CHECK_SCF_INIT_RET_def)

lemma sim_SetCipherSuites:
  assumes "ctx_role c \<noteq> SCF_ROLE_NONE"
  shows "\<exists>st1. SCF_SetCipherSuites sim_globals mc (\<lambda>n. Some (zero_buf n)) (Some c) (Some [0x1302]) 1 st = (SCF_SUCCESS, st1)"
  using assms
  by (simp add: SCF_SetCipherSuites_def adaptor_SetCipherSuites_def sim_ossl_def SSL_SUCCESS_def CHECK_SCF_INIT_RET_def
      GetCipherSuitesStrLen_def CipherId2CipherStr_def scf_const Let_def)


end
