(* ===== verification/Aead_Roundtrip.thy ===== *)
theory Aead_Roundtrip
  imports Crypto_Engine_Correct "HOL-Library.Sublist"
begin

text \<open>
  Authenticated encryption of \<^verbatim>\<open>crypto/default_crypto_engine.cpp\<close> as a round trip: with a library whose calls succeed when
  their documented preconditions hold, \<^verbatim>\<open>EncryptAEAD\<close> succeeds and \<^verbatim>\<open>DecryptAEAD\<close> gives the text back, and only for the
  authentic tag.
\<close>

section \<open>Documented preconditions\<close>

text \<open>The cipher: it keeps the length, is injective in the text, and has a tag of 16 bytes.\<close>

definition seal_ok :: "seal_fn \<Rightarrow> bool" where
  "seal_ok seal \<longleftrightarrow> (\<forall>c k iv aad p. length (fst (seal c k iv aad p)) = length p \<and> length (snd (seal c k iv aad p)) = 16 \<and>
     (\<forall>p'. fst (seal c k iv aad p') = fst (seal c k iv aad p) \<longrightarrow> p' = p))"

text \<open>Not every cipher mode can be driven by one sequence of calls, and each has its nonce lengths: \<^verbatim>\<open>modes\<close> gives the lengths that a
  cipher accepts, none for a mode with another protocol (CCM wants the tag and the total length first).  A session is ready for
  data once cipher, nonce length, key and nonce are set.\<close>

type_synonym aead_modes = "addr \<Rightarrow> nat set"

definition ready :: "aead_modes \<Rightarrow> aead_session \<Rightarrow> bool" where
  "ready modes s \<longleftrightarrow> as_ivLen s \<in> int ` modes (as_cipher s) \<and> as_key s \<noteq> None \<and> as_iv s \<noteq> None"

definition setup_total :: "aead_modes \<Rightarrow> ('e \<Rightarrow> addr \<Rightarrow> aead_session option) \<Rightarrow> (addr \<Rightarrow> ptr \<Rightarrow> string option \<Rightarrow> string option \<Rightarrow> 'e \<Rightarrow> int \<times> 'e)
    \<Rightarrow> (addr \<Rightarrow> bool \<Rightarrow> string option \<Rightarrow> int \<Rightarrow> 'e \<Rightarrow> int \<times> string \<times> int \<times> 'e) \<Rightarrow> bool" where
  "setup_total modes sess init update \<longleftrightarrow> (\<forall>a st s. sess st a = Some s \<longrightarrow>
     (\<forall>c. s = aead0 \<and> modes c \<noteq> {} \<longrightarrow> (\<exists>st'. init a (Some c) None None st = (1, st'))) \<and>
     (\<forall>k iv. as_ivLen s \<in> int ` modes (as_cipher s) \<longrightarrow> (\<exists>st'. init a None (Some k) (Some iv) st = (1, st'))) \<and>
     (\<forall>b d n. ready modes s \<and> as_in s = [] \<and> as_out s = [] \<and> n \<le> length d \<and> n \<le> INT32_MAX \<longrightarrow>
        (\<exists>out l st'. update a b (Some d) (int n) st = (1, out, l, st'))))"

definition ctrl_total :: "aead_modes \<Rightarrow> seal_fn \<Rightarrow> ('e \<Rightarrow> addr \<Rightarrow> aead_session option) \<Rightarrow> (addr \<Rightarrow> int \<Rightarrow> int \<Rightarrow> string option \<Rightarrow> 'e \<Rightarrow> int \<times> string \<times> 'e) \<Rightarrow> bool" where
  "ctrl_total modes seal sess ctrl \<longleftrightarrow> (\<forall>a st s n. sess st a = Some s \<longrightarrow>
     (n \<in> modes (as_cipher s) \<longrightarrow> (\<exists>out st'. ctrl a EVP_CTRL_AEAD_SET_IVLEN (int n) None st = (1, out, st'))) \<and>
     (ready modes s \<and> 0 < n \<and> n \<le> 16 \<longrightarrow>
        (as_out s = fst (seal_with seal s (as_in s)) \<longrightarrow> (\<exists>out st'. ctrl a EVP_CTRL_AEAD_GET_TAG (int n) None st = (1, out, st'))) \<and>
        (\<forall>d. n \<le> length d \<longrightarrow> (\<exists>out st'. ctrl a EVP_CTRL_AEAD_SET_TAG (int n) (Some d) st = (1, out, st')))))"

text \<open>What the update functions write is a prefix of the result, and the final functions then complete it; for a decryption
  there has to be a text with the given cipher text and tag.\<close>

definition stream_total :: "aead_modes \<Rightarrow> seal_fn \<Rightarrow> ('e \<Rightarrow> addr \<Rightarrow> aead_session option) \<Rightarrow> 'e evp_api \<Rightarrow> bool" where
  "stream_total modes seal sess api \<longleftrightarrow> (\<forall>a s st. sess st a = Some s \<longrightarrow> ready modes s \<longrightarrow>
     (\<forall>d n r out l st'. as_in s = [] \<longrightarrow> as_out s = [] \<longrightarrow> ev_EncryptUpdate api a True (Some d) n st = (r, out, l, st') \<longrightarrow>
        prefix out (fst (seal_with seal s (take (nat n) d)))) \<and>
     (\<forall>d n r out l st' p. as_in s = [] \<longrightarrow> as_out s = [] \<longrightarrow> ev_DecryptUpdate api a True (Some d) n st = (r, out, l, st') \<longrightarrow>
        fst (seal_with seal s p) = take (nat n) d \<longrightarrow> prefix out p) \<and>
     (length (as_in s) \<le> INT32_MAX \<longrightarrow> prefix (as_out s) (fst (seal_with seal s (as_in s))) \<longrightarrow> (\<exists>out l st'. ev_EncryptFinal_ex api a st = (1, out, l, st'))) \<and>
     (\<forall>p. length (as_in s) \<le> INT32_MAX \<longrightarrow> prefix (as_out s) p \<longrightarrow> fst (seal_with seal s p) = as_in s \<longrightarrow>
        as_tag s = take (length (as_tag s)) (snd (seal_with seal s p)) \<longrightarrow> (\<exists>out l st'. ev_DecryptFinal_ex api a st = (1, out, l, st'))))"

definition aead_total :: "aead_modes \<Rightarrow> seal_fn \<Rightarrow> ('e \<Rightarrow> addr \<Rightarrow> aead_session option) \<Rightarrow> 'e evp_api \<Rightarrow> bool" where
  "aead_total modes seal sess api \<longleftrightarrow> (\<forall>st. fst (ev_CIPHER_CTX_new api st) \<noteq> None) \<and>
     setup_total modes sess (ev_EncryptInit_ex api) (ev_EncryptUpdate api) \<and> setup_total modes sess (ev_DecryptInit_ex api) (ev_DecryptUpdate api) \<and>
     ctrl_total modes seal sess (ev_CIPHER_CTX_ctrl api) \<and> stream_total modes seal sess api"

lemma setup_totalD:
  assumes "setup_total modes sess init update" "sess st a = Some s"
  shows "s = aead0 \<Longrightarrow> modes c \<noteq> {} \<Longrightarrow> \<exists>st'. init a (Some c) None None st = (1, st')"
    "as_ivLen s \<in> int ` modes (as_cipher s) \<Longrightarrow> \<exists>st'. init a None (Some k) (Some iv) st = (1, st')"
    "ready modes s \<Longrightarrow> as_in s = [] \<Longrightarrow> as_out s = [] \<Longrightarrow> n \<le> length d \<Longrightarrow> n \<le> INT32_MAX \<Longrightarrow> \<exists>out l st'. update a b (Some d) (int n) st = (1, out, l, st')"
  using assms unfolding setup_total_def by blast+

lemma ctrl_totalD:
  assumes "ctrl_total modes seal sess ctrl" "sess st a = Some s"
  shows "n \<in> modes (as_cipher s) \<Longrightarrow> \<exists>out st'. ctrl a EVP_CTRL_AEAD_SET_IVLEN (int n) None st = (1, out, st')"
    "ready modes s \<Longrightarrow> as_out s = fst (seal_with seal s (as_in s)) \<Longrightarrow> 0 < n \<Longrightarrow> n \<le> 16 \<Longrightarrow> \<exists>out st'. ctrl a EVP_CTRL_AEAD_GET_TAG (int n) None st = (1, out, st')"
    "ready modes s \<Longrightarrow> 0 < n \<Longrightarrow> n \<le> 16 \<Longrightarrow> n \<le> length d \<Longrightarrow> \<exists>out st'. ctrl a EVP_CTRL_AEAD_SET_TAG (int n) (Some d) st = (1, out, st')"
  using assms unfolding ctrl_total_def by blast+

lemma stream_totalD:
  assumes "stream_total modes seal sess api" "sess st a = Some s" "ready modes s"
  shows "as_in s = [] \<Longrightarrow> as_out s = [] \<Longrightarrow> ev_EncryptUpdate api a True (Some d) n st = (r, out, l, st') \<Longrightarrow>
      prefix out (fst (seal_with seal s (take (nat n) d)))"
    "as_in s = [] \<Longrightarrow> as_out s = [] \<Longrightarrow> ev_DecryptUpdate api a True (Some d) n st = (r, out, l, st') \<Longrightarrow>
      fst (seal_with seal s p) = take (nat n) d \<Longrightarrow> prefix out p"
    "length (as_in s) \<le> INT32_MAX \<Longrightarrow> prefix (as_out s) (fst (seal_with seal s (as_in s))) \<Longrightarrow> \<exists>out l st'. ev_EncryptFinal_ex api a st = (1, out, l, st')"
    "length (as_in s) \<le> INT32_MAX \<Longrightarrow> prefix (as_out s) p \<Longrightarrow> fst (seal_with seal s p) = as_in s \<Longrightarrow> as_tag s = take (length (as_tag s)) (snd (seal_with seal s p)) \<Longrightarrow>
      \<exists>out l st'. ev_DecryptFinal_ex api a st = (1, out, l, st')"
  using assms unfolding stream_total_def by blast+

section \<open>The operations succeed\<close>

text \<open>The arguments a caller has to respect: every length is within its buffer and an int, the vector is not empty.\<close>

definition aead_args :: "string \<Rightarrow> nat \<Rightarrow> string option \<Rightarrow> nat \<Rightarrow> bool" where
  "aead_args iv ivLen aad aadLen \<longleftrightarrow> 0 < ivLen \<and> ivLen \<le> length iv \<and> ivLen \<le> INT32_MAX \<and> aadLen \<le> INT32_MAX \<and> (\<forall>d. aad = Some d \<longrightarrow> aadLen \<le> length d)"

lemma AEAD_start_succeeds:
  assumes "setup_total modes sess (init api) (update api)" "ctrl_total modes seal sess (ev_CIPHER_CTX_ctrl api)"
    and laws: "init_law sess (init api)" "update_law sess (update api)" "ctrl_law seal sess (ev_CIPHER_CTX_ctrl api)"
    and "sess st a = Some aead0" "aead_args iv ivLen aad aadLen" "ivLen \<in> modes cipher"
  shows "\<exists>st'. AEAD_start init update api a cipher (Some k) (Some iv) ivLen aad aadLen st = (True, st')"
proof -
  have len: "0 < ivLen" "ivLen \<le> INT32_MAX" "aadLen \<le> INT32_MAX" using assms(7) by (simp_all add: aead_args_def)
  obtain st1 where i1: "init api a (Some cipher) None None st = (1, st1)" using setup_totalD(1) [OF assms(1,6)] assms(8) by blast
  note s1 = init_lawD(1) [OF laws(1) assms(6) i1]
  obtain o2 st2 where c2: "ev_CIPHER_CTX_ctrl api a EVP_CTRL_AEAD_SET_IVLEN (int ivLen) None st1 = (1, o2, st2)"
    using ctrl_totalD(1) [OF assms(2) s1] assms(8) by fastforce
  note s2 = ctrl_lawD(1) [OF laws(3) s1 c2]
  obtain st3 where i3: "init api a None (Some k) (Some iv) st2 = (1, st3)" using setup_totalD(2) [OF assms(1) s2] assms(8) by fastforce
  note s3 = init_lawD(2) [OF laws(1) s2 i3]
  note run = AEAD_start_def i1 int_cast_small [OF len(2)] int_cast_small [OF len(3)] c2 i3 Let_def SSL_SUCCESS_def
  show ?thesis
  proof (cases "\<exists>d. aad = Some d \<and> 0 < aadLen")
    case True
    then obtain d where d: "aad = Some d" "0 < aadLen" by blast
    then obtain o4 l4 st4 where "update api a False (Some d) (int aadLen) st3 = (1, o4, l4, st4)"
      using setup_totalD(3) [OF assms(1) s3 _ _ _ _ len(3)] assms(7,8) by (fastforce simp: aead_args_def ready_def aead0_def)
    then show ?thesis using d by (simp add: run)
  next
    case False
    then show ?thesis by (auto simp: run)
  qed
qed

lemma EncryptAEAD_text_succeeds:
  assumes laws: "aead_laws seal sess api" and tot: "aead_total modes seal sess api"
    and s: "sess st a = Some s" "as_in s = []" "as_out s = []" and r: "ready modes s"
    and len: "plen \<le> length p" "plen \<le> INT32_MAX" "0 < tlen" "tlen \<le> 16"
  shows "\<exists>ct' n tag' st'. EncryptAEAD_text api a (Some p) plen ct cl tag tlen st = (True, ct', n, tag', st')"
proof -
  have tots: "setup_total modes sess (ev_EncryptInit_ex api) (ev_EncryptUpdate api)" "ctrl_total modes seal sess (ev_CIPHER_CTX_ctrl api)" "stream_total modes seal sess api"
    using tot by (simp_all add: aead_total_def)
  obtain o1 l1 st1 where u: "ev_EncryptUpdate api a True (Some p) (int plen) st = (1, o1, l1, st1)"
    using setup_totalD(3) [OF tots(1) s(1) r s(2,3) len(1,2)] by blast
  have s1: "sess st1 a = Some (s\<lparr>as_in := take plen p, as_out := o1\<rparr>)"
    using update_lawD(2) [OF aead_lawsD(4) [OF laws] s(1) u] s(2,3) by simp
  have "prefix o1 (fst (seal_with seal s (take plen p)))" using stream_totalD(1) [OF tots(3) s(1) r s(2,3) u] by simp
  then obtain o2 l2 st2 where f: "ev_EncryptFinal_ex api a st1 = (1, o2, l2, st2)"
    using stream_totalD(3) [OF tots(3) s1] r len(1,2) by (auto simp: seal_with_def min_absorb2 ready_def)
  let ?s2 = "s\<lparr>as_in := take plen p, as_out := o1 @ o2\<rparr>"
  have s2: "sess st2 a = Some ?s2" and "o1 @ o2 = fst (seal_with seal s (take plen p))"
    using final_lawD(1) [OF aead_lawsD(7) [OF laws] s1 f] by (simp_all add: seal_with_def)
  then have full: "ready modes ?s2" "as_out ?s2 = fst (seal_with seal ?s2 (as_in ?s2))" using r by (simp_all add: ready_def seal_with_def)
  obtain o3 st3 where g: "ev_CIPHER_CTX_ctrl api a EVP_CTRL_AEAD_GET_TAG (int tlen) None st2 = (1, o3, st3)"
    using ctrl_totalD(2) [OF tots(2) s2 full len(3,4)] by blast
  have "int_cast plen = int plen" "int_cast tlen = int tlen" using len by (simp_all add: int_cast_small scf_const)
  then show ?thesis using len(2) by (simp add: EncryptAEAD_text_def u f g SSL_SUCCESS_def)
qed

lemma DecryptAEAD_text_succeeds:
  assumes laws: "aead_laws seal sess api" and tot: "aead_total modes seal sess api"
    and s: "sess st a = Some s" "as_in s = []" "as_out s = []" and r: "ready modes s"
    and len: "clen \<le> length c" "clen \<le> INT32_MAX" "0 < tlen" "tlen \<le> 16" "tlen \<le> length tag"
    and auth: "fst (seal_with seal s p) = take clen c" "take tlen tag = take tlen (snd (seal_with seal s p))"
  shows "\<exists>p' n st'. DecryptAEAD_text api a (Some c) clen (Some tag) tlen p0 pl st = (True, p', n, st')"
proof -
  have tots: "setup_total modes sess (ev_DecryptInit_ex api) (ev_DecryptUpdate api)" "ctrl_total modes seal sess (ev_CIPHER_CTX_ctrl api)" "stream_total modes seal sess api"
    using tot by (simp_all add: aead_total_def)
  obtain o1 l1 st1 where u: "ev_DecryptUpdate api a True (Some c) (int clen) st = (1, o1, l1, st1)"
    using setup_totalD(3) [OF tots(1) s(1) r s(2,3) len(1,2)] by blast
  have s1: "sess st1 a = Some (s\<lparr>as_in := take clen c, as_out := o1\<rparr>)"
    using update_lawD(2) [OF aead_lawsD(5) [OF laws] s(1) u] s(2,3) by simp
  have pre: "prefix o1 p" using stream_totalD(2) [OF tots(3) s(1) r s(2,3) u] auth(1) by simp
  obtain o2 st2 where g: "ev_CIPHER_CTX_ctrl api a EVP_CTRL_AEAD_SET_TAG (int tlen) (Some tag) st1 = (1, o2, st2)"
    using ctrl_totalD(3) [OF tots(2) s1 _ len(3-5)] r by (auto simp: ready_def)
  have s2: "sess st2 a = Some (s\<lparr>as_in := take clen c, as_out := o1, as_tag := take tlen tag\<rparr>)"
    using ctrl_lawD(2) [OF aead_lawsD(6) [OF laws] s1 g] by simp
  have same: "seal_with seal (s\<lparr>as_in := x, as_out := y, as_tag := z\<rparr>) q = seal_with seal s q" for x y z q by (simp add: seal_with_def)
  let ?s2 = "s\<lparr>as_in := take clen c, as_out := o1, as_tag := take tlen tag\<rparr>"
  have fields: "as_in ?s2 = take clen c" "as_out ?s2 = o1" "as_tag ?s2 = take tlen tag" by simp_all
  have r2: "ready modes ?s2" using r by (simp add: ready_def)
  have "length (take clen c) \<le> INT32_MAX" using len(2) by simp
  moreover have "take tlen tag = take (length (take tlen tag)) (snd (seal_with seal s p))" using auth(2) len(5) by (metis length_take min_absorb2)
  ultimately obtain o3 l3 st3 where f: "ev_DecryptFinal_ex api a st2 = (1, o3, l3, st3)"
    using stream_totalD(4) [OF tots(3) s2 r2, of p, unfolded same fields] pre auth(1) by blast
  have "int_cast clen = int clen" "int_cast tlen = int tlen" using len by (simp_all add: int_cast_small scf_const)
  then show ?thesis using len(2) by (simp add: DecryptAEAD_text_def u f g SSL_SUCCESS_def)
qed

section \<open>The round trip\<close>

lemma seal_okD:
  assumes "seal_ok seal"
  shows "length (fst (seal_with seal s p)) = length p" "length (snd (seal_with seal s p)) = 16"
    "fst (seal_with seal s p') = fst (seal_with seal s p) \<Longrightarrow> p' = p"
  using assms unfolding seal_ok_def seal_with_def by blast+

text \<open>The session after the common start, for an encryption and for a decryption.\<close>

definition started :: "addr \<Rightarrow> string \<Rightarrow> string \<Rightarrow> nat \<Rightarrow> string option \<Rightarrow> nat \<Rightarrow> aead_session" where
  "started cipher key iv ivLen aad aadLen =
     aead0\<lparr>as_cipher := cipher, as_ivLen := int ivLen, as_key := Some key, as_iv := Some iv, as_aad := aad_bytes aad aadLen\<rparr>"

lemma EncryptAEAD_run:
  assumes laws: "aead_laws seal sess api" and tot: "aead_total modes seal sess api" and args: "aead_args iv ivLen aad aadLen"
    and cipher: "MapSymmetricAlgo api algo = Some cipher" "ivLen \<in> modes cipher"
  shows "\<exists>a st2. sess st2 a = Some (started cipher key iv ivLen aad aadLen) \<and>
    EncryptAEAD api algo (Some key) (Some iv) ivLen p plen aad aadLen ct cl tag tlen st =
      (let (ok, ct1, n, tag1, st3) = EncryptAEAD_text api a p plen ct cl tag tlen st2 in (ok, ct1, n, tag1, ev_CIPHER_CTX_free api a st3))"
proof -
  obtain a st1 where new: "ev_CIPHER_CTX_new api st = (Some a, st1)" using tot unfolding aead_total_def by (metis option.exhaust prod.collapse)
  note s0 = aead_lawsD(1) [OF laws new] and L = aead_lawsD(2,4,6) [OF laws]
  have T: "setup_total modes sess (ev_EncryptInit_ex api) (ev_EncryptUpdate api)" "ctrl_total modes seal sess (ev_CIPHER_CTX_ctrl api)"
    using tot by (simp_all add: aead_total_def)
  obtain st2 where go: "AEAD_start ev_EncryptInit_ex ev_EncryptUpdate api a cipher (Some key) (Some iv) ivLen aad aadLen st1 = (True, st2)"
    using AEAD_start_succeeds [where init = ev_EncryptInit_ex and update = ev_EncryptUpdate, OF T L s0 args cipher(2)] by blast
  have "sess st2 a = Some (started cipher key iv ivLen aad aadLen)"
    unfolding started_def by (rule AEAD_start_session [OF L s0 _ _ go]) (use args in \<open>simp_all add: aead_args_def\<close>)
  then show ?thesis using new go cipher(1) by (intro exI [of _ a] exI [of _ st2]) (simp add: EncryptAEAD_def case_prod_beta Let_def)
qed

lemma DecryptAEAD_run:
  assumes laws: "aead_laws seal sess api" and tot: "aead_total modes seal sess api" and args: "aead_args iv ivLen aad aadLen"
    and cipher: "MapSymmetricAlgo api algo = Some cipher" "ivLen \<in> modes cipher"
  shows "\<exists>a st2. sess st2 a = Some (started cipher key iv ivLen aad aadLen) \<and>
    DecryptAEAD api algo (Some key) (Some iv) ivLen c clen aad aadLen tag tlen p pl st =
      (let (ok, p1, n, st3) = DecryptAEAD_text api a c clen tag tlen p pl st2 in (ok, p1, n, ev_CIPHER_CTX_free api a st3))"
proof -
  obtain a st1 where new: "ev_CIPHER_CTX_new api st = (Some a, st1)" using tot unfolding aead_total_def by (metis option.exhaust prod.collapse)
  note s0 = aead_lawsD(1) [OF laws new] and L = aead_lawsD(3,5,6) [OF laws]
  have T: "setup_total modes sess (ev_DecryptInit_ex api) (ev_DecryptUpdate api)" "ctrl_total modes seal sess (ev_CIPHER_CTX_ctrl api)"
    using tot by (simp_all add: aead_total_def)
  obtain st2 where go: "AEAD_start ev_DecryptInit_ex ev_DecryptUpdate api a cipher (Some key) (Some iv) ivLen aad aadLen st1 = (True, st2)"
    using AEAD_start_succeeds [where init = ev_DecryptInit_ex and update = ev_DecryptUpdate, OF T L s0 args cipher(2)] by blast
  have "sess st2 a = Some (started cipher key iv ivLen aad aadLen)"
    unfolding started_def by (rule AEAD_start_session [OF L s0 _ _ go]) (use args in \<open>simp_all add: aead_args_def\<close>)
  then show ?thesis using new go cipher(1) by (intro exI [of _ a] exI [of _ st2]) (simp add: DecryptAEAD_def case_prod_beta Let_def)
qed

lemma started_ready: "ivLen \<in> modes cipher \<Longrightarrow> ready modes (started cipher key iv ivLen aad aadLen)"
  by (simp add: ready_def started_def)

lemma started_fresh: "as_in (started cipher key iv ivLen aad aadLen) = []" "as_out (started cipher key iv ivLen aad aadLen) = []"
  by (simp_all add: started_def aead0_def)


text \<open>Decryption of a cipher text of \<^verbatim>\<open>text\<close>: it succeeds with the tag of the text, and only with it.\<close>

lemma AEAD_accepted:
  assumes "aead_laws seal sess api" "aead_total modes seal sess api" "MapSymmetricAlgo api algo = Some cipher" "aead_args iv ivLen aad aadLen" "seal_ok seal"
    and "take clen c = fst (seal_with seal (started cipher key iv ivLen aad aadLen) p)" "tlen \<le> length tag" "tlen \<le> INT32_MAX"
    and "DecryptAEAD api algo (Some key) (Some iv) ivLen (Some c) clen aad aadLen (Some tag) tlen p0 pl st = (True, p1, n, st')" and iv: "ivLen \<in> modes cipher"
  shows "take n p1 = p \<and> n = length p \<and> take tlen tag = take tlen (snd (seal_with seal (started cipher key iv ivLen aad aadLen) p))"
proof -
  let ?s = "started cipher key iv ivLen aad aadLen"
  obtain a st2 where a: "sess st2 a = Some ?s" and dec: "DecryptAEAD api algo (Some key) (Some iv) ivLen (Some c) clen aad aadLen (Some tag) tlen p0 pl st =
      (let (ok, p1, n, st3) = DecryptAEAD_text api a (Some c) clen (Some tag) tlen p0 pl st2 in (ok, p1, n, ev_CIPHER_CTX_free api a st3))"
    using DecryptAEAD_run [OF assms(1,2,4,3) iv] by blast
  obtain st3 where run: "DecryptAEAD_text api a (Some c) clen (Some tag) tlen p0 pl st2 = (True, p1, n, st3)"
    using dec assms(9) by (auto simp: case_prod_beta prod_eq_iff)
  have d: "fst (seal_with seal ?s (take n p1)) = take clen c" "n \<le> length p1" "take tlen tag = take tlen (snd (seal_with seal ?s (take n p1)))"
    using DecryptAEAD_text_authentic [OF assms(1) a started_fresh assms(8) run] assms(7) by (simp_all add: min_absorb2)
  have "take n p1 = p" using seal_okD(3) [OF assms(5)] d(1) assms(6) by metis
  then show ?thesis using d(2,3) by auto
qed

lemma AEAD_decrypts:
  assumes "aead_laws seal sess api" "aead_total modes seal sess api" "MapSymmetricAlgo api algo = Some cipher" "aead_args iv ivLen aad aadLen" "seal_ok seal"
    and "take plen c = fst (seal_with seal (started cipher key iv ivLen aad aadLen) (take plen p))" "plen \<le> length c"
    and "take tlen tag = take tlen (snd (seal_with seal (started cipher key iv ivLen aad aadLen) (take plen p)))" "tlen \<le> length tag"
    and "plen \<le> length p" "plen \<le> INT32_MAX" "0 < tlen" "tlen \<le> 16" and iv: "ivLen \<in> modes cipher"
  shows "\<exists>p1 st'. DecryptAEAD api algo (Some key) (Some iv) ivLen (Some c) plen aad aadLen (Some tag) tlen p0 pl st = (True, p1, plen, st') \<and>
    take plen p1 = take plen p"
proof -
  let ?s = "started cipher key iv ivLen aad aadLen"
  obtain a st2 where a: "sess st2 a = Some ?s" and dec: "DecryptAEAD api algo (Some key) (Some iv) ivLen (Some c) plen aad aadLen (Some tag) tlen p0 pl st =
      (let (ok, p1, n, st3) = DecryptAEAD_text api a (Some c) plen (Some tag) tlen p0 pl st2 in (ok, p1, n, ev_CIPHER_CTX_free api a st3))"
    using DecryptAEAD_run [OF assms(1,2,4,3) iv] by blast
  obtain p1 n st3 where "DecryptAEAD_text api a (Some c) plen (Some tag) tlen p0 pl st2 = (True, p1, n, st3)"
    using DecryptAEAD_text_succeeds [OF assms(1,2) a started_fresh started_ready [where modes = modes, OF iv] assms(7,11,12,13,9) assms(6) [symmetric] assms(8)] by blast
  then have run: "DecryptAEAD api algo (Some key) (Some iv) ivLen (Some c) plen aad aadLen (Some tag) tlen p0 pl st = (True, p1, n, ev_CIPHER_CTX_free api a st3)"
    using dec by simp
  have "tlen \<le> INT32_MAX" using assms(13) by (simp add: scf_const)
  from AEAD_accepted [OF assms(1-6,9) this run iv] run show ?thesis using assms(10) by auto
qed

lemma AEAD_rejects:
  assumes "aead_laws seal sess api" "aead_total modes seal sess api" "MapSymmetricAlgo api algo = Some cipher" "aead_args iv ivLen aad aadLen" "seal_ok seal"
    and "take clen c = fst (seal_with seal (started cipher key iv ivLen aad aadLen) p)" "tlen \<le> length tag" "tlen \<le> INT32_MAX"
    and "take tlen tag \<noteq> take tlen (snd (seal_with seal (started cipher key iv ivLen aad aadLen) p))" and iv: "ivLen \<in> modes cipher"
  shows "\<not> fst (DecryptAEAD api algo (Some key) (Some iv) ivLen (Some c) clen aad aadLen (Some tag) tlen p0 pl st)"
  using AEAD_accepted [OF assms(1-8) _ iv, of p0 pl st] assms(9) by (metis prod.collapse)




text \<open>A library for the witness: the cipher leaves the text alone and its tag is the beginning of key and additional data,
  filled up to 16 bytes.\<close>

definition mac_seal :: seal_fn where
  "mac_seal c k iv aad p = (p, take 16 (k @ aad @ replicate 16 (CHR ''.'')))"

definition mac_final :: "bool \<Rightarrow> addr \<Rightarrow> sim_evp_state \<Rightarrow> int \<times> string \<times> int \<times> sim_evp_state" where
  "mac_final dec a st =
     (case snd st a of None \<Rightarrow> (0, [], 0, st)
      | Some s \<Rightarrow>
          let out = drop (length (as_out s)) (as_in s) in
          if prefix (as_out s) (as_in s) \<and> length out \<le> INT32_MAX \<and>
             (dec \<longrightarrow> as_tag s = take (length (as_tag s)) (snd (seal_with mac_seal s (as_in s))))
          then (1, out, int (length out), (fst st, (snd st)(a \<mapsto> s\<lparr>as_out := as_in s\<rparr>))) else (0, [], 0, st))"

definition mac_ctrl :: "addr \<Rightarrow> int \<Rightarrow> int \<Rightarrow> string option \<Rightarrow> sim_evp_state \<Rightarrow> int \<times> string \<times> sim_evp_state" where
  "mac_ctrl a c n d st =
     (let (r, st1) = sim_on a (\<lambda>s. Some (if c = EVP_CTRL_AEAD_SET_IVLEN then s\<lparr>as_ivLen := n\<rparr>
          else if c = EVP_CTRL_AEAD_SET_TAG then s\<lparr>as_tag := take (nat n) (the d)\<rparr> else s)) st in
      (r, (case snd st a of None \<Rightarrow> [] | Some s \<Rightarrow> take (nat n) (snd (seal_with mac_seal s (as_in s)))), st1))"

definition mac_evp :: "sim_evp_state evp_api" where
  "mac_evp = sim_evp\<lparr>ev_EncryptFinal_ex := mac_final False, ev_DecryptFinal_ex := mac_final True, ev_CIPHER_CTX_ctrl := mac_ctrl,
     ev_CIPHER_CTX_new := (\<lambda>st. (Some (fst st), fst st + 1, (snd st)(fst st \<mapsto> aead0)))\<rparr>"

lemma mac_seal_ok: "seal_ok mac_seal"
  by (auto simp: seal_ok_def mac_seal_def min_def)

lemma mac_evp_simps [simp]:
  "ev_EncryptInit_ex mac_evp = sim_init" "ev_DecryptInit_ex mac_evp = sim_init" "ev_EncryptUpdate mac_evp = sim_update" "ev_DecryptUpdate mac_evp = sim_update"
  "ev_EncryptFinal_ex mac_evp = mac_final False" "ev_DecryptFinal_ex mac_evp = mac_final True" "ev_CIPHER_CTX_ctrl mac_evp = mac_ctrl"
  "ev_CIPHER_CTX_new mac_evp st = (Some (fst st), fst st + 1, (snd st)(fst st \<mapsto> aead0))"
  by (simp_all add: mac_evp_def sim_evp_def)

lemma mac_laws: "aead_laws mac_seal snd mac_evp"
proof -
  have "init_law snd sim_init"
    by (auto simp: init_law_def sim_init_def dest: sim_on_cases)
  moreover have "update_law snd sim_update"
    by (auto simp: update_law_def sim_update_def Let_def split: prod.splits if_splits dest!: sim_on_cases)
  moreover have "ctrl_law mac_seal snd mac_ctrl"
    by (auto simp: ctrl_law_def mac_ctrl_def scf_const Let_def split: prod.splits dest!: sim_on_cases)
  moreover have "final_law mac_seal snd mac_evp"
    by (auto simp: final_law_def mac_final_def mac_seal_def seal_with_def scf_const Let_def prefix_def split: if_splits)
  ultimately show ?thesis by (auto simp: aead_laws_def)
qed

lemma mac_total: "aead_total (\<lambda>c. {12}) mac_seal snd mac_evp"
proof -
  have "setup_total (\<lambda>c. {12}) snd sim_init sim_update"
    by (auto simp: setup_total_def sim_init_def sim_update_def sim_on_def scf_const Let_def)
  moreover have "ctrl_total (\<lambda>c. {12}) mac_seal snd mac_ctrl"
    by (auto simp: ctrl_total_def mac_ctrl_def sim_on_def scf_const Let_def)
  moreover have "stream_total (\<lambda>c. {12}) mac_seal snd mac_evp"
    by (auto simp: stream_total_def mac_final_def mac_seal_def seal_with_def sim_update_def scf_const Let_def split: prod.splits)
  ultimately show ?thesis by (simp add: aead_total_def)
qed


end
