(* ===== verification/Engine_Sharing.thy ===== *)
theory Engine_Sharing
  imports Security_Level
begin

text \<open>
  Who owns the crypto engine.  A listener creates an engine and owns it; a connection that \<^verbatim>\<open>Accept\<close> returns
  uses the same engine without owning it.  The lemmas \<^verbatim>\<open>\<dots>_engines\<close> say which operations leave the set of
  live engines alone; the property at the end is the life time of the shared engine.
\<close>

section \<open>Operations that leave the engines alone\<close>

named_theorems engine_frame

lemma ctx_op_engines [engine_frame]: "ctx_op p f w = Some (r, w') \<Longrightarrow> cw_engines w' = cw_engines w"
  by (auto simp: ctx_op_def Let_def split: option.splits prod.splits)

lemma obj_op_engines [engine_frame]: "obj_op p f w = Some (r, w') \<Longrightarrow> cw_engines w' = cw_engines w"
  by (auto simp: obj_op_def Let_def split: option.splits prod.splits)

lemma SetCryptoEngine_engines [simp]: "cw_engines (adaptor_SetCryptoEngine e w) = cw_engines w"
  by (simp add: adaptor_SetCryptoEngine_def)

lemma LoadFile_engines:
  assumes "\<And>fc w r w'. use fc w = Some (r, w') \<Longrightarrow> cw_engines w' = cw_engines w"
    and "LoadFile io me path pwd use w = Some (r, w')"
  shows "cw_engines w' = cw_engines w"
  using assms by (auto simp: LoadFile_def Let_def split: option.splits prod.splits if_splits)

lemma add_cert_engines: "add_cert io conn t fc w = Some (r, w') \<Longrightarrow> cw_engines w' = cw_engines w"
  by (auto simp: add_cert_def split: option.splits)

lemma set_key_engines: "set_key conn fc w = Some (r, w') \<Longrightarrow> cw_engines w' = cw_engines w"
  unfolding set_key_def by (erule ctx_op_engines)

lemma load_engines [engine_frame]:
  "LoadFile io me path pwd (add_cert io conn t) w = Some (r, w') \<Longrightarrow> cw_engines w' = cw_engines w"
  "LoadFile io me path pwd (set_key conn) w = Some (r, w') \<Longrightarrow> cw_engines w' = cw_engines w"
  by (erule LoadFile_engines [rotated], erule add_cert_engines) (erule LoadFile_engines [rotated], erule set_key_engines)

lemma SetupCertificates_engines [engine_frame]: "SetupCertificates io al conn w = Some (r, w') \<Longrightarrow> cw_engines w' = cw_engines w"
  by (auto simp: SetupCertificates_def Let_def dest!: load_engines split: option.splits prod.splits if_splits)

lemma SetupPSK_engines [engine_frame]: "SetupPSK io al conn w = Some (r, w') \<Longrightarrow> cw_engines w' = cw_engines w"
  by (auto simp: SetupPSK_def Let_def split: if_splits prod.splits list.splits option.splits)

lemma SetupCredentials_engines [engine_frame]: "SetupCredentials io al conn w = Some (r, w') \<Longrightarrow> cw_engines w' = cw_engines w"
  by (auto simp: SetupCredentials_def Let_def dest!: engine_frame split: option.splits prod.splits if_splits)

lemma SetupCipherSuites_engines [engine_frame]: "SetupCipherSuites io al conn w = Some (r, w') \<Longrightarrow> cw_engines w' = cw_engines w"
  by (auto simp: SetupCipherSuites_def Let_def dest!: ctx_op_engines split: if_splits)

lemma SetupPolicy_engines [engine_frame]: "SetupPolicy io al conn w = Some (r, w') \<Longrightarrow> cw_engines w' = cw_engines w"
  by (auto simp: SetupPolicy_def Let_def dest!: engine_frame split: option.splits prod.splits if_splits)

lemma SetupCryptoEngine_reuse:
  "m_cryptoEngine conn = Some e \<Longrightarrow>
     SetupCryptoEngine io conn w = (None, conn, adaptor_SetCryptoEngine (Some (ie_Provider (ci_engine io) e (cw_sys w))) w)"
  by (simp add: SetupCryptoEngine_def)

lemma SetupPolicyContext_engines:
  assumes "SetupPolicyContext io al conn w = Some (r, conn', w')" "m_cryptoEngine conn = Some e"
  shows "cw_engines w' = cw_engines w \<and> m_cryptoEngine conn' = Some e \<and> m_ownsCryptoEngine conn' = m_ownsCryptoEngine conn"
proof -
  define w1 where "w1 = adaptor_SetCryptoEngine (Some (ie_Provider (ci_engine io) e (cw_sys w))) w"
  have w1: "cw_engines w1 = cw_engines w" by (simp add: w1_def)
  show ?thesis
  proof (cases "SCF_CreatePolicyCtx (cw_globals w1) (ca_ctx al = None)")
    case None
    then show ?thesis using assms w1 by (auto simp: SetupPolicyContext_def SetupCryptoEngine_reuse w1_def [symmetric])
  next
    case (Some c)
    define conn2 where "conn2 = conn\<lparr>m_policyCtx := ca_ctx al, m_postQuantumResistant := sl_postQuantumResistant (GetSecurityLevelMapping (cc_securityLevel (m_config conn))),
                  m_keyExchangeGroups := sl_keyExchangeGroups (GetSecurityLevelMapping (cc_securityLevel (m_config conn)))\<rparr>"
    define w2 where "w2 = w1\<lparr>cw_heap := (cw_heap w1)\<lparr>hp_ctx := (hp_ctx (cw_heap w1))(the (ca_ctx al) \<mapsto> c)\<rparr>\<rparr>"
    have run: "(case SetupPolicy io al conn2 w2 of
             None \<Rightarrow> None
           | Some (r, w3) \<Rightarrow>
               if r \<noteq> SCF_SUCCESS then Some (r, conn2, w3)
               else map_option (\<lambda>(r, w4). (r, conn2, w4)) (SetupCredentials io al conn2 w3)) = Some (r, conn', w')"
      using assms(1) unfolding SetupPolicyContext_def SetupCryptoEngine_reuse [OF assms(2)] w1_def [symmetric] conn2_def w2_def
      by (simp add: Some Let_def)
    then obtain r3 w3 where pol: "SetupPolicy io al conn2 w2 = Some (r3, w3)" by (auto split: option.splits)
    have w3: "w' = w3 \<or> SetupCredentials io al conn2 w3 = Some (r, w')" "conn' = conn2"
      using run pol by (auto split: if_splits)
    have "cw_engines w3 = cw_engines w" using SetupPolicy_engines [OF pol] w1 by (simp add: w2_def)
    moreover have "cw_engines w' = cw_engines w3" using w3(1) SetupCredentials_engines by metis
    ultimately show ?thesis using w3(2) assms(2) by (simp add: conn2_def)
  qed
qed

lemma CreatePolicyObj_engines:
  assumes "CreatePolicyObj io al conn w = Some (r, conn', w')"
  shows "cw_engines w' = cw_engines w \<and> m_cryptoEngine conn' = m_cryptoEngine conn \<and> m_ownsCryptoEngine conn' = m_ownsCryptoEngine conn"
  using assms by (auto simp: CreatePolicyObj_def Let_def dest!: obj_op_engines split: option.splits if_splits)

lemma HandshakeStep_engines:
  assumes "HandshakeStep conn w = Some (r, conn', w')"
  shows "cw_engines w' = cw_engines w \<and> m_cryptoEngine conn' = m_cryptoEngine conn \<and> m_ownsCryptoEngine conn' = m_ownsCryptoEngine conn"
proof (cases "m_policyObj conn")
  case None
  then show ?thesis using assms by (simp add: HandshakeStep_def)
next
  case (Some o1)
  let ?f = "\<lambda>b c st. if m_isServer conn then SCF_Accept (cw_globals w) b c st else SCF_Connect (cw_globals w) b c st"
  obtain r1 w1 where op: "obj_op (Some o1) ?f w = Some (r1, w1)"
    using assms Some by (auto simp: HandshakeStep_def split: option.splits)
  have "w' = w1 \<and> m_cryptoEngine conn' = m_cryptoEngine conn \<and> m_ownsCryptoEngine conn' = m_ownsCryptoEngine conn"
    using assms Some op by (auto simp: HandshakeStep_def Let_def split: if_splits)
  then show ?thesis using obj_op_engines [OF op] by simp
qed

lemma conn_Close_engines:
  assumes "conn_Close io conn w = Some (r, conn', w')"
  shows "cw_engines w' = cw_engines w \<and> m_cryptoEngine conn' = m_cryptoEngine conn \<and> m_ownsCryptoEngine conn' = m_ownsCryptoEngine conn"
proof (cases "m_state conn = SCF_CONN_CLOSED \<or> m_state conn = SCF_CONN_CLOSING")
  case True
  then show ?thesis using assms by (auto simp: conn_Close_def)
next
  case False
  let ?close = "if m_policyObj conn \<noteq> None
              then obj_op (m_policyObj conn) (\<lambda>b c st. let (r, st1) = SCF_Close (cw_globals w) b st in (r, b, c, st1)) w
              else Some (SCF_SUCCESS, w)"
  obtain r1 w1 where op: "?close = Some (r1, w1)"
    using assms False by (cases "m_policyObj conn") (auto simp: conn_Close_def Let_def split: option.splits)
  then have "cw_engines w1 = cw_engines w" by (auto dest!: obj_op_engines split: if_splits)
  moreover have "cw_engines w' = cw_engines w1 \<and> m_cryptoEngine conn' = m_cryptoEngine conn \<and> m_ownsCryptoEngine conn' = m_ownsCryptoEngine conn"
    using assms False op by (cases "m_policyObj conn") (auto simp: conn_Close_def Let_def split: option.splits prod.splits)
  ultimately show ?thesis by simp
qed

section \<open>Who releases an engine\<close>

lemma Cleanup_engines:
  assumes "Cleanup io conn w = Some (conn', w')"
  shows "cw_engines w' = (if m_ownsCryptoEngine conn then cw_engines w - set_option (m_cryptoEngine conn) else cw_engines w)"
proof -
  obtain conn1 w1 where c: "(if m_state conn = SCF_CONN_CONNECTED \<or> m_state conn = SCF_CONN_CONNECTING
            then map_option snd (conn_Close io conn w) else Some (conn, w)) = Some (conn1, w1)"
    using assms by (auto simp: Cleanup_def split: option.splits)
  then have f: "cw_engines w1 = cw_engines w" "m_cryptoEngine conn1 = m_cryptoEngine conn" "m_ownsCryptoEngine conn1 = m_ownsCryptoEngine conn"
    by (auto dest!: conn_Close_engines split: if_splits)
  show ?thesis unfolding f [symmetric] using assms
    by (auto simp: Cleanup_def c Let_def simp del: not_None_eq split: option.splits prod.splits if_splits)
qed

text \<open>C29: The crypto engine lives as long as the listener that created it.  A connection that \<^verbatim>\<open>Accept\<close>
  returns refers to the listener's engine, which is alive at that moment, without owning it.  Cleaning up the accepted
  connection (what its destructor does) keeps the engine, but cleaning up the listener destroys it: the accepted connection
  then still holds a pointer to a destroyed engine, so a program must not release a listener before
  the connections it accepted.\<close>

theorem engine_ownership:
  assumes "conn_Accept io al oom l w = Some (Some n, w1)" "m_cryptoEngine l = Some e" "m_ownsCryptoEngine l" "e \<in> cw_engines w"
  shows "m_cryptoEngine n = Some e \<and> \<not> m_ownsCryptoEngine n \<and> e \<in> cw_engines w1 \<and>
    (\<forall>n' w2. Cleanup io n w1 = Some (n', w2) \<longrightarrow> cw_engines w2 = cw_engines w1) \<and>
    (\<forall>l' w2. Cleanup io l w1 = Some (l', w2) \<longrightarrow> cw_engines w2 = cw_engines w - {e} \<and> the (m_cryptoEngine n) \<notin> cw_engines w2)"
  using assms(1)
proof (rule conn_Accept_cases)
  fix n1 v2 n2 v3 n3 v4 r3 n4
  assume start: "cw_engines v2 = cw_engines w" "m_cryptoEngine n1 = m_cryptoEngine l" "\<not> m_ownsCryptoEngine n1"
    and s: "SetupPolicyContext io al n1 v2 = Some (SCF_SUCCESS, n2, v3)" and c: "CreatePolicyObj io al n2 v3 = Some (SCF_SUCCESS, n3, v4)"
    and h: "HandshakeStep n3 v4 = Some (r3, n4, w1)"
    and n: "n = n4\<lparr>m_state := SCF_CONN_CONNECTING\<rparr> \<or> r3 = SCF_SUCCESS \<and> n = n4\<lparr>m_state := SCF_CONN_CONNECTED, m_handshakeDone := True\<rparr>"
  have "m_cryptoEngine n1 = Some e" using start assms(2) by simp
  from SetupPolicyContext_engines [OF s this] CreatePolicyObj_engines [OF c] HandshakeStep_engines [OF h] n start
  have kept: "m_cryptoEngine n = Some e" "\<not> m_ownsCryptoEngine n" "cw_engines w1 = cw_engines w" by auto
  then show ?thesis using assms(2,3,4) by (auto dest!: Cleanup_engines)
qed

text \<open>A listener of the 256-bit level with a live engine of its own (at address 7), over the small TLS library.\<close>

definition sim_listener :: "unit SCFConnectionImpl" where
  "sim_listener = (SCFConnectionImpl_new (SCFConnectionConfig_init\<lparr>cc_securityLevel := SCF_SECURITY_256BIT_PQ, cc_role := SCF_ROLE_SERVER\<rparr>))
     \<lparr>m_transport := Some (), m_cryptoEngine := Some 7, m_ownsCryptoEngine := True\<rparr>"

definition sim_accept_io :: "(unit, unit) conn_io" where
  "sim_accept_io = \<lparr> ci_transport = \<lparr> it_Create = (\<lambda>s. (Some (), s)), it_SetConfig = (\<lambda>t c s. (TR_SUCCESS, t, s)),
       it_Connect = (\<lambda>t a c s. (TR_SUCCESS, t, s)), it_Bind = (\<lambda>t a n s. (TR_SUCCESS, t, s)), it_Accept = (\<lambda>t s. (Some (), s)),
       it_Close = (\<lambda>t s. (t, s)), it_GetNativeHandle = (\<lambda>t. 5) \<rparr>,
     ci_engine = \<lparr> ie_Create = (\<lambda>s. (Some 7, s)), ie_Initialize = (\<lambda>e s. (True, s)), ie_Finalize = (\<lambda>e s. s), ie_Provider = (\<lambda>e s. None) \<rparr>,
     ci_os = plain_os, ci_crypto = \<lparr> decryptFunction = None, encryptFunction = None \<rparr>, ci_mc = memcpy_s_ref, ci_ms = memset_s_ref \<rparr>"

definition sim_accept_world :: "(sim_state, unit) conn_world" where
  "sim_accept_world = sim_world\<lparr>cw_heap := \<lparr> hp_ctx = Map.empty, hp_obj = Map.empty \<rparr>, cw_engines := {7}\<rparr>"

definition sim_accept_globals :: "sim_state OpenSSLAdaptor scf_globals" where
  "sim_accept_globals = sim_globals\<lparr>g_adaptor := Some ((sim_adaptor ''n1'')\<lparr>ad_cryptoEngine := Some None\<rparr>)\<rparr>"

definition sim_server_ctx :: SCFPolicyCtx where
  "sim_server_ctx = (the (SCF_CreatePolicyCtx sim_globals False))\<lparr>ctx_role := SCF_ROLE_SERVER, ctx_verifyMode := 13, ctx_policyMode := SCF_POLICY_HIGH,
        ctx_sslConfig := Some 10\<rparr>"

lemma sim_accept_globals_simps [simp]:
  "g_scfInitialized sim_accept_globals" "g_adaptor sim_accept_globals = Some ((sim_adaptor ''n1'')\<lparr>ad_cryptoEngine := Some None\<rparr>)"
  by (simp_all add: sim_accept_globals_def)

lemma sim_server_ctx_simps [simp]:
  "ctx_role sim_server_ctx = SCF_ROLE_SERVER" "ctx_sslConfig sim_server_ctx = Some 10"
  by (simp_all add: sim_server_ctx_def)

definition sim_tls13 :: "sim_state \<Rightarrow> bool" where
  "sim_tls13 st \<longleftrightarrow> sim_opts st = ucast SSL_OP_NO_RENEGOTIATION \<and> sim_min st = TLS1_3_VERSION \<and> sim_max st = TLS1_3_VERSION"

lemma sim_server_SetPolicy:
  "\<exists>st. SCF_SetPolicy sim_accept_globals (Some (the (SCF_CreatePolicyCtx sim_globals False))) SCF_ROLE_SERVER 13 SCF_POLICY_HIGH sim0 =
     (SCF_SUCCESS, Some sim_server_ctx, st) \<and> sim_opts st = ucast SSL_OP_NO_RENEGOTIATION"
  by (simp add: sim_server_ctx_def SCF_CreatePolicyCtx_def SCF_SetPolicy_def CheckRole_def CheckVerifyMode_def CheckPolicyMode_def SCF_VERIFY_DEFAULT_def
        InitPolicyByMode_def InitSsl_def CalGetSslMethod_def create_ssl_ctx_def sim_adaptor_def sim_ossl_def Let_def
        SSL_CTX_set_session_cache_mode_def SSL_CTX_get_session_cache_mode_def SSL_SESS_CACHE_OFF_def FreeSsl_def
        adaptor_SetProtocolVersion_def SSL_CTX_set_min_proto_version_def SSL_CTX_set_max_proto_version_def SSL_SUCCESS_def
        adaptor_SetVerifyMode_def SCF_VERIFY_PEER_def SCF_VERIFY_FAIL_IF_NO_PEER_CERT_def SCF_VERIFY_MODE_NONE_def sim0_def)

lemma sim_server_SetProtocolVersion:
  "\<exists>st1. SCF_SetProtocolVersion sim_accept_globals (Some sim_server_ctx) SCF_SSL_VERSION_TLS13 SCF_SSL_VERSION_TLS13 None 0 st = (SCF_SUCCESS, st1) \<and>
     sim_opts st1 = sim_opts st \<and> sim_min st1 = TLS1_3_VERSION \<and> sim_max st1 = TLS1_3_VERSION"
  by (simp add: SCF_SetProtocolVersion_def adaptor_SetProtocolVersion_def sim_ossl_def SSL_CTX_set_min_proto_version_def
      SSL_CTX_set_max_proto_version_def SSL_SUCCESS_def CHECK_SCF_INIT_RET_def SCF_SSL_VERSION_TLS13_def TLS1_3_VERSION_def)

lemma sim_server_SetCipherSuites:
  "\<exists>st1. SCF_SetCipherSuites sim_accept_globals mc (\<lambda>n. Some (zero_buf n)) (Some sim_server_ctx) (Some [0x1302]) 1 st = (SCF_SUCCESS, st1) \<and>
     sim_opts st1 = sim_opts st \<and> sim_min st1 = sim_min st \<and> sim_max st1 = sim_max st"
  by (simp add: SCF_SetCipherSuites_def adaptor_SetCipherSuites_def sim_ossl_def SSL_SUCCESS_def CHECK_SCF_INIT_RET_def
      GetCipherSuitesStrLen_def CipherId2CipherStr_def scf_const Let_def)

definition sim_accept_conn :: "unit SCFConnectionImpl" where
  "sim_accept_conn = sim_listener\<lparr>m_ownsCryptoEngine := False, m_policyCtx := Some 100, m_postQuantumResistant := True,
     m_keyExchangeGroups := sl_keyExchangeGroups Make256bitPQMapping\<rparr>"

abbreviation sim_ctx_world :: "SCFPolicyCtx \<Rightarrow> sim_state \<Rightarrow> (sim_state, unit) conn_world" where
  "sim_ctx_world c st \<equiv> \<lparr> cw_globals = sim_accept_globals, cw_heap = \<lparr> hp_ctx = [100 \<mapsto> c], hp_obj = Map.empty \<rparr>, cw_lib = st, cw_sys = (), cw_engines = {7} \<rparr>"

lemma sim_server_SetupPolicy:
  "\<exists>st. SetupPolicy sim_accept_io sim_alloc sim_accept_conn (sim_ctx_world (the (SCF_CreatePolicyCtx sim_globals False)) sim0) =
     Some (SCF_SUCCESS, sim_ctx_world sim_server_ctx st) \<and> sim_tls13 st"
proof -
  let ?c = "the (SCF_CreatePolicyCtx sim_globals False)"
  obtain st1 where s1: "SCF_SetPolicy sim_accept_globals (Some ?c) SCF_ROLE_SERVER 13 SCF_POLICY_HIGH sim0 = (SCF_SUCCESS, Some sim_server_ctx, st1)"
      "sim_opts st1 = ucast SSL_OP_NO_RENEGOTIATION"
    using sim_server_SetPolicy by blast
  obtain st2 where s2: "SetKeyExchangeGroups sim_ossl (Some sim_server_ctx) (sl_keyExchangeGroups Make256bitPQMapping) st1 = (SCF_SUCCESS, st2)"
      "sim_opts st2 = sim_opts st1"
    by (simp add: SetKeyExchangeGroups_def Make256bitPQMapping_def SSL_CTX_set1_groups_list_def sim_ossl_def Let_def)
  obtain st3 where s3: "SCF_SetProtocolVersion sim_accept_globals (Some sim_server_ctx) SCF_SSL_VERSION_TLS13 SCF_SSL_VERSION_TLS13 None 0 st2 = (SCF_SUCCESS, st3)"
      "sim_opts st3 = sim_opts st2" "sim_min st3 = TLS1_3_VERSION" "sim_max st3 = TLS1_3_VERSION"
    using sim_server_SetProtocolVersion by blast
  obtain st4 where s4: "SCF_SetCipherSuites sim_accept_globals memcpy_s_ref (\<lambda>n. Some (zero_buf n)) (Some sim_server_ctx) (Some [0x1302]) 1 st3 = (SCF_SUCCESS, st4)"
      "sim_opts st4 = sim_opts st3" "sim_min st4 = sim_min st3" "sim_max st4 = sim_max st3"
    using sim_server_SetCipherSuites by blast
  have cfg: "m_policyCtx sim_accept_conn = Some 100" "m_keyExchangeGroups sim_accept_conn = sl_keyExchangeGroups Make256bitPQMapping"
    "cc_role (m_config sim_accept_conn) = SCF_ROLE_SERVER" "cc_securityLevel (m_config sim_accept_conn) = SCF_SECURITY_256BIT_PQ"
    "MapCertVerifyPolicy (cc_certVerifyPolicy (m_config sim_accept_conn)) = 13"
    by (simp_all add: sim_accept_conn_def sim_listener_def SCFConnectionImpl_new_def SCFConnectionConfig_init_def SCF_VERIFY_DEFAULT_def
        SCF_VERIFY_PEER_def SCF_VERIFY_FAIL_IF_NO_PEER_CERT_def)
  have lvl: "sl_policyMode Make256bitPQMapping = SCF_POLICY_HIGH" "sl_protocolVersionMin Make256bitPQMapping = SCF_SSL_VERSION_TLS13"
    "sl_protocolVersionMax Make256bitPQMapping = SCF_SSL_VERSION_TLS13" "sl_tls13CipherSuites Make256bitPQMapping = [0x1302]"
    "sl_keyExchangeGroups Make256bitPQMapping \<noteq> []"
    by (simp_all add: Make256bitPQMapping_def SCF_SSL_AES_256_GCM_SHA384_def)
  have io: "ci_mc sim_accept_io = memcpy_s_ref" "ca_suites sim_alloc = (\<lambda>n. Some (zero_buf n))"
    by (simp_all add: sim_accept_io_def sim_alloc_def)
  show ?thesis
    using s1(2) s2(2) s3(2,3,4) s4 by (simp add: SetupPolicy_def SetupCipherSuites_def ctx_op_def cfg lvl io s1(1) s2(1) s3(1) sim_tls13_def Let_def)
qed

lemma sim_server_setup:
  "\<exists>c st. SetupPolicyContext sim_accept_io sim_alloc (sim_listener\<lparr>m_ownsCryptoEngine := False\<rparr>)
       (sim_accept_world\<lparr>cw_globals := sim_accept_globals\<rparr>) = Some (SCF_SUCCESS, sim_accept_conn, sim_ctx_world c st) \<and>
     ctx_role c = SCF_ROLE_SERVER \<and> ctx_sslConfig c = Some 10 \<and> sim_tls13 st"
proof -
  obtain st where p: "SetupPolicy sim_accept_io sim_alloc sim_accept_conn (sim_ctx_world (the (SCF_CreatePolicyCtx sim_globals False)) sim0) =
     Some (SCF_SUCCESS, sim_ctx_world sim_server_ctx st)" and st: "sim_tls13 st" using sim_server_SetupPolicy by blast
  define c where "c = sim_server_ctx\<lparr>ctx_isNeedKeyUpdate := True, ctx_keyUpdateTime := 300, ctx_keyUpdateTraffic := 1073741824\<rparr>"
  have cred: "SetupCredentials sim_accept_io sim_alloc sim_accept_conn (sim_ctx_world sim_server_ctx st) = Some (SCF_SUCCESS, sim_ctx_world c st)"
      "ctx_role c = SCF_ROLE_SERVER" "ctx_sslConfig c = Some 10"
    by (simp_all add: c_def SetupCredentials_def SetupCertificates_def sim_accept_conn_def sim_listener_def SCFConnectionImpl_new_def SCFConnectionConfig_init_def
        ctx_op_def SCF_SetKeyAutoUpdateParam_def CHECK_SCF_INIT_RET_def scf_const Let_def)
  have ctx: "SCF_CreatePolicyCtx sim_accept_globals False = Some (the (SCF_CreatePolicyCtx sim_globals False))"
    by (simp add: SCF_CreatePolicyCtx_def CHECK_SCF_INIT_RET_def CHECK_SCF_ADAPTOR_RET_def)
  have eng: "SetupCryptoEngine sim_accept_io (sim_listener\<lparr>m_ownsCryptoEngine := False\<rparr>) (sim_accept_world\<lparr>cw_globals := sim_accept_globals\<rparr>) =
      (None, sim_listener\<lparr>m_ownsCryptoEngine := False\<rparr>, sim_accept_world\<lparr>cw_globals := sim_accept_globals\<rparr>)"
    by (simp add: SetupCryptoEngine_def sim_listener_def adaptor_SetCryptoEngine_def sim_accept_io_def sim_accept_globals_def)
  have conn: "(sim_listener\<lparr>m_ownsCryptoEngine := False\<rparr>)\<lparr>m_policyCtx := Some 100, m_postQuantumResistant := True,
      m_keyExchangeGroups := sl_keyExchangeGroups Make256bitPQMapping\<rparr> = sim_accept_conn"
    by (simp add: sim_accept_conn_def)
  have cfg: "cc_securityLevel (m_config sim_listener) = SCF_SECURITY_256BIT_PQ" "sl_postQuantumResistant Make256bitPQMapping" "ca_ctx sim_alloc = Some 100"
    by (simp_all add: sim_listener_def SCFConnectionImpl_new_def Make256bitPQMapping_def sim_alloc_def)
  have w: "sim_accept_world\<lparr>cw_globals := sim_accept_globals, cw_heap := \<lparr> hp_ctx = [100 \<mapsto> c], hp_obj = Map.empty \<rparr>\<rparr> = sim_ctx_world c sim0"
    "cw_heap sim_accept_world = \<lparr> hp_ctx = Map.empty, hp_obj = Map.empty \<rparr>" for c
    by (simp_all add: sim_accept_world_def sim_world_def)
  show ?thesis using cred st by (auto simp: SetupPolicyContext_def eng ctx cfg w conn p)
qed

lemma sim_CheckVersion:
  assumes "sim_tls13 st" "ctx_sslConfig c = Some 10"
  shows "CheckVersion sim_ossl (Some b) (Some c) st = (SSL_SUCCESS, st)"
  using assms
  by (simp add: CheckVersion_def sim_ossl_def sim_tls13_def SSL_CTX_get_min_proto_version_def SSL_CTX_get_max_proto_version_def
      CheckVersion_loop.simps MapVersion2NoOpt_def scf_const Let_def SSL_SUCCESS_def)

lemma sim_server_obj:
  assumes "ctx_role c = SCF_ROLE_SERVER" "ctx_sslConfig c = Some 10" "sim_tls13 st"
  shows "\<exists>c2 b st2. CreatePolicyObj sim_accept_io sim_alloc sim_accept_conn (sim_ctx_world c st) =
      Some (SCF_SUCCESS, sim_accept_conn\<lparr>m_policyObj := Some 200\<rparr>, (sim_ctx_world c2 st2)\<lparr>cw_heap := \<lparr> hp_ctx = [100 \<mapsto> c2], hp_obj = [200 \<mapsto> b] \<rparr>\<rparr>) \<and>
      obj_role b = SCF_ROLE_SERVER \<and> obj_sslCtx b = Some 11 \<and> obj_policyCtx b = Some 100"
proof -
  let ?c1 = "c\<lparr>ctx_refCnt := ctx_refCnt c + 1\<rparr>" and ?b = "new_policy_obj 100 c 0"
  have "adaptor_SetFd sim_ossl 200 (Some ?b) (Some ?c1) 5 st = (SCF_SUCCESS, Some (?b\<lparr>obj_sslCtx := Some 11, obj_fd := 5\<rparr>), st\<lparr>sim_ex := Some 200, sim_fd := 5\<rparr>)"
    using assms by (simp add: adaptor_SetFd_def sim_CheckVersion new_policy_obj_def Let_def) (simp add: sim_ossl_def SSL_SUCCESS_def)
  then have fd: "SCF_SetFd sim_accept_globals 200 (Some ?b) (Some ?c1) 5 st = (SCF_SUCCESS, Some (?b\<lparr>obj_sslCtx := Some 11, obj_fd := 5\<rparr>), st\<lparr>sim_ex := Some 200, sim_fd := 5\<rparr>)"
    using assms(1) by (simp add: SCF_SetFd_def CHECK_SCF_INIT_RET_def new_policy_obj_def)
  have cfg: "m_policyCtx sim_accept_conn = Some 100" "m_transport sim_accept_conn = Some ()" "ca_now sim_alloc = (0, 0)" "ca_obj sim_alloc = Some 200"
    "it_GetNativeHandle (ci_transport sim_accept_io) () = 5"
    by (simp_all add: sim_accept_conn_def sim_listener_def sim_alloc_def sim_accept_io_def)
  have "CreatePolicyObj sim_accept_io sim_alloc sim_accept_conn (sim_ctx_world c st) =
      Some (SCF_SUCCESS, sim_accept_conn\<lparr>m_policyObj := Some 200\<rparr>, (sim_ctx_world ?c1 (st\<lparr>sim_ex := Some 200, sim_fd := 5\<rparr>))
        \<lparr>cw_heap := \<lparr> hp_ctx = [100 \<mapsto> ?c1], hp_obj = [200 \<mapsto> ?b\<lparr>obj_sslCtx := Some 11, obj_fd := 5\<rparr>] \<rparr>\<rparr>)"
    using fd by (simp add: CreatePolicyObj_def SCF_CreatePolicyObj_def CHECK_SCF_INIT_RET_def cfg obj_op_def Let_def) (simp add: new_policy_obj_def)
  moreover have "obj_role (?b\<lparr>obj_sslCtx := Some 11, obj_fd := 5\<rparr>) = SCF_ROLE_SERVER" "obj_sslCtx (?b\<lparr>obj_sslCtx := Some 11, obj_fd := 5\<rparr>) = Some 11"
    "obj_policyCtx (?b\<lparr>obj_sslCtx := Some 11, obj_fd := 5\<rparr>) = Some 100"
    using assms(1) by (simp_all add: new_policy_obj_def)
  ultimately show ?thesis by blast
qed

lemma sim_server_handshake:
  assumes "obj_role b = SCF_ROLE_SERVER" "obj_sslCtx b = Some 11" "obj_policyCtx b = Some 100"
  shows "\<exists>n w'. HandshakeStep (sim_accept_conn\<lparr>m_policyObj := Some 200\<rparr>) ((sim_ctx_world c st)\<lparr>cw_heap := \<lparr> hp_ctx = [100 \<mapsto> c], hp_obj = [200 \<mapsto> b] \<rparr>\<rparr>) =
      Some (SCF_SUCCESS, n, w')"
proof -
  have "SCF_Accept sim_accept_globals (Some b) (Some c) st = (SCF_SUCCESS, Some (b\<lparr>obj_isSetRole := True\<rparr>), FreezeNodeRoleMapping (Some c), st)"
    using assms by (simp add: SCF_Accept_def CHECK_SCF_INIT_RET_def adaptor_Accept_def sim_ossl_def SSL_SUCCESS_def Let_def)
  moreover have "m_isServer sim_accept_conn" by (simp add: sim_accept_conn_def sim_listener_def SCFConnectionImpl_new_def)
  ultimately show ?thesis using assms by (simp add: HandshakeStep_def obj_op_def Let_def)
qed

lemma sim_accept:
  "\<exists>n w. conn_Accept sim_accept_io sim_alloc False sim_listener sim_accept_world = Some (Some n, w)"
proof -
  obtain c st where s: "SetupPolicyContext sim_accept_io sim_alloc (sim_listener\<lparr>m_ownsCryptoEngine := False\<rparr>)
       (sim_accept_world\<lparr>cw_globals := sim_accept_globals\<rparr>) = Some (SCF_SUCCESS, sim_accept_conn, sim_ctx_world c st)"
    and c: "ctx_role c = SCF_ROLE_SERVER" "ctx_sslConfig c = Some 10" and st: "sim_tls13 st"
    using sim_server_setup by blast
  have n0: "(SCFConnectionImpl_new (m_config sim_listener))\<lparr>m_transport := Some (), m_isServer := True, m_cryptoEngine := Some 7, m_ownsCryptoEngine := False\<rparr> =
      sim_listener\<lparr>m_ownsCryptoEngine := False\<rparr>" "m_transport sim_listener = Some ()" "m_isServer sim_listener" "m_cryptoEngine sim_listener = Some 7"
    by (simp_all add: sim_listener_def SCFConnectionImpl_new_def)
  have io: "it_Accept (ci_transport sim_accept_io) = (\<lambda>t s. (Some (), s))" "ie_Provider (ci_engine sim_accept_io) = (\<lambda>e s. None)"
    by (simp_all add: sim_accept_io_def)
  have w: "adaptor_SetCryptoEngine (Some None) (sim_accept_world\<lparr>cw_sys := ()\<rparr>) = sim_accept_world\<lparr>cw_globals := sim_accept_globals\<rparr>"
    by (simp add: adaptor_SetCryptoEngine_def sim_accept_world_def sim_world_def sim_accept_globals_def)
  obtain c2 b st2 where o: "CreatePolicyObj sim_accept_io sim_alloc sim_accept_conn (sim_ctx_world c st) =
      Some (SCF_SUCCESS, sim_accept_conn\<lparr>m_policyObj := Some 200\<rparr>, (sim_ctx_world c2 st2)\<lparr>cw_heap := \<lparr> hp_ctx = [100 \<mapsto> c2], hp_obj = [200 \<mapsto> b] \<rparr>\<rparr>)"
      "obj_role b = SCF_ROLE_SERVER" "obj_sslCtx b = Some 11" "obj_policyCtx b = Some 100"
    using sim_server_obj [OF c st] by blast
  obtain n w' where h: "HandshakeStep (sim_accept_conn\<lparr>m_policyObj := Some 200\<rparr>) ((sim_ctx_world c2 st2)\<lparr>cw_heap := \<lparr> hp_ctx = [100 \<mapsto> c2], hp_obj = [200 \<mapsto> b] \<rparr>\<rparr>) =
      Some (SCF_SUCCESS, n, w')"
    using sim_server_handshake [OF o(2,3,4)] by blast
  show ?thesis using s o(1) h by (simp add: conn_Accept_def n0 io w Let_def SCF_SUCCESS_def errno)
qed

text \<open>The accepted connection uses engine 7 of the listener; releasing the listener leaves no engine alive.\<close>

theorem engine_ownership_witness:
  "\<exists>n w1. conn_Accept sim_accept_io sim_alloc False sim_listener sim_accept_world = Some (Some n, w1) \<and> m_cryptoEngine n = Some 7 \<and> 7 \<in> cw_engines w1 \<and>
     (\<forall>l' w2. Cleanup sim_accept_io sim_listener w1 = Some (l', w2) \<longrightarrow> cw_engines w2 = {})"
proof -
  obtain n w1 where a: "conn_Accept sim_accept_io sim_alloc False sim_listener sim_accept_world = Some (Some n, w1)" using sim_accept by blast
  have "m_cryptoEngine sim_listener = Some 7" "m_ownsCryptoEngine sim_listener" "7 \<in> cw_engines sim_accept_world" "cw_engines sim_accept_world = {7}"
    by (simp_all add: sim_listener_def sim_accept_world_def)
  with engine_ownership [OF a] a show ?thesis by auto
qed

end
