(* ===== verification/Logger.thy ===== *)
theory Logger
  imports Transport
begin

text \<open>
  The logger: \<^verbatim>\<open>common/utils/custom_logger.h\<close>, \<^verbatim>\<open>custom_logger.cpp\<close> and the two files of \<^verbatim>\<open>callback/\<close>.  The
  process has one logger, whose state is the registered function; a registered function is a change of the
  application's own state \<^verbatim>\<open>'w\<close>.  The components do not log in the model: the lemmas below say
  what a call of the macro \<^verbatim>\<open>CCSEC_LOG\<close> does, namely nothing that the library itself can observe.
\<close>

section \<open>The logger\<close>

datatype LOG_LEVEL = LOG_LEVEL_TRACE | LOG_LEVEL_DEBUG | LOG_LEVEL_INFO | LOG_LEVEL_WARN | LOG_LEVEL_ERROR | LOG_LEVEL_CRITICAL

primrec log_level_int :: "LOG_LEVEL \<Rightarrow> int" where
  "log_level_int LOG_LEVEL_TRACE = 0"
| "log_level_int LOG_LEVEL_DEBUG = 1"
| "log_level_int LOG_LEVEL_INFO = 2"
| "log_level_int LOG_LEVEL_WARN = 3"
| "log_level_int LOG_LEVEL_ERROR = 4"
| "log_level_int LOG_LEVEL_CRITICAL = 5"

type_synonym 'w ExternalLogFunction = "int \<Rightarrow> string \<Rightarrow> 'w \<Rightarrow> 'w"

record 'w Logger =
  log_function :: "'w ExternalLogFunction option"

definition Logger_Instance :: "'w Logger" where
  "Logger_Instance = \<lparr> log_function = None \<rparr>"

definition Logger_SetExternalLogFunction :: "'w ExternalLogFunction option \<Rightarrow> 'w Logger \<Rightarrow> 'w Logger" where
  "Logger_SetExternalLogFunction func lg =
     (case func of None \<Rightarrow> lg\<lparr>log_function := None\<rparr> | Some f \<Rightarrow> lg\<lparr>log_function := Some f\<rparr>)"

text \<open>The function receives the text as a C string, up to its first zero byte.\<close>

definition Logger_Log :: "int \<Rightarrow> string \<Rightarrow> 'w Logger \<Rightarrow> 'w \<Rightarrow> 'w" where
  "Logger_Log level oss lg w = (case log_function lg of None \<Rightarrow> w | Some f \<Rightarrow> f level (cstr oss) w)"

text \<open>What follows the last slash of the file name, and the line the macro builds.\<close>

definition CCSEC_LOG_FILENAME :: "string \<Rightarrow> string" where
  "CCSEC_LOG_FILENAME src = rev (takeWhile (\<lambda>c. c \<noteq> CHR ''/'') (rev src))"

definition CCSEC_LOG :: "LOG_LEVEL \<Rightarrow> string \<Rightarrow> nat \<Rightarrow> string \<Rightarrow> 'w Logger \<Rightarrow> 'w \<Rightarrow> 'w" where
  "CCSEC_LOG level src line args lg w =
     Logger_Log (log_level_int level) (''[CCSEC '' @ CCSEC_LOG_FILENAME src @ '':'' @ to_string line @ ''] '' @ args) lg w"

text \<open>The public function announces itself, to the function registered before, and then registers.\<close>

definition SetExternalLogFunction :: "string \<Rightarrow> 'w ExternalLogFunction option \<Rightarrow> 'w Logger \<Rightarrow> 'w \<Rightarrow> 'w Logger \<times> 'w" where
  "SetExternalLogFunction src func lg w =
     (Logger_SetExternalLogFunction func lg,
      CCSEC_LOG LOG_LEVEL_INFO src 21 ''|SetExternalLogFunction|START|||set external log function'' lg w)"

section \<open>Where messages go\<close>

lemma takeWhile_all: "x \<notin> set b \<Longrightarrow> takeWhile (\<lambda>c. c \<noteq> x) b = b"
  by (induction b) auto

lemma CCSEC_LOG_FILENAME_last: "CHR ''/'' \<notin> set b \<Longrightarrow> CCSEC_LOG_FILENAME (a @ ''/'' @ b) = b"
  by (simp add: CCSEC_LOG_FILENAME_def takeWhile_append takeWhile_all)

lemma CCSEC_LOG_FILENAME_plain: "CHR ''/'' \<notin> set b \<Longrightarrow> CCSEC_LOG_FILENAME b = b"
  by (simp add: CCSEC_LOG_FILENAME_def takeWhile_all)

text \<open>Registrations and messages in any order: a message reaches the function registered last, and none
  before the first registration or after a null one.\<close>

datatype 'w log_event = Register "'w ExternalLogFunction option" | Message LOG_LEVEL string nat string

fun log_run :: "string \<Rightarrow> 'w log_event list \<Rightarrow> 'w Logger \<Rightarrow> 'w \<Rightarrow> 'w Logger \<times> 'w" where
  "log_run src [] lg w = (lg, w)"
| "log_run src (Register f # es) lg w = (let (lg1, w1) = SetExternalLogFunction src f lg w in log_run src es lg1 w1)"
| "log_run src (Message l f n a # es) lg w = log_run src es lg (CCSEC_LOG l f n a lg w)"

fun last_registered :: "'w log_event list \<Rightarrow> 'w ExternalLogFunction option \<Rightarrow> 'w ExternalLogFunction option" where
  "last_registered [] f = f"
| "last_registered (Register g # es) f = last_registered es g"
| "last_registered (Message _ _ _ _ # es) f = last_registered es f"

lemma log_run_registered: "log_function (fst (log_run src es lg w)) = last_registered es (log_function lg)"
  by (induction src es lg w rule: log_run.induct)
    (auto simp: SetExternalLogFunction_def Logger_SetExternalLogFunction_def split: option.splits)

lemma log_run_append: "log_run src (es @ fs) lg w = (case log_run src es lg w of (lg1, w1) \<Rightarrow> log_run src fs lg1 w1)"
  by (induction src es lg w rule: log_run.induct) (auto split: prod.splits)

lemma message_delivered:
  assumes "log_run src es Logger_Instance w = (lg, w1)"
  shows "snd (log_run src (es @ [Message l f n a]) Logger_Instance w) =
    (case last_registered es None of
       None \<Rightarrow> w1
     | Some sink \<Rightarrow> sink (log_level_int l) (cstr (''[CCSEC '' @ CCSEC_LOG_FILENAME f @ '':'' @ to_string n @ ''] '' @ a)) w1)"
proof -
  have "log_function lg = last_registered es None"
    using log_run_registered [of src es Logger_Instance w] assms by (simp add: Logger_Instance_def)
  then show ?thesis using assms by (simp add: log_run_append CCSEC_LOG_def Logger_Log_def split: option.split)
qed

lemma silent_until_registered: "\<forall>e \<in> set es. (case e of Register f \<Rightarrow> f = None | _ \<Rightarrow> True) \<Longrightarrow> snd (log_run src es Logger_Instance w) = w"
proof -
  have "log_function lg = None \<Longrightarrow> \<forall>e \<in> set es. (case e of Register f \<Rightarrow> f = None | _ \<Rightarrow> True) \<Longrightarrow> snd (log_run src es lg w) = w" for lg
    by (induction src es lg w rule: log_run.induct)
      (simp_all add: SetExternalLogFunction_def Logger_SetExternalLogFunction_def CCSEC_LOG_def Logger_Log_def)
  then show "\<forall>e \<in> set es. (case e of Register f \<Rightarrow> f = None | _ \<Rightarrow> True) \<Longrightarrow> snd (log_run src es Logger_Instance w) = w"
    by (simp add: Logger_Instance_def)
qed

end
