(* ===== verification/Sample.thy ===== *)
theory Sample
  imports Connection
begin

text \<open>
  The two pre-shared-key demonstrations, \<^verbatim>\<open>sample/client_main.cpp\<close> and \<^verbatim>\<open>sample/server_main.cpp\<close>: the session
  callbacks they register, the loops that drive a non-blocking handshake and a read, and the runs \<^verbatim>\<open>TestClient\<close>
  and \<^verbatim>\<open>TestServer\<close>.  They are the only code of the repository that composes the functions of \<^verbatim>\<open>scf.h\<close> the way
  an application does.  \<^verbatim>\<open>SCFRead\<close> and \<^verbatim>\<open>TEST_PskCreateSession\<close> are the same in both files.
  The loops are partial functions: a loop that never ends has the result \<^verbatim>\<open>None\<close>, as has
  an access to a released object.  Output to the terminal, time measurement and sleeping are left out; the TCP helpers of
  the test framework are arguments.
\<close>

section \<open>Pre-shared keys\<close>

definition g_idPskSha256 :: string where [scf_const]: "g_idPskSha256 = ''idPskSha256'' @ [NUL]"
definition g_idPskSha384 :: string where [scf_const]: "g_idPskSha384 = ''idPskSha384'' @ [NUL]"
definition g_pskPlainSha256 :: string where [scf_const]: "g_pskPlainSha256 = ''pskPlainSha256'' @ [NUL]"
definition g_pskPlainSha384 :: string where [scf_const]: "g_pskPlainSha384 = ''pskPlainSha384'' @ [NUL]"
definition ID_LEN :: u32 where [scf_const]: "ID_LEN = 11"
definition PSK_LEN :: nat where [scf_const]: "PSK_LEN = 14"

definition tls13Aes128GcmSha256Id :: string where "tls13Aes128GcmSha256Id = [CHR 0x13, CHR 0x01]"
definition tls13Aes256GcmSha384Id :: string where "tls13Aes256GcmSha384Id = [CHR 0x13, CHR 0x02]"

text \<open>\<^verbatim>\<open>session\<close> is the caller's \<^verbatim>\<open>SCF_Session **\<close>.\<close>

definition TEST_PskCreateSession ::
  "'o OpenSSLAdaptor scf_globals \<Rightarrow> CryptoUtil \<Rightarrow> string option \<Rightarrow> nat \<Rightarrow> ptr \<Rightarrow> ptr option \<Rightarrow> 'o \<Rightarrow> ret \<times> ptr option \<times> 'o" where
  "TEST_PskCreateSession g cu psk pskLen cipherSuite session st =
     (if session = None then (SCF_ERRNO_INVALID_PARAM, session, st)
      else
        let (sess, st1) = SCF_SessionNew g st in
        if sess = None then (SCF_ERRNO_MEM_ALLOC, session, st1)
        else
          let (r, st2) = SCF_SessionSetMasterKey g cu sess psk pskLen False st1 in
          if r \<noteq> SCF_SUCCESS then (r, session, snd (SCF_SessionFree g (Some sess) st2))
          else
            let (r2, st3) = SCF_SessionSetCipher g sess cipherSuite st2 in
            if r2 \<noteq> SCF_SUCCESS then (r2, session, snd (SCF_SessionFree g (Some sess) st3))
            else
              let (r3, st4) = SCF_SessionSetProtocolVersion g sess (Some SCF_SSL_VERSION_TLS13_STR) st3 in
              if r3 \<noteq> SCF_SUCCESS then (r3, session, snd (SCF_SessionFree g (Some sess) st4))
              else (r3, Some sess, st4))"

text \<open>\<^verbatim>\<open>ident\<close> and \<^verbatim>\<open>idLen\<close> are the targets of the output pointers (\<^verbatim>\<open>None\<close> for a null pointer);
  \<^verbatim>\<open>suite\<close> is the global \<^verbatim>\<open>g_sslCipherSuite\<close>.\<close>

definition TEST_SetPskUseSessionImpl ::
  "'o OpenSSLAdaptor scf_globals \<Rightarrow> CryptoUtil \<Rightarrow> u16 \<Rightarrow> SCFPolicyObj option \<Rightarrow> u32 \<Rightarrow> string option option \<Rightarrow> u32 option \<Rightarrow> ptr option \<Rightarrow> 'o
     \<Rightarrow> ret \<times> string option option \<times> u32 option \<times> ptr option \<times> 'o" where
  "TEST_SetPskUseSessionImpl g cu suite obj hashAlgo ident idLen session st =
     (if obj = None \<or> ident = None \<or> idLen = None \<or> session = None then (SCF_ERRNO_NULL_INPUT, ident, idLen, session, st)
      else
        let hash = (if hashAlgo = SCF_CRYPT_MD_UNKNOWN
                    then (if suite = ucast SCF_SSL_AES_256_GCM_SHA384 then SCF_CRYPT_MD_SHA384 else SCF_CRYPT_MD_SHA256)
                    else hashAlgo) in
        if hash = SCF_CRYPT_MD_SHA256 then
          (let cipherSuite = SCF_CipherFind g obj (Some tls13Aes128GcmSha256Id) st;
               (r, sess, st1) = TEST_PskCreateSession g cu (Some g_pskPlainSha256) PSK_LEN cipherSuite session st in
           (r, Some (Some g_idPskSha256), Some ID_LEN, sess, st1))
        else if hash = SCF_CRYPT_MD_SHA384 then
          (let cipherSuite = SCF_CipherFind g obj (Some tls13Aes256GcmSha384Id) st;
               (r, sess, st1) = TEST_PskCreateSession g cu (Some g_pskPlainSha384) PSK_LEN cipherSuite session st in
           (r, Some (Some g_idPskSha384), Some ID_LEN, sess, st1))
        else (SCF_SSL_ERR_PSK_CB_HASH, ident, idLen, session, st))"

datatype TestPskIDType = TEST_PSK_ID_MISMATCH | TEST_PSK_ID_PLAIN_SHA256 | TEST_PSK_ID_PLAIN_SHA384

definition TEST_SetGetPskAuthType :: "string \<Rightarrow> u32 \<Rightarrow> TestPskIDType" where
  "TEST_SetGetPskAuthType identity identityLen =
     (if identityLen = ID_LEN \<and> take (unat identityLen) identity = take (unat identityLen) g_idPskSha256 then TEST_PSK_ID_PLAIN_SHA256
      else if identityLen = ID_LEN \<and> take (unat identityLen) identity = take (unat identityLen) g_idPskSha384 then TEST_PSK_ID_PLAIN_SHA384
      else TEST_PSK_ID_MISMATCH)"

definition TEST_SetPskFindSessionImpl ::
  "'o OpenSSLAdaptor scf_globals \<Rightarrow> CryptoUtil \<Rightarrow> SCFPolicyObj option \<Rightarrow> string option \<Rightarrow> u32 \<Rightarrow> ptr option \<Rightarrow> 'o \<Rightarrow> ret \<times> ptr option \<times> 'o" where
  "TEST_SetPskFindSessionImpl g cu obj identity identityLen session st =
     (if obj = None \<or> identity = None \<or> identityLen = 0 \<or> session = None then (SCF_ERRNO_NULL_INPUT, session, st)
      else
        case TEST_SetGetPskAuthType (the identity) identityLen of
          TEST_PSK_ID_PLAIN_SHA256 \<Rightarrow>
            TEST_PskCreateSession g cu (Some g_pskPlainSha256) PSK_LEN (SCF_CipherFind g obj (Some tls13Aes128GcmSha256Id) st) session st
        | TEST_PSK_ID_PLAIN_SHA384 \<Rightarrow>
            TEST_PskCreateSession g cu (Some g_pskPlainSha384) PSK_LEN (SCF_CipherFind g obj (Some tls13Aes256GcmSha384Id) st) session st
        | TEST_PSK_ID_MISMATCH \<Rightarrow> (SCF_SSL_ERR_PSK_MISMATCH, session, st))"

section \<open>Driving a non-blocking handshake\<close>

definition TEST_MAXLOOPS :: nat where [scf_const]: "TEST_MAXLOOPS = 1000"
definition TEST_READ_RETRY_MAX_CNT :: u32 where [scf_const]: "TEST_READ_RETRY_MAX_CNT = 20000"

text \<open>The inner loop repeats a call while it wants to write; at its start the error flag is clear and the
  handshake incomplete, so it calls at least once.  \<^verbatim>\<open>hs\<close> is \<^verbatim>\<open>SCF_Connect\<close> or \<^verbatim>\<open>SCF_Accept\<close> on the object.\<close>

partial_function (option) want_write_loop :: "('s \<Rightarrow> (ret \<times> 's) option) \<Rightarrow> 's \<Rightarrow> (ret \<times> 's) option" where
  "want_write_loop hs s =
     Option.bind (hs s) (\<lambda>(r, s1). if r \<noteq> SCF_SUCCESS \<and> r = SCF_SSL_ERR_WANT_WRITE then want_write_loop hs s1 else Some (r, s1))"

partial_function (option) bare_loop :: "('s \<Rightarrow> (ret \<times> 's) option) \<Rightarrow> ret \<Rightarrow> nat \<Rightarrow> 's \<Rightarrow> (int \<times> 's) option" where
  "bare_loop hs want abortCtr s =
     Option.bind (want_write_loop hs s) (\<lambda>(r, s1).
       if want \<noteq> SCF_SUCCESS \<and> r = want then Some (0, s1)
       else if r \<noteq> SCF_SUCCESS \<and> r \<noteq> SCF_SSL_ERR_WANT_READ then Some (0, s1)
       else if abortCtr + 1 = TEST_MAXLOOPS then Some (0, s1)
       else if r \<noteq> SCF_SUCCESS then bare_loop hs want (abortCtr + 1) s1
       else Some (1, s1))"

definition CreateClientBareSslConnection :: "ptr \<Rightarrow> ret \<Rightarrow> ('o, 'w) conn_world \<Rightarrow> (int \<times> ('o, 'w) conn_world) option" where
  "CreateClientBareSslConnection clientSSL want w =
     (if clientSSL = None then Some (0, w)
      else bare_loop (\<lambda>w. obj_op clientSSL (SCF_Connect (cw_globals w)) w) want 0 w)"

definition CreateServerBareSslConnection :: "ptr \<Rightarrow> ret \<Rightarrow> ('o, 'w) conn_world \<Rightarrow> (int \<times> ('o, 'w) conn_world) option" where
  "CreateServerBareSslConnection serverSSL want w = bare_loop (\<lambda>w. obj_op serverSSL (SCF_Accept (cw_globals w)) w) want 0 w"

section \<open>Transfer\<close>

definition RW_LEN :: u32 where [scf_const]: "RW_LEN = 1024"
definition DATA_BUF_LEN :: u32 where [scf_const]: "DATA_BUF_LEN = 4096"

text \<open>Only a failing read is counted.  The result has the code, the bytes read and \<^verbatim>\<open>*readLen\<close>.\<close>

definition read_once :: "ptr \<Rightarrow> string option \<Rightarrow> u32 \<Rightarrow> ('o, 'w) conn_world \<Rightarrow> ((ret \<times> string \<times> u32) \<times> ('o, 'w) conn_world) option" where
  "read_once p data dataLen w =
     obj_op p (\<lambda>b c st. let (r, d, n, st1) = SCF_Read (cw_globals w) b data dataLen (Some 0) st in ((r, d, the n), b, c, st1)) w"

partial_function (option) SCFRead_loop ::
  "('s \<Rightarrow> ((ret \<times> string \<times> u32) \<times> 's) option) \<Rightarrow> u32 \<Rightarrow> 's \<Rightarrow> ((ret \<times> string \<times> u32) \<times> 's) option" where
  "SCFRead_loop rd retryCnt s =
     Option.bind (rd s) (\<lambda>((r, d, readLen), s1).
       let retryCnt1 = (if r \<noteq> SCF_SUCCESS then retryCnt + 1 else retryCnt) in
       if readLen = 0 \<and> retryCnt1 < TEST_READ_RETRY_MAX_CNT then SCFRead_loop rd retryCnt1 s1 else Some ((r, d, readLen), s1))"

definition SCFRead :: "ptr \<Rightarrow> string option \<Rightarrow> u32 \<Rightarrow> ('o, 'w) conn_world \<Rightarrow> ((ret \<times> string \<times> u32) \<times> ('o, 'w) conn_world) option" where
  "SCFRead p data dataLen w = SCFRead_loop (read_once p data dataLen) 0 w"

definition write_once :: "ptr \<Rightarrow> string \<Rightarrow> u32 \<Rightarrow> int \<times> u64 \<Rightarrow> ('o, 'w) conn_world \<Rightarrow> ((ret \<times> u32) \<times> ('o, 'w) conn_world) option" where
  "write_once p data len now w =
     obj_op p (\<lambda>b c st. let (r, b1, n, st1) = SCF_Write (cw_globals w) b c (Some data) len (Some 0) now st in ((r, the n), b1, c, st1)) w"

text \<open>The results of the two calls are only printed.\<close>

definition dataCW :: string where
  "dataCW = map (\<lambda>i. char_of (15 - i)) [0..<15] @ replicate 4081 NUL"

definition ClientSSLReadWrite :: "ptr \<Rightarrow> u32 \<Rightarrow> int \<times> u64 \<Rightarrow> ('o, 'w) conn_world \<Rightarrow> ('o, 'w) conn_world option" where
  "ClientSSLReadWrite g_clientObj rwLen now w =
     (let dataCLen = min DATA_BUF_LEN rwLen in
      Option.bind (SCFRead g_clientObj (Some (replicate 4096 NUL)) DATA_BUF_LEN w) (\<lambda>(_, w1).
      Option.bind (write_once g_clientObj dataCW dataCLen now w1) (\<lambda>(_, w2). Some w2)))"

definition dataSW :: string where
  "dataSW = map (\<lambda>i. char_of (i + 1)) [0..<15] @ replicate 4081 NUL"

definition ServerSslReadWrite :: "ptr \<Rightarrow> u32 \<Rightarrow> int \<times> u64 \<Rightarrow> ('o, 'w) conn_world \<Rightarrow> ('o, 'w) conn_world option" where
  "ServerSslReadWrite g_serverObj rwLen now w =
     (let dataSLen = min DATA_BUF_LEN rwLen in
      Option.bind (write_once g_serverObj dataSW dataSLen now w) (\<lambda>(_, w1).
      Option.bind (SCFRead g_serverObj (Some (replicate 4096 NUL)) DATA_BUF_LEN w1) (\<lambda>(_, w2). Some w2)))"

text \<open>The transfer repeated \<^verbatim>\<open>n\<close> times; \<^verbatim>\<open>now\<close> gives the clock at each.\<close>

primrec repeat_rw :: "(int \<times> u64 \<Rightarrow> 's \<Rightarrow> 's option) \<Rightarrow> nat \<Rightarrow> (nat \<Rightarrow> int \<times> u64) \<Rightarrow> 's \<Rightarrow> 's option" where
  "repeat_rw rw 0 now s = Some s"
| "repeat_rw rw (Suc n) now s = Option.bind (rw (now 0) s) (repeat_rw rw n (\<lambda>i. now (Suc i)))"

section \<open>The two runs\<close>

record 'w sample_env =
  sm_connect :: "'w \<Rightarrow> bool \<times> int \<times> 'w"
  sm_mc :: memcpy_fn
  sm_suites :: "nat \<Rightarrow> string option"
  sm_obj :: ptr
  sm_now :: "int \<times> u64"
  sm_cb :: ptr
  sm_clock :: "nat \<Rightarrow> int \<times> u64"

text \<open>What both runs do up to the handshake; \<^verbatim>\<open>set_cb\<close> registers the session callback.  \<^verbatim>\<open>sm_connect\<close> stands for the TCP
  helper of the role: whether it worked, and the descriptor.  The result is whether the set-up went
  through, the global object pointer and the state.\<close>

definition sample_setup ::
  "'w sample_env \<Rightarrow> ('o OpenSSLAdaptor scf_globals \<Rightarrow> SCFPolicyCtx option \<Rightarrow> ptr \<Rightarrow> 'o \<Rightarrow> ret \<times> SCFPolicyCtx option \<times> 'o) \<Rightarrow> u16 list
     \<Rightarrow> ptr \<Rightarrow> ptr \<Rightarrow> ('o, 'w) conn_world \<Rightarrow> (bool \<times> ptr \<times> ('o, 'w) conn_world) option" where
  "sample_setup env set_cb g_cipherSuites g_ctx g_obj w =
     (let g = cw_globals w in
      Option.bind (ctx_op g_ctx (\<lambda>c st. let (r, st1) = SCF_SetCipherSuites g (sm_mc env) (sm_suites env) c (Some g_cipherSuites)
          (of_nat (length g_cipherSuites)) st in (r, c, st1)) w) (\<lambda>(r1, w1).
      if r1 \<noteq> SCF_SUCCESS then Some (False, g_obj, w1) else
      Option.bind (ctx_op g_ctx (\<lambda>c st. let (r, st1) = SCF_SetProtocolVersion g c SCF_SSL_VERSION_TLS13 SCF_SSL_VERSION_TLS13 None 0 st
          in (r, c, st1)) w1) (\<lambda>(r2, w2).
      if r2 \<noteq> SCF_SUCCESS then Some (False, g_obj, w2) else
      Option.bind (ctx_op g_ctx (\<lambda>c st. set_cb g c (sm_cb env) st) w2) (\<lambda>(r3, w3).
      if r3 \<noteq> SCF_SUCCESS then Some (False, g_obj, w3) else
      Option.bind (SCF_CreatePolicyObj g g_ctx (sm_now env) (sm_obj env) (cw_heap w3)) (\<lambda>(p, h4).
      let w4 = w3\<lparr>cw_heap := h4\<rparr> in
      if p = None then Some (False, p, w4) else
      let (ok, fd, s5) = sm_connect env (cw_sys w4); w5 = w4\<lparr>cw_sys := s5\<rparr> in
      if \<not> ok then Some (False, p, w5)
      else if fd < 0 then Some (False, p, w5)
      else map_option (\<lambda>(r6, w6). (r6 = SCF_SUCCESS, p, w6))
             (obj_op p (\<lambda>b c st. let (r, b1, st1) = SCF_SetFd g (the p) b c fd st in (r, b1, c, st1)) w5))))))"

definition TestClient ::
  "'w sample_env \<Rightarrow> u16 list \<Rightarrow> ptr \<Rightarrow> ptr \<Rightarrow> ('o, 'w) conn_world \<Rightarrow> (bool \<times> ptr \<times> ('o, 'w) conn_world) option" where
  "TestClient env g_cipherSuites g_client g_clientObj w =
     Option.bind (sample_setup env SCF_SetPskUseSessionCallback g_cipherSuites g_client g_clientObj w) (\<lambda>(ok, p, w1).
     if \<not> ok then Some (False, p, w1) else
     Option.bind (CreateClientBareSslConnection p SCF_SUCCESS w1) (\<lambda>(r, w2).
     if r \<noteq> 1 then Some (False, p, w2) else
     map_option (\<lambda>w3. (True, p, w3)) (repeat_rw (ClientSSLReadWrite p RW_LEN) (Suc TEST_MAXLOOPS) (sm_clock env) w2)))"

definition TestServer ::
  "'w sample_env \<Rightarrow> u16 list \<Rightarrow> ptr \<Rightarrow> ptr \<Rightarrow> ('o, 'w) conn_world \<Rightarrow> (bool \<times> ptr \<times> ('o, 'w) conn_world) option" where
  "TestServer env g_cipherSuites g_server g_serverObj w =
     Option.bind (sample_setup env SCF_SetPskFindSessionCallback g_cipherSuites g_server g_serverObj w) (\<lambda>(ok, p, w1).
     if \<not> ok then Some (False, p, w1) else
     Option.bind (CreateServerBareSslConnection p SCF_SUCCESS w1) (\<lambda>(r, w2).
     if r \<noteq> 1 then Some (False, p, w2) else
     map_option (\<lambda>w3. (True, p, w3)) (repeat_rw (ServerSslReadWrite p RW_LEN) (Suc TEST_MAXLOOPS) (sm_clock env) w2)))"

text \<open>The end of both runs; \<^verbatim>\<open>close\<close> destroys the TCP connection.\<close>

definition FreeGlobalConnAndClientObj ::
  "('w \<Rightarrow> 'w) \<Rightarrow> ptr \<Rightarrow> ptr \<Rightarrow> ('o, 'w) conn_world \<Rightarrow> (ptr \<times> ptr \<times> ('o, 'w) conn_world) option" where
  "FreeGlobalConnAndClientObj close g_client g_clientObj w =
     (let w1 = w\<lparr>cw_sys := close (cw_sys w)\<rparr> in
      Option.bind (SCF_FreePolicyObj (cw_globals w1) (Some g_clientObj) (cw_heap w1) (cw_lib w1)) (\<lambda>(p, h2, st2).
      Option.bind (SCF_FreePolicyCtx (cw_globals w1) (Some g_client) h2 st2) (\<lambda>(c, h3, st3).
      Some (the c, the p, w1\<lparr>cw_heap := h3, cw_lib := st3\<rparr>))))"

section \<open>The callbacks as the adaptor calls them\<close>

definition client_psk_app ::
  "'o OpenSSLAdaptor scf_globals \<Rightarrow> CryptoUtil \<Rightarrow> u16 \<Rightarrow> addr \<Rightarrow> SCFPolicyObj \<Rightarrow> u32 \<Rightarrow> string option \<Rightarrow> u32 \<Rightarrow> ptr option \<Rightarrow> 'o
     \<Rightarrow> ret \<times> string option \<times> u32 \<times> ptr option \<times> 'o" where
  "client_psk_app g cu suite cb b hash ident idLen sess st =
     (let (r, i, n, s, st1) = TEST_SetPskUseSessionImpl g cu suite (Some b) hash (Some ident) (Some idLen) sess st in (r, the i, the n, s, st1))"

definition server_psk_app ::
  "'o OpenSSLAdaptor scf_globals \<Rightarrow> CryptoUtil \<Rightarrow> addr \<Rightarrow> SCFPolicyObj \<Rightarrow> string \<Rightarrow> u32 \<Rightarrow> ptr option \<Rightarrow> 'o \<Rightarrow> ret \<times> ptr option \<times> 'o" where
  "server_psk_app g cu cb b ident idLen sess st = TEST_SetPskFindSessionImpl g cu (Some b) (Some ident) idLen sess st"

end
