(* ===== verification/Sample_Correct.thy ===== *)
theory Sample_Correct
  imports Sample Connection_Correct
begin

text \<open>
  What the demonstrations rely on: both sides derive the same key from the identity that travels between them, the
  loop that drives a handshake reports success only after one, and when the loops end.
\<close>

section \<open>Pre-shared keys\<close>

lemma PskAuthType_ids:
  "TEST_SetGetPskAuthType g_idPskSha256 ID_LEN = TEST_PSK_ID_PLAIN_SHA256" "TEST_SetGetPskAuthType g_idPskSha384 ID_LEN = TEST_PSK_ID_PLAIN_SHA384"
  by (simp_all add: TEST_SetGetPskAuthType_def scf_const)

lemma server_psk_app_ids:
  "server_psk_app g cu cb b g_idPskSha256 ID_LEN (Some s) st =
     TEST_PskCreateSession g cu (Some g_pskPlainSha256) PSK_LEN (SCF_CipherFind g (Some b) (Some tls13Aes128GcmSha256Id) st) (Some s) st"
  "server_psk_app g cu cb b g_idPskSha384 ID_LEN (Some s) st =
     TEST_PskCreateSession g cu (Some g_pskPlainSha384) PSK_LEN (SCF_CipherFind g (Some b) (Some tls13Aes256GcmSha384Id) st) (Some s) st"
  by (simp_all add: server_psk_app_def TEST_SetPskFindSessionImpl_def PskAuthType_ids) (simp_all add: ID_LEN_def)

text \<open>The hash that decides: the one asked for, or that of the configured suite.\<close>

definition psk_hash :: "u16 \<Rightarrow> u32 \<Rightarrow> u32" where
  "psk_hash suite hashAlgo =
     (if hashAlgo = SCF_CRYPT_MD_UNKNOWN
      then (if suite = ucast SCF_SSL_AES_256_GCM_SHA384 then SCF_CRYPT_MD_SHA384 else SCF_CRYPT_MD_SHA256) else hashAlgo)"

lemma client_psk_app_ok:
  assumes "client_psk_app g cu suite cb b hash ident n (Some s0) st = (SCF_SUCCESS, i, n', s, st')"
  shows "(psk_hash suite hash = SCF_CRYPT_MD_SHA256 \<and> i = Some g_idPskSha256 \<and> n' = ID_LEN \<and>
      TEST_PskCreateSession g cu (Some g_pskPlainSha256) PSK_LEN (SCF_CipherFind g (Some b) (Some tls13Aes128GcmSha256Id) st) (Some s0) st = (SCF_SUCCESS, s, st')) \<or>
    (psk_hash suite hash = SCF_CRYPT_MD_SHA384 \<and> i = Some g_idPskSha384 \<and> n' = ID_LEN \<and>
      TEST_PskCreateSession g cu (Some g_pskPlainSha384) PSK_LEN (SCF_CipherFind g (Some b) (Some tls13Aes256GcmSha384Id) st) (Some s0) st = (SCF_SUCCESS, s, st'))"
  using assms
  unfolding client_psk_app_def TEST_SetPskUseSessionImpl_def psk_hash_def [symmetric] Let_def
  by (auto simp: SCF_SUCCESS_def errno split: if_splits prod.splits)

text \<open>Both demonstrations agree on the key.  Whenever the client's callback, called by the adaptor's wrapper, offers a
  pre-shared key, the server's callback answers the very identity that the client puts on the wire by creating a session
  from the same key and for the same cipher suite as the client did, and that suite is the one of the hash the TLS library asked for; the
  identity and its length reach the library unchanged.\<close>

lemma psk_agreement:
  assumes "PskUseSessionCbWrapper api objs (client_psk_app g cu suite) ssl md ident n (Some s0) st = (SSL_SUCCESS, i, n', s, st')"
  shows "\<exists>key cid b. key = (if psk_hash suite (GetHashAlgo api md) = SCF_CRYPT_MD_SHA384 then g_pskPlainSha384 else g_pskPlainSha256) \<and>
    TEST_PskCreateSession g cu (Some key) PSK_LEN (SCF_CipherFind g (Some b) (Some cid) st) (Some s0) st = (SCF_SUCCESS, s, st') \<and>
    i \<noteq> None \<and> unat n' = 11 \<and>
    cid = (if psk_hash suite (GetHashAlgo api md) = SCF_CRYPT_MD_SHA384 then tls13Aes256GcmSha384Id else tls13Aes128GcmSha256Id) \<and>
    (\<forall>(g' :: 'p OpenSSLAdaptor scf_globals) cu' cb' b' s' v. server_psk_app g' cu' cb' b' (the i) (ucast n') (Some s') v =
       TEST_PskCreateSession g' cu' (Some key) PSK_LEN (SCF_CipherFind g' (Some b') (Some cid) v) (Some s') v)"
proof -
  have ne: "SSL_ERROR \<noteq> SSL_SUCCESS" by (simp add: SSL_ERROR_def SSL_SUCCESS_def)
  obtain b cb r1 i1 n1 s1 st1 where app: "client_psk_app g cu suite cb b (GetHashAlgo api md) ident 0 (Some s0) st = (r1, i1, n1, s1, st1)"
    and "r1 = SCF_SUCCESS" "i = i1" "n' = ucast n1" "s = s1" "st' = st1"
    using assms ne by (auto simp: PskUseSessionCbWrapper_def Let_def split: option.splits prod.splits if_splits)
  then have app: "client_psk_app g cu suite cb b (GetHashAlgo api md) ident 0 (Some s0) st = (SCF_SUCCESS, i, n1, s, st')" and n: "n' = ucast n1" by simp_all
  have len: "unat (ucast ID_LEN :: u64) = 11" "(ucast (ucast ID_LEN :: u64) :: u32) = ID_LEN" by (simp_all add: ID_LEN_def)
  have hash: "SCF_CRYPT_MD_SHA256 \<noteq> SCF_CRYPT_MD_SHA384" by (simp add: scf_const)
  from client_psk_app_ok [OF app] show ?thesis
    using n len hash by (auto simp: server_psk_app_ids)
qed

text \<open>In the small TLS library, for a client hello (no hash yet) of the configured suite.\<close>

definition sim_client_obj :: SCFPolicyObj where
  "sim_client_obj = sim_obj\<lparr>obj_pskUseSessionCb := Some 1\<rparr>"

lemma TLS13_version: "ProtocolStrToInt (Some SCF_SSL_VERSION_TLS13_STR) 0 = (SCF_SUCCESS, 0x304)"
  by code_simp

lemma sim_psk_offer:
  "PskUseSessionCbWrapper sim_ossl [200 \<mapsto> sim_client_obj] (client_psk_app sim_globals \<lparr> decryptFunction = None, encryptFunction = None \<rparr> 0x1302) (Some 11) None
     None 0 (Some None) (sim0\<lparr>sim_ex := Some 200\<rparr>) = (SSL_SUCCESS, Some g_idPskSha384, 11, Some (Some 20), sim0\<lparr>sim_ex := Some 200, sim_max := 0x304\<rparr>)"
  by (simp add: PskUseSessionCbWrapper_def sim_client_obj_def sim_obj_def client_psk_app_def TEST_SetPskUseSessionImpl_def TEST_PskCreateSession_def
      GetHashAlgo_def SCF_SessionNew_def SCF_SessionSetMasterKey_def SCF_SessionSetCipher_def SCF_SessionSetProtocolVersion_def SCF_CipherFind_def
      adaptor_CipherFind_def SessionNew_def SessionSetMasterKey_def SessionSetCipher_def SessionSetProtocolVersion_def TLS13_version
      CHECK_SCF_INIT_RET_def sim_ossl_def SSL_SUCCESS_def SCF_CRYPT_MD_UNKNOWN_def SCF_CRYPT_MD_SHA256_def SCF_CRYPT_MD_SHA384_def
      SCF_SSL_AES_256_GCM_SHA384_def PSK_LEN_def ID_LEN_def Let_def)

lemma psk_agreement_sim:
  "server_psk_app sim_globals \<lparr> decryptFunction = None, encryptFunction = None \<rparr> 2 sim_obj g_idPskSha384 11 (Some None) sim0 =
     TEST_PskCreateSession sim_globals \<lparr> decryptFunction = None, encryptFunction = None \<rparr> (Some g_pskPlainSha384) PSK_LEN
       (SCF_CipherFind sim_globals (Some sim_obj) (Some tls13Aes256GcmSha384Id) sim0) (Some None) sim0"
proof -
  have "psk_hash 0x1302 (GetHashAlgo sim_ossl None) = SCF_CRYPT_MD_SHA384"
    by (simp add: psk_hash_def GetHashAlgo_def sim_ossl_def scf_const)
  with psk_agreement [OF sim_psk_offer, where 'p = sim_state] show ?thesis by auto
qed

section \<open>Driving a handshake\<close>

text \<open>An invariant of the calls: where it holds, the last call of the loop was made.\<close>

definition kept_by :: "('s \<Rightarrow> bool) \<Rightarrow> ('s \<Rightarrow> (ret \<times> 's) option) \<Rightarrow> bool" where
  "kept_by I hs \<longleftrightarrow> (\<forall>s r s1. I s \<longrightarrow> hs s = Some (r, s1) \<longrightarrow> I s1)"

lemma want_write_loop_last:
  "want_write_loop hs s = Some x \<Longrightarrow> kept_by I hs \<longrightarrow> I s \<longrightarrow> (\<exists>s0. I s0 \<and> hs s0 = Some x \<and> fst x \<noteq> SCF_SSL_ERR_WANT_WRITE)"
proof (rule want_write_loop.raw_induct [where P = "\<lambda>hs s x. kept_by I hs \<longrightarrow> I s \<longrightarrow> (\<exists>s0. I s0 \<and> hs s0 = Some x \<and> fst x \<noteq> SCF_SSL_ERR_WANT_WRITE)"])
  fix loop and hs :: "'a \<Rightarrow> (ret \<times> 'a) option" and s and y
  assume ih: "\<And>hs s x. loop hs s = Some x \<Longrightarrow> kept_by I hs \<longrightarrow> I s \<longrightarrow> (\<exists>s0. I s0 \<and> hs s0 = Some x \<and> fst x \<noteq> SCF_SSL_ERR_WANT_WRITE)"
    and run: "Option.bind (hs s) (\<lambda>(r, s1). if r \<noteq> SCF_SUCCESS \<and> r = SCF_SSL_ERR_WANT_WRITE then loop hs s1 else Some (r, s1)) = Some y"
  obtain r s1 where h: "hs s = Some (r, s1)" using run by (cases "hs s") auto
  have "I s1" if "kept_by I hs" "I s" using that h by (auto simp: kept_by_def)
  then show "kept_by I hs \<longrightarrow> I s \<longrightarrow> (\<exists>s0. I s0 \<and> hs s0 = Some y \<and> fst y \<noteq> SCF_SSL_ERR_WANT_WRITE)"
    using run ih [of hs s1 y] h by (cases "r = SCF_SSL_ERR_WANT_WRITE") (auto simp: SCF_SUCCESS_def errno)
qed

text \<open>A run of answers \<^verbatim>\<open>WANT_WRITE\<close> that comes to an end.\<close>

inductive streak_ends :: "('s \<Rightarrow> (ret \<times> 's) option) \<Rightarrow> 's \<Rightarrow> bool" for hs where
  stop: "hs s = Some (r, s1) \<Longrightarrow> r \<noteq> SCF_SSL_ERR_WANT_WRITE \<Longrightarrow> streak_ends hs s"
| again: "hs s = Some (SCF_SSL_ERR_WANT_WRITE, s1) \<Longrightarrow> streak_ends hs s1 \<Longrightarrow> streak_ends hs s"

lemma want_write_loop_stops: "streak_ends hs s \<Longrightarrow> \<exists>r s'. want_write_loop hs s = Some (r, s')"
  by (induction rule: streak_ends.induct) (simp_all add: want_write_loop.simps SCF_SUCCESS_def errno)

lemma want_write_loop_needs: "want_write_loop hs s = Some x \<Longrightarrow> streak_ends hs s"
proof (rule want_write_loop.raw_induct [where P = "\<lambda>hs s x. streak_ends hs s"])
  fix loop and hs :: "'a \<Rightarrow> (ret \<times> 'a) option" and s and y
  assume ih: "\<And>hs s x. loop hs s = Some x \<Longrightarrow> streak_ends hs s"
    and run: "Option.bind (hs s) (\<lambda>(r, s1). if r \<noteq> SCF_SUCCESS \<and> r = SCF_SSL_ERR_WANT_WRITE then loop hs s1 else Some (r, s1)) = Some y"
  obtain r s1 where h: "hs s = Some (r, s1)" using run by (cases "hs s") auto
  show "streak_ends hs s"
    using run ih [of hs s1 y] h by (cases "r = SCF_SSL_ERR_WANT_WRITE") (auto simp: SCF_SUCCESS_def errno intro: streak_ends.intros)
qed

lemma bare_loop_success:
  "bare_loop hs want k s = Some x \<Longrightarrow> kept_by I hs \<longrightarrow> I s \<longrightarrow> fst x = 1 \<longrightarrow> (\<exists>s0. I s0 \<and> hs s0 = Some (SCF_SUCCESS, snd x))"
proof (rule bare_loop.raw_induct [where P = "\<lambda>hs want k s x. kept_by I hs \<longrightarrow> I s \<longrightarrow> fst x = 1 \<longrightarrow> (\<exists>s0. I s0 \<and> hs s0 = Some (SCF_SUCCESS, snd x))"])
  fix loop and hs :: "'a \<Rightarrow> (ret \<times> 'a) option" and want k s and y :: "int \<times> 'a"
  assume ih: "\<And>hs want k s x. loop hs want k s = Some x \<Longrightarrow> kept_by I hs \<longrightarrow> I s \<longrightarrow> fst x = 1 \<longrightarrow> (\<exists>s0. I s0 \<and> hs s0 = Some (SCF_SUCCESS, snd x))"
    and run: "Option.bind (want_write_loop hs s) (\<lambda>(r, s1).
       if want \<noteq> SCF_SUCCESS \<and> r = want then Some (0, s1)
       else if r \<noteq> SCF_SUCCESS \<and> r \<noteq> SCF_SSL_ERR_WANT_READ then Some (0, s1)
       else if k + 1 = TEST_MAXLOOPS then Some (0, s1)
       else if r \<noteq> SCF_SUCCESS then loop hs want (k + 1) s1
       else Some (1, s1)) = Some y"
  obtain r s1 where h: "want_write_loop hs s = Some (r, s1)" using run by (cases "want_write_loop hs s") auto
  show "kept_by I hs \<longrightarrow> I s \<longrightarrow> fst y = 1 \<longrightarrow> (\<exists>s0. I s0 \<and> hs s0 = Some (SCF_SUCCESS, snd y))"
  proof (intro impI)
    assume I: "kept_by I hs" "I s" "fst y = 1"
    from want_write_loop_last [OF h, of I] I obtain s0 where s0: "I s0" "hs s0 = Some (r, s1)" by auto
    then have "I s1" using I by (auto simp: kept_by_def)
    then show "\<exists>s0. I s0 \<and> hs s0 = Some (SCF_SUCCESS, snd y)"
      using run ih [of hs want "k + 1" s1 y] h s0 I by (auto split: if_splits)
  qed
qed

lemma bare_loop_returns:
  assumes "\<And>s. streak_ends hs s"
  shows "k < TEST_MAXLOOPS \<Longrightarrow> \<exists>r s'. bare_loop hs want k s = Some (r, s') \<and> (r = 0 \<or> r = 1)"
proof (induction "TEST_MAXLOOPS - k" arbitrary: k s rule: less_induct)
  case less
  obtain r s1 where w: "want_write_loop hs s = Some (r, s1)" using want_write_loop_stops [OF assms] by blast
  show ?case
  proof (cases "k + 1 = TEST_MAXLOOPS")
    case True
    then show ?thesis by (simp add: bare_loop.simps w)
  next
    case False
    then have "\<exists>q s'. bare_loop hs want (k + 1) s1 = Some (q, s') \<and> (q = 0 \<or> q = 1)" using less by simp
    then show ?thesis by (subst bare_loop.simps) (auto simp: w)
  qed
qed

lemma bare_loop_hangs: "\<not> streak_ends hs s \<Longrightarrow> bare_loop hs want k s = None"
  by (subst bare_loop.simps) (use want_write_loop_needs in \<open>fastforce split: bind_splits\<close>)

text \<open>The drivers: where the heap is well-formed, the result 1 means a completed handshake, after which the object
  is bound to a context whose mapping is frozen.\<close>

lemma handshake_call:
  "obj_call_ok (SCF_Connect g)" "obj_call_ok (SCF_Accept g)"
  using handshake_call_ok [of False g] handshake_call_ok [of True g] by simp_all

lemma obj_op_bound:
  assumes "obj_op (Some o1) f w = Some (SCF_SUCCESS, w')" "heap_ok (cw_heap w)" "obj_call_ok f"
    and "\<And>b c st b1 c1 st1. f (Some b) (Some c) st = (SCF_SUCCESS, b1, c1, st1) \<Longrightarrow> c1 = Some (c\<lparr>ctx_nodeRoleMapFrozen := True\<rparr>)"
  shows "bound o1 (cw_heap w')"
proof -
  from assms(1,2) obtain b a c b1 c1 st where acc: "hp_obj (cw_heap w) o1 = Some b" "obj_policyCtx b = Some a" "hp_ctx (cw_heap w) a = Some c"
    and call: "f (Some b) (Some c) (cw_lib w) = (SCF_SUCCESS, b1, c1, st)"
    and w': "w' = w\<lparr>cw_heap := (cw_heap w)\<lparr>hp_ctx := (hp_ctx (cw_heap w))(a := c1), hp_obj := (hp_obj (cw_heap w))(o1 := b1)\<rparr>, cw_lib := st\<rparr>"
    by (rule obj_op_cases)
  have "c1 = Some (c\<lparr>ctx_nodeRoleMapFrozen := True\<rparr>)" using assms(4) [OF call] .
  moreover obtain b' where "b1 = Some b'" "obj_policyCtx b' = Some a" using assms(3) call acc unfolding obj_call_ok_def by metis
  ultimately show ?thesis unfolding bound_def w' by auto
qed

lemma driver_success:
  assumes "bare_loop (\<lambda>w. obj_op (Some o1) (f w) w) want k w = Some (1, w')" "heap_ok (cw_heap w)" "\<And>w. obj_call_ok (f w)"
    and "\<And>w b c st b1 c1 st1. f w (Some b) (Some c) st = (SCF_SUCCESS, b1, c1, st1) \<Longrightarrow> c1 = Some (c\<lparr>ctx_nodeRoleMapFrozen := True\<rparr>)"
  shows "bound o1 (cw_heap w')"
proof -
  have "kept_by (\<lambda>w. heap_ok (cw_heap w)) (\<lambda>w. obj_op (Some o1) (f w) w)"
    unfolding kept_by_def using obj_op_keeps [OF _ assms(3)] by (metis (no_types))
  then obtain w0 where "heap_ok (cw_heap w0)" "obj_op (Some o1) (f w0) w0 = Some (SCF_SUCCESS, w')"
    using bare_loop_success [OF assms(1), of "\<lambda>w. heap_ok (cw_heap w)"] assms(2) by auto
  then show ?thesis using obj_op_bound assms(3,4) by blast
qed

lemma CreateClientBareSslConnection_success:
  assumes "CreateClientBareSslConnection (Some o1) want w = Some (1, w')" "heap_ok (cw_heap w)"
  shows "bound o1 (cw_heap w')"
proof (rule driver_success)
  show "bare_loop (\<lambda>w. obj_op (Some o1) (SCF_Connect (cw_globals w)) w) want 0 w = Some (1, w')"
    using assms(1) by (simp add: CreateClientBareSslConnection_def)
  show "c1 = Some (c\<lparr>ctx_nodeRoleMapFrozen := True\<rparr>)" if "SCF_Connect (cw_globals w) (Some b) (Some c) st = (SCF_SUCCESS, b1, c1, st1)"
    for w :: "('a, 'b) conn_world" and b c st b1 c1 st1
    using handshake_freezes [of False] that by simp
qed (rule assms(2) handshake_call)+

lemma CreateServerBareSslConnection_success:
  assumes "CreateServerBareSslConnection (Some o1) want w = Some (1, w')" "heap_ok (cw_heap w)"
  shows "bound o1 (cw_heap w')"
proof (rule driver_success)
  show "bare_loop (\<lambda>w. obj_op (Some o1) (SCF_Accept (cw_globals w)) w) want 0 w = Some (1, w')"
    using assms(1) by (simp add: CreateServerBareSslConnection_def)
  show "c1 = Some (c\<lparr>ctx_nodeRoleMapFrozen := True\<rparr>)" if "SCF_Accept (cw_globals w) (Some b) (Some c) st = (SCF_SUCCESS, b1, c1, st1)"
    for w :: "('a, 'b) conn_world" and b c st b1 c1 st1
    using handshake_freezes [of True] that by simp
qed (rule assms(2) handshake_call)+

section \<open>Reading\<close>

text \<open>A read that reports success has at least one byte (what \<^verbatim>\<open>SSL_read_ex\<close> documents); then \<^verbatim>\<open>SCFRead\<close> returns,
  after at most 20000 failing reads.\<close>

lemma SCFRead_loop_returns:
  assumes "\<And>s. \<exists>r d n s1. rd s = Some ((r, d, n), s1) \<and> (r = SCF_SUCCESS \<longrightarrow> n \<noteq> 0)"
  shows "k < TEST_READ_RETRY_MAX_CNT \<Longrightarrow> \<exists>x. SCFRead_loop rd k s = Some x"
proof (induction "20000 - unat k" arbitrary: k s rule: less_induct)
  case less
  obtain r d n s1 where rd: "rd s = Some ((r, d, n), s1)" "r = SCF_SUCCESS \<longrightarrow> n \<noteq> 0" using assms by blast
  show ?case
  proof (cases "n = 0 \<and> k + 1 < TEST_READ_RETRY_MAX_CNT")
    case False
    then show ?thesis using rd by (subst SCFRead_loop.simps) (auto simp: Let_def)
  next
    case True
    have k: "unat k < 20000" using less.prems by (simp add: TEST_READ_RETRY_MAX_CNT_def word_less_nat_alt)
    then have "unat (k + 1) = Suc (unat k)" by (simp add: unat_add_lem [THEN iffD1])
    then have "\<exists>x. SCFRead_loop rd (k + 1) s1 = Some x" using less.hyps [of "k + 1" s1] True k by simp
    then show ?thesis using rd True by (subst SCFRead_loop.simps) (auto simp: Let_def)
  qed
qed

end
