(* ===== verification/Spec2Isabelle.thy ===== *)
theory Spec2Isabelle
  imports Rbac_Correct Key_Update_Correct Scf_Init Scf_Obj_Correct Scf_Policy_Correct Adaptor_Correct Parse_Config_Correct
    Transport_Correct Connection_Correct Ref_Count Crypto_Engine_Correct Security_Level Aead_Roundtrip Engine_Sharing Logger
    Sample_Correct
begin

text \<open>
  A verification of the Secure Communication Framework (SCF): a C++ library that gives applications
  TLS connections under a security policy, with role-based access control on top of certificate extensions.
  All paths below are relative to \<^verbatim>\<open>src/src/\<close>, the demonstrations to \<^verbatim>\<open>src/\<close>.

  \<^bold>\<open>The program.\<close>  An application calls \<^verbatim>\<open>SCF_Init\<close>, which loads libssl and libcrypto at run time and
  registers the OpenSSL adaptor.  A policy context (\<^verbatim>\<open>SCF_PolicyCtx\<close>) collects a role, versions, cipher suites,
  certificates, keys, pre-shared-key callbacks, update parameters, the node/role mapping and the custom rules.
  Policy objects (\<^verbatim>\<open>SCF_PolicyObj\<close>) are the connections of a context and share its ownership through a
  reference counter.  Reading and writing decide when the session key has to be updated.  A completed handshake
  freezes the node/role mapping.  The permission check identifies the holder of a certificate and decides by custom
  rules and role defaults.  A configuration file can set up a context.  \<^verbatim>\<open>SCFConnection\<close> is the high-level
  interface: it maps a security level to a policy and drives context, object, transport and crypto engine.

  \<^bold>\<open>Theories.\<close>  Each component has a theory of definitions, in the order of the code, and its lemmas either in
  the same theory or in one with the suffix \<^verbatim>\<open>_Correct\<close>.

  \<^item> \<^verbatim>\<open>Prelude\<close>: words, C strings, buffers, the locale \<^verbatim>\<open>container\<close> (interpreted for \<^verbatim>\<open>std::unordered_map\<close> and
    \<^verbatim>\<open>std::map\<close>), the locale \<^verbatim>\<open>invariant_system\<close> (invariants of step relations, interpreted for every step relation of
    the development), and the collections of simplification rules.
  \<^item> \<^verbatim>\<open>Errno\<close>, \<^verbatim>\<open>Scf_Def\<close>, \<^verbatim>\<open>Utils\<close>: \<^verbatim>\<open>include/scf_errno.h\<close>, \<^verbatim>\<open>include/scf_def.h\<close>, \<^verbatim>\<open>common/\<close>.  Messages of all codes;
    hexadecimal round trip inside the buffer; a file is only read when it is absolute, regular and bounded.
  \<^item> \<^verbatim>\<open>Cert_Ext\<close>: the certificate reader of \<^verbatim>\<open>adaptor/openssl/openssl_adaptor.cpp\<close>.  An extension is accepted exactly when
    it is unique and canonical DER of valid UTF-8.  The locale \<^verbatim>\<open>cert_ext_reader\<close> is its contract for the access control.
  \<^item> \<^verbatim>\<open>Policy_Matcher\<close>, \<^verbatim>\<open>Rbac\<close>, \<^verbatim>\<open>Rbac_Correct\<close>: \<^verbatim>\<open>scf/policy/auth/rbac/\<close>.  The matcher refines an order-free
    specification; the permission check grants exactly what an abstract access matrix allows and fails closed; every
    sequence of operations keeps the tables well formed, a frozen mapping unchanged and rule identifiers unique.
  \<^item> \<^verbatim>\<open>Dl_Loader\<close>, \<^verbatim>\<open>Dl_Loader_Correct\<close>, \<^verbatim>\<open>Scf_Init\<close>: \<^verbatim>\<open>adaptor/base/dlopen_lib_base\<close>, \<^verbatim>\<open>adaptor/openssl/lib_ssl_api.cpp\<close>,
    \<^verbatim>\<open>lib_crypto_api.cpp\<close>, \<^verbatim>\<open>adaptor/tls_init.cpp\<close>, \<^verbatim>\<open>SCF_Init\<close> and \<^verbatim>\<open>SCF_DeInit\<close>.  Loading is all or nothing (locale
    \<^verbatim>\<open>dl_library\<close>, interpreted for both libraries), and the flags agree after any sequence of calls.
  \<^item> \<^verbatim>\<open>Openssl_Api\<close>, \<^verbatim>\<open>Adaptor_Conn\<close>, \<^verbatim>\<open>Adaptor_Policy\<close>, \<^verbatim>\<open>Adaptor_Cert\<close>, \<^verbatim>\<open>Adaptor_Session\<close>, \<^verbatim>\<open>Adaptor_Correct\<close>: the OpenSSL
    adaptor over the record \<^verbatim>\<open>ossl_api\<close>.  Reading a certificate chain ends, descriptors are attached atomically, and
    the pre-shared-key wrapper only succeeds with the application.
  \<^item> \<^verbatim>\<open>Key_Update\<close>, \<^verbatim>\<open>Key_Update_Correct\<close>: \<^verbatim>\<open>adaptor/session_key_update.cpp\<close>, \<^verbatim>\<open>scf/policy/auth/psk/psk_key_policy.cpp\<close>,
    \<^verbatim>\<open>scf/connection/connection.cpp\<close>.  The decision is exact and its counter cannot wrap; a handshake freezes the mapping.
  \<^item> \<^verbatim>\<open>Scf_Obj\<close>, \<^verbatim>\<open>Scf_Obj_Correct\<close>, \<^verbatim>\<open>Ref_Count\<close>: \<^verbatim>\<open>scf/connection/obj.cpp\<close> and \<^verbatim>\<open>SCF_FreePolicyCtx\<close>.  Contexts and objects
    on a heap: no dangling access and no leak for clients that follow the protocol.  \<^verbatim>\<open>Ref_Count\<close> takes
    \<^verbatim>\<open>SCF_FreePolicyCtx\<close> apart into its atomic accesses and proves the same for every interleaving of any number of
    threads; the release run by one thread alone is shown to be the sequential one.
  \<^item> \<^verbatim>\<open>Scf_Policy\<close>, \<^verbatim>\<open>Scf_Policy_Correct\<close>: \<^verbatim>\<open>scf/policy/policy.cpp\<close>, \<^verbatim>\<open>auth/cert/cert.cpp\<close>, \<^verbatim>\<open>auth/psk/\<close>.  The suite string and
    the meaning of the policies for the TLS context.
  \<^item> \<^verbatim>\<open>File_Ctx\<close>, \<^verbatim>\<open>File_Ctx_Correct\<close>, \<^verbatim>\<open>Parse_Config\<close>, \<^verbatim>\<open>Parse_Config_Correct\<close>: \<^verbatim>\<open>scf/policy/file_context.cpp\<close>,
    \<^verbatim>\<open>common/utils/parse_config.cpp\<close>, \<^verbatim>\<open>scf/policy/config.cpp\<close>.  Secrets are wiped before their memory is released; the
    parser accepts exactly the valid documents.
  \<^item> \<^verbatim>\<open>Transport\<close>, \<^verbatim>\<open>Transport_Correct\<close>: \<^verbatim>\<open>transport/\<close>.  The locale \<^verbatim>\<open>transport\<close> is the contract of \<^verbatim>\<open>ITransport\<close>,
    interpreted for both transports; descriptors are neither leaked nor closed twice.
  \<^item> \<^verbatim>\<open>Crypto_Engine\<close>, \<^verbatim>\<open>Crypto_Engine_Correct\<close>, \<^verbatim>\<open>Aead_Roundtrip\<close>: \<^verbatim>\<open>crypto/\<close> and the wrappers of \<^verbatim>\<open>lib_crypto_api.cpp\<close>.  Every libcrypto
    object is released on every path, authenticated encryption is sound and decrypting gives the text back, for
    the cipher modes and nonce lengths that the library accepts; the provider engine balances what it takes.
    The locale \<^verbatim>\<open>crypto_engine\<close> is what the adaptor relies on when it creates a TLS context, interpreted for both engines.
  \<^item> \<^verbatim>\<open>Connection\<close>, \<^verbatim>\<open>Connection_Correct\<close>, \<^verbatim>\<open>Security_Level\<close>, \<^verbatim>\<open>Engine_Sharing\<close>: \<^verbatim>\<open>connection/scf_connection_impl.cpp\<close>, composed of all
    of the above.  A connection is established only over a finished handshake with a frozen mapping; its destructor
    releases what it owns; the security level of its configuration decides the versions that the TLS context accepts.
    An accepted connection shares the engine of its listener, which lives only as long as the listener.
  \<^item> \<^verbatim>\<open>Logger\<close>: \<^verbatim>\<open>common/utils/custom_logger\<close> and \<^verbatim>\<open>callback/logger_callback.cpp\<close>.  A message reaches the function registered last.
  \<^item> \<^verbatim>\<open>Sample\<close>, \<^verbatim>\<open>Sample_Correct\<close>: the two pre-shared-key demonstrations \<^verbatim>\<open>sample/client_main.cpp\<close> and \<^verbatim>\<open>sample/server_main.cpp\<close>.
    Both sides derive the same key from the identity on the wire; the handshake loop reports success only after a handshake,
    and it is shown when it ends.
  \<^item> \<^verbatim>\<open>Ossl_Sim\<close>: a small concrete TLS library on which the witnesses run; no property is stated about it.

  \<^bold>\<open>How the code is represented.\<close>  Structures are records with the members of the code, enumerations are datatypes
  with an extra constructor where the code checks for invalid values, integers are words of their width (return
  codes as 32-bit patterns), pointers are options, C strings are read up to the first NUL, and buffers are lists of
  their allocated size.  An operation takes and returns the state it may change; an output pointer is passed as its
  old contents.  Errors are the return codes of the code.  A result \<^verbatim>\<open>None\<close> of an operation stands for an
  exception, an assertion of a library, an access to released memory or a loop that does not end, as the theory
  says; theorems state that it does not occur, or exactly when it occurs.  An operation that holds a mutex is
  one step.  Memory exhaustion is an argument.

  \<^bold>\<open>Parameters.\<close>  Code outside the repository is an argument of the definitions: libssl and libcrypto
  (\<^verbatim>\<open>ossl_api\<close>, \<^verbatim>\<open>crypto_api\<close>, \<^verbatim>\<open>evp_api\<close>, \<^verbatim>\<open>prov_api\<close>), the dynamic linker (\<^verbatim>\<open>dl_api\<close>), files and sockets (\<^verbatim>\<open>os_api\<close>,
  \<^verbatim>\<open>sock_api\<close>), the securec functions, the JSON parser, the clock, the callbacks of the application.  What a theorem needs
  of them is a named predicate with their documented behaviour (for instance \<^verbatim>\<open>memcpy_s_ok\<close>, \<^verbatim>\<open>ssl_ctx_laws\<close>,
  \<^verbatim>\<open>aead_laws\<close>, \<^verbatim>\<open>prov_laws\<close>), and its witness instantiates the parameter by a concrete function.  A connection reaches
  its transport and engine through their virtual interfaces, the records \<^verbatim>\<open>itransport\<close> and \<^verbatim>\<open>iengine\<close>.

  \<^bold>\<open>Bounds.\<close>  There is no fuel in the model: the loops that may not end (the certificates of a chain in
  \<^verbatim>\<open>LoadCaChain\<close>, the handshake and read loops of the demonstrations) are partial functions.  The first is proved to return
  when every read consumes input, the others when no endless run of \<^verbatim>\<open>WANT_WRITE\<close> occurs and every successful read has a byte.  Lengths of
  type \<^verbatim>\<open>size_t\<close> are natural numbers where the code only compares them, with the conversion to \<^verbatim>\<open>int\<close> written out.
  \<^verbatim>\<open>Ref_Count\<close> bounds the number of owners by what the 32-bit counter can count, a bound that the code itself does not
  check.  \<^verbatim>\<open>solo_run\<close> counts the steps of one thread; three are enough for a release to return.

  \<^bold>\<open>Not modelled.\<close>  Log messages inside the operations of the components: they have no effect on results.  The two
  registration functions of \<^verbatim>\<open>callback/crypto_callback.cpp\<close> only forward to the setters modelled in \<^verbatim>\<open>Utils\<close>.  Functions that
  return a member, the factories that only allocate, and the prototypes of the public headers.  The start-up and main functions of
  the two modelled demonstrations, the demonstrations of the connection interface and of plain TCP with their helpers (terminal and
  socket input and output around calls that are modelled), the tests and the fuzzing driver.  The interleaving of operations other
  than the release of a context: the code protects the mapping and the rules by mutexes, and leaves the other members to the caller.
\<close>

end
